(* ===== verification/Prelude.thy ===== *)
theory Prelude
  imports Main "HOL-Library.Word"
begin

text \<open>
  Shared vocabulary of the development: the machine integer types, the
  state-and-exception semantics every method of the emulator is translated to, its
  evaluation rules, the safety triple with its composition rules, and generic facts on
  lists and words.

  A C++ method that may throw is a function from the state to a result and a state. A
  throw is \<open>Inl\<close> and keeps the state reached so far, because C++ does not roll
  back the fields a method assigned before it threw.
\<close>

unbundle bit_operations_syntax

type_synonym u8 = "8 word"
type_synonym u16 = "16 word"
type_synonym u32 = "32 word"
type_synonym u64 = "64 word"

type_synonym ('s, 'e, 'a) sem = "'s \<Rightarrow> ('e + 'a) \<times> 's"

named_theorems safe_intro "safety triples of operations and of the combinators"
named_theorems exec_simps "evaluation of operations on a given state"

section \<open>Sequencing of effects\<close>

definition returnM :: "'a \<Rightarrow> ('s, 'e, 'a) sem" where
  "returnM v = (\<lambda>s. (Inr v, s))"

definition raiseM :: "'e \<Rightarrow> ('s, 'e, 'a) sem" where
  "raiseM e = (\<lambda>s. (Inl e, s))"

definition bindM :: "('s, 'e, 'a) sem \<Rightarrow> ('a \<Rightarrow> ('s, 'e, 'b) sem) \<Rightarrow> ('s, 'e, 'b) sem" where
  "bindM m f = (\<lambda>s. case m s of (Inl e, s') \<Rightarrow> (Inl e, s') | (Inr v, s') \<Rightarrow> f v s')"

definition thenM :: "('s, 'e, 'a) sem \<Rightarrow> ('s, 'e, 'b) sem \<Rightarrow> ('s, 'e, 'b) sem" where
  "thenM m k = bindM m (\<lambda>_. k)"

definition getM :: "('s \<Rightarrow> 'a) \<Rightarrow> ('s, 'e, 'a) sem" where
  "getM f = (\<lambda>s. (Inr (f s), s))"

definition modM :: "('s \<Rightarrow> 's) \<Rightarrow> ('s, 'e, unit) sem" where
  "modM f = (\<lambda>s. (Inr (), f s))"

definition whenM :: "bool \<Rightarrow> ('s, 'e, unit) sem \<Rightarrow> ('s, 'e, unit) sem" where
  "whenM b m = (if b then m else returnM ())"

fun forM :: "'x list \<Rightarrow> ('x \<Rightarrow> ('s, 'e, unit) sem) \<Rightarrow> ('s, 'e, unit) sem" where
  "forM [] f = returnM ()"
| "forM (x # xs) f = thenM (f x) (forM xs f)"

text \<open>Array subscript with the failure of the access given by the caller.\<close>

definition indexM :: "'e \<Rightarrow> 'x list \<Rightarrow> nat \<Rightarrow> ('s, 'e, 'x) sem" where
  "indexM e xs i = (if i < length xs then returnM (xs ! i) else raiseM e)"

lemma returnM_run [simp]: "returnM v s = (Inr v, s)"
  by (simp add: returnM_def)

lemma raiseM_run [simp]: "raiseM e s = (Inl e, s)"
  by (simp add: raiseM_def)

lemma getM_run [simp]: "getM f s = (Inr (f s), s)"
  by (simp add: getM_def)

lemma modM_run [simp]: "modM f s = (Inr (), f s)"
  by (simp add: modM_def)

lemma bindM_run:
  "bindM m f s = (case m s of (Inl e, s') \<Rightarrow> (Inl e, s') | (Inr v, s') \<Rightarrow> f v s')"
  by (simp add: bindM_def)

lemma bindM_Inr [simp]: "m s = (Inr v, s') \<Longrightarrow> bindM m f s = f v s'"
  by (simp add: bindM_def)

lemma bindM_Inl [simp]: "m s = (Inl e, s') \<Longrightarrow> bindM m f s = (Inl e, s')"
  by (simp add: bindM_def)

text \<open>For a test: the simplifier turns an equation of truth values into a proposition.\<close>

lemma bindM_test [simp]:
  "m s = (Inr True, t) \<Longrightarrow> bindM m f s = f True t" "m s = (Inr False, t) \<Longrightarrow> bindM m f s = f False t"
  by simp_all

lemma bindM_getM [simp]: "bindM (getM f) k s = k (f s) s"
  by simp

lemma thenM_Inr [simp]: "m s = (Inr v, s') \<Longrightarrow> thenM m k s = k s'"
  by (simp add: thenM_def)

lemma thenM_Inl [simp]: "m s = (Inl e, s') \<Longrightarrow> thenM m k s = (Inl e, s')"
  by (simp add: thenM_def)

lemma whenM_run [simp]: "whenM b m s = (if b then m s else (Inr (), s))"
  by (simp add: whenM_def)

lemma indexM_run [simp]:
  "indexM e xs i s = (if i < length xs then (Inr (xs ! i), s) else (Inl e, s))"
  by (simp add: indexM_def)

lemma bindM_cases [consumes 1, case_names thrown returned]:
  assumes "bindM m f s = (r, s')"
  obtains e where "m s = (Inl e, s')" and "r = Inl e"
  | v t where "m s = (Inr v, t)" and "f v t = (r, s')"
  using assms by (auto simp: bindM_def split: prod.splits sum.splits)

lemma thenM_cases [consumes 1, case_names thrown returned]:
  assumes "thenM m k s = (r, s')"
  obtains e where "m s = (Inl e, s')" and "r = Inl e"
  | v t where "m s = (Inr v, t)" and "k t = (r, s')"
  using assms unfolding thenM_def by (rule bindM_cases)

lemma bindM_assoc: "bindM (bindM m f) g = bindM m (\<lambda>v. bindM (f v) g)"
  by (rule ext) (simp add: bindM_def split: prod.splits sum.splits)

lemma bindM_returnM [simp]: "bindM (returnM v) f = f v"
  by (rule ext) simp

section \<open>Safety triples\<close>

text \<open>
  \<open>safe I E m Q\<close>: started in a state with the invariant \<open>I\<close>, the operation
  \<open>m\<close> ends in a state with \<open>I\<close>, whether it returns or throws; what it throws
  is one of the exceptions \<open>E\<close> allows in the state it leaves, and what it returns satisfies
  \<open>Q\<close>.
\<close>

definition safe :: "('s \<Rightarrow> bool) \<Rightarrow> ('s \<Rightarrow> 'e set) \<Rightarrow> ('s, 'e, 'a) sem \<Rightarrow> ('a \<Rightarrow> bool) \<Rightarrow> bool" where
  "safe I E m Q \<longleftrightarrow> (\<forall>s. I s \<longrightarrow>
     I (snd (m s)) \<and> (case fst (m s) of Inl e \<Rightarrow> e \<in> E (snd (m s)) | Inr v \<Rightarrow> Q v))"

lemma safeI:
  assumes "\<And>s r s'. I s \<Longrightarrow> m s = (r, s') \<Longrightarrow>
    I s' \<and> (case r of Inl e \<Rightarrow> e \<in> E s' | Inr v \<Rightarrow> Q v)"
  shows "safe I E m Q"
  unfolding safe_def using assms by (metis prod.collapse)

lemma safe_Inr: "safe I E m Q \<Longrightarrow> I s \<Longrightarrow> m s = (Inr v, s') \<Longrightarrow> I s' \<and> Q v"
  by (force simp: safe_def)

lemma safe_Inl: "safe I E m Q \<Longrightarrow> I s \<Longrightarrow> m s = (Inl e, s') \<Longrightarrow> I s' \<and> e \<in> E s'"
  by (force simp: safe_def)

lemma safe_run:
  assumes "safe I E m Q" and "m s = (r, t)" and "I s"
  shows "I t" and "r = Inl e \<Longrightarrow> e \<in> E t"
  using assms by (cases r; force simp: safe_def)+

lemma safe_weaken: "safe I E m Q' \<Longrightarrow> (\<And>v. Q' v \<Longrightarrow> Q v) \<Longrightarrow> safe I E m Q"
  by (force simp: safe_def split: sum.splits)

lemma safe_top: "safe I E m Q \<Longrightarrow> safe I E m (\<lambda>_. True)"
  by (erule safe_weaken) simp

lemma safe_returnM [safe_intro]: "Q v \<Longrightarrow> safe I E (returnM v) Q"
  by (simp add: safe_def)

lemma safe_raiseM [safe_intro]: "(\<And>s. I s \<Longrightarrow> e \<in> E s) \<Longrightarrow> safe I E (raiseM e) Q"
  by (simp add: safe_def)

lemma safe_getM: "(\<And>s. I s \<Longrightarrow> Q (f s)) \<Longrightarrow> safe I E (getM f) Q"
  by (simp add: safe_def)

lemma safe_getM_top [safe_intro]: "safe I E (getM f) (\<lambda>_. True)"
  by (simp add: safe_def)

lemma safe_modM: "(\<And>s. I s \<Longrightarrow> I (f s)) \<Longrightarrow> safe I E (modM f) (\<lambda>_. True)"
  by (simp add: safe_def)

lemma safe_bindM_post:
  assumes m: "safe I E m P" and f: "\<And>v. P v \<Longrightarrow> safe I E (f v) Q"
  shows "safe I E (bindM m f) Q"
proof (rule safeI)
  fix s r s'
  assume I: "I s" and run: "bindM m f s = (r, s')"
  show "I s' \<and> (case r of Inl e \<Rightarrow> e \<in> E s' | Inr v \<Rightarrow> Q v)"
  proof (cases "m s")
    case (Pair x t)
    show ?thesis
    proof (cases x)
      case (Inl e)
      with Pair run safe_Inl [OF m I] show ?thesis by auto
    next
      case (Inr v)
      with Pair safe_Inr [OF m I] have "I t" and "P v" by auto
      moreover from Inr Pair run have "f v t = (r, s')" by simp
      ultimately show ?thesis using f [of v] by (force simp: safe_def split: sum.splits)
    qed
  qed
qed

lemma safe_bindM [safe_intro]:
  "safe I E m (\<lambda>_. True) \<Longrightarrow> (\<And>v. safe I E (f v) Q) \<Longrightarrow> safe I E (bindM m f) Q"
  by (rule safe_bindM_post)

lemma safe_thenM [safe_intro]:
  "safe I E m (\<lambda>_. True) \<Longrightarrow> safe I E k Q \<Longrightarrow> safe I E (thenM m k) Q"
  by (simp add: thenM_def safe_bindM)

lemma safe_if [safe_intro]:
  "(b \<Longrightarrow> safe I E m Q) \<Longrightarrow> (\<not> b \<Longrightarrow> safe I E k Q) \<Longrightarrow> safe I E (if b then m else k) Q"
  by simp

lemma safe_whenM [safe_intro]:
  "(b \<Longrightarrow> safe I E m (\<lambda>_. True)) \<Longrightarrow> safe I E (whenM b m) (\<lambda>_. True)"
  by (simp add: whenM_def safe_returnM)

lemma safe_option [safe_intro]:
  "(x = None \<Longrightarrow> safe I E m Q) \<Longrightarrow> (\<And>v. x = Some v \<Longrightarrow> safe I E (k v) Q) \<Longrightarrow>
   safe I E (case x of None \<Rightarrow> m | Some v \<Rightarrow> k v) Q"
  by (cases x) simp_all

lemma safe_forM [safe_intro]:
  "(\<And>x. x \<in> set xs \<Longrightarrow> safe I E (f x) (\<lambda>_. True)) \<Longrightarrow> safe I E (forM xs f) (\<lambda>_. True)"
  by (induction xs) (auto intro: safe_intro)

lemma safe_indexM: "i < length xs \<or> (\<forall>s. I s \<longrightarrow> e \<in> E s) \<Longrightarrow> safe I E (indexM e xs i) (\<lambda>_. True)"
  by (auto simp: safe_def)

lemma safe_indexM_post:
  "list_all P xs \<Longrightarrow> i < length xs \<or> (\<forall>s. I s \<longrightarrow> e \<in> E s) \<Longrightarrow> safe I E (indexM e xs i) P"
  by (auto simp: safe_def list_all_length)

lemma safe_prod [safe_intro]:
  "(\<And>a b. x = (a, b) \<Longrightarrow> safe I E (k a b) Q) \<Longrightarrow> safe I E (case x of (a, b) \<Rightarrow> k a b) Q"
  by (cases x) simp

text \<open>
  The simplifier may rewrite an unapplied \<open>returnM v\<close> to \<open>Pair (Inr v)\<close>;
  these are the same rules for that form.
\<close>

lemma Pair_forms [simp]:
  "bindM (Pair (Inr v)) f = f v"
  "Q v \<Longrightarrow> safe I E (Pair (Inr v)) Q"
  "(\<And>s. I s \<Longrightarrow> e \<in> E s) \<Longrightarrow> safe I E (Pair (Inl e)) Q"
  by (auto simp: safe_def bindM_def)

section \<open>Facts on lists and words\<close>

lemma length_list_update_eq: "length xs = n \<Longrightarrow> length (xs[i := v]) = n"
  by simp

lemma list_all_update: "list_all P xs \<Longrightarrow> P v \<Longrightarrow> list_all P (xs[i := v])"
  by (auto simp: list_all_iff dest: set_update_subset_insert [THEN subsetD])

lemma and_mask_unat: "unat ((w :: 'a::len word) AND mask n) = unat w mod 2 ^ n"
proof -
  have "unat (take_bit n w) = take_bit n (unat w)"
    by (simp only: unsigned_take_bit_eq)
  then show ?thesis
    by (simp only: take_bit_eq_mask [symmetric] take_bit_eq_mod [of n "unat w"])
qed

lemma unat_or_bound:
  assumes "unat (x :: 'a::len word) < 2 ^ n" and "unat y < 2 ^ n"
  shows "unat (x OR y) < 2 ^ n"
proof -
  have "int (unat x) < int (2 ^ n)" and "int (unat y) < int (2 ^ n)"
    using assms by (simp_all only: of_nat_less_iff)
  then have "uint (x OR y) < 2 ^ n"
    using OR_upper [of "uint x" n "uint y"] by (simp add: unsigned_or_eq)
  then have "int (unat (x OR y)) < int (2 ^ n)" by simp
  then show ?thesis by (simp only: of_nat_less_iff)
qed

lemma uint_word_of_int_u8: "0 \<le> k \<Longrightarrow> k < 256 \<Longrightarrow> uint (word_of_int k :: u8) = k"
  by (simp add: uint_word_of_int)

lemma uint_word_of_int_u16: "0 \<le> k \<Longrightarrow> k < 65536 \<Longrightarrow> uint (word_of_int k :: u16) = k"
  by (simp add: uint_word_of_int)

section \<open>The bytes of a 16-bit word\<close>

lemma byte_bit_bound: "bit (w :: u8) n \<Longrightarrow> n < 8"
  using bit_imp_le_length [of w n] by simp

lemma join_bytes_add:
  "(push_bit 8 (ucast (h :: u8)) OR ucast (l :: u8) :: u16) = push_bit 8 (ucast h) + ucast l"
proof -
  have "(push_bit 8 (ucast h) AND ucast l :: u16) = 0"
    by (rule bit_eqI) (auto simp: bit_simps dest: byte_bit_bound)
  then show ?thesis by (simp add: disjunctive_add_eq_or)
qed

lemma unat_join_bytes:
  "unat (push_bit 8 (ucast (h :: u8)) OR ucast (l :: u8) :: u16) = 256 * unat h + unat l"
proof -
  have b: "unat h < 256" "unat l < 256"
    using unsigned_less [of h, where ?'a = nat] unsigned_less [of l, where ?'a = nat] by simp_all
  have "unat (push_bit 8 (ucast h) :: u16) = 256 * unat h"
    using b by (subst unsigned_push_bit_eq) (simp add: push_bit_eq_mult take_bit_eq_mod unsigned_ucast_eq)
  moreover have "unat (ucast l :: u16) = unat l"
    using b by (simp add: unsigned_ucast_eq take_bit_eq_mod)
  ultimately show ?thesis
    using b by (simp add: join_bytes_add unat_word_ariths)
qed

lemma join_bytes_halves:
  "ucast (drop_bit 8 (push_bit 8 (ucast (h :: u8)) OR ucast (l :: u8) :: u16)) = h"
  "ucast ((push_bit 8 (ucast h) OR ucast l :: u16) AND 0xFF) = l"
proof -
  show "ucast (drop_bit 8 (push_bit 8 (ucast h) OR ucast l :: u16)) = h"
    by (rule bit_eqI) (auto simp: bit_simps dest: byte_bit_bound)
  have m: "(0xFF :: u16) = mask 8" by (simp add: mask_eq_exp_minus_1)
  show "ucast ((push_bit 8 (ucast h) OR ucast l :: u16) AND 0xFF) = l"
    unfolding m by (rule bit_eqI) (auto simp: bit_simps dest: byte_bit_bound)
qed

lemma split_bytes_join:
  "push_bit 8 (ucast (ucast (drop_bit 8 (w :: u16)) :: u8)) OR ucast (ucast (w AND 0xFF) :: u8) = w"
proof -
  have m: "(0xFF :: u16) = mask 8" by (simp add: mask_eq_exp_minus_1)
  show ?thesis
    unfolding m by (rule bit_eqI) (auto simp: bit_simps dest: bit_imp_le_length)
qed

lemma of_nat_byte: "i < 256 \<Longrightarrow> (of_nat i :: u16) = ucast (of_nat i :: u8)"
  by (simp add: word_unat_eq_iff unsigned_ucast_eq unsigned_of_nat take_bit_eq_mod)

section \<open>A byte-addressed store\<close>

text \<open>
  The contract of a store: on plain addresses a read returns what the store holds and a write
  replaces it at the addresses that name the same cell.
\<close>

locale byte_store =
  fixes rd :: "u16 \<Rightarrow> ('s, 'e, 'v) sem" and wr :: "u16 \<Rightarrow> 'v \<Rightarrow> ('s, 'e, unit) sem"
    and peek :: "'s \<Rightarrow> u16 \<Rightarrow> 'v" and ok :: "'s \<Rightarrow> bool" and plain :: "'s \<Rightarrow> u16 \<Rightarrow> bool"
    and same :: "u16 \<Rightarrow> u16 \<Rightarrow> bool"
  assumes rd_plain: "ok s \<Longrightarrow> plain s a \<Longrightarrow>
      \<exists>s'. rd a s = (Inr (peek s a), s') \<and> ok s' \<and> peek s' = peek s \<and> plain s' = plain s"
    and wr_plain: "ok s \<Longrightarrow> plain s a \<Longrightarrow>
      \<exists>s'. wr a v s = (Inr (), s') \<and> ok s' \<and> plain s' = plain s \<and>
        (\<forall>b. plain s b \<longrightarrow> peek s' b = (if same a b then v else peek s b))"
    and same_refl: "same a a"
begin

text \<open>A 16-bit store, low byte first, and the load that reads the high byte first.\<close>

lemma store_load16:
  assumes "ok s" and "plain s a" and "plain s b" and "\<not> same b a"
  shows "\<exists>s'. thenM (wr a lo) (thenM (wr b hi) (bindM (rd b) (\<lambda>u. bindM (rd a) (\<lambda>l. returnM (u, l))))) s =
    (Inr (hi, lo), s') \<and> ok s'"
proof -
  from wr_plain [OF assms(1,2), of lo] obtain s1 where w1: "wr a lo s = (Inr (), s1)" "ok s1" "plain s1 = plain s"
    and p1: "\<And>c. plain s c \<Longrightarrow> peek s1 c = (if same a c then lo else peek s c)" by auto
  from wr_plain [of s1 b hi] w1 assms obtain s2 where w2: "wr b hi s1 = (Inr (), s2)" "ok s2" "plain s2 = plain s1"
    and p2: "\<And>c. plain s c \<Longrightarrow> peek s2 c = (if same b c then hi else peek s1 c)" by auto
  from rd_plain [of s2 b] w1 w2 assms obtain s3 where r3: "rd b s2 = (Inr (peek s2 b), s3)" "ok s3"
    "peek s3 = peek s2" "plain s3 = plain s2" by auto
  from rd_plain [of s3 a] w1 w2 r3 assms obtain s4 where r4: "rd a s3 = (Inr (peek s2 a), s4)" "ok s4" by auto
  have "peek s2 b = hi" using p2 [OF assms(3)] same_refl by simp
  moreover have "peek s2 a = lo" using p2 [OF assms(2)] p1 [OF assms(2)] same_refl assms(4) by simp
  ultimately show ?thesis using w1 w2 r3 r4 by simp
qed

lemma store_load:
  assumes "ok s" and "plain s a" and "plain s b"
  shows "\<exists>s'. thenM (wr a v) (rd b) s = (Inr (if same a b then v else peek s b), s') \<and> ok s'"
proof -
  from wr_plain [OF assms(1,2), of v] obtain s1 where w: "wr a v s = (Inr (), s1)" "ok s1" "plain s1 = plain s"
    and p: "peek s1 b = (if same a b then v else peek s b)" using assms(3) by auto
  from rd_plain [of s1 b] w assms obtain s2 where "rd b s1 = (Inr (peek s1 b), s2)" "ok s2" by auto
  with w p show ?thesis by simp
qed

end

end
