(* ===== verification/ErrorHandling.thy ===== *)
theory ErrorHandling
  imports Prelude
begin

text \<open>
  \<^verbatim>\<open>libgb/error_handling.hpp\<close> and \<^verbatim>\<open>error_handling.cpp\<close>: the
  kinds of emulated-program errors, the two global arrays that count them and say which
  of them are permitted, and \<open>throw_error\<close>, which counts an error and throws it
  unless its kind is permitted. Every later state record extends the record of these
  globals, so every operation of the emulator can be counted and can throw.
\<close>

section \<open>Error kinds and exceptions\<close>

datatype ErrorKind =
    bad_opcode
  | trap
  | debug_trap
  | illegal_memory_address
  | illegal_memory_write
  | undefined_data
  | call_frame_violation
  | pc_outside_of_program_memory
  | clobbered_return_address
  | reading_return_address
  | ppu_access_violation
  | lcd_disable_violation
  | dma_bus_conflict

fun kind_index :: "ErrorKind \<Rightarrow> nat" where
  "kind_index bad_opcode = 0"
| "kind_index trap = 1"
| "kind_index debug_trap = 2"
| "kind_index illegal_memory_address = 3"
| "kind_index illegal_memory_write = 4"
| "kind_index undefined_data = 5"
| "kind_index call_frame_violation = 6"
| "kind_index pc_outside_of_program_memory = 7"
| "kind_index clobbered_return_address = 8"
| "kind_index reading_return_address = 9"
| "kind_index ppu_access_violation = 10"
| "kind_index lcd_disable_violation = 11"
| "kind_index dma_bus_conflict = 12"

lemma kind_index_inj: "kind_index j = kind_index k \<Longrightarrow> j = k"
  by (cases j; cases k) simp_all

lemma kind_index_bound: "kind_index k < 13"
  by (cases k) simp_all

text \<open>The enumeration compares by its underlying value, as an \<open>enum class\<close> does.\<close>

instantiation ErrorKind :: linorder
begin

definition less_eq_ErrorKind :: "ErrorKind \<Rightarrow> ErrorKind \<Rightarrow> bool" where
  "j \<le> k \<longleftrightarrow> kind_index j \<le> kind_index k"

definition less_ErrorKind :: "ErrorKind \<Rightarrow> ErrorKind \<Rightarrow> bool" where
  "j < k \<longleftrightarrow> kind_index j < kind_index k"

instance
  by standard (auto simp: less_eq_ErrorKind_def less_ErrorKind_def dest: kind_index_inj)

end

text \<open>
  What can leave a method other than a value. \<open>Thrown\<close> is an exception class of
  \<^verbatim>\<open>error_handling.hpp\<close>, named by its kind; \<open>RuntimeError\<close> a plain
  \<open>std::runtime_error\<close>; \<open>OutOfRange\<close> the \<open>std::range_error\<close> and
  \<open>std::out_of_range\<close> of the video memory, of \<open>.at()\<close> and of number
  conversions; \<open>InvalidArgument\<close> the one of a conversion without digits; \<open>AssertFailed\<close>
  a failed \<open>assert\<close> (the build keeps assertions); \<open>UndefinedBehaviour\<close> a
  subscript outside an array or span; \<open>Diverges\<close> a loop that does not end.
\<close>

datatype exn =
    Thrown ErrorKind
  | RuntimeError string
  | OutOfRange
  | InvalidArgument
  | AssertFailed
  | UndefinedBehaviour
  | Diverges

text \<open>
  The exception classes form a tree under \<open>std::runtime_error\<close>; the debugger and the
  command line catch by class. A trap is a bad opcode, a debug trap is a trap.
\<close>

fun is_BadOpcode :: "exn \<Rightarrow> bool" where
  "is_BadOpcode (Thrown k) = (k \<in> {bad_opcode, trap, debug_trap})"
| "is_BadOpcode _ = False"

fun is_Trap :: "exn \<Rightarrow> bool" where
  "is_Trap (Thrown k) = (k \<in> {trap, debug_trap})"
| "is_Trap _ = False"

fun is_DebugTrap :: "exn \<Rightarrow> bool" where
  "is_DebugTrap (Thrown k) = (k = debug_trap)"
| "is_DebugTrap _ = False"

fun is_CorrectnessError :: "exn \<Rightarrow> bool" where
  "is_CorrectnessError (Thrown k) =
     (k \<in> {undefined_data, call_frame_violation, clobbered_return_address,
           reading_return_address, pc_outside_of_program_memory,
           ppu_access_violation, lcd_disable_violation, dma_bus_conflict})"
| "is_CorrectnessError _ = False"

type_synonym ('s, 'a) M = "('s, exn, 'a) sem"

section \<open>The global error state\<close>

record errs =
  error_count :: "ErrorKind \<Rightarrow> u32"
  error_kind_permitted :: "ErrorKind \<Rightarrow> bool"

text \<open>The globals as they are initialised: no error was counted, none is permitted.\<close>

definition no_errors :: errs where
  "no_errors = \<lparr>error_count = (\<lambda>_. 0), error_kind_permitted = (\<lambda>_. False)\<rparr>"

definition permit_error_kind :: "ErrorKind \<Rightarrow> ('z errs_scheme, unit) M" where
  "permit_error_kind kind =
     modM (\<lambda>s. s\<lparr>error_kind_permitted := (error_kind_permitted s)(kind := True)\<rparr>)"

definition count_error :: "ErrorKind \<Rightarrow> 'z errs_scheme \<Rightarrow> 'z errs_scheme" where
  "count_error kind s = s\<lparr>error_count := (error_count s)(kind := error_count s kind + 1)\<rparr>"

text \<open>
  The exception object is built only when it is thrown, and building its message can
  itself throw: \<open>throw_error_with\<close> takes the effect of building it.
\<close>

definition throw_error_with :: "ErrorKind \<Rightarrow> ('z errs_scheme, unit) M \<Rightarrow> ('z errs_scheme, unit) M" where
  "throw_error_with kind get_error =
     thenM (modM (count_error kind))
     (bindM (getM (\<lambda>s. error_kind_permitted s kind)) (\<lambda>permitted.
      if \<not> permitted then thenM get_error (raiseM (Thrown kind)) else returnM ()))"

definition throw_error :: "ErrorKind \<Rightarrow> ('z errs_scheme, unit) M" where
  "throw_error kind = throw_error_with kind (returnM ())"

lemma throw_error_run [exec_simps]:
  "throw_error kind s =
     (if error_kind_permitted s kind then Inr () else Inl (Thrown kind), count_error kind s)"
  by (simp add: throw_error_def throw_error_with_def count_error_def)

lemma count_error_simps [simp]:
  "error_kind_permitted (count_error k s) = error_kind_permitted s"
  "error_count (count_error k s) k = error_count s k + 1"
  "j \<noteq> k \<Longrightarrow> error_count (count_error k s) j = error_count s j"
  "errs.more (count_error k s) = errs.more s"
  by (simp_all add: count_error_def)

text \<open>
  Invariants of a state are closed under counting an error. This is the interface the
  error handling offers to the invariants of every component: the components' own
  interfaces extend it with the updates they perform. \<open>E\<close> is the set of exceptions
  the operations may leave a state with.
\<close>

locale errs_inv =
  fixes I :: "'z errs_scheme \<Rightarrow> bool" and E :: "'z errs_scheme \<Rightarrow> exn set"
  assumes count_inv: "I s \<Longrightarrow> I (count_error k s)"
    and thrown_ok: "I s \<Longrightarrow> Thrown k \<in> E s"
begin

lemma safe_throw_error [safe_intro]: "safe I E (throw_error k) (\<lambda>_. True)"
  by (rule safeI) (auto simp: throw_error_run count_inv thrown_ok split: if_splits)

lemma safe_throw_error_with [safe_intro]:
  "safe I E m (\<lambda>_. True) \<Longrightarrow> safe I E (throw_error_with k m) (\<lambda>_. True)"
  unfolding throw_error_with_def
  by (intro safe_intro safe_modM TrueI count_inv thrown_ok)

end

text \<open>
  The error set the development aims at: anything but undefined behaviour, a loop that
  does not end and a failed assertion.
\<close>

definition no_ub :: "exn set" where
  "no_ub = - {UndefinedBehaviour, Diverges, AssertFailed}"

lemma no_ub_simps [simp]:
  "Thrown k \<in> no_ub" "RuntimeError m \<in> no_ub" "OutOfRange \<in> no_ub" "InvalidArgument \<in> no_ub"
  "AssertFailed \<notin> no_ub" "UndefinedBehaviour \<notin> no_ub" "Diverges \<notin> no_ub"
  by (simp_all add: no_ub_def)

text \<open>Which kinds are permitted never changes while the emulated program runs.\<close>

definition permits :: "(ErrorKind \<Rightarrow> bool) \<Rightarrow> 'z errs_scheme \<Rightarrow> bool" where
  "permits p s \<longleftrightarrow> error_kind_permitted s = p"

interpretation permitted_kinds: errs_inv "permits p" "\<lambda>_. no_ub"
  by unfold_locales (simp_all add: permits_def)

end
