(* ===== verification/CheckedInt.thy ===== *)
theory CheckedInt
  imports ErrorHandling
begin

text \<open>
  \<^verbatim>\<open>libgb/utils/checked_int.hpp\<close>: integers that know whether they were ever
  written and whether they were computed from the stack pointer. \<open>Byte\<close> and
  \<open>Word\<close> are the two instances of the class template; a \<open>Word\<close> remembers
  which of its halves is undefined. Arithmetic wraps at the width.
\<close>

section \<open>The class template\<close>

record 'u CheckedInt =
  data :: 'u
  derived_from_sp :: bool
  undef :: bool

type_synonym Byte = "u8 CheckedInt"

text \<open>The three constructors: default, with flags, from a plain integer.\<close>

definition ci_default :: "'w::len word CheckedInt" where
  "ci_default = \<lparr>data = 0, derived_from_sp = False, undef = True\<rparr>"

definition ci_flags :: "'w::len word \<Rightarrow> bool \<Rightarrow> bool \<Rightarrow> 'w word CheckedInt" where
  "ci_flags d sp u = \<lparr>data = d, derived_from_sp = sp, undef = u\<rparr>"

definition lit :: "'w::len word \<Rightarrow> 'w word CheckedInt" where
  "lit d = \<lparr>data = d, derived_from_sp = False, undef = False\<rparr>"

lemma ci_sel [simp]:
  "data (lit d) = d" "derived_from_sp (lit d) = False" "undef (lit d) = False"
  "data (ci_flags d p u) = d" "derived_from_sp (ci_flags d p u) = p" "undef (ci_flags d p u) = u"
  "data ci_default = 0" "derived_from_sp ci_default = False" "undef ci_default = True"
  by (simp_all add: lit_def ci_flags_def ci_default_def)

definition decay :: "'w::len word CheckedInt \<Rightarrow> ('z errs_scheme, 'w word) M" where
  "decay x = thenM (whenM (undef x) (throw_error undefined_data)) (returnM (data x))"

definition decay_or :: "'w::len word CheckedInt \<Rightarrow> 'w word \<Rightarrow> 'w word" where
  "decay_or x if_undef = (if undef x then if_undef else data x)"

text \<open>Addition, subtraction, or and xor differ only in the operation on the data.\<close>

definition checked_op ::
  "('w word \<Rightarrow> 'w word \<Rightarrow> 'w word) \<Rightarrow> 'w::len word CheckedInt \<Rightarrow> 'w word CheckedInt \<Rightarrow>
   ('z errs_scheme, 'w word CheckedInt) M" where
  "checked_op f x other =
     thenM (whenM (undef x \<or> undef other) (throw_error undefined_data))
     (returnM (ci_flags (f (data x) (data other))
                 (derived_from_sp x \<or> derived_from_sp other) False))"

definition ci_add :: "'w::len word CheckedInt \<Rightarrow> 'w word CheckedInt \<Rightarrow> ('z errs_scheme, 'w word CheckedInt) M" where
  "ci_add x other = checked_op (+) x other"

definition ci_sub :: "'w::len word CheckedInt \<Rightarrow> 'w word CheckedInt \<Rightarrow> ('z errs_scheme, 'w word CheckedInt) M" where
  "ci_sub x other = checked_op (-) x other"

definition ci_or :: "'w::len word CheckedInt \<Rightarrow> 'w word CheckedInt \<Rightarrow> ('z errs_scheme, 'w word CheckedInt) M" where
  "ci_or x other = checked_op (OR) x other"

definition ci_xor :: "'w::len word CheckedInt \<Rightarrow> 'w word CheckedInt \<Rightarrow> ('z errs_scheme, 'w word CheckedInt) M" where
  "ci_xor x other = checked_op (XOR) x other"

definition ci_and :: "'w::len word CheckedInt \<Rightarrow> 'w word CheckedInt \<Rightarrow> ('z errs_scheme, 'w word CheckedInt) M" where
  "ci_and x other =
     (let is_well_defined =
        (\<not> undef other \<and> data other = 0) \<or> (\<not> undef x \<and> data x = 0) \<or>
        (\<not> undef other \<and> \<not> undef x)
      in thenM (whenM (\<not> is_well_defined) (throw_error undefined_data))
         (returnM (ci_flags (data x AND data other)
                     (derived_from_sp x \<or> derived_from_sp other) False)))"

definition checked_unary ::
  "('w word \<Rightarrow> 'w word) \<Rightarrow> 'w::len word CheckedInt \<Rightarrow> ('z errs_scheme, 'w word CheckedInt) M" where
  "checked_unary f x =
     thenM (whenM (undef x) (throw_error undefined_data))
     (returnM (ci_flags (f (data x)) (derived_from_sp x) False))"

definition ci_not :: "'w::len word CheckedInt \<Rightarrow> ('z errs_scheme, 'w word CheckedInt) M" where
  "ci_not x = checked_unary NOT x"

definition ci_shr :: "'w::len word CheckedInt \<Rightarrow> nat \<Rightarrow> ('z errs_scheme, 'w word CheckedInt) M" where
  "ci_shr x amount = checked_unary (drop_bit amount) x"

definition ci_shl :: "'w::len word CheckedInt \<Rightarrow> nat \<Rightarrow> ('z errs_scheme, 'w word CheckedInt) M" where
  "ci_shl x amount = checked_unary (push_bit amount) x"

text \<open>The three-way comparison and the operators the language derives from it.\<close>

datatype strong_ordering = Less | Equal | Greater

definition ci_compare :: "'w::len word CheckedInt \<Rightarrow> 'w word CheckedInt \<Rightarrow> ('z errs_scheme, strong_ordering) M" where
  "ci_compare x other =
     thenM (whenM (undef x \<or> undef other) (throw_error undefined_data))
     (returnM (if data x < data other then Less
               else if data x = data other then Equal else Greater))"

definition ci_eq :: "'w::len word CheckedInt \<Rightarrow> 'w word CheckedInt \<Rightarrow> ('z errs_scheme, bool) M" where
  "ci_eq x other = bindM (ci_compare x other) (\<lambda>c. returnM (c = Equal))"

definition ci_neq :: "'w::len word CheckedInt \<Rightarrow> 'w word CheckedInt \<Rightarrow> ('z errs_scheme, bool) M" where
  "ci_neq x other = bindM (ci_eq x other) (\<lambda>b. returnM (\<not> b))"

definition ci_less :: "'w::len word CheckedInt \<Rightarrow> 'w word CheckedInt \<Rightarrow> ('z errs_scheme, bool) M" where
  "ci_less x other = bindM (ci_compare x other) (\<lambda>c. returnM (c = Less))"

definition ci_greater :: "'w::len word CheckedInt \<Rightarrow> 'w word CheckedInt \<Rightarrow> ('z errs_scheme, bool) M" where
  "ci_greater x other = bindM (ci_compare x other) (\<lambda>c. returnM (c = Greater))"

section \<open>Word: a pair of possibly undefined bytes\<close>

record Word =
  base :: "u16 CheckedInt"
  high_undefined :: bool
  low_undefined :: bool

text \<open>The inherited constructors leave both halves defined.\<close>

definition Word_of :: "u16 CheckedInt \<Rightarrow> Word" where
  "Word_of b = \<lparr>base = b, high_undefined = False, low_undefined = False\<rparr>"

definition Word_bytes :: "Byte \<Rightarrow> Byte \<Rightarrow> Word" where
  "Word_bytes upper lower =
     \<lparr>base = ci_flags (push_bit 8 (ucast (data upper)) OR ucast (data lower))
        (derived_from_sp upper \<or> derived_from_sp lower) (undef upper \<or> undef lower),
      high_undefined = undef upper, low_undefined = undef lower\<rparr>"

definition Word_lower :: "Word \<Rightarrow> Byte" where
  "Word_lower w = ci_flags (ucast (data (base w) AND 0xFF)) (derived_from_sp (base w)) (low_undefined w)"

definition Word_upper :: "Word \<Rightarrow> Byte" where
  "Word_upper w = ci_flags (ucast (drop_bit 8 (data (base w)))) (derived_from_sp (base w)) (high_undefined w)"

text \<open>
  The operators a \<open>Word\<close> inherits: they compute on the whole value, and their result is
  built by an inherited constructor.
\<close>

definition Word_op ::
  "(u16 CheckedInt \<Rightarrow> u16 CheckedInt \<Rightarrow> ('z errs_scheme, u16 CheckedInt) M) \<Rightarrow>
   Word \<Rightarrow> Word \<Rightarrow> ('z errs_scheme, Word) M" where
  "Word_op f x other = bindM (f (base x) (base other)) (\<lambda>b. returnM (Word_of b))"

definition Word_greater :: "Word \<Rightarrow> Word \<Rightarrow> ('z errs_scheme, bool) M" where
  "Word_greater x other = ci_greater (base x) (base other)"

definition word_lit :: "u16 \<Rightarrow> Word" where
  "word_lit w = Word_of (lit w)"

text \<open>A binary operator applied to two expressions, the left one evaluated first.\<close>

definition op2 ::
  "('a \<Rightarrow> 'b \<Rightarrow> ('s, 'e, 'c) sem) \<Rightarrow> ('s, 'e, 'a) sem \<Rightarrow> ('s, 'e, 'b) sem \<Rightarrow> ('s, 'e, 'c) sem" where
  "op2 f mx my = bindM mx (\<lambda>x. bindM my (\<lambda>y. f x y))"

lemma op2_run [simp]:
  "mx s = (Inr x, t) \<Longrightarrow> my t = (Inr y, u) \<Longrightarrow> op2 f mx my s = f x y u"
  by (simp add: op2_def)

lemma safe_op2 [safe_intro]:
  "safe I E mx (\<lambda>_. True) \<Longrightarrow> safe I E my (\<lambda>_. True) \<Longrightarrow> (\<And>x y. safe I E (f x y) Q) \<Longrightarrow>
   safe I E (op2 f mx my) Q"
  unfolding op2_def by (intro safe_intro)

section \<open>Evaluation on defined operands\<close>

lemma decay_run [exec_simps]:
  "decay x s = (if undef x \<and> \<not> error_kind_permitted s undefined_data
                then (Inl (Thrown undefined_data), count_error undefined_data s)
                else (Inr (data x), if undef x then count_error undefined_data s else s))"
  by (auto simp: decay_def throw_error_run thenM_def bindM_def)

lemma decay_defined [simp]: "\<not> undef x \<Longrightarrow> decay x s = (Inr (data x), s)"
  by (simp add: decay_run)

lemma checked_op_defined [simp]:
  "\<not> undef x \<Longrightarrow> \<not> undef y \<Longrightarrow>
   checked_op f x y s = (Inr (ci_flags (f (data x) (data y)) (derived_from_sp x \<or> derived_from_sp y) False), s)"
  by (simp add: checked_op_def)

lemma ci_and_defined [simp]:
  "(\<not> undef y \<and> data y = 0) \<or> (\<not> undef x \<and> data x = 0) \<or> (\<not> undef x \<and> \<not> undef y) \<Longrightarrow>
   ci_and x y s = (Inr (ci_flags (data x AND data y) (derived_from_sp x \<or> derived_from_sp y) False), s)"
  by (auto simp: ci_and_def)

lemma checked_unary_defined [simp]:
  "\<not> undef x \<Longrightarrow> checked_unary f x s = (Inr (ci_flags (f (data x)) (derived_from_sp x) False), s)"
  by (simp add: checked_unary_def)

lemma ci_compare_defined [simp]:
  "\<not> undef x \<Longrightarrow> \<not> undef y \<Longrightarrow>
   ci_compare x y s = (Inr (if data x < data y then Less
                            else if data x = data y then Equal else Greater), s)"
  by (simp add: ci_compare_def)

lemma ci_relations_defined [simp]:
  assumes "\<not> undef x" and "\<not> undef y"
  shows "ci_eq x y s = (Inr (data x = data y), s)"
    and "ci_neq x y s = (Inr (data x \<noteq> data y), s)"
    and "ci_less x y s = (Inr (data x < data y), s)"
    and "ci_greater x y s = (Inr (data y < data x), s)"
  using assms by (auto simp: ci_eq_def ci_neq_def ci_less_def ci_greater_def bindM_def)

lemma ci_arith_defined [simp]:
  assumes "\<not> undef x" and "\<not> undef y"
  shows "ci_add x y s = (Inr (ci_flags (data x + data y) (derived_from_sp x \<or> derived_from_sp y) False), s)"
    and "ci_sub x y s = (Inr (ci_flags (data x - data y) (derived_from_sp x \<or> derived_from_sp y) False), s)"
    and "ci_or x y s = (Inr (ci_flags (data x OR data y) (derived_from_sp x \<or> derived_from_sp y) False), s)"
    and "ci_xor x y s = (Inr (ci_flags (data x XOR data y) (derived_from_sp x \<or> derived_from_sp y) False), s)"
  using assms by (simp_all add: ci_add_def ci_sub_def ci_or_def ci_xor_def)

lemma ci_unary_defined [simp]:
  assumes "\<not> undef x"
  shows "ci_not x s = (Inr (ci_flags (NOT (data x)) (derived_from_sp x) False), s)"
    and "ci_shr x n s = (Inr (ci_flags (drop_bit n (data x)) (derived_from_sp x) False), s)"
    and "ci_shl x n s = (Inr (ci_flags (push_bit n (data x)) (derived_from_sp x) False), s)"
  using assms by (simp_all add: ci_not_def ci_shr_def ci_shl_def)

lemma Word_op_defined [simp]:
  assumes "\<not> undef (base x)" and "\<not> undef (base y)"
  shows "Word_op ci_add x y s =
      (Inr (Word_of (ci_flags (data (base x) + data (base y)) (derived_from_sp (base x) \<or> derived_from_sp (base y)) False)), s)"
    and "Word_op ci_sub x y s =
      (Inr (Word_of (ci_flags (data (base x) - data (base y)) (derived_from_sp (base x) \<or> derived_from_sp (base y)) False)), s)"
    and "Word_op ci_and x y s =
      (Inr (Word_of (ci_flags (data (base x) AND data (base y)) (derived_from_sp (base x) \<or> derived_from_sp (base y)) False)), s)"
    and "Word_greater x y s = (Inr (data (base y) < data (base x)), s)"
  using assms by (simp_all add: Word_op_def Word_greater_def)

lemma Word_sel [simp]:
  "base (Word_of b) = b" "\<not> high_undefined (Word_of b)" "\<not> low_undefined (Word_of b)"
  "undef (base (Word_bytes u l)) = (undef u \<or> undef l)"
  "high_undefined (Word_bytes u l) = undef u" "low_undefined (Word_bytes u l) = undef l"
  by (simp_all add: Word_of_def Word_bytes_def)

section \<open>Safety\<close>

context errs_inv
begin

lemma safe_checked_op:
  "safe I E (checked_op f x y) (\<lambda>r. data r = f (data x) (data y) \<and> \<not> undef r)"
  unfolding checked_op_def by (intro safe_intro TrueI) simp

lemma safe_checked_unary:
  "safe I E (checked_unary g x) (\<lambda>r. data r = g (data x) \<and> \<not> undef r)"
  unfolding checked_unary_def by (intro safe_intro TrueI) simp

text \<open>What an operator returns, on undefined operands too where that is permitted.\<close>

lemma safe_ci_data:
  "safe I E (ci_add x y) (\<lambda>r. data r = data x + data y \<and> \<not> undef r)"
  "safe I E (ci_sub x y) (\<lambda>r. data r = data x - data y \<and> \<not> undef r)"
  "safe I E (ci_or x y) (\<lambda>r. data r = data x OR data y \<and> \<not> undef r)"
  "safe I E (ci_xor x y) (\<lambda>r. data r = data x XOR data y \<and> \<not> undef r)"
  "safe I E (ci_not x) (\<lambda>r. data r = NOT (data x) \<and> \<not> undef r)"
  "safe I E (ci_and x y) (\<lambda>r. data r = data x AND data y \<and> \<not> undef r)"
  "safe I E (ci_shr x n) (\<lambda>r. data r = drop_bit n (data x) \<and> \<not> undef r)"
  "safe I E (ci_shl x n) (\<lambda>r. data r = push_bit n (data x) \<and> \<not> undef r)"
  "safe I E (decay x) (\<lambda>r. r = data x)"
  unfolding ci_add_def ci_sub_def ci_or_def ci_xor_def ci_not_def ci_shr_def ci_shl_def
    ci_and_def Let_def decay_def
  by (intro safe_checked_op safe_checked_unary safe_intro TrueI; simp)+

lemmas safe_ci_values [safe_intro] = safe_ci_data [THEN safe_top]

lemma safe_ci_compare [safe_intro]: "safe I E (ci_compare x y) (\<lambda>_. True)"
  unfolding ci_compare_def by (intro safe_intro TrueI)

lemma safe_ci_relations [safe_intro]:
  "safe I E (ci_eq x y) (\<lambda>_. True)"
  "safe I E (ci_neq x y) (\<lambda>_. True)"
  "safe I E (ci_less x y) (\<lambda>_. True)"
  "safe I E (ci_greater x y) (\<lambda>_. True)"
  unfolding ci_eq_def ci_neq_def ci_less_def ci_greater_def by (intro safe_intro TrueI)+

lemma safe_Word_ops [safe_intro]:
  "safe I E (Word_op ci_add v w) (\<lambda>_. True)" "safe I E (Word_op ci_sub v w) (\<lambda>_. True)"
  "safe I E (Word_op ci_and v w) (\<lambda>_. True)" "safe I E (Word_greater v w) (\<lambda>_. True)"
  unfolding Word_op_def Word_greater_def by (intro safe_intro TrueI)+

end

end
