(* ===== verification/Registers.thy ===== *)
theory Registers
  imports CheckedInt
begin

text \<open>
  \<^verbatim>\<open>libgb/cpu/registers.hpp\<close>: the register file of the CPU, its 8-bit and
  16-bit views, the flag register and the rule for values of the program counter. The
  record \<open>regfile\<close> extends the global error state with the register file, so that
  an accessor that throws keeps what it assigned before.
\<close>

section \<open>Register names and flags\<close>

datatype Reg8 = Reg8_F | Reg8_A | Reg8_C | Reg8_B | Reg8_E | Reg8_D | Reg8_L | Reg8_H

datatype Reg16 = Reg16_AF | Reg16_BC | Reg16_DE | Reg16_HL | Reg16_SP | Reg16_PC

text \<open>\<open>Flag\<close> is used as a bit mask: \<open>operator|\<close> and \<open>operator&\<close> act on the byte.\<close>

type_synonym Flag = u8

definition Flag_None :: Flag where "Flag_None = 0x00"
definition Flag_C :: Flag where "Flag_C = 0x10"
definition Flag_H :: Flag where "Flag_H = 0x20"
definition Flag_N :: Flag where "Flag_N = 0x40"
definition Flag_Z :: Flag where "Flag_Z = 0x80"

lemmas Flag_defs = Flag_None_def Flag_C_def Flag_H_def Flag_N_def Flag_Z_def

definition is_valid_pc :: "u16 \<Rightarrow> bool" where
  "is_valid_pc pc = (pc \<le> 0x7FFF \<or> (0xFF80 \<le> pc \<and> pc \<le> 0xFFFE))"

section \<open>The register file\<close>

record CPURegisters =
  reg_a :: Byte
  reg_f :: Byte
  reg_b :: Byte
  reg_c :: Byte
  reg_d :: Byte
  reg_e :: Byte
  reg_h :: Byte
  reg_l :: Byte
  reg_sp :: u16
  reg_pc :: u16
  reg_halt :: bool
  reg_IME :: "bool \<times> bool \<times> bool"

definition initial_registers :: CPURegisters where
  "initial_registers =
     \<lparr>reg_a = lit 0x01, reg_f = lit 0xb0, reg_b = lit 0x00, reg_c = lit 0x13,
      reg_d = lit 0x00, reg_e = lit 0xd8, reg_h = lit 0x01, reg_l = lit 0x4d,
      reg_sp = 0xfffe, reg_pc = 0x0100, reg_halt = False, reg_IME = (True, True, True)\<rparr>"

record regfile = errs +
  registers :: CPURegisters

definition updR :: "(CPURegisters \<Rightarrow> CPURegisters) \<Rightarrow> ('z regfile_scheme, unit) M" where
  "updR f = modM (\<lambda>s. s\<lparr>registers := f (registers s)\<rparr>)"

definition getR :: "(CPURegisters \<Rightarrow> 'a) \<Rightarrow> ('z regfile_scheme, 'a) M" where
  "getR f = getM (\<lambda>s. f (registers s))"

lemma updR_run [simp]: "updR f s = (Inr (), s\<lparr>registers := f (registers s)\<rparr>)"
  by (simp add: updR_def)

lemma getR_run [simp]: "getR f s = (Inr (f (registers s)), s)"
  by (simp add: getR_def)

subsection \<open>Flags\<close>

definition getFlags :: "Flag \<Rightarrow> ('z regfile_scheme, bool) M" where
  "getFlags msk =
     bindM (getR reg_f) (\<lambda>f.
     bindM (ci_and f (lit msk)) (\<lambda>masked.
     bindM (decay masked) (\<lambda>v.
     returnM (v \<noteq> Flag_None))))"

definition setFlags :: "Flag \<Rightarrow> bool \<Rightarrow> ('z regfile_scheme, unit) M" where
  "setFlags msk on =
     bindM (getR reg_f) (\<lambda>f.
     bindM (ci_not (lit msk)) (\<lambda>inverse.
     bindM (ci_and f inverse) (\<lambda>cleared.
     bindM (ci_or cleared (if on then lit msk else lit 0)) (\<lambda>f'.
     updR (\<lambda>r. r\<lparr>reg_f := f'\<rparr>)))))"

definition resetFlags :: "Flag \<Rightarrow> ('z regfile_scheme, unit) M" where
  "resetFlags msk = setFlags msk False"

subsection \<open>Reads\<close>

fun getU8 :: "Reg8 \<Rightarrow> ('z regfile_scheme, Byte) M" where
  "getU8 Reg8_F = getR reg_f"
| "getU8 Reg8_A = getR reg_a"
| "getU8 Reg8_B = getR reg_b"
| "getU8 Reg8_C = getR reg_c"
| "getU8 Reg8_D = getR reg_d"
| "getU8 Reg8_E = getR reg_e"
| "getU8 Reg8_H = getR reg_h"
| "getU8 Reg8_L = getR reg_l"

fun regU16 :: "Reg16 \<Rightarrow> CPURegisters \<Rightarrow> Word" where
  "regU16 Reg16_AF r = Word_bytes (reg_a r) (reg_f r)"
| "regU16 Reg16_BC r = Word_bytes (reg_b r) (reg_c r)"
| "regU16 Reg16_DE r = Word_bytes (reg_d r) (reg_e r)"
| "regU16 Reg16_HL r = Word_bytes (reg_h r) (reg_l r)"
| "regU16 Reg16_SP r = Word_of (ci_flags (reg_sp r) True False)"
| "regU16 Reg16_PC r = Word_of (lit (reg_pc r))"

definition getU16 :: "Reg16 \<Rightarrow> ('z regfile_scheme, Word) M" where
  "getU16 r = getR (regU16 r)"

subsection \<open>Writes\<close>

definition setPC :: "u16 \<Rightarrow> ('z regfile_scheme, unit) M" where
  "setPC v =
     thenM (whenM (\<not> is_valid_pc v) (throw_error pc_outside_of_program_memory))
     (updR (\<lambda>r. r\<lparr>reg_pc := v\<rparr>))"

definition incrementPC :: "('z regfile_scheme, u16) M" where
  "incrementPC =
     bindM (getR reg_pc) (\<lambda>old_pc.
     thenM (setPC (old_pc + 1))
     (returnM old_pc))"

fun setU8 :: "Reg8 \<Rightarrow> Byte \<Rightarrow> ('z regfile_scheme, unit) M" where
  "setU8 Reg8_F v = bindM (ci_and v (lit 0xF0)) (\<lambda>f. updR (\<lambda>r. r\<lparr>reg_f := f\<rparr>))"
| "setU8 Reg8_A v = updR (\<lambda>r. r\<lparr>reg_a := v\<rparr>)"
| "setU8 Reg8_B v = updR (\<lambda>r. r\<lparr>reg_b := v\<rparr>)"
| "setU8 Reg8_C v = updR (\<lambda>r. r\<lparr>reg_c := v\<rparr>)"
| "setU8 Reg8_D v = updR (\<lambda>r. r\<lparr>reg_d := v\<rparr>)"
| "setU8 Reg8_E v = updR (\<lambda>r. r\<lparr>reg_e := v\<rparr>)"
| "setU8 Reg8_H v = updR (\<lambda>r. r\<lparr>reg_h := v\<rparr>)"
| "setU8 Reg8_L v = updR (\<lambda>r. r\<lparr>reg_l := v\<rparr>)"

fun setU16 :: "Reg16 \<Rightarrow> Word \<Rightarrow> ('z regfile_scheme, unit) M" where
  "setU16 Reg16_AF v =
     thenM (updR (\<lambda>r. r\<lparr>reg_a := Word_upper v\<rparr>))
     (bindM (ci_and (Word_lower v) (lit 0xF0)) (\<lambda>f. updR (\<lambda>r. r\<lparr>reg_f := f\<rparr>)))"
| "setU16 Reg16_BC v = updR (\<lambda>r. r\<lparr>reg_b := Word_upper v, reg_c := Word_lower v\<rparr>)"
| "setU16 Reg16_DE v = updR (\<lambda>r. r\<lparr>reg_d := Word_upper v, reg_e := Word_lower v\<rparr>)"
| "setU16 Reg16_HL v = updR (\<lambda>r. r\<lparr>reg_h := Word_upper v, reg_l := Word_lower v\<rparr>)"
| "setU16 Reg16_SP v = bindM (decay (base v)) (\<lambda>x. updR (\<lambda>r. r\<lparr>reg_sp := x\<rparr>))"
| "setU16 Reg16_PC v = bindM (decay (base v)) setPC"

section \<open>Evaluation when the flag register is defined\<close>

definition flag_set :: "CPURegisters \<Rightarrow> Flag \<Rightarrow> bool" where
  "flag_set r msk \<longleftrightarrow> data (reg_f r) AND msk \<noteq> 0"

definition with_flags :: "Flag \<Rightarrow> bool \<Rightarrow> CPURegisters \<Rightarrow> CPURegisters" where
  "with_flags msk on r = r\<lparr>reg_f :=
     ci_flags ((data (reg_f r) AND NOT msk) OR (if on then msk else 0))
       (derived_from_sp (reg_f r)) False\<rparr>"

lemma getFlags_run [exec_simps]:
  "\<not> undef (reg_f (registers s)) \<Longrightarrow> getFlags msk s = (Inr (flag_set (registers s) msk), s)"
  by (simp add: getFlags_def flag_set_def Flag_None_def)

lemma setFlags_run [exec_simps]:
  "\<not> undef (reg_f (registers s)) \<Longrightarrow>
   setFlags msk b s = (Inr (), s\<lparr>registers := with_flags msk b (registers s)\<rparr>)"
  by (simp add: setFlags_def with_flags_def)

lemma resetFlags_run [exec_simps]:
  "\<not> undef (reg_f (registers s)) \<Longrightarrow>
   resetFlags msk s = (Inr (), s\<lparr>registers := with_flags msk False (registers s)\<rparr>)"
  by (simp add: resetFlags_def setFlags_run)

lemma with_flags_simps [simp]:
  "undef (reg_f (with_flags m b r)) = False"
  "reg_a (with_flags m b r) = reg_a r" "reg_b (with_flags m b r) = reg_b r"
  "reg_c (with_flags m b r) = reg_c r" "reg_d (with_flags m b r) = reg_d r"
  "reg_e (with_flags m b r) = reg_e r" "reg_h (with_flags m b r) = reg_h r"
  "reg_l (with_flags m b r) = reg_l r" "reg_sp (with_flags m b r) = reg_sp r"
  "reg_pc (with_flags m b r) = reg_pc r" "reg_halt (with_flags m b r) = reg_halt r"
  "reg_IME (with_flags m b r) = reg_IME r"
  "data (reg_f (with_flags m b r)) = (data (reg_f r) AND NOT m) OR (if b then m else 0)"
  by (simp_all add: with_flags_def)

lemma setPC_run [exec_simps]:
  "is_valid_pc v \<Longrightarrow> setPC v s = (Inr (), s\<lparr>registers := (registers s)\<lparr>reg_pc := v\<rparr>\<rparr>)"
  by (simp add: setPC_def)

section \<open>The register invariant\<close>

text \<open>
  The low nibble of the flag register is always zero, and the program counter lies in
  program memory unless its error kind is permitted. The interface below lists the
  updates of the register file that the accessors perform; \<open>f_ok\<close> is the condition
  under which the flag register is written.
\<close>

definition flags_clean :: "Byte \<Rightarrow> bool" where
  "flags_clean f \<longleftrightarrow> data f AND 0x0F = 0"

definition regs_ok :: "'z regfile_scheme \<Rightarrow> bool" where
  "regs_ok s \<longleftrightarrow> flags_clean (reg_f (registers s)) \<and>
     (is_valid_pc (reg_pc (registers s)) \<or> error_kind_permitted s pc_outside_of_program_memory)"

locale regs_inv = errs_inv I E for I :: "'z regfile_scheme \<Rightarrow> bool" and E +
  assumes upd_general: "I s \<Longrightarrow> reg_f r = reg_f (registers s) \<Longrightarrow> reg_pc r = reg_pc (registers s) \<Longrightarrow>
      I (s\<lparr>registers := r\<rparr>)"
    and upd_f: "I s \<Longrightarrow> flags_clean f \<Longrightarrow> I (s\<lparr>registers := (registers s)\<lparr>reg_f := f\<rparr>\<rparr>)"
    and upd_pc: "I s \<Longrightarrow> is_valid_pc v \<or> error_kind_permitted s pc_outside_of_program_memory \<Longrightarrow>
      I (s\<lparr>registers := (registers s)\<lparr>reg_pc := v\<rparr>\<rparr>)"
    and f_clean: "I s \<Longrightarrow> flags_clean (reg_f (registers s))"

lemma flags_clean_and: "data v' = data v AND 0xF0 \<Longrightarrow> flags_clean v'"
  by (simp add: flags_clean_def and.assoc)

lemma flags_clean_masked:
  assumes "flags_clean f" and "m AND 0x0F = 0"
    and v: "data v = (data f AND n) OR data (if b then lit m else lit 0)"
  shows "flags_clean v"
proof -
  have "(data f AND n) AND 0x0F = (data f AND 0x0F) AND n"
    by (metis and.assoc and.commute)
  with assms have "(data f AND n) AND 0x0F = 0" by (simp add: flags_clean_def)
  then show ?thesis
    using assms(2) by (simp add: flags_clean_def v bit.conj_disj_distrib2)
qed

context regs_inv
begin

lemma safe_updR:
  "(\<And>r. reg_f (f r) = reg_f r) \<Longrightarrow> (\<And>r. reg_pc (f r) = reg_pc r) \<Longrightarrow>
   safe I E (updR f) (\<lambda>_. True)"
  by (rule safeI) (auto intro: upd_general)

lemma safe_getR [safe_intro]: "safe I E (getR f) (\<lambda>_. True)"
  by (rule safeI) auto

lemma safe_getFlags [safe_intro]: "safe I E (getFlags m) (\<lambda>_. True)"
  unfolding getFlags_def by (intro safe_intro TrueI)

lemma safe_setFlags [safe_intro]:
  assumes "m AND 0x0F = 0"
  shows "safe I E (setFlags m b) (\<lambda>_. True)"
  unfolding setFlags_def
proof (rule safe_bindM_post [where P = flags_clean], goal_cases)
  case 1
  show ?case by (rule safeI) (auto intro: f_clean)
next
  case (2 f)
  show ?case
    by (rule safe_bindM_post [OF safe_ci_data(5)], rule safe_bindM_post [OF safe_ci_data(6)],
        rule safe_bindM_post [OF safe_ci_data(3)])
       (auto simp: updR_def intro!: safe_modM upd_f intro: flags_clean_masked [OF 2 assms])
qed

lemma safe_resetFlags [safe_intro]: "m AND 0x0F = 0 \<Longrightarrow> safe I E (resetFlags m) (\<lambda>_. True)"
  unfolding resetFlags_def by (rule safe_setFlags)

lemma safe_getU8 [safe_intro]: "safe I E (getU8 r) (\<lambda>_. True)"
  by (cases r) (simp_all add: safe_getR)

lemma safe_getU16 [safe_intro]: "safe I E (getU16 r) (\<lambda>_. True)"
  unfolding getU16_def by (rule safe_getR)

lemma safe_set_f: "safe I E (bindM (ci_and v (lit 0xF0)) (\<lambda>f. updR (\<lambda>r. r\<lparr>reg_f := f\<rparr>))) (\<lambda>_. True)"
  by (rule safe_bindM_post [OF safe_ci_data(6)])
     (auto simp: updR_def intro!: safe_modM upd_f intro: flags_clean_and)

lemma safe_setPC [safe_intro]: "safe I E (setPC v) (\<lambda>_. True)"
proof (rule safeI)
  fix s r s'
  assume "I s" and "setPC v s = (r, s')"
  then show "I s' \<and> (case r of Inl e \<Rightarrow> e \<in> E s' | Inr v \<Rightarrow> True)"
    by (auto simp: setPC_def throw_error_run thenM_def bindM_def thrown_ok thrown_ok [OF count_inv]
          intro!: upd_pc count_inv split: if_splits)
qed

lemma safe_incrementPC [safe_intro]: "safe I E incrementPC (\<lambda>_. True)"
  unfolding incrementPC_def by (intro safe_intro TrueI)

lemma safe_setU8 [safe_intro]: "safe I E (setU8 r v) (\<lambda>_. True)"
  by (cases r) (simp_all add: safe_updR safe_set_f)

lemma safe_setU16 [safe_intro]: "safe I E (setU16 r v) (\<lambda>_. True)"
  by (cases r) (auto intro!: safe_intro safe_updR safe_set_f)

end

lemma regs_ok_initial: "registers s = initial_registers \<Longrightarrow> regs_ok s"
  by (simp add: regs_ok_def initial_registers_def flags_clean_def is_valid_pc_def)

interpretation register_file: regs_inv regs_ok "\<lambda>_. no_ub"
  by unfold_locales (auto simp: regs_ok_def count_error_def)

end
