(* ===== verification/Cartridge.thy ===== *)
theory Cartridge
  imports Registers
begin

text \<open>
  \<^verbatim>\<open>libgb/cartridge.cpp\<close> and \<^verbatim>\<open>libgb/controller/\<close>: the cartridge, its
  two memory controllers (ROM only and MBC1), their dispatch, and the interface both
  controllers implement. Subscripts of the ROM span are unchecked in the code, so a
  subscript past its end is \<open>UndefinedBehaviour\<close> here.
\<close>

section \<open>The ROM-only controller\<close>

record RomOnlyController =
  ro_rom :: "u8 list"

definition ro_read :: "RomOnlyController \<Rightarrow> u16 \<Rightarrow> ('z errs_scheme, Byte) M" where
  "ro_read c addr =
     (if unat addr < length (ro_rom c)
      then bindM (indexM UndefinedBehaviour (ro_rom c) (unat addr)) (\<lambda>v. returnM (lit v))
      else returnM (lit 0))"

definition ro_write ::
  "RomOnlyController \<Rightarrow> u16 \<Rightarrow> Byte \<Rightarrow> ('z errs_scheme, RomOnlyController) M" where
  "ro_write c addr v =
     thenM (throw_error_with illegal_memory_write (bindM (decay v) (\<lambda>_. returnM ())))
     (returnM c)"

section \<open>The MBC1 controller\<close>

record MBC1 =
  bankedRamMode :: bool
  ramEnabled :: bool
  romBank :: u8
  ramBank :: u8
  mbc_rom :: "u8 list"
  mbc_ram :: "Byte list"

definition make_mbc1 :: "u8 list \<Rightarrow> MBC1" where
  "make_mbc1 rom_span =
     \<lparr>bankedRamMode = False, ramEnabled = True, romBank = 1, ramBank = 0,
      mbc_rom = rom_span, mbc_ram = replicate 0x8000 ci_default\<rparr>"

definition mbc1_read :: "MBC1 \<Rightarrow> u16 \<Rightarrow> ('z errs_scheme, Byte) M" where
  "mbc1_read c addr =
     (let page = unat (drop_bit 12 addr) in
      if page \<in> {0, 1, 2, 3} then
        bindM (indexM UndefinedBehaviour (mbc_rom c) (unat addr)) (\<lambda>v. returnM (lit v))
      else if page \<in> {4, 5, 6, 7} then
        (let bankOffset = addr - 0x4000 in
         bindM (indexM UndefinedBehaviour (mbc_rom c)
                  (0x4000 * unat (romBank c) + unat bankOffset)) (\<lambda>v. returnM (lit v)))
      else if page \<in> {0xA, 0xB} then
        (let bankOffset = addr - 0xA000 in
         indexM OutOfRange (mbc_ram c) (0x2000 * unat (ramBank c) + unat bankOffset))
      else thenM (throw_error illegal_memory_address) (returnM ci_default))"

definition mbc1_write :: "MBC1 \<Rightarrow> u16 \<Rightarrow> Byte \<Rightarrow> ('z errs_scheme, MBC1) M" where
  "mbc1_write c addr v =
     (let page = unat (drop_bit 12 addr) in
      if page \<in> {0, 1} then
        (if \<not> bankedRamMode c then returnM c
         else bindM (ci_and v (lit 0x0A)) (\<lambda>x.
              bindM (ci_eq x (lit 0x0A)) (\<lambda>b.
              returnM (c\<lparr>ramEnabled := b\<rparr>))))
      else if page \<in> {2, 3} then
        bindM (ci_and v (lit 0x1F)) (\<lambda>x.
        bindM (ci_neq x (lit 0)) (\<lambda>nonzero.
        if nonzero then
          bindM (ci_and v (lit 0x1F)) (\<lambda>y.
          bindM (decay y) (\<lambda>bank.
          returnM (c\<lparr>romBank := bank\<rparr>)))
        else returnM (c\<lparr>romBank := 1\<rparr>)))
      else if page \<in> {4, 5} then
        (if bankedRamMode c then
           bindM (ci_and v (lit 0x03)) (\<lambda>x.
           bindM (decay x) (\<lambda>bank.
           returnM (c\<lparr>ramBank := bank\<rparr>)))
         else
           bindM (ci_and v (lit 0x03)) (\<lambda>x.
           bindM (ci_shl x 5) (\<lambda>hi.
           bindM (ci_and (lit (romBank c)) (lit 0x1F)) (\<lambda>lo.
           bindM (ci_or hi lo) (\<lambda>y.
           bindM (decay y) (\<lambda>bank.
           returnM (c\<lparr>romBank := bank\<rparr>)))))))
      else if page \<in> {6, 7} then
        bindM (ci_and v (lit 1)) (\<lambda>x.
        bindM (ci_neq x (lit 0)) (\<lambda>b.
        returnM (c\<lparr>bankedRamMode := b\<rparr>)))
      else if page \<in> {0xA, 0xB} then
        (let bankOffset = addr - 0xA000;
             i = 0x2000 * unat (ramBank c) + unat bankOffset in
         if i < length (mbc_ram c) then returnM (c\<lparr>mbc_ram := (mbc_ram c)[i := v]\<rparr>)
         else raiseM UndefinedBehaviour)
      else thenM (throw_error illegal_memory_address) (returnM c))"

section \<open>The cartridge\<close>

datatype controller = RomOnly RomOnlyController | Mbc1 MBC1

record CartridgeMetadata =
  target :: u8
  gameName :: "u8 list"
  controllerType :: u8
  romSize :: u8
  ramSize :: u8

definition populateMetadata :: "u8 list \<Rightarrow> ('s, CartridgeMetadata) M" where
  "populateMetadata rom_file =
     bindM (indexM UndefinedBehaviour rom_file 0x143) (\<lambda>tgt.
     bindM (indexM UndefinedBehaviour rom_file 0x147) (\<lambda>ctype.
     bindM (indexM UndefinedBehaviour rom_file 0x148) (\<lambda>rsize.
     bindM (indexM UndefinedBehaviour rom_file 0x149) (\<lambda>xsize.
     returnM \<lparr>target = tgt, gameName = take (0x142 - 0x134) (drop 0x134 rom_file),
              controllerType = ctype, romSize = rsize, ramSize = xsize\<rparr>))))"

definition make_cartridge :: "u8 list \<Rightarrow> ('s, CartridgeMetadata \<times> controller) M" where
  "make_cartridge rom_file =
     bindM (populateMetadata rom_file) (\<lambda>m.
     if controllerType m = 0 then returnM (m, RomOnly \<lparr>ro_rom = rom_file\<rparr>)
     else if controllerType m \<in> {1, 2, 3} then returnM (m, Mbc1 (make_mbc1 rom_file))
     else raiseM (RuntimeError ''Cartridge controller not implemented''))"

text \<open>The virtual calls.\<close>

fun ctl_read :: "controller \<Rightarrow> u16 \<Rightarrow> ('z errs_scheme, Byte) M" where
  "ctl_read (RomOnly c) addr = ro_read c addr"
| "ctl_read (Mbc1 c) addr = mbc1_read c addr"

fun ctl_write :: "controller \<Rightarrow> u16 \<Rightarrow> Byte \<Rightarrow> ('z errs_scheme, controller) M" where
  "ctl_write (RomOnly c) addr v = bindM (ro_write c addr v) (\<lambda>c'. returnM (RomOnly c'))"
| "ctl_write (Mbc1 c) addr v = bindM (mbc1_write c addr v) (\<lambda>c'. returnM (Mbc1 c'))"

record cart = regfile +
  controller_of :: controller

definition cartridge_read :: "u16 \<Rightarrow> ('z cart_scheme, Byte) M" where
  "cartridge_read addr = bindM (getM controller_of) (\<lambda>c. ctl_read c addr)"

definition cartridge_write :: "u16 \<Rightarrow> Byte \<Rightarrow> ('z cart_scheme, unit) M" where
  "cartridge_write addr v =
     bindM (getM controller_of) (\<lambda>c.
     bindM (ctl_write c addr v) (\<lambda>c'.
     modM (\<lambda>s. s\<lparr>controller_of := c'\<rparr>)))"

section \<open>The interface of a controller\<close>

text \<open>
  What the memory map relies on. \<open>ok\<close> is the well-formedness of the controller's
  state; under it a read leaves the arrays only when \<open>missing\<close> says that the image has no bytes for
  the selected bank, a write never does, and keeps the image and the well-formedness; and the fixed bank below
  \<^verbatim>\<open>0x4000\<close> always shows the same bytes.
\<close>

fun write_all :: "('c \<Rightarrow> u16 \<Rightarrow> Byte \<Rightarrow> ('s, 'c) M) \<Rightarrow> 'c \<Rightarrow> (u16 \<times> Byte) list \<Rightarrow> ('s, 'c) M" where
  "write_all wr c [] = returnM c"
| "write_all wr c ((a, v) # ws) = bindM (wr c a v) (\<lambda>c'. write_all wr c' ws)"

locale controller_spec =
  fixes read :: "'c \<Rightarrow> u16 \<Rightarrow> ('z errs_scheme, Byte) M"
    and wr :: "'c \<Rightarrow> u16 \<Rightarrow> Byte \<Rightarrow> ('z errs_scheme, 'c) M"
    and ok :: "'c \<Rightarrow> bool" and missing :: "'c \<Rightarrow> bool" and image :: "'c \<Rightarrow> 'i"
  assumes read_safe: "errs_inv I E \<Longrightarrow> ok c \<Longrightarrow> (\<And>s. missing c \<Longrightarrow> I s \<Longrightarrow> UndefinedBehaviour \<in> E s) \<Longrightarrow>
      safe I E (read c a) (\<lambda>_. True)"
    and write_safe: "errs_inv I E \<Longrightarrow> ok c \<Longrightarrow> safe I E (wr c a v) (\<lambda>c'. ok c' \<and> image c' = image c)"
    and fixed_bank: "wr c a v s = (Inr c', s') \<Longrightarrow> unat b < 0x4000 \<Longrightarrow> read c' b = read c b"
begin

lemma write_all_safe:
  "errs_inv I E \<Longrightarrow> ok c \<Longrightarrow> safe I E (write_all wr c ws) (\<lambda>c'. ok c' \<and> image c' = image c)"
proof (induction ws arbitrary: c)
  case Nil
  then show ?case by (simp add: safe_returnM)
next
  case (Cons w ws)
  obtain a v where w: "w = (a, v)" by (cases w)
  show ?case
    unfolding w write_all.simps
  proof (rule safe_bindM_post [OF write_safe [OF Cons.prems]])
    fix c' assume "ok c' \<and> image c' = image c"
    then show "safe I E (write_all wr c' ws) (\<lambda>c'. ok c' \<and> image c' = image c)"
      using Cons.IH [OF Cons.prems(1), of c'] by simp
  qed
qed

lemma write_all_fixed_bank:
  "write_all wr c ws s = (Inr c', s') \<Longrightarrow> unat b < 0x4000 \<Longrightarrow> read c' b = read c b"
proof (induction ws arbitrary: c s)
  case Nil
  then show ?case by simp
next
  case (Cons w ws)
  obtain a v where w: "w = (a, v)" by (cases w)
  with Cons.prems obtain c1 s1 where "wr c a v s = (Inr c1, s1)"
    and "write_all wr c1 ws s1 = (Inr c', s')"
    by (auto simp: bindM_def split: prod.splits sum.splits)
  with Cons fixed_bank show ?case by metis
qed

end

subsection \<open>MBC1 implements it\<close>

definition mbc1_ok :: "MBC1 \<Rightarrow> bool" where
  "mbc1_ok c \<longleftrightarrow> unat (romBank c) < 128 \<and> unat (ramBank c) < 4 \<and> length (mbc_ram c) = 0x8000"

text \<open>
  The controller masks the bank number to seven bits but never to the size of the ROM: the image may have
  no bytes for the bank that is selected.
\<close>

definition mbc1_missing :: "MBC1 \<Rightarrow> bool" where
  "mbc1_missing c \<longleftrightarrow> length (mbc_rom c) < 0x4000 * (unat (romBank c) + 1)"

lemma page_eq: "unat (drop_bit 12 (a :: u16)) = unat a div 0x1000"
  unfolding unat_drop_bit_eq by (simp add: drop_bit_eq_div)

lemma page_between: "(a \<le> n div 0x1000 \<and> n div 0x1000 < b) = (a * 0x1000 \<le> n \<and> (n :: nat) < b * 0x1000)"
  by (simp add: less_eq_div_iff_mult_less_eq div_less_iff_less_mult)

lemma page_sets:
  "(d \<in> {0, 1}) = (0 \<le> (d :: nat) \<and> d < 2)"
  "(d \<in> {2, 3}) = (2 \<le> d \<and> d < 4)"
  "(d \<in> {4, 5}) = (4 \<le> d \<and> d < 6)"
  "(d \<in> {6, 7}) = (6 \<le> d \<and> d < 8)"
  "(d \<in> {0xA, 0xB}) = (0xA \<le> d \<and> d < 0xC)"
  "(d \<in> {0, 1, 2, 3}) = (0 \<le> d \<and> d < 4)"
  "(d \<in> {4, 5, 6, 7}) = (4 \<le> d \<and> d < 8)"
  by auto

lemmas page_range = page_eq page_sets page_between

lemma u16_bound: "unat (a :: u16) < 0x10000"
  using unsigned_less [of a] by simp

lemma bank_offset:
  "0x4000 \<le> unat a \<Longrightarrow> unat ((a :: u16) - 0x4000) = unat a - 0x4000"
  "0xA000 \<le> unat a \<Longrightarrow> unat (a - 0xA000) = unat a - 0xA000"
  by (simp_all add: unat_sub_if')

lemma and_mask_bounds:
  "unat ((v :: u8) AND 0x03) < 4" "unat (v AND 0x1F) < 32"
  using and_mask_unat [of v 2] and_mask_unat [of v 5] by (simp_all add: mask_eq_exp_minus_1)

lemma bank_join_bound: "unat (push_bit 5 ((v :: u8) AND 0x03) OR (b AND 0x1F)) < 128"
proof -
  have "unat (push_bit 5 (v AND 0x03)) = (unat (v AND 0x03) * 32) mod 256"
    by (subst unsigned_push_bit_eq) (simp add: push_bit_eq_mult take_bit_eq_mod)
  then show ?thesis
    using unat_or_bound [of "push_bit 5 (v AND 0x03)" 7 "b AND 0x1F"]
      and_mask_bounds(1) [of v] and_mask_bounds(2) [of b] by simp
qed

context errs_inv
begin

lemma safe_mbc1_read:
  assumes "mbc1_ok c" and "\<And>s. mbc1_missing c \<Longrightarrow> I s \<Longrightarrow> UndefinedBehaviour \<in> E s"
  shows "safe I E (mbc1_read c a) (\<lambda>_. True)"
proof (cases "mbc1_missing c")
  case True
  with assms have "UndefinedBehaviour \<in> E s" if "I s" for s using that by blast
  then show ?thesis
    unfolding mbc1_read_def Let_def page_range using assms(1)
    by (intro safe_intro safe_indexM TrueI) (auto simp: mbc1_ok_def bank_offset)
next
  case False
  then show ?thesis
    unfolding mbc1_read_def Let_def page_range using assms(1)
    by (intro safe_intro safe_indexM disjI1 TrueI) (auto simp: mbc1_ok_def mbc1_missing_def bank_offset)
qed

lemma safe_mbc1_rom_bank:
  assumes ok: "mbc1_ok c"
  shows "safe I E
     (bindM (ci_and v (lit 0x1F)) (\<lambda>x.
      bindM (ci_neq x (lit 0)) (\<lambda>nonzero.
      if nonzero then
        bindM (ci_and v (lit 0x1F)) (\<lambda>y.
        bindM (decay y) (\<lambda>bank.
        returnM (c\<lparr>romBank := bank\<rparr>)))
      else returnM (c\<lparr>romBank := 1\<rparr>)))) mbc1_ok"
  by (intro safe_bindM [OF safe_ci_values(6)] safe_bindM [OF safe_ci_relations(2)] safe_if
        safe_bindM_post [OF safe_ci_data(6)] safe_bindM_post [OF safe_ci_data(9)] safe_returnM)
     (use and_mask_bounds(2) [of "data v"] ok in \<open>auto simp: mbc1_ok_def\<close>)

lemma safe_mbc1_ram_bank:
  "mbc1_ok c \<Longrightarrow> safe I E
     (bindM (ci_and v (lit 0x03)) (\<lambda>y. bindM (decay y) (\<lambda>bank. returnM (c\<lparr>ramBank := bank\<rparr>)))) mbc1_ok"
  by (rule safe_bindM_post [OF safe_ci_data(6)], rule safe_bindM_post [OF safe_ci_data(9)],
      rule safe_returnM)
     (use and_mask_bounds(1) [of "data v"] in \<open>simp add: mbc1_ok_def\<close>)

lemma safe_mbc1_rom_bank_high:
  "mbc1_ok c \<Longrightarrow> safe I E
     (bindM (ci_and v (lit 0x03)) (\<lambda>x.
      bindM (ci_shl x 5) (\<lambda>hi.
      bindM (ci_and (lit (romBank c)) (lit 0x1F)) (\<lambda>lo.
      bindM (ci_or hi lo) (\<lambda>y.
      bindM (decay y) (\<lambda>bank.
      returnM (c\<lparr>romBank := bank\<rparr>))))))) mbc1_ok"
  by (rule safe_bindM_post [OF safe_ci_data(6)], rule safe_bindM_post [OF safe_ci_data(8)],
      rule safe_bindM_post [OF safe_ci_data(6)], rule safe_bindM_post [OF safe_ci_data(3)],
      rule safe_bindM_post [OF safe_ci_data(9)], rule safe_returnM)
     (use bank_join_bound [of "data v" "romBank c"] in \<open>simp add: mbc1_ok_def\<close>)

lemma safe_mbc1_write:
  assumes ok: "mbc1_ok c"
  shows "safe I E (mbc1_write c a v) mbc1_ok"
  unfolding mbc1_write_def Let_def page_range
  by (intro safe_if safe_mbc1_rom_bank safe_mbc1_ram_bank safe_mbc1_rom_bank_high ok;
      intro safe_intro TrueI)
     (use ok in \<open>auto simp: mbc1_ok_def bank_offset\<close>)

lemma safe_ro_read: "safe I E (ro_read c a) (\<lambda>_. True)"
  unfolding ro_read_def by (intro safe_intro safe_indexM disjI1 TrueI)

lemma safe_ro_write: "safe I E (ro_write c a v) (\<lambda>_. True)"
  unfolding ro_write_def by (intro safe_intro TrueI)

lemma mbc1_write_rom_post:
  "(\<And>s. UndefinedBehaviour \<in> E s) \<Longrightarrow> safe I E (mbc1_write c a v) (\<lambda>c'. mbc_rom c' = mbc_rom c)"
  unfolding mbc1_write_def Let_def by (intro safe_intro TrueI) simp_all

end

lemma errs_inv_all: "errs_inv (\<lambda>_. True) (\<lambda>_. UNIV)"
  by unfold_locales simp_all

lemma mbc1_write_rom: "mbc1_write c a v s = (Inr c', s') \<Longrightarrow> mbc_rom c' = mbc_rom c"
  using safe_Inr [OF errs_inv.mbc1_write_rom_post [OF errs_inv_all]] by simp

lemma mbc1_read_low: "unat b < 0x4000 \<Longrightarrow> mbc_rom c' = mbc_rom c \<Longrightarrow> mbc1_read c' b = mbc1_read c b"
  unfolding mbc1_read_def Let_def page_range by simp

lemma ro_write_same: "ro_write c a v s = (Inr c', s') \<Longrightarrow> c' = c"
  by (auto simp: ro_write_def thenM_def bindM_def split: prod.splits sum.splits)

text \<open>A result keeps what the operation promises of every run that returns.\<close>

lemma safe_returned:
  "safe I E m P \<Longrightarrow> (\<And>s v t. m s = (Inr v, t) \<Longrightarrow> R v) \<Longrightarrow> safe I E m (\<lambda>v. P v \<and> R v)"
  by (auto simp: safe_def split: sum.splits) (metis prod.collapse)+

interpretation mbc1: controller_spec mbc1_read mbc1_write mbc1_ok mbc1_missing mbc_rom
  by unfold_locales
    (auto intro: errs_inv.safe_mbc1_read errs_inv.safe_mbc1_write mbc1_read_low mbc1_write_rom safe_returned)

interpretation rom_only: controller_spec ro_read ro_write "\<lambda>_. True" "\<lambda>_. False" ro_rom
  by unfold_locales
    (auto intro: errs_inv.safe_ro_read safe_weaken [OF safe_returned [OF errs_inv.safe_ro_write ro_write_same]]
      dest: ro_write_same)

subsection \<open>The dispatched controller implements it\<close>

fun ctl_ok :: "controller \<Rightarrow> bool" where
  "ctl_ok (RomOnly c) = True"
| "ctl_ok (Mbc1 c) = mbc1_ok c"

text \<open>No byte of the image lies in the selected bank; the image itself, with the kind of its controller.\<close>

fun bank_missing :: "controller \<Rightarrow> bool" where
  "bank_missing (RomOnly c) = False"
| "bank_missing (Mbc1 c) = mbc1_missing c"

fun rom_image :: "controller \<Rightarrow> bool \<times> u8 list" where
  "rom_image (RomOnly c) = (False, ro_rom c)"
| "rom_image (Mbc1 c) = (True, mbc_rom c)"

text \<open>An image of all 128 banks never misses one.\<close>

definition has_all_banks :: "controller \<Rightarrow> bool" where
  "has_all_banks c \<longleftrightarrow> (fst (rom_image c) \<longrightarrow> 0x200000 \<le> length (snd (rom_image c)))"

lemma all_banks_present: "has_all_banks c \<Longrightarrow> ctl_ok c \<Longrightarrow> \<not> bank_missing c"
  by (cases c) (simp_all add: has_all_banks_def mbc1_missing_def mbc1_ok_def)

lemma same_image_banks: "rom_image c = rom_image d \<Longrightarrow> has_all_banks c = has_all_banks d"
  by (simp add: has_all_banks_def)

lemma ctl_read_safe:
  "errs_inv I E \<Longrightarrow> ctl_ok c \<Longrightarrow> (\<And>s. bank_missing c \<Longrightarrow> I s \<Longrightarrow> UndefinedBehaviour \<in> E s) \<Longrightarrow>
   safe I E (ctl_read c a) (\<lambda>_. True)"
  by (cases c) (auto intro: rom_only.read_safe mbc1.read_safe)

lemma ctl_write_safe:
  "errs_inv I E \<Longrightarrow> ctl_ok c \<Longrightarrow> safe I E (ctl_write c a v) (\<lambda>c'. ctl_ok c' \<and> rom_image c' = rom_image c)"
  by (cases c)
     (auto intro!: safe_returnM intro: safe_bindM_post [OF rom_only.write_safe] safe_bindM_post [OF mbc1.write_safe])

lemma ctl_fixed_bank:
  fixes s :: "'z errs_scheme"
  assumes "ctl_write c a v s = (Inr c', s')" and "unat b < 0x4000"
  shows "(ctl_read c' b :: ('z errs_scheme, Byte) M) = ctl_read c b"
proof (cases c)
  case (RomOnly r)
  with assms obtain r' where "ro_write r a v s = (Inr r', s')" and "c' = RomOnly r'"
    by (auto simp: bindM_def split: prod.splits sum.splits)
  with RomOnly rom_only.fixed_bank [OF _ assms(2)] show ?thesis by (metis ctl_read.simps(1) ext)
next
  case (Mbc1 m)
  with assms obtain m' where "mbc1_write m a v s = (Inr m', s')" and "c' = Mbc1 m'"
    by (auto simp: bindM_def split: prod.splits sum.splits)
  with Mbc1 mbc1.fixed_bank [OF _ assms(2)] show ?thesis by (metis ctl_read.simps(2) ext)
qed

interpretation ctl: controller_spec ctl_read ctl_write ctl_ok bank_missing rom_image
  by unfold_locales (auto intro: ctl_read_safe ctl_write_safe ctl_fixed_bank)

text \<open>Which images the cartridge accepts, and what it makes of them.\<close>

lemma make_cartridge_returns:
  "(\<exists>metadata ctl t. make_cartridge bytes s = (Inr (metadata, ctl), t)) \<longleftrightarrow>
    0x149 < length bytes \<and> bytes ! 0x147 \<in> {0, 1, 2, 3}"
  by (auto simp: make_cartridge_def populateMetadata_def bindM_def indexM_def split: if_splits)

lemma make_cartridge_throws:
  "make_cartridge bytes s = (Inl e, s') \<Longrightarrow> e = UndefinedBehaviour \<or> (\<exists>m. e = RuntimeError m)"
  by (auto simp: make_cartridge_def populateMetadata_def bindM_def indexM_def split: if_splits)

lemma make_cartridge_ok:
  assumes "make_cartridge bytes s = (Inr (metadata, ctl), s')"
  shows "s' = s" "ctl_ok ctl" "rom_image ctl = (bytes ! 0x147 \<noteq> 0, bytes)"
  using assms
  by (auto simp: make_cartridge_def populateMetadata_def bindM_def indexM_def make_mbc1_def mbc1_ok_def
      split: if_splits prod.splits sum.splits)

section \<open>The cartridge in the state\<close>

locale cart_inv = errs_inv I E for I :: "'z cart_scheme \<Rightarrow> bool" and E +
  assumes upd_controller: "I s \<Longrightarrow> ctl_ok c \<Longrightarrow> rom_image c = rom_image (controller_of s) \<Longrightarrow>
      I (s\<lparr>controller_of := c\<rparr>)"
    and ctl_wf: "I s \<Longrightarrow> ctl_ok (controller_of s)"
    and missing_bank: "I s \<Longrightarrow> bank_missing (controller_of s) \<Longrightarrow> UndefinedBehaviour \<in> E s"
begin

text \<open>The controller stands still while it is asked.\<close>

lemma errs_at: "errs_inv (\<lambda>s. I s \<and> controller_of s = c) E"
proof (unfold_locales; elim conjE)
  fix s k assume "I s" and "controller_of s = c"
  then show "I (count_error k s) \<and> controller_of (count_error k s) = c"
    by (intro conjI count_inv) (simp_all add: count_error_def)
qed (rule thrown_ok)

lemma safe_cartridge_read [safe_intro]: "safe I E (cartridge_read a) (\<lambda>_. True)"
proof (rule safeI)
  fix s r s' assume I: "I s" and run: "cartridge_read a s = (r, s')"
  let ?c = "controller_of s"
  have rd: "safe (\<lambda>t. I t \<and> controller_of t = ?c) E (ctl_read ?c a) (\<lambda>_. True)"
    by (rule ctl.read_safe [OF errs_at ctl_wf [OF I]]) (auto simp: missing_bank)
  have x: "ctl_read ?c a s = (r, s')" using run by (simp add: cartridge_read_def)
  show "I s' \<and> (case r of Inl e \<Rightarrow> e \<in> E s' | Inr v \<Rightarrow> True)"
  proof (cases r)
    case (Inl e)
    with x safe_Inl [OF rd, of s e s'] I show ?thesis by simp
  next
    case (Inr v)
    with x safe_Inr [OF rd, of s v s'] I show ?thesis by simp
  qed
qed

lemma safe_cartridge_write [safe_intro]: "safe I E (cartridge_write a v) (\<lambda>_. True)"
proof (rule safeI)
  fix s r s' assume I: "I s" and run: "cartridge_write a v s = (r, s')"
  let ?c = "controller_of s"
  have wr: "safe (\<lambda>t. I t \<and> controller_of t = ?c) E (ctl_write ?c a v) (\<lambda>c'. ctl_ok c' \<and> rom_image c' = rom_image ?c)"
    by (rule ctl.write_safe [OF errs_at ctl_wf [OF I]])
  obtain x t where x: "ctl_write ?c a v s = (x, t)" by (cases "ctl_write ?c a v s")
  show "I s' \<and> (case r of Inl e \<Rightarrow> e \<in> E s' | Inr v \<Rightarrow> True)"
  proof (cases x)
    case (Inl e)
    with x safe_Inl [OF wr, of s e t] I run show ?thesis by (auto simp: cartridge_write_def)
  next
    case (Inr c')
    with x safe_Inr [OF wr, of s c' t] I run upd_controller [of t c'] show ?thesis
      by (auto simp: cartridge_write_def)
  qed
qed

end

text \<open>What a machine may throw: \<open>X\<close>, and undefined behaviour where the selected bank is missing.\<close>

definition faults :: "exn set \<Rightarrow> 'z cart_scheme \<Rightarrow> exn set" where
  "faults X s = (if bank_missing (controller_of s) then insert UndefinedBehaviour X else X)"

lemma faults_cases [simp]: "e \<in> faults X s \<longleftrightarrow> e \<in> X \<or> e = UndefinedBehaviour \<and> bank_missing (controller_of s)"
  by (auto simp: faults_def)

definition cart_ok :: "'z cart_scheme \<Rightarrow> bool" where
  "cart_ok s \<longleftrightarrow> ctl_ok (controller_of s)"

interpretation cartridge: cart_inv cart_ok "faults no_ub"
  by unfold_locales (auto simp: cart_ok_def count_error_def)

section \<open>What MBC1 banking does\<close>

text \<open>Reads of the three windows, and of what is outside them.\<close>

lemma mbc1_read_fixed:
  "unat a < 0x4000 \<Longrightarrow> unat a < length (mbc_rom c) \<Longrightarrow>
   mbc1_read c a s = (Inr (lit (mbc_rom c ! unat a)), s)"
  unfolding mbc1_read_def Let_def page_range by simp

lemma mbc1_read_banked:
  "0x4000 \<le> unat a \<Longrightarrow> unat a < 0x8000 \<Longrightarrow>
   0x4000 * unat (romBank c) + (unat a - 0x4000) < length (mbc_rom c) \<Longrightarrow>
   mbc1_read c a s = (Inr (lit (mbc_rom c ! (0x4000 * unat (romBank c) + (unat a - 0x4000)))), s)"
  unfolding mbc1_read_def Let_def page_range by (simp add: bank_offset)

lemma mbc1_read_ram:
  "0xA000 \<le> unat a \<Longrightarrow> unat a < 0xC000 \<Longrightarrow>
   0x2000 * unat (ramBank c) + (unat a - 0xA000) < length (mbc_ram c) \<Longrightarrow>
   mbc1_read c a s = (Inr (mbc_ram c ! (0x2000 * unat (ramBank c) + (unat a - 0xA000))), s)"
  unfolding mbc1_read_def Let_def page_range by (simp add: bank_offset)

lemma mbc1_read_past_end:
  "0x4000 \<le> unat a \<Longrightarrow> unat a < 0x8000 \<Longrightarrow>
   length (mbc_rom c) \<le> 0x4000 * unat (romBank c) + (unat a - 0x4000) \<Longrightarrow>
   mbc1_read c a s = (Inl UndefinedBehaviour, s)"
  unfolding mbc1_read_def Let_def page_range by (simp add: bank_offset)

lemma mbc1_select_rom_bank:
  "0x2000 \<le> unat a \<Longrightarrow> unat a < 0x4000 \<Longrightarrow> \<not> undef v \<Longrightarrow>
   mbc1_write c a v s =
     (Inr (c\<lparr>romBank := if data v AND 0x1F = 0 then 1 else data v AND 0x1F\<rparr>), s)"
  unfolding mbc1_write_def Let_def page_range by simp

lemma mbc1_select_bank_high:
  "0x4000 \<le> unat a \<Longrightarrow> unat a < 0x6000 \<Longrightarrow> \<not> undef v \<Longrightarrow>
   mbc1_write c a v s = (Inr (if bankedRamMode c then c\<lparr>ramBank := data v AND 0x03\<rparr>
     else c\<lparr>romBank := push_bit 5 (data v AND 0x03) OR (romBank c AND 0x1F)\<rparr>), s)"
  unfolding mbc1_write_def Let_def page_range by simp

lemma mbc1_write_ram:
  "0xA000 \<le> unat a \<Longrightarrow> unat a < 0xC000 \<Longrightarrow>
   0x2000 * unat (ramBank c) + (unat a - 0xA000) < length (mbc_ram c) \<Longrightarrow>
   mbc1_write c a v s =
     (Inr (c\<lparr>mbc_ram := (mbc_ram c)[0x2000 * unat (ramBank c) + (unat a - 0xA000) := v]\<rparr>), s)"
  unfolding mbc1_write_def Let_def page_range by (simp add: bank_offset)

lemma bank_number:
  fixes h l :: u8
  assumes "unat l < 32"
  shows "unat (push_bit 5 (h AND 0x03) OR (l AND 0x1F)) = 32 * (unat h mod 4) + unat l"
proof -
  have mask: "(0x1F :: u8) = mask 5" by (simp add: mask_eq_exp_minus_1)
  have low: "l AND 0x1F = l"
    using assms and_mask_unat [of l 5] by (simp add: word_unat_eq_iff mask_eq_exp_minus_1)
  have small: "unat (h AND 0x03) = unat h mod 4" "unat (h AND 0x03) < 4"
    using and_mask_unat [of h 2] by (simp_all add: mask_eq_exp_minus_1)
  then have high: "unat (push_bit 5 (h AND 0x03)) = 32 * (unat h mod 4)"
    by (subst unsigned_push_bit_eq) (simp add: push_bit_eq_mult take_bit_eq_mod)
  have "push_bit 5 (h AND 0x03) AND (l AND 0x1F) = 0"
    unfolding mask by (rule bit_word_eqI) (auto simp: bit_simps)
  then have "push_bit 5 (h AND 0x03) OR (l AND 0x1F) = push_bit 5 (h AND 0x03) + l"
    by (simp add: disjunctive_add_eq_or low)
  with high assms show ?thesis by (simp add: unat_word_ariths)
qed

text \<open>
  C20. The window of the switchable ROM bank: after a program has selected the low and then the high bits
  of a bank, each byte of the window is the one of that bank, bank 0 of each quarter being
  replaced by the one after it, and an access past the end of the ROM is undefined, never
  wrapped into it.
\<close>

theorem mbc1_window_shows_bank:
  fixes s :: "'z errs_scheme"
  assumes "\<not> undef lo" "\<not> undef hi" and "\<not> bankedRamMode c"
    and "0x2000 \<le> unat a1" "unat a1 < 0x4000" and "0x4000 \<le> unat a2" "unat a2 < 0x6000"
    and "0x4000 \<le> unat a" "unat a < 0x8000"
    and "low = unat (data lo) mod 32"
    and "bank = 32 * (unat (data hi) mod 4) + (if low = 0 then 1 else low)"
    and "offset = 0x4000 * bank + (unat a - 0x4000)"
  shows "bindM (mbc1_write c a1 lo) (\<lambda>c1. bindM (mbc1_write c1 a2 hi) (\<lambda>c2. mbc1_read c2 a)) s =
    (if offset < length (mbc_rom c) then Inr (lit (mbc_rom c ! offset)) else Inl UndefinedBehaviour, s)"
proof -
  define b where "b = (if data lo AND 0x1F = 0 then 1 else data lo AND 0x1F)"
  have "unat (data lo AND 0x1F) = low"
    using and_mask_unat [of "data lo" 5] assms(10) by (simp add: mask_eq_exp_minus_1)
  then have b: "unat b = (if low = 0 then 1 else low)" "unat b < 32"
    using assms(10) by (auto simp: b_def word_unat_eq_iff)
  let ?c = "c\<lparr>romBank := push_bit 5 (data hi AND 0x03) OR (b AND 0x1F)\<rparr>"
  have "mbc1_write c a1 lo s = (Inr (c\<lparr>romBank := b\<rparr>), s)"
    unfolding b_def by (rule mbc1_select_rom_bank [OF assms(4,5,1)])
  moreover have "mbc1_write (c\<lparr>romBank := b\<rparr>) a2 hi s = (Inr ?c, s)"
    using mbc1_select_bank_high [OF assms(6,7,2), of "c\<lparr>romBank := b\<rparr>" s] assms(3) by simp
  moreover have "0x4000 * unat (romBank ?c) + (unat a - 0x4000) = offset"
    using bank_number [OF b(2), of "data hi"] b(1) assms(11,12) by simp
  then have "mbc1_read ?c a s =
      (if offset < length (mbc_rom c) then Inr (lit (mbc_rom c ! offset)) else Inl UndefinedBehaviour, s)"
    using mbc1_read_banked [OF assms(8,9), of ?c s] mbc1_read_past_end [OF assms(8,9), of ?c s] by auto
  ultimately show ?thesis by simp
qed

text \<open>A cartridge of four banks has no bank 5.\<close>

lemma mbc1_window_shows_bank_witness:
  "\<exists>rom. length rom = 0x10000 \<and>
    fst (bindM (mbc1_write (make_mbc1 rom) 0x2000 (lit 5))
      (\<lambda>c1. bindM (mbc1_write c1 0x4000 (lit 0)) (\<lambda>c2. mbc1_read c2 0x4000))
      \<lparr>error_count = \<lambda>_. 0, error_kind_permitted = \<lambda>_. False\<rparr>) = Inl UndefinedBehaviour"
proof -
  obtain rom :: "u8 list" where "length rom = 0x10000" by (rule that [of "replicate 0x10000 7"]) (rule length_replicate)
  moreover have "\<not> bankedRamMode (make_mbc1 rom)" "mbc_rom (make_mbc1 rom) = rom"
    by (simp_all only: make_mbc1_def MBC1.simps not_False_eq_True)
  moreover have "bindM (mbc1_write (make_mbc1 rom) 0x2000 (lit 5))
      (\<lambda>c1. bindM (mbc1_write c1 0x4000 (lit 0)) (\<lambda>c2. mbc1_read c2 0x4000)) s =
      (if 0x14000 < length (mbc_rom (make_mbc1 rom)) then Inr (lit (mbc_rom (make_mbc1 rom) ! 0x14000))
       else Inl UndefinedBehaviour, s)" for s :: errs
    by (rule mbc1_window_shows_bank [where low = 5 and bank = 5]) (simp_all add: calculation)
  ultimately show ?thesis by (intro exI [of _ rom]) (simp split del: if_split)
qed

end
