(* ===== verification/Frontend.thy ===== *)
theory Frontend
  imports Cartridge
begin

text \<open>
  \<^verbatim>\<open>libgb/io/frontend.hpp\<close>, \<^verbatim>\<open>headless.hpp\<close>,
  \<^verbatim>\<open>io_registers.hpp\<close> and \<^verbatim>\<open>constants.hpp\<close>: the abstract frontend
  the emulator talks to, its headless implementation, and the offsets of the memory-mapped
  registers. The frontend is an abstract class: its virtual methods are fields of the
  record \<open>frontend\<close>, over a state of its own of type \<open>'f\<close>. The record
  \<open>iomem\<close> adds the I/O memory, which the I/O unit, the GPU and the APU share, and the
  frontend.
\<close>

section \<open>Register offsets\<close>

abbreviation (input) "DIV_TIMER \<equiv> 0x04 :: nat"
abbreviation (input) "T_COUNTER \<equiv> 0x05 :: nat"
abbreviation (input) "T_MODULO \<equiv> 0x06 :: nat"
abbreviation (input) "T_CONTROL \<equiv> 0x07 :: nat"
abbreviation (input) "INTERRUPTS \<equiv> 0x0F :: nat"
abbreviation (input) "SERIAL_DATA \<equiv> 0x01 :: nat"
abbreviation (input) "SERIAL_CTL \<equiv> 0x02 :: nat"
abbreviation (input) "LCDC \<equiv> 0x40 :: nat"
abbreviation (input) "LCD_STAT \<equiv> 0x41 :: nat"
abbreviation (input) "BG_SCY \<equiv> 0x42 :: nat"
abbreviation (input) "BG_SCX \<equiv> 0x43 :: nat"
abbreviation (input) "LCD_LY \<equiv> 0x44 :: nat"
abbreviation (input) "LCD_LYC \<equiv> 0x45 :: nat"
abbreviation (input) "BG_Palette \<equiv> 0x47 :: nat"
abbreviation (input) "O0_Palette \<equiv> 0x48 :: nat"
abbreviation (input) "WINDOW_Y \<equiv> 0x4A :: nat"
abbreviation (input) "WINDOW_X \<equiv> 0x4B :: nat"

definition VSYNC_INTERRUPT :: u8 where "VSYNC_INTERRUPT = 0x01"
definition STAT_INTERRUPT :: u8 where "STAT_INTERRUPT = 0x02"
definition TIMER_INTERRUPT :: u8 where "TIMER_INTERRUPT = 0x04"
definition SERIAL_INTERRUPT :: u8 where "SERIAL_INTERRUPT = 0x08"
definition INPUT_INTERRUPT :: u8 where "INPUT_INTERRUPT = 0x10"

lemmas interrupt_defs =
  VSYNC_INTERRUPT_def STAT_INTERRUPT_def TIMER_INTERRUPT_def SERIAL_INTERRUPT_def INPUT_INTERRUPT_def

definition SCREEN_WIDTH :: nat where "SCREEN_WIDTH = 160"
definition SCREEN_HEIGHT :: nat where "SCREEN_HEIGHT = 144"

section \<open>The abstract frontend\<close>

text \<open>
  One audio sample. The code pushes a pair of floats; the sample here is what the mixer
  computes that pair from: the output level of each channel that is on, the panning and
  the master volume register. The mixing itself is in the theory \<open>Mixer\<close>.
\<close>

record AudioSample =
  dac1 :: "u8 option"
  dac2 :: "u8 option"
  dac3 :: "u8 option"
  dac4 :: "u8 option"
  sample_panning :: u8
  sample_volume :: u8

record 'f frontend =
  fe_state :: 'f
  fe_getKeyPressState :: "'f \<Rightarrow> u8 \<times> 'f"
  fe_sendSerial :: "u8 \<Rightarrow> 'f \<Rightarrow> 'f"
  fe_addPixel :: "int \<Rightarrow> int \<Rightarrow> int \<Rightarrow> 'f \<Rightarrow> 'f"
  fe_commitRender :: "'f \<Rightarrow> 'f"
  fe_isFrameScheduled :: "'f \<Rightarrow> bool \<times> 'f"
  fe_isExitRequested :: "'f \<Rightarrow> bool \<times> 'f"
  fe_try_flush_audio :: "AudioSample list \<Rightarrow> 'f \<Rightarrow> nat option \<times> 'f"

text \<open>The headless frontend: its state is what it wrote to the stream.\<close>

definition headless :: "u8 list frontend" where
  "headless =
     \<lparr>fe_state = [],
      fe_getKeyPressState = (\<lambda>os. (0x00, os)),
      fe_sendSerial = (\<lambda>value os. os @ [value]),
      fe_addPixel = (\<lambda>_ _ _ os. os),
      fe_commitRender = (\<lambda>os. os),
      fe_isFrameScheduled = (\<lambda>os. (False, os)),
      fe_isExitRequested = (\<lambda>os. (False, os)),
      fe_try_flush_audio = (\<lambda>samples os. (Some (length samples), os))\<rparr>"

text \<open>
  The contract the APU relies on: a frontend never claims to have consumed more samples
  than it was offered.
\<close>

definition flush_ok :: "'f frontend \<Rightarrow> bool" where
  "flush_ok fe \<longleftrightarrow> (\<forall>xs st. case fst (fe_try_flush_audio fe xs st) of
     None \<Rightarrow> True | Some n \<Rightarrow> n \<le> length xs)"

locale frontend_spec =
  fixes fe :: "'f frontend"
  assumes flush_bound: "fst (fe_try_flush_audio fe xs st) = Some n \<Longrightarrow> n \<le> length xs"
begin

lemma flush_ok: "flush_ok fe"
  by (auto simp: flush_ok_def intro: flush_bound split: option.split)

lemma flush_ok_state: "flush_ok (fe\<lparr>fe_state := st\<rparr>)"
  using flush_ok by (simp add: flush_ok_def)

end

interpretation headless: frontend_spec headless
  by unfold_locales (simp add: headless_def)

section \<open>I/O memory and frontend in the state\<close>

record 'f iomem = cart +
  io_memory :: "u8 list"
  frontend :: "'f frontend"

definition io_get :: "nat \<Rightarrow> (('f, 'z) iomem_scheme, u8) M" where
  "io_get r = getM (\<lambda>s. io_memory s ! r)"

definition io_set :: "nat \<Rightarrow> u8 \<Rightarrow> (('f, 'z) iomem_scheme, unit) M" where
  "io_set r v = modM (\<lambda>s. s\<lparr>io_memory := (io_memory s)[r := v]\<rparr>)"

text \<open>Subscripts that are computed; the array does not check them.\<close>

definition io_get_at :: "nat \<Rightarrow> (('f, 'z) iomem_scheme, u8) M" where
  "io_get_at r = bindM (getM io_memory) (\<lambda>m. indexM UndefinedBehaviour m r)"

definition io_set_at :: "nat \<Rightarrow> u8 \<Rightarrow> (('f, 'z) iomem_scheme, unit) M" where
  "io_set_at r v = bindM (io_get_at r) (\<lambda>_. io_set r v)"

definition fe_call :: "('f frontend \<Rightarrow> 'f \<Rightarrow> 'a \<times> 'f) \<Rightarrow> (('f, 'z) iomem_scheme, 'a) M" where
  "fe_call f = (\<lambda>s. case f (frontend s) (fe_state (frontend s)) of (v, st) \<Rightarrow>
     (Inr v, s\<lparr>frontend := (frontend s)\<lparr>fe_state := st\<rparr>\<rparr>))"

definition fe_do :: "('f frontend \<Rightarrow> 'f \<Rightarrow> 'f) \<Rightarrow> (('f, 'z) iomem_scheme, unit) M" where
  "fe_do f = modM (\<lambda>s. s\<lparr>frontend := (frontend s)\<lparr>fe_state := f (frontend s) (fe_state (frontend s))\<rparr>\<rparr>)"

lemma io_get_run [simp]: "io_get r s = (Inr (io_memory s ! r), s)"
  by (simp add: io_get_def)

lemma io_set_run [simp]: "io_set r v s = (Inr (), s\<lparr>io_memory := (io_memory s)[r := v]\<rparr>)"
  by (simp add: io_set_def)

lemma io_at_run [simp]:
  "r < length (io_memory s) \<Longrightarrow> io_get_at r s = (Inr (io_memory s ! r), s)"
  "r < length (io_memory s) \<Longrightarrow> io_set_at r v s = (Inr (), s\<lparr>io_memory := (io_memory s)[r := v]\<rparr>)"
  by (simp_all add: io_get_at_def io_set_at_def)

lemma fe_do_run [simp]:
  "fe_do f s = (Inr (), s\<lparr>frontend := (frontend s)\<lparr>fe_state := f (frontend s) (fe_state (frontend s))\<rparr>\<rparr>)"
  by (simp add: fe_do_def)

lemma safe_io_read: "safe I E (io_get r) (\<lambda>_. True)"
  by (rule safeI) auto

text \<open>
  Every write to the I/O memory of the GPU and the APU is to a fixed offset or to one of
  the offsets below \<^verbatim>\<open>0x80\<close>, and keeps the array's length.
\<close>

locale iomem_mem =
  fixes I :: "('f, 'z) iomem_scheme \<Rightarrow> bool" and E :: "('f, 'z) iomem_scheme \<Rightarrow> exn set"
  assumes upd_iomem: "I s \<Longrightarrow> length m = 0x80 \<Longrightarrow> I (s\<lparr>io_memory := m\<rparr>)"
    and upd_fe_state: "I s \<Longrightarrow> I (s\<lparr>frontend := (frontend s)\<lparr>fe_state := st\<rparr>\<rparr>)"
    and iomem_length: "I s \<Longrightarrow> length (io_memory s) = 0x80"
    and frontend_ok: "I s \<Longrightarrow> flush_ok (frontend s)"
begin

lemmas safe_io_get [safe_intro] = safe_io_read [of I E]

lemma safe_io_set [safe_intro]: "safe I E (io_set r v) (\<lambda>_. True)"
  unfolding io_set_def by (rule safe_modM) (auto intro: upd_iomem simp: iomem_length)

lemma safe_fe_call [safe_intro]: "safe I E (fe_call f) (\<lambda>_. True)"
  unfolding fe_call_def by (rule safeI) (auto intro: upd_fe_state split: prod.splits)

lemma safe_fe_do [safe_intro]: "safe I E (fe_do f) (\<lambda>_. True)"
  unfolding fe_do_def by (rule safe_modM) (rule upd_fe_state)

lemma safe_io_at:
  "r < 0x80 \<Longrightarrow> safe I E (io_get_at r) (\<lambda>_. True)"
  "r < 0x80 \<Longrightarrow> safe I E (io_set_at r v) (\<lambda>_. True)"
proof -
  assume r: "r < 0x80"
  show get: "safe I E (io_get_at r) (\<lambda>_. True)"
    by (rule safeI) (use r in \<open>auto simp: iomem_length\<close>)
  show "safe I E (io_set_at r v) (\<lambda>_. True)"
    unfolding io_set_at_def by (intro safe_bindM get safe_io_set)
qed

end

locale iomem_inv = errs_inv I E + iomem_mem I E
  for I :: "('f, 'z) iomem_scheme \<Rightarrow> bool" and E

definition iomem_ok :: "('f, 'z) iomem_scheme \<Rightarrow> bool" where
  "iomem_ok s \<longleftrightarrow> length (io_memory s) = 0x80 \<and> flush_ok (frontend s)"

interpretation io_memory_array: iomem_inv iomem_ok "\<lambda>_. no_ub"
  by unfold_locales (auto simp: iomem_ok_def count_error_def flush_ok_def)

end
