(* ===== verification/Gpu.thy ===== *)
theory Gpu
  imports Frontend
begin

text \<open>
  \<^verbatim>\<open>libgb/io/gpu.hpp\<close> and \<^verbatim>\<open>gpu.cpp\<close>: video memory and its access
  rules, the LCD state machine, and the renderer (background, window, sprites). The
  fixed-size arrays are lists; \<open>.at()\<close> checks its index and throws, a plain subscript
  or a shift by an amount outside the width is \<open>UndefinedBehaviour\<close>. Integer
  arithmetic that the code does in \<open>int\<close> is on \<open>int\<close>; what it stores in a
  \<open>uint8_t\<close> or \<open>uint16_t\<close> wraps. The line counter of the window, the one \<open>int32_t\<close> of the
  state, is a word read as a signed number; its increment wraps.
\<close>

section \<open>State\<close>

record SpriteAttribute =
  spr_y :: u8
  spr_x :: u8
  spr_tile :: u8
  spr_attribs :: u8

type_synonym Tile = "u8 list list"
type_synonym Background = "u8 list list"

record 'f gpu = "'f iomem" +
  sprites :: "SpriteAttribute list"
  patternTables :: "Tile list"
  backgroundMaps :: "Background list"
  vCycleCount :: u64
  windowOffsetY :: u32

definition blank_sprites :: "SpriteAttribute list" where
  "blank_sprites = replicate 40 \<lparr>spr_y = 0, spr_x = 0, spr_tile = 0, spr_attribs = 0\<rparr>"

definition blank_patterns :: "Tile list" where
  "blank_patterns = replicate 0x180 (replicate 8 (replicate 2 0))"

definition blank_maps :: "Background list" where
  "blank_maps = replicate 2 (replicate 0x20 (replicate 0x20 0))"

definition gpu_reset :: "(('f, 'z) gpu_scheme, unit) M" where
  "gpu_reset = modM (\<lambda>s. s\<lparr>sprites := blank_sprites, patternTables := blank_patterns,
     backgroundMaps := blank_maps, vCycleCount := 0, windowOffsetY := 0\<rparr>)"

section \<open>Video memory\<close>

abbreviation between :: "'a::ord \<Rightarrow> 'a \<Rightarrow> 'a \<Rightarrow> bool" where
  "between lo a hi \<equiv> lo \<le> a \<and> a \<le> hi"

definition byteFromSpriteAttributes :: "u16 \<Rightarrow> (('f, 'z) gpu_scheme, u8) M" where
  "byteFromSpriteAttributes addr =
     (let base_offset = addr - 0xFE00;
          attribute_index = unat (base_offset div 4) in
      bindM (getM sprites) (\<lambda>sprs.
      bindM (indexM OutOfRange sprs attribute_index) (\<lambda>a.
      returnM (if base_offset mod 4 = 0 then spr_y a
               else if base_offset mod 4 = 1 then spr_x a
               else if base_offset mod 4 = 2 then spr_tile a
               else spr_attribs a))))"

definition storeSpriteAttributes :: "u16 \<Rightarrow> u8 \<Rightarrow> (('f, 'z) gpu_scheme, unit) M" where
  "storeSpriteAttributes addr v =
     (let base_offset = addr - 0xFE00;
          attribute_index = unat (base_offset div 4) in
      bindM (getM sprites) (\<lambda>sprs.
      bindM (indexM OutOfRange sprs attribute_index) (\<lambda>a.
      let a' = (if base_offset mod 4 = 0 then a\<lparr>spr_y := v\<rparr>
                else if base_offset mod 4 = 1 then a\<lparr>spr_x := v\<rparr>
                else if base_offset mod 4 = 2 then a\<lparr>spr_tile := v\<rparr>
                else a\<lparr>spr_attribs := v\<rparr>)
      in modM (\<lambda>s. s\<lparr>sprites := sprs[attribute_index := a']\<rparr>))))"

definition byteFromPatternTable :: "u16 \<Rightarrow> (('f, 'z) gpu_scheme, u8) M" where
  "byteFromPatternTable addr =
     (let base_offset = addr - 0x8000;
          tile_base = unat (base_offset div 0x10);
          offset_in_tile = base_offset mod 0x10;
          row_in_tile = unat (offset_in_tile div 2);
          byte_in_row = unat (offset_in_tile mod 2) in
      bindM (getM patternTables) (\<lambda>tables.
      bindM (indexM OutOfRange tables tile_base) (\<lambda>tile.
      bindM (indexM OutOfRange tile row_in_tile) (\<lambda>row.
      indexM OutOfRange row byte_in_row))))"

definition storePatternTable :: "u16 \<Rightarrow> u8 \<Rightarrow> (('f, 'z) gpu_scheme, unit) M" where
  "storePatternTable addr v =
     (let base_offset = addr - 0x8000;
          tile_base = unat (base_offset div 0x10);
          offset_in_tile = base_offset mod 0x10;
          row_in_tile = unat (offset_in_tile div 2);
          byte_in_row = unat (offset_in_tile mod 2) in
      bindM (getM patternTables) (\<lambda>tables.
      bindM (indexM OutOfRange tables tile_base) (\<lambda>tile.
      bindM (indexM OutOfRange tile row_in_tile) (\<lambda>row.
      bindM (indexM OutOfRange row byte_in_row) (\<lambda>_.
      modM (\<lambda>s. s\<lparr>patternTables :=
        tables[tile_base := tile[row_in_tile := row[byte_in_row := v]]]\<rparr>))))))"

definition byteFromBackgroundMaps :: "u16 \<Rightarrow> (('f, 'z) gpu_scheme, u8) M" where
  "byteFromBackgroundMaps addr =
     (let base_offset = addr - 0x9800;
          map_index = unat (base_offset div (0x20 * 0x20));
          map_offset = base_offset mod (0x20 * 0x20) in
      bindM (getM backgroundMaps) (\<lambda>maps.
      bindM (indexM OutOfRange maps map_index) (\<lambda>bg.
      bindM (indexM OutOfRange bg (unat (map_offset div 0x20))) (\<lambda>row.
      indexM OutOfRange row (unat (map_offset mod 0x20))))))"

definition storeBackgroundMaps :: "u16 \<Rightarrow> u8 \<Rightarrow> (('f, 'z) gpu_scheme, unit) M" where
  "storeBackgroundMaps addr v =
     (let base_offset = addr - 0x9800;
          map_index = unat (base_offset div (0x20 * 0x20));
          map_offset = base_offset mod (0x20 * 0x20);
          y = unat (map_offset div 0x20);
          x = unat (map_offset mod 0x20) in
      bindM (getM backgroundMaps) (\<lambda>maps.
      bindM (indexM OutOfRange maps map_index) (\<lambda>bg.
      bindM (indexM OutOfRange bg y) (\<lambda>row.
      bindM (indexM OutOfRange row x) (\<lambda>_.
      modM (\<lambda>s. s\<lparr>backgroundMaps := maps[map_index := bg[y := row[x := v]]]\<rparr>))))))"

definition gpu_readU8 :: "u16 \<Rightarrow> bool \<Rightarrow> (('f, 'z) gpu_scheme, u8) M" where
  "gpu_readU8 addr is_dma =
     bindM (io_get LCD_STAT) (\<lambda>stat.
     let mode = stat AND 0b11 in
     if between 0x8000 addr 0x97FF then
       thenM (whenM (\<not> is_dma \<and> mode = 3) (throw_error ppu_access_violation))
       (byteFromPatternTable addr)
     else if between 0x9800 addr 0x9FFF then
       thenM (whenM (\<not> is_dma \<and> mode = 3) (throw_error ppu_access_violation))
       (byteFromBackgroundMaps addr)
     else if between 0xFE00 addr 0xFE9F then
       thenM (whenM (\<not> is_dma \<and> (mode = 2 \<or> mode = 3)) (throw_error ppu_access_violation))
       (byteFromSpriteAttributes addr)
     else raiseM OutOfRange)"

definition gpu_writeU8 :: "u16 \<Rightarrow> u8 \<Rightarrow> bool \<Rightarrow> (('f, 'z) gpu_scheme, unit) M" where
  "gpu_writeU8 addr v is_dma =
     bindM (io_get LCD_STAT) (\<lambda>stat.
     let mode = stat AND 0b11 in
     if between 0x8000 addr 0x97FF then
       thenM (whenM (\<not> is_dma \<and> mode = 3) (throw_error ppu_access_violation))
       (storePatternTable addr v)
     else if between 0x9800 addr 0x9FFF then
       thenM (whenM (\<not> is_dma \<and> mode = 3) (throw_error ppu_access_violation))
       (storeBackgroundMaps addr v)
     else if between 0xFE00 addr 0xFE9F then
       thenM (whenM (\<not> is_dma \<and> (mode = 2 \<or> mode = 3)) (throw_error ppu_access_violation))
       (storeSpriteAttributes addr v)
     else raiseM OutOfRange)"

section \<open>Rendering\<close>

text \<open>One bit plane of a tile row; the shift amount is an \<open>int\<close> in the code.\<close>

definition tile_bit :: "Tile \<Rightarrow> nat \<Rightarrow> nat \<Rightarrow> int \<Rightarrow> ('s, u8) M" where
  "tile_bit tile row plane amount =
     bindM (indexM UndefinedBehaviour tile row) (\<lambda>r.
     bindM (indexM UndefinedBehaviour r plane) (\<lambda>b.
     if amount < 0 \<or> 32 \<le> amount then raiseM UndefinedBehaviour
     else returnM (drop_bit (nat amount) b AND 1)))"

definition pixelFromMap :: "u16 \<Rightarrow> u16 \<Rightarrow> bool \<Rightarrow> (('f, 'z) gpu_scheme, u8) M" where
  "pixelFromMap mapX mapY use_map2 =
     bindM (getM backgroundMaps) (\<lambda>maps.
     bindM (indexM UndefinedBehaviour maps (if use_map2 then 1 else 0)) (\<lambda>bg.
     bindM (indexM UndefinedBehaviour bg (unat ((mapY div 8) mod 0x20))) (\<lambda>map_row.
     bindM (indexM UndefinedBehaviour map_row (unat ((mapX div 8) mod 0x20))) (\<lambda>entry.
     bindM (io_get LCDC) (\<lambda>lcdc.
     let tileIndex = (if lcdc AND 0x10 = 0 then word_of_int (0x100 + sint entry) else ucast entry) :: u16 in
     bindM (getM patternTables) (\<lambda>tables.
     bindM (indexM UndefinedBehaviour tables (unat tileIndex)) (\<lambda>tile.
     bindM (tile_bit tile (unat (mapY mod 8)) 1 (7 - uint (mapX mod 8))) (\<lambda>upper.
     bindM (tile_bit tile (unat (mapY mod 8)) 0 (7 - uint (mapX mod 8))) (\<lambda>lower.
     let colorIndex = push_bit 1 upper + lower in
     bindM (io_get BG_Palette) (\<lambda>palette.
     returnM (drop_bit (2 * unat colorIndex) palette AND 0x03)))))))))))"

definition backgroundPixel :: "int \<Rightarrow> int \<Rightarrow> u8 \<Rightarrow> (('f, 'z) gpu_scheme, u8) M" where
  "backgroundPixel screenX screenY color =
     bindM (io_get BG_SCX) (\<lambda>scx.
     bindM (io_get BG_SCY) (\<lambda>scy.
     bindM (io_get LCDC) (\<lambda>lcdc.
     bindM (pixelFromMap (word_of_int (screenX + uint scx)) (word_of_int (screenY + uint scy))
              (lcdc AND 0x08 \<noteq> 0)) (\<lambda>bgColor.
     returnM (if bgColor \<noteq> 0 then bgColor else color)))))"

text \<open>The result is the returned boolean and the new value of \<open>color\<close>.\<close>

definition windowOverridesPixel :: "int \<Rightarrow> int \<Rightarrow> u8 \<Rightarrow> (('f, 'z) gpu_scheme, bool \<times> u8) M" where
  "windowOverridesPixel screenX screenY color =
     bindM (io_get WINDOW_X) (\<lambda>wx.
     bindM (io_get WINDOW_Y) (\<lambda>wy.
     bindM (getM windowOffsetY) (\<lambda>offset.
     let windowX = screenX - uint wx + 7;
         windowY = sint offset - uint wy in
     if 166 < wx then returnM (False, color)
     else if 0 \<le> windowX \<and> windowX < 160 \<and> 0 \<le> windowY \<and> windowY < 144 then
       bindM (io_get LCDC) (\<lambda>lcdc.
       bindM (pixelFromMap (word_of_int windowX) (word_of_int windowY) (lcdc AND 0x40 \<noteq> 0)) (\<lambda>c.
       returnM (True, c)))
     else returnM (False, color))))"

text \<open>The tile coordinates of a pixel inside a sprite, mirrored as its attributes ask.\<close>

definition sprite_tileX :: "SpriteAttribute \<Rightarrow> int \<Rightarrow> u8" where
  "sprite_tileX a screenX =
     (let tileX = word_of_int ((8 + screenX) - uint (spr_x a)) in
      if spr_attribs a AND 0x20 \<noteq> 0 then 7 - tileX else tileX)"

definition sprite_tileY :: "SpriteAttribute \<Rightarrow> u8 \<Rightarrow> int \<Rightarrow> u8" where
  "sprite_tileY a height screenY =
     (let tileY = word_of_int ((16 + screenY) - uint (spr_y a)) in
      if spr_attribs a AND 0x40 \<noteq> 0 then height - tileY else tileY)"

definition sprite_colorIndex ::
  "SpriteAttribute \<Rightarrow> u8 \<Rightarrow> int \<Rightarrow> int \<Rightarrow> (('f, 'z) gpu_scheme, u8) M" where
  "sprite_colorIndex a height screenX screenY =
     (let tileX = sprite_tileX a screenX;
          tileY = sprite_tileY a height screenY in
      bindM (io_get LCDC) (\<lambda>lcdc.
      let tileIndex = (if lcdc AND 0x04 \<noteq> 0
            then (spr_tile a AND 0xFE) + (if 7 < tileY then 1 else 0) else spr_tile a) in
      bindM (getM patternTables) (\<lambda>tables.
      bindM (indexM UndefinedBehaviour tables (unat tileIndex)) (\<lambda>tile.
      bindM (tile_bit tile (unat (tileY mod 8)) 1 (7 - uint tileX)) (\<lambda>upper.
      bindM (tile_bit tile (unat (tileY mod 8)) 0 (7 - uint tileX)) (\<lambda>lower.
      returnM (push_bit 1 upper OR lower)))))))"

fun sprite_scan :: "int \<Rightarrow> int \<Rightarrow> u8 \<Rightarrow> nat \<Rightarrow> SpriteAttribute list \<Rightarrow> u8 \<Rightarrow>
    (('f, 'z) gpu_scheme, bool \<times> u8) M" where
  "sprite_scan screenX screenY height sprites_on_scanline [] color = returnM (False, color)"
| "sprite_scan screenX screenY height sprites_on_scanline (a # rest) color =
     (if uint (spr_y a) > screenY + 16 \<or> uint (spr_y a) + uint height \<le> screenY + 16 then
        sprite_scan screenX screenY height sprites_on_scanline rest color
      else if sprites_on_scanline + 1 > 10 then
        sprite_scan screenX screenY height (sprites_on_scanline + 1) rest color
      else if uint (spr_x a) > screenX + 8 \<or> uint (spr_x a) \<le> screenX then
        sprite_scan screenX screenY height (sprites_on_scanline + 1) rest color
      else
        bindM (sprite_colorIndex a height screenX screenY) (\<lambda>colorIndex.
        if colorIndex = 0 then
          sprite_scan screenX screenY height (sprites_on_scanline + 1) rest color
        else
          bindM (io_get (O0_Palette + unat (drop_bit 4 (spr_attribs a AND 0x10)))) (\<lambda>colorPalette.
          returnM (spr_attribs a AND 0x80 = 0,
                   drop_bit (2 * unat colorIndex) colorPalette AND 0x03))))"

definition spriteOverridesPixel :: "int \<Rightarrow> int \<Rightarrow> u8 \<Rightarrow> (('f, 'z) gpu_scheme, bool \<times> u8) M" where
  "spriteOverridesPixel screenX screenY color =
     bindM (io_get LCDC) (\<lambda>lcdc.
     bindM (getM sprites) (\<lambda>sprs.
     sprite_scan screenX screenY (8 + push_bit 1 (lcdc AND 0x04)) 0 sprs color))"

definition renderPixel :: "int \<Rightarrow> int \<Rightarrow> (('f, 'z) gpu_scheme, u8) M" where
  "renderPixel screenX screenY =
     bindM (io_get LCDC) (\<lambda>lcdc.
     bindM (if lcdc AND 0x02 \<noteq> 0 then spriteOverridesPixel screenX screenY 0
            else returnM (False, 0)) (\<lambda>(sprite_wins, color).
     if sprite_wins then returnM color
     else
     bindM (if lcdc AND 0x20 \<noteq> 0 then windowOverridesPixel screenX screenY color
            else returnM (False, color)) (\<lambda>(window_wins, color).
     if window_wins then returnM color
     else if lcdc AND 0x01 \<noteq> 0 then backgroundPixel screenX screenY color
     else returnM color)))"

definition renderLine :: "(('f, 'z) gpu_scheme, unit) M" where
  "renderLine =
     bindM (io_get LCD_LY) (\<lambda>ly.
     bindM (io_get WINDOW_X) (\<lambda>wx.
     bindM (io_get LCDC) (\<lambda>lcdc.
     thenM (whenM (wx \<le> 166 \<or> lcdc AND 0x20 \<noteq> 0)
              (modM (\<lambda>s. s\<lparr>windowOffsetY := windowOffsetY s + 1\<rparr>)))
     (forM [0..<SCREEN_WIDTH] (\<lambda>x.
        bindM (renderPixel (int x) (uint ly)) (\<lambda>pixelColor.
        fe_do (\<lambda>fe. fe_addPixel fe (uint pixelColor) (int x) (uint ly))))))))"

section \<open>The LCD state machine\<close>

definition setLCDStage :: "u8 \<Rightarrow> bool \<Rightarrow> (('f, 'z) gpu_scheme, bool) M" where
  "setLCDStage stage interrupt =
     bindM (io_get LCD_STAT) (\<lambda>stat.
     if stat AND 0x03 \<noteq> stage then
       thenM (whenM interrupt
         (bindM (io_get INTERRUPTS) (\<lambda>i. io_set INTERRUPTS (i OR STAT_INTERRUPT))))
       (bindM (io_get LCD_STAT) (\<lambda>stat.
        thenM (io_set LCD_STAT ((stat AND 0xFC) OR stage))
        (returnM True)))
     else returnM False)"

definition gpu_updateTimers :: "u64 \<Rightarrow> (('f, 'z) gpu_scheme, unit) M" where
  "gpu_updateTimers dt = modM (\<lambda>s. s\<lparr>vCycleCount := vCycleCount s + 4 * dt\<rparr>)"

text \<open>The three modes of a visible line.\<close>

definition lcd_oam_scan :: "(('f, 'z) gpu_scheme, unit) M" where
  "lcd_oam_scan =
     bindM (io_get LCD_STAT) (\<lambda>stat.
     bindM (setLCDStage 0x02 (stat AND 0x20 \<noteq> 0)) (\<lambda>entered.
     whenM entered
       (bindM (io_get LCD_STAT) (\<lambda>stat.
        bindM (io_get LCD_LY) (\<lambda>ly.
        bindM (io_get LCD_LYC) (\<lambda>lyc.
        thenM (io_set LCD_STAT ((stat AND 0xFB) OR (if ly = lyc then push_bit 2 1 else 0)))
        (bindM (io_get LCD_STAT) (\<lambda>stat.
         whenM (stat AND 0x40 \<noteq> 0 \<and> stat AND 0x04 \<noteq> 0)
           (bindM (io_get INTERRUPTS) (\<lambda>i. io_set INTERRUPTS (i OR STAT_INTERRUPT)))))))))))"

definition lcd_transfer :: "(('f, 'z) gpu_scheme, unit) M" where
  "lcd_transfer = bindM (io_get LCD_STAT) (\<lambda>stat. io_set LCD_STAT ((stat AND 0xFC) OR 0x03))"

definition lcd_hblank :: "(('f, 'z) gpu_scheme, unit) M" where
  "lcd_hblank =
     bindM (io_get LCD_STAT) (\<lambda>stat.
     bindM (setLCDStage 0x00 (stat AND 0x08 \<noteq> 0)) (\<lambda>entered.
     whenM entered
       (bindM (fe_call fe_isFrameScheduled) (\<lambda>scheduled.
        whenM scheduled renderLine))))"

definition lcd_vblank :: "(('f, 'z) gpu_scheme, unit) M" where
  "lcd_vblank =
     bindM (io_get LCD_STAT) (\<lambda>stat.
     bindM (setLCDStage 0x01 (stat AND 0x10 \<noteq> 0)) (\<lambda>entered.
     whenM entered
       (bindM (io_get INTERRUPTS) (\<lambda>i. io_set INTERRUPTS (i OR VSYNC_INTERRUPT)))))"

definition lcd_frame_end :: "(('f, 'z) gpu_scheme, unit) M" where
  "lcd_frame_end =
     thenM (fe_do fe_commitRender)
     (thenM (io_set LCD_LY 0)
     (modM (\<lambda>s. s\<lparr>vCycleCount := 0, windowOffsetY := 0\<rparr>)))"

definition updateLCD :: "(('f, 'z) gpu_scheme, bool) M" where
  "updateLCD =
     bindM (io_get LCDC) (\<lambda>lcdc.
     if lcdc AND 0x80 = 0 then
       thenM (modM (\<lambda>s. s\<lparr>vCycleCount := 0\<rparr>))
       (thenM (io_set LCD_LY 0)
       (bindM (io_get LCD_STAT) (\<lambda>stat.
        thenM (io_set LCD_STAT (stat AND 0xFC))
        (returnM False))))
     else
       bindM (getM vCycleCount) (\<lambda>count.
       thenM (io_set LCD_LY (ucast (count div 456)))
       (if count \<le> 65663 then
          thenM (if count mod 456 \<le> 77 then lcd_oam_scan
                 else if between 78 (count mod 456) 246 then lcd_transfer
                 else lcd_hblank)
          (returnM False)
        else if between 65664 count 70223 then
          thenM lcd_vblank (returnM False)
        else
          thenM lcd_frame_end (returnM True))))"

section \<open>Shape and safety\<close>

definition tile_ok :: "Tile \<Rightarrow> bool" where
  "tile_ok t \<longleftrightarrow> length t = 8 \<and> list_all (\<lambda>r. length r = 2) t"

definition map_ok :: "Background \<Rightarrow> bool" where
  "map_ok m \<longleftrightarrow> length m = 0x20 \<and> list_all (\<lambda>r. length r = 0x20) m"

definition patterns_ok :: "Tile list \<Rightarrow> bool" where
  "patterns_ok ts \<longleftrightarrow> length ts = 0x180 \<and> list_all tile_ok ts"

definition maps_ok :: "Background list \<Rightarrow> bool" where
  "maps_ok ms \<longleftrightarrow> length ms = 2 \<and> list_all map_ok ms"

lemma shape_updates:
  "tile_ok t \<Longrightarrow> length r = 2 \<Longrightarrow> tile_ok (t[i := r])"
  "map_ok m \<Longrightarrow> length r = 0x20 \<Longrightarrow> map_ok (m[i := r])"
  "patterns_ok ts \<Longrightarrow> tile_ok t \<Longrightarrow> patterns_ok (ts[i := t])"
  "maps_ok ms \<Longrightarrow> map_ok m \<Longrightarrow> maps_ok (ms[i := m])"
  by (auto simp: tile_ok_def map_ok_def patterns_ok_def maps_ok_def intro: list_all_update)

lemma blank_shapes [simp]:
  "length blank_sprites = 40" "patterns_ok blank_patterns" "maps_ok blank_maps"
  by (simp_all add: blank_sprites_def blank_patterns_def blank_maps_def patterns_ok_def
      maps_ok_def tile_ok_def map_ok_def list_all_iff)

text \<open>
  Rendering only reads: it relies on the shapes of the video memory, whatever the updates the
  invariant allows.
\<close>

locale gpu_shape =
  fixes I :: "('f, 'z) gpu_scheme \<Rightarrow> bool" and E :: "('f, 'z) gpu_scheme \<Rightarrow> exn set"
  assumes sprites_length: "I s \<Longrightarrow> length (sprites s) = 40"
    and patterns_shape: "I s \<Longrightarrow> patterns_ok (patternTables s)"
    and maps_shape: "I s \<Longrightarrow> maps_ok (backgroundMaps s)"
begin

lemma get_shapes:
  "safe I E (getM sprites) (\<lambda>x. length x = 40)"
  "safe I E (getM patternTables) patterns_ok"
  "safe I E (getM backgroundMaps) maps_ok"
  by (simp_all add: safe_getM sprites_length patterns_shape maps_shape)

end

text \<open>The interface of the GPU's invariants: the updates its operations perform.\<close>

locale gpu_inv = iomem_inv I E + gpu_shape I E for I :: "('f, 'z) gpu_scheme \<Rightarrow> bool" and E +
  assumes upd_sprites: "I s \<Longrightarrow> length x = 40 \<Longrightarrow> I (s\<lparr>sprites := x\<rparr>)"
    and upd_patterns: "I s \<Longrightarrow> patterns_ok ts \<Longrightarrow> I (s\<lparr>patternTables := ts\<rparr>)"
    and upd_maps: "I s \<Longrightarrow> maps_ok ms \<Longrightarrow> I (s\<lparr>backgroundMaps := ms\<rparr>)"
    and upd_vcycle: "I s \<Longrightarrow> I (s\<lparr>vCycleCount := c\<rparr>)"
    and upd_window: "I s \<Longrightarrow> I (s\<lparr>windowOffsetY := w\<rparr>)"
    and out_of_range: "I s \<Longrightarrow> OutOfRange \<in> E s"
begin

lemma safe_gpu_reset [safe_intro]: "safe I E gpu_reset (\<lambda>_. True)"
  unfolding gpu_reset_def
  by (rule safe_modM) (intro upd_sprites upd_patterns upd_maps upd_vcycle upd_window; simp)

lemma safe_video_bytes [safe_intro]:
  "safe I E (byteFromSpriteAttributes a) (\<lambda>_. True)"
  "safe I E (byteFromPatternTable a) (\<lambda>_. True)"
  "safe I E (byteFromBackgroundMaps a) (\<lambda>_. True)"
  unfolding byteFromSpriteAttributes_def byteFromPatternTable_def byteFromBackgroundMaps_def Let_def
  by (intro safe_intro safe_indexM disjI2 allI impI out_of_range TrueI; assumption?)+

lemma safe_storeSpriteAttributes [safe_intro]:
  "safe I E (storeSpriteAttributes a v) (\<lambda>_. True)"
  unfolding storeSpriteAttributes_def Let_def
  by (rule safe_bindM_post [OF get_shapes(1)], rule safe_bindM [OF safe_indexM])
     (simp_all add: out_of_range safe_modM upd_sprites)

lemma safe_storePatternTable [safe_intro]: "safe I E (storePatternTable a v) (\<lambda>_. True)"
  unfolding storePatternTable_def Let_def
  by (rule safe_bindM_post [OF get_shapes(2)],
      rule safe_bindM_post [OF safe_indexM_post [where P = tile_ok]],
      simp add: patterns_ok_def, simp add: out_of_range,
      rule safe_bindM_post [OF safe_indexM_post [where P = "\<lambda>r. length r = 2"]],
      simp add: tile_ok_def, simp add: out_of_range,
      rule safe_bindM [OF safe_indexM], simp add: out_of_range,
      rule safe_modM, intro upd_patterns shape_updates) simp_all

lemma safe_storeBackgroundMaps [safe_intro]: "safe I E (storeBackgroundMaps a v) (\<lambda>_. True)"
  unfolding storeBackgroundMaps_def Let_def
  by (rule safe_bindM_post [OF get_shapes(3)],
      rule safe_bindM_post [OF safe_indexM_post [where P = map_ok]],
      simp add: maps_ok_def, simp add: out_of_range,
      rule safe_bindM_post [OF safe_indexM_post [where P = "\<lambda>r. length r = 0x20"]],
      simp add: map_ok_def, simp add: out_of_range,
      rule safe_bindM [OF safe_indexM], simp add: out_of_range,
      rule safe_modM, intro upd_maps shape_updates) simp_all

lemma safe_gpu_access [safe_intro]:
  "safe I E (gpu_readU8 a d) (\<lambda>_. True)"
  "safe I E (gpu_writeU8 a v d) (\<lambda>_. True)"
  unfolding gpu_readU8_def gpu_writeU8_def Let_def
  by (intro safe_intro out_of_range TrueI; assumption?)+

end

lemma unat_mod_bounds:
  "unat ((w :: u16) mod 8) < 8" "unat (w mod 0x20) < 0x20" "unat ((b :: u8) mod 8) < 8"
  by (simp_all add: unat_mod)

lemma map_tile_index:
  "unat (if c then word_of_int (0x100 + sint (e :: u8)) else ucast e :: u16) < 0x180"
proof -
  have "- 128 \<le> sint e" and "sint e < 128"
    using sint_greater_eq [of e] sint_less [of e] by simp_all
  then have "uint (word_of_int (0x100 + sint e) :: u16) = 0x100 + sint e"
    by (intro uint_word_of_int_u16) auto
  with \<open>sint e < 128\<close> have "unat (word_of_int (0x100 + sint e) :: u16) < 0x180"
    by (simp add: unat_eq_nat_uint)
  moreover have "unat (ucast e :: u16) < 0x180"
    using unsigned_less [of e, where ?'a = nat] by (simp add: unsigned_ucast_eq take_bit_eq_mod)
  ultimately show ?thesis by simp
qed

lemma palette_bound: "unat (drop_bit n (p :: u8) AND 0x03) < 4"
  by (rule and_mask_bounds)

lemma plane_amount: "0 \<le> 7 - uint ((w :: u16) mod 8)" "7 - uint (w mod 8) < 8"
  by (simp_all add: uint_mod)

text \<open>A pixel that lies in a sprite has its tile column between 0 and 7, mirrored or not.\<close>

lemma sprite_tileX_bound:
  assumes "\<not> (uint (spr_x a) > screenX + 8 \<or> uint (spr_x a) \<le> screenX)"
  shows "uint (sprite_tileX a screenX) \<le> 7"
proof -
  let ?d = "(8 + screenX) - uint (spr_x a)"
  have d: "0 \<le> ?d" "?d \<le> 7" using assms by auto
  then have u: "uint (word_of_int ?d :: u8) = ?d"
    by (intro uint_word_of_int_u8) auto
  have "uint (7 - word_of_int ?d :: u8) = (7 - ?d) mod 256"
    by (simp only: uint_word_arith_bintrs(2) u take_bit_eq_mod) simp
  also have "\<dots> = 7 - ?d" using d by simp
  finally have m: "uint (7 - word_of_int ?d :: u8) = 7 - ?d" .
  show ?thesis
    unfolding sprite_tileX_def Let_def using d by (simp only: m u split: if_split) simp
qed

context gpu_shape
begin

text \<open>Rendering: no subscript and no shift amount is ever out of range.\<close>

lemma safe_tile_bit:
  "tile_ok t \<Longrightarrow> row < 8 \<Longrightarrow> plane < 2 \<Longrightarrow> 0 \<le> n \<Longrightarrow> n < 8 \<Longrightarrow>
   safe I E (tile_bit t row plane n) (\<lambda>b. b = 0 \<or> b = 1)"
  unfolding tile_bit_def
  by (rule safe_bindM_post [OF safe_indexM_post [where P = "\<lambda>r. length r = 2"]],
      simp add: tile_ok_def, simp add: tile_ok_def,
      rule safe_bindM [OF safe_indexM], simp,
      simp add: safe_returnM and_one_eq mod_2_eq_odd)

lemma safe_pixelFromMap: "safe I E (pixelFromMap x y b) (\<lambda>c. unat c < 4)"
  unfolding pixelFromMap_def Let_def
  apply (rule safe_bindM_post [OF get_shapes(3)])
  apply (rule safe_bindM_post [OF safe_indexM_post [where P = map_ok]])
    apply (simp add: maps_ok_def)
   apply (simp add: maps_ok_def)
  apply (rule safe_bindM_post [OF safe_indexM_post [where P = "\<lambda>r. length r = 0x20"]])
    apply (simp add: map_ok_def)
   apply (simp add: map_ok_def unat_mod_bounds)
  apply (rule safe_bindM [OF safe_indexM])
   apply (simp add: unat_mod_bounds)
  apply (rule safe_bindM [OF safe_io_read])
  apply (rule safe_bindM_post [OF get_shapes(2)])
  apply (rule safe_bindM_post [OF safe_indexM_post [where P = tile_ok]])
    apply (simp add: patterns_ok_def)
   apply (simp only: patterns_ok_def map_tile_index simp_thms)
  apply (rule safe_bindM_post [OF safe_tile_bit]; (simp only: unat_mod_bounds plane_amount)?; simp?)
  apply (rule safe_bindM_post [OF safe_tile_bit]; (simp only: unat_mod_bounds plane_amount)?; simp?)
  apply (rule safe_bindM [OF safe_io_read])
  apply (rule safe_returnM)
  apply (rule palette_bound)
  done

lemma safe_backgroundPixel: "unat c < 4 \<Longrightarrow> safe I E (backgroundPixel x y c) (\<lambda>c. unat c < 4)"
  unfolding backgroundPixel_def
  by (intro safe_bindM [OF safe_io_read] safe_bindM_post [OF safe_pixelFromMap] safe_returnM) simp

lemma safe_windowOverridesPixel:
  "unat c < 4 \<Longrightarrow> safe I E (windowOverridesPixel x y c) (\<lambda>(_, c). unat c < 4)"
  unfolding windowOverridesPixel_def Let_def
  by (intro safe_bindM [OF safe_io_read] safe_bindM [OF safe_getM_top] safe_if
        safe_bindM_post [OF safe_pixelFromMap] safe_returnM) simp_all

lemma safe_sprite_colorIndex:
  assumes "\<not> (uint (spr_x a) > x + 8 \<or> uint (spr_x a) \<le> x)"
  shows "safe I E (sprite_colorIndex a h x y) (\<lambda>_. True)"
proof -
  have amount: "0 \<le> 7 - uint (sprite_tileX a x)" "7 - uint (sprite_tileX a x) < 8"
    using sprite_tileX_bound [OF assms] uint_ge_0 [of "sprite_tileX a x"] by linarith+
  have index: "i < length ts" if "patterns_ok ts" and "i = unat t" for i ts and t :: u8
    using that unsigned_less [of t, where ?'a = nat] by (simp add: patterns_ok_def)
  show ?thesis
    unfolding sprite_colorIndex_def Let_def
    apply (rule safe_bindM [OF safe_io_read])
    apply (rule safe_bindM_post [OF get_shapes(2)])
    apply (rule safe_bindM_post [OF safe_indexM_post [where P = tile_ok]])
      apply (simp add: patterns_ok_def)
     apply (rule disjI1, erule index, rule refl)
    apply (rule safe_bindM_post [OF safe_tile_bit]; (simp only: unat_mod_bounds amount)?; simp?)
    apply (rule safe_bindM_post [OF safe_tile_bit]; (simp only: unat_mod_bounds amount)?; simp?)
    apply (rule safe_returnM, rule TrueI)
    done
qed

lemma safe_sprite_scan:
  "unat c < 4 \<Longrightarrow> safe I E (sprite_scan x y h n as c) (\<lambda>(_, c). unat c < 4)"
proof (induction as arbitrary: n)
  case Nil
  then show ?case by (simp add: safe_returnM)
next
  case (Cons a as)
  then show ?case
    unfolding sprite_scan.simps
    by (intro safe_if safe_bindM [OF safe_sprite_colorIndex] safe_bindM [OF safe_io_read]
          safe_returnM) (simp_all add: and_mask_bounds)
qed

lemma safe_renderPixel: "safe I E (renderPixel x y) (\<lambda>c. unat c < 4)"
proof -
  have sprite: "safe I E (if lcdc AND 0x02 \<noteq> 0 then spriteOverridesPixel x y 0 else returnM (False, 0))
      (\<lambda>(_, c). unat c < 4)" for lcdc :: u8
    unfolding spriteOverridesPixel_def
    by (intro safe_if safe_bindM [OF safe_io_read] safe_bindM [OF safe_getM_top] safe_sprite_scan
          safe_returnM) simp_all
  have window: "safe I E (if lcdc AND 0x20 \<noteq> 0 then windowOverridesPixel x y c else returnM (False, c))
      (\<lambda>(_, c). unat c < 4)" if "unat c < 4" for lcdc c :: u8
    using that by (intro safe_if safe_windowOverridesPixel safe_returnM) simp_all
  show ?thesis
    unfolding renderPixel_def
    by (intro safe_bindM [OF safe_io_read] safe_bindM_post [OF sprite] safe_bindM_post [OF window]
          safe_prod safe_if safe_backgroundPixel safe_returnM) auto
qed

end

context gpu_inv
begin

lemma safe_renderLine [safe_intro]: "safe I E renderLine (\<lambda>_. True)"
  unfolding renderLine_def
  by (intro safe_intro safe_modM upd_window TrueI safe_renderPixel [THEN safe_top])

lemma safe_setLCDStage [safe_intro]: "safe I E (setLCDStage st b) (\<lambda>_. True)"
  unfolding setLCDStage_def by (intro safe_intro TrueI)

lemma safe_lcd_modes [safe_intro]:
  "safe I E lcd_oam_scan (\<lambda>_. True)" "safe I E lcd_transfer (\<lambda>_. True)"
  "safe I E lcd_hblank (\<lambda>_. True)" "safe I E lcd_vblank (\<lambda>_. True)"
  unfolding lcd_oam_scan_def lcd_transfer_def lcd_hblank_def lcd_vblank_def
  by (intro safe_intro TrueI)+

lemma safe_lcd_frame_end [safe_intro]: "safe I E lcd_frame_end (\<lambda>_. True)"
  unfolding lcd_frame_end_def
  by (intro safe_intro safe_modM upd_window upd_vcycle TrueI)

lemma safe_gpu_updateTimers [safe_intro]: "safe I E (gpu_updateTimers dt) (\<lambda>_. True)"
  unfolding gpu_updateTimers_def by (intro safe_modM upd_vcycle)

lemma safe_updateLCD [safe_intro]: "safe I E updateLCD (\<lambda>_. True)"
  unfolding updateLCD_def by (intro safe_intro safe_modM upd_vcycle TrueI)

end

definition gpu_ok :: "('f, 'z) gpu_scheme \<Rightarrow> bool" where
  "gpu_ok s \<longleftrightarrow> iomem_ok s \<and> length (sprites s) = 40 \<and> patterns_ok (patternTables s) \<and>
     maps_ok (backgroundMaps s)"

interpretation gpu_memory: gpu_inv gpu_ok "\<lambda>_. no_ub"
  by unfold_locales (auto simp: gpu_ok_def iomem_ok_def count_error_def flush_ok_def)

end
