(* ===== verification/Apu.thy ===== *)
theory Apu
  imports Gpu
begin

text \<open>
  \<^verbatim>\<open>libgb/io/apu.hpp\<close> and \<^verbatim>\<open>apu.cpp\<close>: the four sound channels,
  their registers, the divider-driven length, envelope and sweep events, the audio clock
  and the sample buffer. \<open>size_t\<close> is 64 bits wide and wraps. A sample is the
  input of the floating-point mixer at the end of \<open>sample_audio\<close> (\<open>AudioSample\<close>),
  which is modelled in the theory \<open>Mixer\<close>. A failed \<open>assert\<close> is the exception
  \<open>AssertFailed\<close>.
\<close>

section \<open>Registers and state\<close>

abbreviation (input) "FIRST_APU_REGISTER \<equiv> 0x10 :: nat"
abbreviation (input) "LAST_APU_REGISTER \<equiv> 0x26 :: nat"
abbreviation (input) "CHANNEL1_SWEEP \<equiv> 0x10 :: nat"
abbreviation (input) "CHANNEL1_LENGTH_DUTY \<equiv> 0x11 :: nat"
abbreviation (input) "CHANNEL1_VOLUME_ENVELOPE \<equiv> 0x12 :: nat"
abbreviation (input) "CHANNEL1_PERIOD_LOW \<equiv> 0x13 :: nat"
abbreviation (input) "CHANNEL1_CTL \<equiv> 0x14 :: nat"
abbreviation (input) "CHANNEL2_LENGTH_DUTY \<equiv> 0x16 :: nat"
abbreviation (input) "CHANNEL2_VOLUME_ENVELOPE \<equiv> 0x17 :: nat"
abbreviation (input) "CHANNEL2_PERIOD_LOW \<equiv> 0x18 :: nat"
abbreviation (input) "CHANNEL2_CTL \<equiv> 0x19 :: nat"
abbreviation (input) "CHANNEL3_DAC \<equiv> 0x1A :: nat"
abbreviation (input) "CHANNEL3_LENGTH_TIMER \<equiv> 0x1B :: nat"
abbreviation (input) "CHANNEL3_VOLUME \<equiv> 0x1C :: nat"
abbreviation (input) "CHANNEL3_PERIOD_LOW \<equiv> 0x1D :: nat"
abbreviation (input) "CHANNEL3_CTL \<equiv> 0x1E :: nat"
abbreviation (input) "CHANNEL4_LENGTH_TIMER \<equiv> 0x20 :: nat"
abbreviation (input) "CHANNEL4_VOLUME_ENVELOPE \<equiv> 0x21 :: nat"
abbreviation (input) "CHANNEL4_RANDOMNESS \<equiv> 0x22 :: nat"
abbreviation (input) "CHANNEL4_CTL \<equiv> 0x23 :: nat"
abbreviation (input) "MASTER_VOLUME \<equiv> 0x24 :: nat"
abbreviation (input) "SOUND_PANNING \<equiv> 0x25 :: nat"
abbreviation (input) "AUDIO_MASTER_CTL \<equiv> 0x26 :: nat"
abbreviation (input) "WAVE_PATTERN_START \<equiv> 0x30 :: nat"
abbreviation (input) "WAVE_PATTERN_LAST \<equiv> 0x3F :: nat"

record BasicChannelRegisters =
  r_length :: nat
  r_volume_envelope :: nat
  r_ctl :: nat
  r_frequency :: nat

definition Channel1Registers :: BasicChannelRegisters where
  "Channel1Registers = \<lparr>r_length = CHANNEL1_LENGTH_DUTY,
     r_volume_envelope = CHANNEL1_VOLUME_ENVELOPE, r_ctl = CHANNEL1_CTL,
     r_frequency = CHANNEL1_PERIOD_LOW\<rparr>"

definition Channel2Registers :: BasicChannelRegisters where
  "Channel2Registers = \<lparr>r_length = CHANNEL2_LENGTH_DUTY,
     r_volume_envelope = CHANNEL2_VOLUME_ENVELOPE, r_ctl = CHANNEL2_CTL,
     r_frequency = CHANNEL2_PERIOD_LOW\<rparr>"

definition Channel3Registers :: BasicChannelRegisters where
  "Channel3Registers = \<lparr>r_length = CHANNEL3_LENGTH_TIMER,
     r_volume_envelope = CHANNEL3_VOLUME, r_ctl = CHANNEL3_CTL,
     r_frequency = CHANNEL3_PERIOD_LOW\<rparr>"

definition Channel4Registers :: BasicChannelRegisters where
  "Channel4Registers = \<lparr>r_length = CHANNEL4_LENGTH_TIMER,
     r_volume_envelope = CHANNEL4_VOLUME_ENVELOPE, r_ctl = CHANNEL4_CTL,
     r_frequency = CHANNEL4_RANDOMNESS\<rparr>"

lemmas channel_registers_defs =
  Channel1Registers_def Channel2Registers_def Channel3Registers_def Channel4Registers_def

record BasicChannel =
  ch_regs :: BasicChannelRegisters
  length_timer :: u64
  peek_level :: u64
  envelope_sweep_pace :: u64
  envelope_timer :: u64
  sample_point :: u64
  ch_counter :: u64
  current_output_level :: u8
  envelope_increases :: bool
  channel_on :: bool

definition new_channel :: "BasicChannelRegisters \<Rightarrow> BasicChannel" where
  "new_channel rs = \<lparr>ch_regs = rs, length_timer = 0, peek_level = 0, envelope_sweep_pace = 0,
     envelope_timer = 0, sample_point = 0, ch_counter = 0, current_output_level = 0,
     envelope_increases = False, channel_on = False\<rparr>"

record 'f apu = "'f gpu" +
  m_gameboy_clocks_per_host_sample :: u64
  m_clocks_till_sample :: u64
  m_last_clock :: u64
  m_div_apu_counter :: u64
  m_last_div_value :: u64
  m_apu_has_power :: bool
  m_channel1 :: BasicChannel
  m_channel2 :: BasicChannel
  m_channel3 :: BasicChannel
  m_channel4 :: BasicChannel
  m_channel1_sweep_countdown :: u64
  m_channel1_sweep_active :: bool
  m_channel1_sweep_locked_until_trigger :: bool
  m_channel4_lsr :: u16
  m_samples_since_last_flush :: "AudioSample list"

text \<open>A \<open>BasicChannel&\<close> parameter names one of the four channels.\<close>

datatype channel_id = CH1 | CH2 | CH3 | CH4

fun get_ch :: "channel_id \<Rightarrow> ('f, 'z) apu_scheme \<Rightarrow> BasicChannel" where
  "get_ch CH1 s = m_channel1 s"
| "get_ch CH2 s = m_channel2 s"
| "get_ch CH3 s = m_channel3 s"
| "get_ch CH4 s = m_channel4 s"

fun set_ch :: "channel_id \<Rightarrow> BasicChannel \<Rightarrow> ('f, 'z) apu_scheme \<Rightarrow> ('f, 'z) apu_scheme" where
  "set_ch CH1 c s = s\<lparr>m_channel1 := c\<rparr>"
| "set_ch CH2 c s = s\<lparr>m_channel2 := c\<rparr>"
| "set_ch CH3 c s = s\<lparr>m_channel3 := c\<rparr>"
| "set_ch CH4 c s = s\<lparr>m_channel4 := c\<rparr>"

definition getC :: "channel_id \<Rightarrow> (('f, 'z) apu_scheme, BasicChannel) M" where
  "getC i = getM (get_ch i)"

definition updC :: "channel_id \<Rightarrow> (BasicChannel \<Rightarrow> BasicChannel) \<Rightarrow> (('f, 'z) apu_scheme, unit) M" where
  "updC i f = modM (\<lambda>s. set_ch i (f (get_ch i s)) s)"

definition assertM :: "bool \<Rightarrow> ('s, unit) M" where
  "assertM b = (if b then returnM () else raiseM AssertFailed)"

section \<open>Periods\<close>

definition pulses :: "bool list list" where
  "pulses =
     [[True, True, True, True, True, True, True, False],
      [False, True, True, True, True, True, True, False],
      [False, True, True, True, True, False, False, False],
      [True, False, False, False, False, False, False, True]]"

definition read_channel_period :: "nat \<Rightarrow> nat \<Rightarrow> (('f, 'z) apu_scheme, u16) M" where
  "read_channel_period lower_addr upper_addr =
     bindM (io_get lower_addr) (\<lambda>lo.
     bindM (io_get upper_addr) (\<lambda>hi.
     returnM (ucast lo OR push_bit 8 (ucast (hi AND 0b111)))))"

definition write_channel_period :: "nat \<Rightarrow> nat \<Rightarrow> u16 \<Rightarrow> (('f, 'z) apu_scheme, unit) M" where
  "write_channel_period lower_addr upper_addr v =
     thenM (assertM (v < 2048))
     (thenM (io_set lower_addr (ucast (v AND 0xFF)))
     (bindM (io_get upper_addr) (\<lambda>hi.
      io_set upper_addr ((hi AND 0xF8) OR ucast (drop_bit 8 v)))))"

section \<open>Events of the divider\<close>

definition envelope_sweep_event :: "channel_id \<Rightarrow> (('f, 'z) apu_scheme, unit) M" where
  "envelope_sweep_event i =
     bindM (getC i) (\<lambda>c.
     whenM (envelope_sweep_pace c \<noteq> 0)
       (thenM (updC i (\<lambda>c. c\<lparr>envelope_timer := envelope_timer c - 1\<rparr>))
       (bindM (getC i) (\<lambda>c.
        whenM (envelope_timer c = 0)
          (updC i (\<lambda>c. c\<lparr>envelope_timer := envelope_sweep_pace c,
             peek_level := (if envelope_increases c then min (peek_level c + 1) 0x0F
                            else if peek_level c = 0 then 0 else peek_level c - 1)\<rparr>))))))"

definition sound_length_event_channel3 :: "(('f, 'z) apu_scheme, unit) M" where
  "sound_length_event_channel3 =
     bindM (io_get CHANNEL3_CTL) (\<lambda>ctl.
     whenM (ctl AND 0x40 \<noteq> 0)
       (thenM (updC CH3 (\<lambda>c. c\<lparr>length_timer := length_timer c + 1\<rparr>))
       (thenM (bindM (getC CH3) (\<lambda>c.
          whenM (length_timer c = 256)
            (updC CH3 (\<lambda>c. c\<lparr>channel_on := False, length_timer := 0\<rparr>))))
       (bindM (getC CH3) (\<lambda>c.
        io_set CHANNEL3_LENGTH_TIMER (ucast (length_timer c)))))))"

definition sound_length_event :: "channel_id \<Rightarrow> (('f, 'z) apu_scheme, unit) M" where
  "sound_length_event i =
     bindM (getC i) (\<lambda>c.
     bindM (io_get (r_ctl (ch_regs c))) (\<lambda>ctl.
     whenM (ctl AND 0x40 \<noteq> 0)
       (thenM (updC i (\<lambda>c. c\<lparr>length_timer := length_timer c + 1\<rparr>))
       (thenM (bindM (getC i) (\<lambda>c.
          whenM (length_timer c = 64)
            (updC i (\<lambda>c. c\<lparr>channel_on := False, length_timer := 0\<rparr>))))
       (bindM (getC i) (\<lambda>c.
        bindM (io_get (r_length (ch_regs c))) (\<lambda>v.
        io_set (r_length (ch_regs c)) (ucast (ucast (v AND 0xC0) OR length_timer c)))))))))"

definition channel1_sweep_calculate_or_overflow :: "(('f, 'z) apu_scheme, u64) M" where
  "channel1_sweep_calculate_or_overflow =
     bindM (io_get CHANNEL1_SWEEP) (\<lambda>cfg.
     bindM (read_channel_period CHANNEL1_PERIOD_LOW CHANNEL1_CTL) (\<lambda>period.
     let sweep_is_positive = (cfg AND push_bit 3 1 = 0);
         sweep_step = unat (cfg AND 0b111);
         period_delta = drop_bit sweep_step period in
     if sweep_is_positive then
       thenM (whenM (2048 \<le> uint period + uint period_delta)
         (thenM (updC CH1 (\<lambda>c. c\<lparr>channel_on := False\<rparr>))
         (modM (\<lambda>s. s\<lparr>m_channel1_sweep_active := False\<rparr>))))
       (returnM (word_of_int (uint period + uint period_delta)))
     else returnM (word_of_int (uint period - uint period_delta))))"

definition rearm_channel1_sweep :: "(('f, 'z) apu_scheme, unit) M" where
  "rearm_channel1_sweep =
     bindM (io_get CHANNEL1_SWEEP) (\<lambda>cfg.
     let countdown = drop_bit 4 cfg AND 0b111;
         sweep_step = cfg AND 0b111;
         active = (countdown \<noteq> 0) in
     thenM (modM (\<lambda>s. s\<lparr>m_channel1_sweep_countdown := ucast countdown,
              m_channel1_sweep_active := active,
              m_channel1_sweep_locked_until_trigger := (active \<or> (\<not> active \<and> sweep_step = 0))\<rparr>))
     (whenM (sweep_step \<noteq> 0)
        (bindM channel1_sweep_calculate_or_overflow (\<lambda>_. returnM ()))))"

definition channel1_sweep_iteration :: "u8 \<Rightarrow> (('f, 'z) apu_scheme, unit) M" where
  "channel1_sweep_iteration cfg =
     bindM channel1_sweep_calculate_or_overflow (\<lambda>new_period.
     bindM (getM m_channel1_sweep_active) (\<lambda>active.
     thenM (whenM (active \<and> cfg AND 0b111 \<noteq> 0)
       (write_channel_period CHANNEL1_PERIOD_LOW CHANNEL1_CTL (ucast new_period)))
     rearm_channel1_sweep))"

definition ch1_freq_sweep_event :: "(('f, 'z) apu_scheme, unit) M" where
  "ch1_freq_sweep_event =
     bindM (io_get CHANNEL1_SWEEP) (\<lambda>cfg.
     bindM (getC CH1) (\<lambda>c.
     whenM (channel_on c)
       (bindM (getM m_channel1_sweep_countdown) (\<lambda>countdown.
        thenM (whenM (countdown \<noteq> 0) (modM (\<lambda>s. s\<lparr>m_channel1_sweep_countdown := countdown - 1\<rparr>)))
        (bindM (getM m_channel1_sweep_countdown) (\<lambda>countdown.
         bindM (getM m_channel1_sweep_active) (\<lambda>active.
         whenM (countdown = 0 \<and> active) (channel1_sweep_iteration cfg))))))))"

definition tick_div_apu :: "(('f, 'z) apu_scheme, unit) M" where
  "tick_div_apu =
     bindM (io_get DIV_TIMER) (\<lambda>d.
     let div_timer = ucast d :: u64 in
     bindM (getM m_last_div_value) (\<lambda>last.
     let last_div_timer_bit4 = drop_bit 4 last AND 1;
         current_div_timer_bit4 = drop_bit 4 div_timer AND 1;
         did_tick_div_apu = (last_div_timer_bit4 = 1 \<and> current_div_timer_bit4 = 0) in
     thenM (modM (\<lambda>s. s\<lparr>m_last_div_value := div_timer\<rparr>))
     (whenM did_tick_div_apu
        (thenM (modM (\<lambda>s. s\<lparr>m_div_apu_counter := m_div_apu_counter s + 1\<rparr>))
        (bindM (getM m_div_apu_counter) (\<lambda>n.
         thenM (whenM (n mod 8 = 0)
           (thenM (envelope_sweep_event CH1)
           (thenM (envelope_sweep_event CH2)
           (envelope_sweep_event CH4))))
         (thenM (whenM (n mod 2 = 0)
           (thenM (sound_length_event CH1)
           (thenM (sound_length_event CH2)
           (thenM (sound_length_event CH4)
           sound_length_event_channel3))))
         (whenM (n mod 4 = 0) ch1_freq_sweep_event))))))))"

section \<open>Triggers and power\<close>

definition rearm_pwm_channel_length :: "channel_id \<Rightarrow> (('f, 'z) apu_scheme, unit) M" where
  "rearm_pwm_channel_length i =
     bindM (getC i) (\<lambda>c.
     bindM (io_get (r_length (ch_regs c))) (\<lambda>v.
     updC i (\<lambda>c. c\<lparr>length_timer := ucast (v AND 0b111111)\<rparr>)))"

definition rearm_channel3_length :: "(('f, 'z) apu_scheme, unit) M" where
  "rearm_channel3_length =
     bindM (io_get CHANNEL3_LENGTH_TIMER) (\<lambda>v. updC CH3 (\<lambda>c. c\<lparr>length_timer := ucast v\<rparr>))"

definition rearm_pwm_channel_volume_envelope :: "channel_id \<Rightarrow> (('f, 'z) apu_scheme, unit) M" where
  "rearm_pwm_channel_volume_envelope i =
     bindM (getC i) (\<lambda>c.
     bindM (io_get (r_volume_envelope (ch_regs c))) (\<lambda>cfg.
     updC i (\<lambda>c. c\<lparr>envelope_sweep_pace := ucast (cfg AND 0b111),
                    envelope_timer := ucast (cfg AND 0b111),
                    envelope_increases := (cfg AND 0b1000 \<noteq> 0),
                    peek_level := ucast (drop_bit 4 cfg)\<rparr>)))"

definition rearm_channel3_volume :: "(('f, 'z) apu_scheme, unit) M" where
  "rearm_channel3_volume =
     bindM (io_get CHANNEL3_VOLUME) (\<lambda>v.
     updC CH3 (\<lambda>c. c\<lparr>peek_level := ucast (drop_bit 5 v AND 0b11)\<rparr>))"

definition trigger_channel3 :: "(('f, 'z) apu_scheme, unit) M" where
  "trigger_channel3 =
     bindM (io_get CHANNEL3_DAC) (\<lambda>dac.
     thenM (updC CH3 (\<lambda>c. c\<lparr>channel_on := (dac AND 0x80 \<noteq> 0), sample_point := 0, ch_counter := 0\<rparr>))
     rearm_channel3_volume)"

definition trigger_pwm_channel :: "channel_id \<Rightarrow> (('f, 'z) apu_scheme, unit) M" where
  "trigger_pwm_channel i =
     bindM (getC i) (\<lambda>c.
     bindM (io_get (r_volume_envelope (ch_regs c))) (\<lambda>v.
     thenM (updC i (\<lambda>c. c\<lparr>channel_on := (drop_bit 3 v \<noteq> 0), sample_point := 0, ch_counter := 0\<rparr>))
     (thenM (whenM (i = CH1) rearm_channel1_sweep)
     (thenM (whenM (i = CH4) (modM (\<lambda>s. s\<lparr>m_channel4_lsr := 0\<rparr>)))
     (thenM (rearm_pwm_channel_volume_envelope i)
     (rearm_pwm_channel_length i))))))"

definition power_up :: "(('f, 'z) apu_scheme, unit) M" where
  "power_up =
     thenM (modM (\<lambda>s. s\<lparr>m_apu_has_power := True\<rparr>))
     (bindM (io_get AUDIO_MASTER_CTL) (\<lambda>v. io_set AUDIO_MASTER_CTL (v OR 0x80)))"

definition power_down :: "(('f, 'z) apu_scheme, unit) M" where
  "power_down =
     thenM (modM (\<lambda>s. s\<lparr>m_apu_has_power := False\<rparr>))
     (thenM (bindM (io_get AUDIO_MASTER_CTL) (\<lambda>v. io_set AUDIO_MASTER_CTL (v AND 0x7F)))
     (modM (\<lambda>s. s\<lparr>io_memory := take FIRST_APU_REGISTER (io_memory s) @
        replicate (LAST_APU_REGISTER - FIRST_APU_REGISTER) 0 @
        drop LAST_APU_REGISTER (io_memory s)\<rparr>)))"

section \<open>Register access\<close>

text \<open>
  The pointer \<open>channel\<close> of \<open>APU::write\<close>: \<open>None\<close> is the null pointer.
  The register range from \<open>CHANNEL3_DAC\<close> to \<open>CHANNEL4_CTL\<close> selects channel 4.
\<close>

definition written_channel :: "nat \<Rightarrow> channel_id option" where
  "written_channel io_reg =
     (if between CHANNEL1_SWEEP io_reg CHANNEL1_CTL then Some CH1
      else if between CHANNEL2_LENGTH_DUTY io_reg CHANNEL2_CTL then Some CH2
      else if between CHANNEL3_DAC io_reg CHANNEL4_CTL then Some CH4
      else None)"

definition with_channel ::
  "channel_id option \<Rightarrow> (channel_id \<Rightarrow> ('s, unit) M) \<Rightarrow> ('s, unit) M" where
  "with_channel ch f = (case ch of None \<Rightarrow> raiseM AssertFailed | Some i \<Rightarrow> f i)"

definition apu_write :: "u16 \<Rightarrow> u8 \<Rightarrow> (('f, 'z) apu_scheme, unit) M" where
  "apu_write addr v =
     (let io_reg = unat (addr - 0xFF00) in
      if io_reg = AUDIO_MASTER_CTL then (if v AND 0x80 \<noteq> 0 then power_up else power_down)
      else bindM (getM m_apu_has_power) (\<lambda>powered.
      if \<not> powered then returnM () else
      let channel = written_channel io_reg in
      thenM (io_set_at io_reg v)
      (if io_reg = CHANNEL1_SWEEP then
         bindM (getM m_channel1_sweep_locked_until_trigger) (\<lambda>locked.
         if locked then
           whenM (drop_bit 4 v AND 0b111 = 0) (modM (\<lambda>s. s\<lparr>m_channel1_sweep_active := False\<rparr>))
         else rearm_channel1_sweep)
       else if io_reg \<in> {CHANNEL1_CTL, CHANNEL2_CTL, CHANNEL4_CTL} then
         whenM (v AND 0x80 \<noteq> 0) (with_channel channel trigger_pwm_channel)
       else if io_reg = CHANNEL3_CTL then
         whenM (v AND 0x80 \<noteq> 0) trigger_channel3
       else if io_reg \<in> {CHANNEL1_LENGTH_DUTY, CHANNEL2_LENGTH_DUTY, CHANNEL4_LENGTH_TIMER} then
         with_channel channel rearm_pwm_channel_length
       else if io_reg = CHANNEL3_LENGTH_TIMER then rearm_channel3_length
       else if io_reg \<in> {CHANNEL1_VOLUME_ENVELOPE, CHANNEL2_VOLUME_ENVELOPE, CHANNEL4_VOLUME_ENVELOPE} then
         whenM (drop_bit 3 v = 0)
           (with_channel channel (\<lambda>i. updC i (\<lambda>c. c\<lparr>channel_on := False\<rparr>)))
       else if io_reg = CHANNEL3_DAC then
         whenM (v AND 0x80 = 0) (updC CH3 (\<lambda>c. c\<lparr>channel_on := False\<rparr>))
       else returnM ())))"

definition unreadable_mask :: "nat \<Rightarrow> u8" where
  "unreadable_mask io_reg =
     (if io_reg \<in> {SOUND_PANNING, MASTER_VOLUME, CHANNEL1_VOLUME_ENVELOPE, CHANNEL2_VOLUME_ENVELOPE,
                   CHANNEL4_VOLUME_ENVELOPE, CHANNEL4_RANDOMNESS} \<or>
         between WAVE_PATTERN_START io_reg WAVE_PATTERN_LAST then 0x00
      else if io_reg \<in> {CHANNEL1_LENGTH_DUTY, CHANNEL2_LENGTH_DUTY} then 0b111111
      else if io_reg = CHANNEL1_SWEEP then 0x80
      else if io_reg \<in> {CHANNEL1_CTL, CHANNEL2_CTL, CHANNEL3_CTL, CHANNEL4_CTL} then 0xBF
      else if io_reg = CHANNEL3_DAC then 0x7F
      else if io_reg = CHANNEL3_VOLUME then 0x9F
      else 0xFF)"

definition power_status :: "('f, 'z) apu_scheme \<Rightarrow> u8" where
  "power_status s =
     (if \<not> m_apu_has_power s then 0x70 else
      0xF0 OR push_bit 3 (of_bool (channel_on (m_channel4 s))) OR
              push_bit 2 (of_bool (channel_on (m_channel3 s))) OR
              push_bit 1 (of_bool (channel_on (m_channel2 s))) OR
              of_bool (channel_on (m_channel1 s)))"

definition apu_read :: "u16 \<Rightarrow> (('f, 'z) apu_scheme, u8) M" where
  "apu_read addr =
     (let io_reg = unat (addr - 0xFF00) in
      if io_reg = AUDIO_MASTER_CTL then getM power_status
      else bindM (io_get_at io_reg) (\<lambda>v. returnM (v OR unreadable_mask io_reg)))"

section \<open>The audio clock\<close>

definition pulse_is_high :: "u8 \<Rightarrow> u64 \<Rightarrow> ('s, bool) M" where
  "pulse_is_high length_duty point =
     (let current_duty = drop_bit 6 length_duty in
      thenM (assertM (current_duty < 4))
      (bindM (indexM UndefinedBehaviour pulses (unat current_duty)) (\<lambda>pulse.
       indexM UndefinedBehaviour pulse (unat point))))"

definition tick_pulse_channel :: "channel_id \<Rightarrow> (('f, 'z) apu_scheme, unit) M" where
  "tick_pulse_channel i =
     bindM (getC i) (\<lambda>c.
     whenM (channel_on c)
       (thenM (updC i (\<lambda>c. c\<lparr>ch_counter := ch_counter c + 1\<rparr>))
       (whenM (ch_counter c + 1 = 0x800)
         (bindM (read_channel_period (r_frequency (ch_regs c)) (r_ctl (ch_regs c))) (\<lambda>period.
          let point = (sample_point c + 1) mod 8 in
          thenM (updC i (\<lambda>c. c\<lparr>ch_counter := ucast period, sample_point := point\<rparr>))
          (bindM (io_get (r_length (ch_regs c))) (\<lambda>len.
           bindM (pulse_is_high len point) (\<lambda>high.
           updC i (\<lambda>c. c\<lparr>current_output_level :=
             (if high then ucast (peek_level c) else 0)\<rparr>)))))))))"

definition wave_level :: "u64 \<Rightarrow> u8 \<Rightarrow> ('s, u8) M" where
  "wave_level level sample =
     (if level = 0 then returnM 0
      else if level = 1 then returnM sample
      else if level = 2 then returnM (drop_bit 1 sample)
      else if level = 3 then returnM (drop_bit 2 sample)
      else raiseM AssertFailed)"

definition wave_sample :: "u64 \<Rightarrow> (('f, 'z) apu_scheme, u8) M" where
  "wave_sample point =
     (let offset_in_pattern = unat (point div 2);
          offset_in_byte = 4 * (1 - unat (point mod 2)) in
      bindM (io_get_at (WAVE_PATTERN_START + offset_in_pattern)) (\<lambda>byte.
      returnM (drop_bit offset_in_byte byte AND 0x0F)))"

definition tick_channel3 :: "(('f, 'z) apu_scheme, unit) M" where
  "tick_channel3 =
     bindM (getC CH3) (\<lambda>c.
     whenM (channel_on c)
       (thenM (updC CH3 (\<lambda>c. c\<lparr>ch_counter := ch_counter c + 1\<rparr>))
       (whenM (ch_counter c + 1 = 0x800)
         (bindM (read_channel_period (r_frequency (ch_regs c)) (r_ctl (ch_regs c))) (\<lambda>period.
          let point = (sample_point c + 1) mod 32 in
          thenM (updC CH3 (\<lambda>c. c\<lparr>ch_counter := ucast period, sample_point := point\<rparr>))
          (bindM (wave_sample point) (\<lambda>sample.
           bindM (wave_level (peek_level c) sample) (\<lambda>level.
           updC CH3 (\<lambda>c. c\<lparr>current_output_level := level\<rparr>)))))))))"

definition tick_channel4 :: "(('f, 'z) apu_scheme, unit) M" where
  "tick_channel4 =
     bindM (getC CH4) (\<lambda>c.
     whenM (channel_on c)
       (thenM (updC CH4 (\<lambda>c. c\<lparr>ch_counter := ch_counter c - 1\<rparr>))
       (whenM (ch_counter c - 1 = 0)
         (bindM (io_get CHANNEL4_RANDOMNESS) (\<lambda>config_reg.
          let divider = ucast (config_reg AND 0b111) :: u64;
              clock_shift = unat (drop_bit 4 config_reg);
              short_mode = (config_reg AND push_bit 3 1 \<noteq> 0) in
          thenM (updC CH4 (\<lambda>c. c\<lparr>ch_counter := push_bit (clock_shift + 2) divider\<rparr>))
          (bindM (getM m_channel4_lsr) (\<lambda>lsr.
           let new_bit15 = \<not> (lsr AND 0b01 \<noteq> 0 \<and> lsr AND 0b10 \<noteq> 0);
               shifted = drop_bit 1 lsr OR push_bit 15 (of_bool new_bit15);
               lsr' = (if short_mode then shifted OR push_bit 7 (of_bool new_bit15) else shifted) in
           thenM (modM (\<lambda>s. s\<lparr>m_channel4_lsr := lsr'\<rparr>))
           (thenM (assertM (peek_level c \<le> 0x0F))
           (updC CH4 (\<lambda>c. c\<lparr>current_output_level :=
              (if lsr' AND 1 = 0 then 0 else ucast (peek_level c))\<rparr>))))))))))"

definition tick_audio :: "(('f, 'z) apu_scheme, unit) M" where
  "tick_audio =
     bindM (getM m_last_clock) (\<lambda>t.
     thenM (whenM (t mod 2 = 0) tick_channel3)
     (whenM (t mod 4 = 0)
        (thenM (tick_pulse_channel CH1)
        (thenM (tick_pulse_channel CH2)
        tick_channel4))))"

definition dac_level :: "BasicChannel \<Rightarrow> u8 option" where
  "dac_level c = (if channel_on c then Some (current_output_level c) else None)"

definition mixer_input :: "('f, 'z) apu_scheme \<Rightarrow> AudioSample" where
  "mixer_input s =
     \<lparr>dac1 = dac_level (m_channel1 s), dac2 = dac_level (m_channel2 s),
      dac3 = dac_level (m_channel3 s), dac4 = dac_level (m_channel4 s),
      sample_panning = io_memory s ! SOUND_PANNING, sample_volume = io_memory s ! MASTER_VOLUME\<rparr>"

definition sample_audio :: "(('f, 'z) apu_scheme, unit) M" where
  "sample_audio =
     bindM (getM m_clocks_till_sample) (\<lambda>n.
     if n \<noteq> 0 then modM (\<lambda>s. s\<lparr>m_clocks_till_sample := n - 1\<rparr>)
     else thenM (modM (\<lambda>s. s\<lparr>m_clocks_till_sample := m_gameboy_clocks_per_host_sample s\<rparr>))
       (modM (\<lambda>s. s\<lparr>m_samples_since_last_flush := m_samples_since_last_flush s @ [mixer_input s]\<rparr>)))"

text \<open>
  The loop of \<open>clock_to\<close> with fuel. It stops when the clock, which wraps, reaches the
  target: \<open>target - m_last_clock\<close> iterations, the fuel it is given.
\<close>

fun clock_loop :: "nat \<Rightarrow> u64 \<Rightarrow> (('f, 'z) apu_scheme, unit) M" where
  "clock_loop 0 goal =
     bindM (getM m_last_clock) (\<lambda>t. if t = goal then returnM () else raiseM Diverges)"
| "clock_loop (Suc fuel) goal =
     bindM (getM m_last_clock) (\<lambda>t.
     if t = goal then returnM ()
     else thenM (modM (\<lambda>s. s\<lparr>m_last_clock := t + 1\<rparr>))
       (thenM tick_audio (thenM sample_audio (clock_loop fuel goal))))"

definition clock_to :: "u64 \<Rightarrow> (('f, 'z) apu_scheme, unit) M" where
  "clock_to target_clock =
     bindM (getM m_last_clock) (\<lambda>t.
     thenM (whenM (t \<noteq> target_clock) tick_div_apu)
     (clock_loop (unat (target_clock - t)) target_clock))"

section \<open>The sample buffer\<close>

definition get_samples :: "(('f, 'z) apu_scheme, AudioSample list) M" where
  "get_samples = getM m_samples_since_last_flush"

definition flush_samples :: "nat \<Rightarrow> (('f, 'z) apu_scheme, unit) M" where
  "flush_samples count =
     bindM (getM m_samples_since_last_flush) (\<lambda>samples.
     thenM (assertM (count \<le> length samples))
     (if count = length samples then modM (\<lambda>s. s\<lparr>m_samples_since_last_flush := []\<rparr>)
      else
        let size_after_flush = length samples - count;
            moved = take size_after_flush (drop count samples) @ drop size_after_flush samples in
        modM (\<lambda>s. s\<lparr>m_samples_since_last_flush := take size_after_flush moved\<rparr>)))"

section \<open>Well-formedness\<close>

fun channel_registers :: "channel_id \<Rightarrow> BasicChannelRegisters" where
  "channel_registers CH1 = Channel1Registers"
| "channel_registers CH2 = Channel2Registers"
| "channel_registers CH3 = Channel3Registers"
| "channel_registers CH4 = Channel4Registers"

text \<open>
  A channel keeps its register block, its level is one the assertions of the audio clock accept (2 bits
  for the wave channel, 4 bits for the others), and what it puts out is a level of 4 bits.
\<close>

definition channel_ok :: "channel_id \<Rightarrow> BasicChannel \<Rightarrow> bool" where
  "channel_ok i c \<longleftrightarrow> ch_regs c = channel_registers i \<and>
     peek_level c \<le> (if i = CH3 then 3 else 0x0F) \<and> current_output_level c \<le> 0x0F"

lemma channel_ok_new: "channel_ok i (new_channel (channel_registers i))"
  by (simp add: channel_ok_def new_channel_def)

lemma channel_ok_frame [simp]:
  "channel_ok i (c\<lparr>length_timer := a\<rparr>) = channel_ok i c"
  "channel_ok i (c\<lparr>envelope_timer := a\<rparr>) = channel_ok i c"
  "channel_ok i (c\<lparr>envelope_sweep_pace := a\<rparr>) = channel_ok i c"
  "channel_ok i (c\<lparr>envelope_increases := b\<rparr>) = channel_ok i c"
  "channel_ok i (c\<lparr>sample_point := a\<rparr>) = channel_ok i c"
  "channel_ok i (c\<lparr>ch_counter := a\<rparr>) = channel_ok i c"
  "l \<le> 0x0F \<Longrightarrow> channel_ok i c \<Longrightarrow> channel_ok i (c\<lparr>current_output_level := l\<rparr>)"
  "channel_ok i (c\<lparr>channel_on := b\<rparr>) = channel_ok i c"
  by (simp_all add: channel_ok_def)

lemma envelope_level_bound:
  "p \<le> 0x0F \<Longrightarrow> min (p + 1) 0x0F \<le> (0x0F :: u64)"
  "p \<le> 0x0F \<Longrightarrow> (if p = 0 then 0 else p - 1) \<le> (0x0F :: u64)"
  by (simp, unat_arith)

lemma level_from_register:
  "(ucast (drop_bit 4 (v :: u8)) :: u64) \<le> 0x0F"
  "(ucast (drop_bit 5 v AND 0b11) :: u64) \<le> 3"
proof -
  have "unat (drop_bit 4 v) < 16"
    using unsigned_less [of v, where ?'a = nat] by (simp add: unat_drop_bit_eq drop_bit_eq_div unat_div)
  then show "(ucast (drop_bit 4 v) :: u64) \<le> 0x0F"
    by (simp add: word_le_nat_alt unsigned_ucast_eq take_bit_eq_mod)
  show "(ucast (drop_bit 5 v AND 0b11) :: u64) \<le> 3"
    using and_mask_bounds(1) [of "drop_bit 5 v"]
    by (simp add: word_le_nat_alt unsigned_ucast_eq take_bit_eq_mod)
qed

lemma level_output:
  assumes "(p :: u64) \<le> 0x0F"
  shows "(ucast p :: u8) \<le> 0x0F"
proof -
  have "unat p \<le> 15" using assms by (simp add: word_le_nat_alt)
  then show ?thesis by (simp add: word_le_nat_alt unsigned_ucast_eq take_bit_eq_mod)
qed

lemma sample_output:
  fixes v :: u8
  assumes "v \<le> 0x0F"
  shows "drop_bit n v \<le> 0x0F"
proof -
  have "unat (drop_bit n v) \<le> unat v"
    by (simp add: drop_bit_eq_div unat_div div_le_dividend)
  then have "drop_bit n v \<le> v" by (simp only: word_le_nat_alt)
  then show ?thesis using assms by (rule order_trans)
qed

lemma peek_level_bound: "channel_ok i c \<Longrightarrow> peek_level c \<le> 0x0F"
  by (auto simp: channel_ok_def split: if_splits elim: order_trans)

lemma period_bound: "(ucast (lo :: u8) OR push_bit 8 (ucast ((hi :: u8) AND 0b111)) :: u16) < 2048"
proof -
  have hi: "unat (hi AND 0b111) < 8"
    using and_mask_unat [of hi 3] by (simp add: mask_eq_exp_minus_1)
  then have "unat (push_bit 8 (ucast (hi AND 0b111)) :: u16) = unat (hi AND 0b111) * 256"
    by (subst unsigned_push_bit_eq) (simp add: push_bit_eq_mult take_bit_eq_mod unsigned_ucast_eq)
  moreover have "unat (ucast lo :: u16) < 256"
    using unsigned_less [of lo, where ?'a = nat] by (simp add: unsigned_ucast_eq take_bit_eq_mod)
  ultimately show ?thesis
    using hi unat_or_bound [of "ucast lo :: u16" 11 "push_bit 8 (ucast (hi AND 0b111))"]
    by (simp add: word_less_nat_alt)
qed

lemma period_in_range:
  "0 \<le> k \<Longrightarrow> k < 2048 \<Longrightarrow> (ucast (word_of_int k :: u64) :: u16) < 2048"
  by (simp add: word_less_def unsigned_ucast_eq uint_word_of_int take_bit_eq_mod)

lemma period_minus_delta:
  assumes "(p :: u16) < 2048"
  shows "(ucast (ucast p - ucast (drop_bit n p) :: u64) :: u16) < 2048"
proof -
  have p: "uint p < 2048" using assms by (simp add: word_less_def)
  have "unat (drop_bit n p) \<le> unat p"
    by (simp add: unsigned_drop_bit_eq drop_bit_eq_div unat_div)
  then have "uint (drop_bit n p) \<le> uint p"
    by (simp only: word_le_nat_alt [symmetric] word_le_def)
  with p have "(ucast (word_of_int (uint p - uint (drop_bit n p)) :: u64) :: u16) < 2048"
    using uint_ge_0 [of "drop_bit n p"] by (intro period_in_range; linarith)
  then show ?thesis by simp
qed

lemma period_plus_delta:
  assumes "uint (p :: u16) + uint (drop_bit n p) < 2048"
  shows "(ucast (ucast p + ucast (drop_bit n p) :: u64) :: u16) < 2048"
proof -
  have "(ucast (word_of_int (uint p + uint (drop_bit n p)) :: u64) :: u16) < 2048"
    using assms by (intro period_in_range) simp_all
  then show ?thesis by simp
qed

lemma updC_run [simp]: "updC i f s = (Inr (), set_ch i (f (get_ch i s)) s)"
  by (simp add: updC_def)

lemma getC_run [simp]: "getC i s = (Inr (get_ch i s), s)"
  by (simp add: getC_def)

lemma assertM_run [simp]: "assertM b s = (if b then Inr () else Inl AssertFailed, s)"
  by (simp add: assertM_def)

lemma duty_bound:
  "(drop_bit 6 (len :: u8)) < 4" "unat (drop_bit 6 len) < length pulses"
  "list_all (\<lambda>p. length p = 8) pulses"
proof -
  have "unat (drop_bit 6 len) < 4"
    using unsigned_less [of len, where ?'a = nat] by (simp add: unat_drop_bit_eq drop_bit_eq_div unat_div)
  then show "drop_bit 6 len < 4" "unat (drop_bit 6 len) < length pulses"
    by (simp_all add: word_less_nat_alt pulses_def)
qed (simp add: pulses_def)

lemma level_cases: "level \<le> 3 \<Longrightarrow> level = 0 \<or> level = 1 \<or> level = 2 \<or> level = (3 :: u64)"
proof -
  assume "level \<le> 3"
  then have "unat level \<le> 3" by (simp add: word_le_nat_alt)
  then have "unat level = 0 \<or> unat level = 1 \<or> unat level = 2 \<or> unat level = 3" by linarith
  then show ?thesis by (auto simp: word_unat_eq_iff)
qed

text \<open>
  Two interfaces: the invariants the audio tick keeps, and those that hold while the
  audio clock itself advances. Neither asks for the exceptions of the error handling: the
  APU throws nothing.
\<close>

locale apu_tick = iomem_mem I E for I :: "('f, 'z) apu_scheme \<Rightarrow> bool" and E +
  assumes upd_channel: "I s \<Longrightarrow> channel_ok i c \<Longrightarrow> I (set_ch i c s)"
    and channels_ok: "I s \<Longrightarrow> channel_ok i (get_ch i s)"
    and upd_clocks: "I s \<Longrightarrow> I (s\<lparr>m_clocks_till_sample := a\<rparr>)"
      "I s \<Longrightarrow> I (s\<lparr>m_div_apu_counter := a\<rparr>)" "I s \<Longrightarrow> I (s\<lparr>m_last_div_value := a\<rparr>)"
    and upd_power: "I s \<Longrightarrow> I (s\<lparr>m_apu_has_power := b\<rparr>)"
    and upd_sweep: "I s \<Longrightarrow> I (s\<lparr>m_channel1_sweep_countdown := a\<rparr>)"
      "I s \<Longrightarrow> I (s\<lparr>m_channel1_sweep_active := b\<rparr>)"
      "I s \<Longrightarrow> I (s\<lparr>m_channel1_sweep_locked_until_trigger := b\<rparr>)"
    and upd_lsr: "I s \<Longrightarrow> I (s\<lparr>m_channel4_lsr := l\<rparr>)"
    and upd_samples: "I s \<Longrightarrow> I (s\<lparr>m_samples_since_last_flush := xs\<rparr>)"
begin

lemmas upd_apu = upd_clocks upd_power upd_sweep upd_lsr upd_samples

lemma safe_getC: "safe I E (getC i) (channel_ok i)"
  unfolding getC_def by (rule safe_getM) (rule channels_ok)

lemma safe_getC_top [safe_intro]: "safe I E (getC i) (\<lambda>_. True)"
  by (rule safe_top [OF safe_getC])

lemma safe_updC: "(\<And>c. channel_ok i c \<Longrightarrow> channel_ok i (f c)) \<Longrightarrow> safe I E (updC i f) (\<lambda>_. True)"
  unfolding updC_def by (rule safe_modM) (blast intro: upd_channel channels_ok)

lemma safe_assertM: "b \<Longrightarrow> safe I E (assertM b) (\<lambda>_. True)"
  by (simp add: assertM_def safe_returnM)

lemma safe_read_channel_period: "safe I E (read_channel_period l h) (\<lambda>p. p < 2048)"
  unfolding read_channel_period_def
  by (intro safe_bindM [OF safe_io_get] safe_returnM period_bound)

lemma safe_write_channel_period: "v < 2048 \<Longrightarrow> safe I E (write_channel_period l h v) (\<lambda>_. True)"
  unfolding write_channel_period_def by (intro safe_intro safe_assertM)

lemma safe_envelope_sweep_event: "i \<noteq> CH3 \<Longrightarrow> safe I E (envelope_sweep_event i) (\<lambda>_. True)"
  unfolding envelope_sweep_event_def
  by (intro safe_intro safe_updC) (simp_all add: channel_ok_def envelope_level_bound del: min_le_iff_disj)

lemma safe_sound_length [safe_intro]:
  "safe I E (sound_length_event i) (\<lambda>_. True)" "safe I E sound_length_event_channel3 (\<lambda>_. True)"
  unfolding sound_length_event_def sound_length_event_channel3_def
  by (intro safe_intro safe_updC; simp)+

text \<open>
  The sweep: a period that is still swept after the overflow test is a valid one, which is
  what the assertion of \<open>write_channel_period\<close> asks.
\<close>

lemma safe_sweep_calculation:
  "safe I E (bindM channel1_sweep_calculate_or_overflow (\<lambda>p.
     bindM (getM m_channel1_sweep_active) (\<lambda>active. returnM (p, active))))
   (\<lambda>(p, active). active \<longrightarrow> (ucast p :: u16) < 2048)"
  unfolding channel1_sweep_calculate_or_overflow_def Let_def bindM_assoc
proof (rule safe_bindM [OF safe_io_get], rule safe_bindM_post [OF safe_read_channel_period],
    rule safeI, goal_cases)
  case (1 cfg p s r s')
  have off: "I (s\<lparr>m_channel1 := (m_channel1 s)\<lparr>channel_on := False\<rparr>, m_channel1_sweep_active := False\<rparr>)"
    using upd_channel [OF \<open>I s\<close>, of CH1 "(get_ch CH1 s)\<lparr>channel_on := False\<rparr>"] channels_ok [OF \<open>I s\<close>, of CH1]
    by (intro upd_sweep) simp
  show ?case
    using 1 off period_minus_delta [of p] period_plus_delta [of p]
    by (cases "2048 \<le> uint p + uint (drop_bit (unat (cfg AND 0b111)) p)") (auto split: if_splits)
qed

lemma safe_channel1_sweep [safe_intro]:
  "safe I E channel1_sweep_calculate_or_overflow (\<lambda>_. True)"
  unfolding channel1_sweep_calculate_or_overflow_def Let_def
  by (intro safe_intro safe_bindM [OF safe_top [OF safe_read_channel_period]] safe_modM
        safe_updC upd_sweep TrueI) simp

lemma safe_rearm_channel1_sweep [safe_intro]: "safe I E rearm_channel1_sweep (\<lambda>_. True)"
proof -
  have "I (s\<lparr>m_channel1_sweep_countdown := a, m_channel1_sweep_active := b,
        m_channel1_sweep_locked_until_trigger := c\<rparr>)" if "I s" for s a b c
    using that by (intro upd_sweep)
  then show ?thesis
    unfolding rearm_channel1_sweep_def Let_def by (intro safe_intro safe_modM TrueI)
qed

lemma safe_channel1_sweep_iteration [safe_intro]:
  "safe I E (channel1_sweep_iteration cfg) (\<lambda>_. True)"
proof -
  have "safe I E (bindM (bindM channel1_sweep_calculate_or_overflow (\<lambda>p.
        bindM (getM m_channel1_sweep_active) (\<lambda>active. returnM (p, active)))) (\<lambda>(p, active).
      thenM (whenM (active \<and> cfg AND 0b111 \<noteq> 0)
        (write_channel_period CHANNEL1_PERIOD_LOW CHANNEL1_CTL (ucast p)))
      rearm_channel1_sweep)) (\<lambda>_. True)"
    by (rule safe_bindM_post [OF safe_sweep_calculation])
       (auto intro!: safe_thenM safe_whenM safe_write_channel_period safe_rearm_channel1_sweep)
  then show ?thesis by (simp add: channel1_sweep_iteration_def bindM_assoc)
qed

lemma safe_ch1_freq_sweep_event [safe_intro]: "safe I E ch1_freq_sweep_event (\<lambda>_. True)"
  unfolding ch1_freq_sweep_event_def by (intro safe_intro safe_modM upd_sweep TrueI)

lemma safe_tick_div_apu [safe_intro]: "safe I E tick_div_apu (\<lambda>_. True)"
  unfolding tick_div_apu_def Let_def
  by (intro safe_intro safe_modM safe_envelope_sweep_event upd_apu TrueI) simp_all

lemma safe_triggers [safe_intro]:
  "safe I E (rearm_pwm_channel_length i) (\<lambda>_. True)"
  "safe I E rearm_channel3_length (\<lambda>_. True)"
  "safe I E rearm_channel3_volume (\<lambda>_. True)"
  unfolding rearm_pwm_channel_length_def rearm_channel3_length_def rearm_channel3_volume_def
  by (intro safe_intro safe_updC; simp add: channel_ok_def level_from_register)+

lemma safe_trigger_channel3 [safe_intro]: "safe I E trigger_channel3 (\<lambda>_. True)"
  unfolding trigger_channel3_def by (intro safe_intro safe_updC) simp

lemma safe_rearm_envelope:
  "i \<noteq> CH3 \<Longrightarrow> safe I E (rearm_pwm_channel_volume_envelope i) (\<lambda>_. True)"
  unfolding rearm_pwm_channel_volume_envelope_def
  by (intro safe_intro safe_updC) (simp add: channel_ok_def level_from_register)

lemma safe_trigger_pwm_channel: "i \<noteq> CH3 \<Longrightarrow> safe I E (trigger_pwm_channel i) (\<lambda>_. True)"
  unfolding trigger_pwm_channel_def
  by (intro safe_intro safe_updC safe_modM upd_lsr safe_rearm_envelope) simp_all

lemma safe_power [safe_intro]: "safe I E power_up (\<lambda>_. True)" "safe I E power_down (\<lambda>_. True)"
  unfolding power_up_def power_down_def
  by (intro safe_intro safe_modM upd_power upd_iomem; simp add: iomem_length)+

lemma safe_with_channel:
  "ch \<noteq> None \<Longrightarrow> ch \<noteq> Some CH3 \<Longrightarrow> (\<And>i. i \<noteq> CH3 \<Longrightarrow> safe I E (f i) (\<lambda>_. True)) \<Longrightarrow>
   safe I E (with_channel ch f) (\<lambda>_. True)"
  by (cases ch) (auto simp: with_channel_def)

lemma written_channel_cases:
  "written_channel io_reg \<noteq> Some CH3"
  "io_reg \<in> {0x14, 0x19, 0x23, 0x11, 0x16, 0x20, 0x12, 0x17, 0x21} \<Longrightarrow> written_channel io_reg \<noteq> None"
  by (auto simp: written_channel_def)

lemma safe_apu_write:
  assumes "unat (addr - 0xFF00) < 0x80"
  shows "safe I E (apu_write addr v) (\<lambda>_. True)"
  using assms unfolding apu_write_def Let_def
  by (intro safe_intro safe_io_at(2) safe_modM safe_updC safe_with_channel safe_trigger_pwm_channel
        written_channel_cases upd_sweep TrueI) auto

lemma safe_apu_read:
  "unat (addr - 0xFF00) < 0x80 \<Longrightarrow> safe I E (apu_read addr) (\<lambda>_. True)"
  unfolding apu_read_def Let_def by (intro safe_intro safe_io_at(1) TrueI)

lemma safe_pulse_is_high: "unat point < 8 \<Longrightarrow> safe I E (pulse_is_high d point) (\<lambda>_. True)"
  unfolding pulse_is_high_def Let_def
  by (intro safe_thenM safe_assertM duty_bound safe_indexM disjI1
        safe_bindM_post [OF safe_indexM_post [where P = "\<lambda>p. length p = 8"]]) simp

lemma safe_tick_pulse_channel [safe_intro]: "safe I E (tick_pulse_channel i) (\<lambda>_. True)"
  unfolding tick_pulse_channel_def Let_def
  by (rule safe_bindM_post [OF safe_getC], intro safe_intro safe_updC safe_pulse_is_high
        safe_top [OF safe_read_channel_period])
     (simp_all add: unat_mod level_output peek_level_bound)

lemma safe_wave_level:
  "level \<le> 3 \<Longrightarrow> v \<le> 0x0F \<Longrightarrow> safe I E (wave_level level v) (\<lambda>l. l \<le> 0x0F)"
  using level_cases [of level] sample_output [of v] by (auto simp: wave_level_def intro!: safe_returnM)

lemma safe_wave_sample: "unat point < 32 \<Longrightarrow> safe I E (wave_sample point) (\<lambda>v. v \<le> 0x0F)"
  unfolding wave_sample_def Let_def
  by (intro safe_bindM [OF safe_io_at(1)] safe_returnM word_and_le1) (simp add: unat_div)

lemma safe_tick_channel3 [safe_intro]: "safe I E tick_channel3 (\<lambda>_. True)"
  unfolding tick_channel3_def Let_def
  by (rule safe_bindM_post [OF safe_getC],
      intro safe_whenM safe_thenM safe_bindM [OF safe_top [OF safe_read_channel_period]]
        safe_bindM_post [OF safe_wave_sample] safe_bindM_post [OF safe_wave_level] safe_updC)
     (simp_all add: unat_mod channel_ok_def)

lemma safe_tick_channel4 [safe_intro]: "safe I E tick_channel4 (\<lambda>_. True)"
  unfolding tick_channel4_def Let_def
  by (rule safe_bindM_post [OF safe_getC], intro safe_intro safe_updC safe_assertM safe_modM upd_lsr)
     (simp_all add: level_output peek_level_bound)

lemma safe_tick_audio [safe_intro]:
  "safe I E tick_audio (\<lambda>_. True)" "safe I E sample_audio (\<lambda>_. True)"
  unfolding tick_audio_def sample_audio_def
  by (intro safe_intro safe_modM upd_apu TrueI)+

end

locale apu_inv = apu_tick I E for I :: "('f, 'z) apu_scheme \<Rightarrow> bool" and E +
  assumes upd_last_clock: "I s \<Longrightarrow> I (s\<lparr>m_last_clock := a\<rparr>)"
begin

text \<open>The audio tick does not move the audio clock.\<close>

lemma tick_at: "apu_tick (\<lambda>s. I s \<and> m_last_clock s = t)"
proof (unfold_locales, goal_cases)
  case (5 s i c)
  then show ?case by (cases i) (use upd_channel [of s i c] in auto)
qed (auto simp: upd_iomem upd_fe_state iomem_length frontend_ok channels_ok upd_apu)

text \<open>
  The fuel of \<open>clock_to\<close> is enough: with as much fuel as the distance to the goal the
  loop does not run out of it, and it ends with the clock at the goal.
\<close>

lemma clock_loop_reaches:
  assumes "I s" and "unat (goal - m_last_clock s) \<le> fuel" and "clock_loop fuel goal s = (r, s')"
  shows "I s' \<and> (case r of Inl e \<Rightarrow> e \<in> E s' | Inr _ \<Rightarrow> m_last_clock s' = goal)"
  using assms
proof (induction fuel arbitrary: s)
  case 0
  then show ?case by (auto simp: unat_eq_0 split: if_splits)
next
  case (Suc fuel)
  let ?t = "m_last_clock s"
  let ?J = "\<lambda>s. I s \<and> m_last_clock s = ?t + 1"
  have tick: "safe ?J E (thenM tick_audio sample_audio) (\<lambda>_. True)"
    by (intro safe_intro apu_tick.safe_tick_audio [OF tick_at])
  show ?case
  proof (cases "?t = goal")
    case True
    with Suc.prems show ?thesis by auto
  next
    case False
    let ?s1 = "s\<lparr>m_last_clock := ?t + 1\<rparr>"
    have J1: "?J ?s1" using Suc.prems(1) by (simp add: upd_last_clock)
    have "clock_loop (Suc fuel) goal s = thenM (thenM tick_audio sample_audio) (clock_loop fuel goal) ?s1"
      using False by (simp add: thenM_def bindM_assoc)
    then have "thenM (thenM tick_audio sample_audio) (clock_loop fuel goal) ?s1 = (r, s')"
      using Suc.prems(3) by (simp only:)
    then show ?thesis
    proof (cases rule: thenM_cases)
      case (thrown e)
      with safe_Inl [OF tick J1 thrown(1)] show ?thesis by simp
    next
      case (returned u s2)
      have J2: "?J s2" using safe_Inr [OF tick J1 returned(1)] by simp
      have "unat (goal - ?t - 1) = unat (goal - ?t) - 1"
        using False by (intro unat_minus_one) simp
      with Suc.prems(2) J2 have "unat (goal - m_last_clock s2) \<le> fuel"
        by (simp add: diff_diff_eq)
      with Suc.IH J2 returned(2) show ?thesis by blast
    qed
  qed
qed

lemma clock_to_reaches:
  assumes "I s" and "clock_to goal s = (r, s')"
  shows "I s' \<and> (case r of Inl e \<Rightarrow> e \<in> E s' | Inr _ \<Rightarrow> m_last_clock s' = goal)"
proof -
  let ?t = "m_last_clock s"
  let ?J = "\<lambda>s. I s \<and> m_last_clock s = ?t"
  have divider: "safe ?J E (whenM (?t \<noteq> goal) tick_div_apu) (\<lambda>_. True)"
    by (intro safe_whenM apu_tick.safe_tick_div_apu [OF tick_at])
  have J: "?J s" using assms(1) by simp
  have "clock_to goal s = thenM (whenM (?t \<noteq> goal) tick_div_apu) (clock_loop (unat (goal - ?t)) goal) s"
    by (simp add: clock_to_def)
  then have "thenM (whenM (?t \<noteq> goal) tick_div_apu) (clock_loop (unat (goal - ?t)) goal) s = (r, s')"
    using assms(2) by (simp only:)
  then show ?thesis
  proof (cases rule: thenM_cases)
    case (thrown e)
    with safe_Inl [OF divider J thrown(1)] show ?thesis by simp
  next
    case (returned u s2)
    have J2: "?J s2" using safe_Inr [OF divider J returned(1)] by simp
    then have "unat (goal - m_last_clock s2) \<le> unat (goal - ?t)" by simp
    with J2 returned(2) show ?thesis using clock_loop_reaches by blast
  qed
qed

lemma safe_clock_to [safe_intro]: "safe I E (clock_to goal) (\<lambda>_. True)"
  by (rule safeI, drule (1) clock_to_reaches) (auto split: sum.splits)

end

definition apu_ok :: "('f, 'z) apu_scheme \<Rightarrow> bool" where
  "apu_ok s \<longleftrightarrow> iomem_ok s \<and> (\<forall>i. channel_ok i (get_ch i s))"

lemma get_set_ch: "get_ch j (set_ch i c s) = (if i = j then c else get_ch j s)"
  by (cases i; cases j) simp_all

lemma iomem_ok_set_ch: "iomem_ok (set_ch i c s) = iomem_ok s"
  by (cases i) (simp_all add: iomem_ok_def)

lemma get_ch_frame [simp]:
  "get_ch i (s\<lparr>io_memory := a\<rparr>) = get_ch i s"
  "get_ch i (s\<lparr>frontend := fe\<rparr>) = get_ch i s"
  "get_ch i (s\<lparr>m_clocks_till_sample := w\<rparr>) = get_ch i s"
  "get_ch i (s\<lparr>m_last_clock := w\<rparr>) = get_ch i s"
  "get_ch i (s\<lparr>m_div_apu_counter := w\<rparr>) = get_ch i s"
  "get_ch i (s\<lparr>m_last_div_value := w\<rparr>) = get_ch i s"
  "get_ch i (s\<lparr>m_apu_has_power := b\<rparr>) = get_ch i s"
  "get_ch i (s\<lparr>m_channel1_sweep_countdown := w\<rparr>) = get_ch i s"
  "get_ch i (s\<lparr>m_channel1_sweep_active := b\<rparr>) = get_ch i s"
  "get_ch i (s\<lparr>m_channel1_sweep_locked_until_trigger := b\<rparr>) = get_ch i s"
  "get_ch i (s\<lparr>m_channel4_lsr := l\<rparr>) = get_ch i s"
  "get_ch i (s\<lparr>m_samples_since_last_flush := xs\<rparr>) = get_ch i s"
  by (cases i; simp)+

text \<open>The APU on its own, with the empty set of exceptions.\<close>

interpretation apu_total: apu_inv apu_ok "\<lambda>_. {}"
  apply unfold_locales
  apply (simp_all add: apu_ok_def get_set_ch iomem_ok_set_ch)
  apply (simp_all add: iomem_ok_def flush_ok_def)
  done

end
