(* ===== verification/Io.thy ===== *)
theory Io
  imports Apu
begin

text \<open>
  \<^verbatim>\<open>libgb/io/io.hpp\<close> and \<^verbatim>\<open>io.cpp\<close>: the memory-mapped registers, the
  timers, the serial port, the joypad and the clock they share with the GPU and the APU. Cycle
  counters are 64 bits wide. The loop of \<open>reduceTimer\<close> is a partial function: not
  returning is \<open>None\<close> there, and the exception \<open>Diverges\<close> of the method.
\<close>

section \<open>State\<close>

record 'f io = "'f apu" +
  inputs :: u8
  lastCycle :: u64
  tCycleCount :: u64
  dmaStartTime :: u64
  cycle :: u64

definition io_reset :: "(('f, 'z) io_scheme, unit) M" where
  "io_reset =
     thenM gpu_reset
     (modM (\<lambda>s. s\<lparr>io_memory := replicate 0x80 0, inputs := 0xFF, lastCycle := 0,
                   tCycleCount := 0, cycle := 0\<rparr>))"

definition isInDMA :: "(('f, 'z) io_scheme, bool) M" where
  "isInDMA = getM (\<lambda>s. dmaStartTime s \<noteq> 0 \<and> dmaStartTime s + 160 > cycle s)"

definition startDMA :: "(('f, 'z) io_scheme, unit) M" where
  "startDMA = modM (\<lambda>s. s\<lparr>dmaStartTime := cycle s\<rparr>)"

definition videoRead :: "u16 \<Rightarrow> bool \<Rightarrow> (('f, 'z) io_scheme, u8) M" where
  "videoRead addr is_dma = gpu_readU8 addr is_dma"

definition videoWrite :: "u16 \<Rightarrow> u8 \<Rightarrow> bool \<Rightarrow> (('f, 'z) io_scheme, unit) M" where
  "videoWrite addr v is_dma = gpu_writeU8 addr v is_dma"

section \<open>Timers\<close>

text \<open>One iteration of the loop of \<open>reduceTimer\<close>.\<close>

definition timer_tick :: "('f, 'z) io_scheme \<Rightarrow> ('f, 'z) io_scheme" where
  "timer_tick s =
     (let tima = io_memory s ! T_COUNTER + 1;
          m = (io_memory s)[T_COUNTER := tima] in
      if tima AND 0xFF = 0
      then s\<lparr>io_memory := m[T_COUNTER := m ! T_MODULO, INTERRUPTS := m ! INTERRUPTS OR TIMER_INTERRUPT]\<rparr>
      else s\<lparr>io_memory := m\<rparr>)"

partial_function (option) reduce_loop ::
  "u64 \<Rightarrow> ('f, 'z) io_scheme \<Rightarrow> ('f, 'z) io_scheme option" where
  "reduce_loop threshold s =
     (if threshold \<le> tCycleCount s
      then reduce_loop threshold (timer_tick (s\<lparr>tCycleCount := tCycleCount s - threshold\<rparr>))
      else Some s)"

definition reduceTimer :: "u16 \<Rightarrow> (('f, 'z) io_scheme, unit) M" where
  "reduceTimer threshold =
     (\<lambda>s. case reduce_loop (ucast threshold) s of
        None \<Rightarrow> (Inl Diverges, s)
      | Some s' \<Rightarrow> (Inr (), s'))"

definition updateTimers :: "(('f, 'z) io_scheme, unit) M" where
  "updateTimers =
     bindM (getM cycle) (\<lambda>now.
     bindM (getM lastCycle) (\<lambda>last.
     let dt = now - last in
     thenM (modM (\<lambda>s. s\<lparr>lastCycle := now\<rparr>))
     (thenM (gpu_updateTimers dt)
     (thenM (modM (\<lambda>s. s\<lparr>tCycleCount := tCycleCount s + dt\<rparr>))
     (thenM (io_set DIV_TIMER (ucast (now div 64 mod 0x100)))
     (thenM (clock_to (4 * now))
     (bindM (io_get T_CONTROL) (\<lambda>ctl.
      if ctl AND 0x07 = 0x04 then reduceTimer 256
      else if ctl AND 0x07 = 0x05 then reduceTimer 4
      else if ctl AND 0x07 = 0x06 then reduceTimer 16
      else if ctl AND 0x07 = 0x07 then reduceTimer 64
      else returnM ()))))))))"

section \<open>Registers\<close>

definition joypad_value :: "u8 \<Rightarrow> u8 \<Rightarrow> u8" where
  "joypad_value select keys =
     (let v0 = 0xFF;
          v1 = (if select AND 0x10 = 0 then v0 AND (0xE0 OR (keys AND 0x0F)) else v0) in
      if select AND 0x20 = 0 then v1 AND (0xD0 OR drop_bit 4 keys) else v1)"

definition ioRead :: "u16 \<Rightarrow> (('f, 'z) io_scheme, u8) M" where
  "ioRead addr =
     (let io_reg = unat (addr - 0xFF00) in
      if addr = 0xFF00 then
        bindM (io_get io_reg) (\<lambda>select.
        bindM (getM inputs) (\<lambda>keys. returnM (joypad_value select keys)))
      else if addr = 0xFF46 then thenM (throw_error illegal_memory_address) (returnM 0)
      else if between 0xFF10 addr 0xFF26 then thenM updateTimers (apu_read addr)
      else if between 0xFF27 addr 0xFF2F then returnM 0xFF
      else thenM (whenM (addr = 0xFF04 \<or> addr = 0xFF05) updateTimers) (io_get_at io_reg))"

definition write_serial_control :: "u8 \<Rightarrow> (('f, 'z) io_scheme, unit) M" where
  "write_serial_control v =
     (if v AND push_bit 7 1 \<noteq> 0 \<and> v AND 1 \<noteq> 0 then
        bindM (io_get SERIAL_DATA) (\<lambda>d.
        thenM (fe_do (\<lambda>fe. fe_sendSerial fe d))
        (thenM (io_set SERIAL_CTL (v AND NOT (push_bit 7 1)))
        (thenM (io_set SERIAL_DATA 0xFF)
        (bindM (io_get INTERRUPTS) (\<lambda>i. io_set INTERRUPTS (i OR push_bit 3 1))))))
      else io_set SERIAL_DATA (v OR 0b01111110))"

definition write_lcd_control :: "u8 \<Rightarrow> (('f, 'z) io_scheme, unit) M" where
  "write_lcd_control v =
     bindM (io_get LCDC) (\<lambda>lcdc.
     thenM (whenM (v AND 0x80 = 0 \<and> lcdc AND 0x80 \<noteq> 0)
       (bindM (io_get LCD_STAT) (\<lambda>stat.
        whenM (stat AND 0b11 \<noteq> 1) (throw_error lcd_disable_violation))))
     (io_set LCDC v))"

definition ioWrite :: "u16 \<Rightarrow> u8 \<Rightarrow> (('f, 'z) io_scheme, unit) M" where
  "ioWrite addr v =
     (let io_reg = unat (addr - 0xFF00) in
      if addr = 0xFF00 then io_set io_reg (0xC0 OR (v AND 0x30))
      else if addr = 0xFF02 then write_serial_control v
      else if addr = 0xFF04 then raiseM (RuntimeError ''DIV write unsupported'')
      else if addr = 0xFF05 then thenM updateTimers (io_set io_reg v)
      else if addr = 0xFF40 then write_lcd_control v
      else if addr = 0xFF41 then
        bindM (io_get LCD_STAT) (\<lambda>stat.
        io_set LCD_STAT (0x80 OR (stat AND 0x07) OR (v AND 0x78)))
      else if addr = 0xFF44 then raiseM (RuntimeError ''Cannot write to LY @ 0xFF44'')
      else if between 0xFF10 addr 0xFF26 then thenM updateTimers (apu_write addr v)
      else io_set_at io_reg v)"

section \<open>The update between instructions\<close>

definition isSimulationFinished :: "(('f, 'z) io_scheme, bool) M" where
  "isSimulationFinished = fe_call fe_isExitRequested"

definition flush_audio :: "(('f, 'z) io_scheme, unit) M" where
  "flush_audio =
     bindM get_samples (\<lambda>audio_samples.
     bindM (fe_call (\<lambda>fe. fe_try_flush_audio fe audio_samples)) (\<lambda>flushed_count.
     case flushed_count of None \<Rightarrow> returnM () | Some n \<Rightarrow> flush_samples n))"

definition poll_keys :: "(('f, 'z) io_scheme, unit) M" where
  "poll_keys =
     bindM (fe_call fe_getKeyPressState) (\<lambda>keyState.
     bindM (getM inputs) (\<lambda>keys.
     let gbKeyState = NOT keys in
     thenM (whenM (keyState OR gbKeyState \<noteq> gbKeyState)
       (bindM (io_get INTERRUPTS) (\<lambda>i. io_set INTERRUPTS (i OR INPUT_INTERRUPT))))
     (modM (\<lambda>s. s\<lparr>inputs := NOT keyState\<rparr>))))"

definition io_update :: "(('f, 'z) io_scheme, unit) M" where
  "io_update =
     thenM updateTimers
     (thenM flush_audio
     (bindM updateLCD (\<lambda>started. whenM started poll_keys)))"

section \<open>The timer loop\<close>

lemma timer_tick_frame [simp]:
  "tCycleCount (timer_tick s) = tCycleCount s"
  "timer_tick (s\<lparr>tCycleCount := t\<rparr>) = (timer_tick s)\<lparr>tCycleCount := t\<rparr>"
  by (simp_all add: timer_tick_def Let_def)

lemma timer_ticks_frame [simp]:
  "(timer_tick ^^ n) (s\<lparr>tCycleCount := t\<rparr>) = ((timer_tick ^^ n) s)\<lparr>tCycleCount := t\<rparr>"
  by (induction n) simp_all

text \<open>
  With a positive threshold the loop ends: it ticks the timer once for each whole threshold
  in the cycle count and leaves the remainder.
\<close>

lemma reduce_loop_ticks:
  assumes "0 < threshold"
  shows "reduce_loop threshold s =
    Some ((timer_tick ^^ (unat (tCycleCount s) div unat threshold))
            (s\<lparr>tCycleCount := tCycleCount s mod threshold\<rparr>))"
proof (induction "unat (tCycleCount s)" arbitrary: s rule: less_induct)
  case less
  show ?case
  proof (cases "threshold \<le> tCycleCount s")
    case False
    then have "tCycleCount s mod threshold = tCycleCount s" "unat (tCycleCount s) div unat threshold = 0"
      by (simp_all add: word_unat_eq_iff unat_mod word_less_nat_alt not_le)
    with False show ?thesis by (subst reduce_loop.simps) simp
  next
    case True
    let ?t = "tCycleCount s"
    have th: "0 < unat threshold" "unat threshold \<le> unat ?t"
      using assms True by (simp_all add: word_less_nat_alt word_le_nat_alt)
    have sub: "unat (?t - threshold) = unat ?t - unat threshold"
      using True by (simp add: unat_sub)
    have "unat (?t - threshold) < unat ?t" using th sub by linarith
    then have IH: "reduce_loop threshold (timer_tick (s\<lparr>tCycleCount := ?t - threshold\<rparr>)) =
        Some ((timer_tick ^^ (unat (?t - threshold) div unat threshold))
            (timer_tick (s\<lparr>tCycleCount := (?t - threshold) mod threshold\<rparr>)))"
      using less [of "timer_tick (s\<lparr>tCycleCount := ?t - threshold\<rparr>)"] by simp
    have "(?t - threshold) mod threshold = ?t mod threshold"
      using th sub by (simp add: word_unat_eq_iff unat_mod le_mod_geq)
    moreover have "unat ?t div unat threshold = Suc (unat (?t - threshold) div unat threshold)"
      using th sub by (simp add: le_div_geq)
    ultimately show ?thesis
      using True IH by (subst reduce_loop.simps) (simp add: funpow_swap1)
  qed
qed

lemma reduceTimer_run:
  "0 < threshold \<Longrightarrow> reduceTimer threshold s =
    (Inr (), (timer_tick ^^ (unat (tCycleCount s) div unat threshold))
            (s\<lparr>tCycleCount := tCycleCount s mod ucast threshold\<rparr>))"
proof -
  assume "0 < threshold"
  have t: "unat (ucast threshold :: u64) = unat threshold"
    using unsigned_less [of threshold, where ?'a = nat] by (simp add: unsigned_ucast_eq take_bit_eq_mod)
  with \<open>0 < threshold\<close> have "0 < (ucast threshold :: u64)" by (simp add: word_less_nat_alt)
  with t show ?thesis by (simp add: reduceTimer_def reduce_loop_ticks)
qed

lemma flush_samples_run:
  "count \<le> length (m_samples_since_last_flush s) \<Longrightarrow> flush_samples count s =
     (Inr (), s\<lparr>m_samples_since_last_flush := drop count (m_samples_since_last_flush s)\<rparr>)"
  by (simp add: flush_samples_def Let_def)

section \<open>Well-formedness\<close>

text \<open>The invariants of the I/O unit extend those of the GPU and those of the APU.\<close>

locale io_inv = gpu_inv I E + apu_inv I E for I :: "('f, 'z) io_scheme \<Rightarrow> bool" and E +
  assumes upd_inputs: "I s \<Longrightarrow> I (s\<lparr>inputs := b\<rparr>)"
    and upd_cycles: "I s \<Longrightarrow> I (s\<lparr>lastCycle := w\<rparr>)" "I s \<Longrightarrow> I (s\<lparr>tCycleCount := w\<rparr>)"
      "I s \<Longrightarrow> I (s\<lparr>dmaStartTime := w\<rparr>)" "I s \<Longrightarrow> I (s\<lparr>cycle := w\<rparr>)"
    and runtime_error: "I s \<Longrightarrow> RuntimeError m \<in> E s"
begin

lemma safe_io_reset [safe_intro]: "safe I E io_reset (\<lambda>_. True)"
proof -
  have "I (s\<lparr>io_memory := replicate 0x80 0, inputs := b, lastCycle := 0, tCycleCount := 0, cycle := 0\<rparr>)"
    if "I s" for s b
    using that by (intro upd_cycles upd_inputs upd_iomem) simp_all
  then show ?thesis unfolding io_reset_def by (intro safe_intro safe_modM)
qed

lemma safe_dma_clock [safe_intro]:
  "safe I E isInDMA (\<lambda>_. True)" "safe I E startDMA (\<lambda>_. True)"
  unfolding isInDMA_def startDMA_def by (intro safe_intro safe_modM upd_cycles TrueI)+

lemma safe_video [safe_intro]:
  "safe I E (videoRead a d) (\<lambda>_. True)" "safe I E (videoWrite a v d) (\<lambda>_. True)"
  unfolding videoRead_def videoWrite_def by (intro safe_intro)+

lemma timer_tick_inv: "I s \<Longrightarrow> I (timer_tick s)"
  unfolding timer_tick_def Let_def by (auto intro!: upd_iomem simp: iomem_length)

lemma timer_ticks_inv: "I s \<Longrightarrow> I ((timer_tick ^^ n) s)"
  by (induction n) (simp_all add: timer_tick_inv)

lemma safe_reduceTimer: "0 < threshold \<Longrightarrow> safe I E (reduceTimer threshold) (\<lambda>_. True)"
  by (rule safeI) (auto simp: reduceTimer_run intro: upd_cycles timer_ticks_inv)

lemma safe_updateTimers [safe_intro]: "safe I E updateTimers (\<lambda>_. True)"
  unfolding updateTimers_def Let_def
  by (intro safe_intro safe_modM upd_cycles safe_reduceTimer TrueI) simp_all

lemma io_offset:
  "0xFF10 \<le> addr \<and> addr \<le> 0xFF26 \<Longrightarrow> unat ((addr :: u16) - 0xFF00) < 0x80"
  "addr \<noteq> 0xFF00 \<Longrightarrow> 0xFF00 \<le> addr \<Longrightarrow> addr \<le> 0xFF7F \<Longrightarrow> unat ((addr :: u16) - 0xFF00) < 0x80"
  by unat_arith+

lemma safe_ioRead:
  "0xFF00 \<le> addr \<Longrightarrow> addr \<le> 0xFF7F \<Longrightarrow> safe I E (ioRead addr) (\<lambda>_. True)"
  unfolding ioRead_def Let_def
  by (intro safe_intro safe_apu_read safe_io_at io_offset TrueI)

lemma safe_ioWrite_parts [safe_intro]:
  "safe I E (write_serial_control v) (\<lambda>_. True)" "safe I E (write_lcd_control v) (\<lambda>_. True)"
  unfolding write_serial_control_def write_lcd_control_def by (intro safe_intro TrueI)+

lemma safe_ioWrite:
  "0xFF00 \<le> addr \<Longrightarrow> addr \<le> 0xFF7F \<Longrightarrow> safe I E (ioWrite addr v) (\<lambda>_. True)"
  unfolding ioWrite_def Let_def
  by (intro safe_intro safe_apu_write safe_io_at io_offset runtime_error TrueI)

text \<open>
  The frontend is offered the samples and reports how many it took: \<open>flush_samples\<close>
  is called within its assertion.
\<close>

lemma safe_flush_audio [safe_intro]: "safe I E flush_audio (\<lambda>_. True)"
proof (rule safeI)
  fix s r s'
  assume I: "I s" and run: "flush_audio s = (r, s')"
  let ?xs = "m_samples_since_last_flush s"
  obtain n st where call: "fe_try_flush_audio (frontend s) ?xs (fe_state (frontend s)) = (n, st)"
    by fastforce
  let ?s = "s\<lparr>frontend := (frontend s)\<lparr>fe_state := st\<rparr>\<rparr>"
  have bound: "m \<le> length ?xs" if "n = Some m" for m
    using frontend_ok [OF I] call that unfolding flush_ok_def
    by (metis fst_conv option.simps(5))
  have I': "I ?s" by (rule upd_fe_state [OF I])
  have "(r, s') = (case n of None \<Rightarrow> returnM () | Some m \<Rightarrow> flush_samples m) ?s"
    using run call by (simp add: flush_audio_def get_samples_def fe_call_def bindM_def returnM_def getM_def)
  then show "I s' \<and> (case r of Inl e \<Rightarrow> e \<in> E s' | Inr v \<Rightarrow> True)"
    using bound I' upd_samples [OF I']
    by (cases n) (auto simp: flush_samples_run)
qed

lemma safe_poll_keys [safe_intro]: "safe I E poll_keys (\<lambda>_. True)"
  unfolding poll_keys_def Let_def by (intro safe_intro safe_modM upd_inputs TrueI)

lemma safe_io_update [safe_intro]:
  "safe I E io_update (\<lambda>_. True)" "safe I E isSimulationFinished (\<lambda>_. True)"
  unfolding io_update_def isSimulationFinished_def by (intro safe_intro)+

end

definition io_ok :: "('f, 'z) io_scheme \<Rightarrow> bool" where
  "io_ok s \<longleftrightarrow> gpu_ok s \<and> apu_ok s"

lemma all_channels:
  "(\<forall>i. channel_ok i (get_ch i s)) \<longleftrightarrow>
     channel_ok CH1 (m_channel1 s) \<and> channel_ok CH2 (m_channel2 s) \<and>
     channel_ok CH3 (m_channel3 s) \<and> channel_ok CH4 (m_channel4 s)"
  by (metis channel_id.exhaust get_ch.simps)

lemmas io_ok_expand = io_ok_def gpu_ok_def apu_ok_def all_channels iomem_ok_def flush_ok_def

lemma io_ok_channels:
  "io_ok s \<Longrightarrow> channel_ok i (get_ch i s)"
  "io_ok s \<Longrightarrow> channel_ok i c \<Longrightarrow> io_ok (set_ch i c s)"
  by (cases i; simp add: io_ok_expand)+

interpretation io_unit: io_inv io_ok "\<lambda>_. no_ub"
  by unfold_locales
     (simp_all add: io_ok_channels, simp_all add: io_ok_expand count_error_def)

end
