(* ===== verification/MemoryMap.thy ===== *)
theory MemoryMap
  imports Io
begin

text \<open>
  \<^verbatim>\<open>libgb/memory_map.hpp\<close> and \<^verbatim>\<open>memory_map.cpp\<close>: the decoder of
  the 16-bit address space, the two memories it holds itself (work RAM with its echo, and
  high RAM with the interrupt enable register in its last cell), and the DMA transfer.
\<close>

section \<open>State\<close>

record 'f mm = "'f io" +
  stack :: "Byte list"
  workingRam :: "Byte list"

section \<open>Reads\<close>

definition mm_read :: "u16 \<Rightarrow> bool \<Rightarrow> (('f, 'z) mm_scheme, Byte) M" where
  "mm_read addr is_dma =
     (if addr \<le> 0x7FFF then cartridge_read addr
      else if between 0x8000 addr 0x9FFF then bindM (videoRead addr is_dma) (\<lambda>v. returnM (lit v))
      else if between 0xA000 addr 0xBFFF then cartridge_read addr
      else if between 0xC000 addr 0xDFFF then
        bindM (getM workingRam) (\<lambda>ram. indexM UndefinedBehaviour ram (unat (addr - 0xC000)))
      else if between 0xE000 addr 0xFDFF then
        bindM (getM workingRam) (\<lambda>ram. indexM UndefinedBehaviour ram (unat (addr - 0xE000)))
      else if between 0xFE00 addr 0xFE9F then bindM (videoRead addr is_dma) (\<lambda>v. returnM (lit v))
      else if between 0xFEA0 addr 0xFEFF then
        thenM (throw_error illegal_memory_address) (returnM ci_default)
      else if between 0xFF00 addr 0xFF7F then bindM (ioRead addr) (\<lambda>v. returnM (lit v))
      else if between 0xFF80 addr 0xFFFE then
        bindM (getM stack) (\<lambda>ram. indexM UndefinedBehaviour ram (unat (addr - 0xFF80)))
      else bindM (getM stack) (\<lambda>ram. indexM UndefinedBehaviour ram 0x7F))"

section \<open>Writes\<close>

definition ram_write :: "nat \<Rightarrow> Byte \<Rightarrow> (('f, 'z) mm_scheme, unit) M" where
  "ram_write i v =
     bindM (getM workingRam) (\<lambda>ram.
     bindM (indexM UndefinedBehaviour ram i) (\<lambda>_.
     modM (\<lambda>s. s\<lparr>workingRam := ram[i := v]\<rparr>)))"

definition stack_write :: "nat \<Rightarrow> Byte \<Rightarrow> (('f, 'z) mm_scheme, unit) M" where
  "stack_write i v =
     bindM (getM stack) (\<lambda>ram.
     bindM (indexM UndefinedBehaviour ram i) (\<lambda>_.
     modM (\<lambda>s. s\<lparr>stack := ram[i := v]\<rparr>)))"

text \<open>
  \<open>write\<close> and \<open>DMA\<close> call each other. A transfer writes to the sprite table only, so
  the recursion is one level deep: the decoder of writes takes the handler of the DMA register
  as a parameter, and the writes of a transfer are given a handler that would not return.
\<close>

definition write_with ::
  "(u8 \<Rightarrow> (('f, 'z) mm_scheme, unit) M) \<Rightarrow> u16 \<Rightarrow> Byte \<Rightarrow> bool \<Rightarrow> (('f, 'z) mm_scheme, unit) M" where
  "write_with dma addr v is_dma =
     (if addr \<le> 0x7FFF then cartridge_write addr v
      else if between 0x8000 addr 0x9FFF then bindM (decay v) (\<lambda>b. videoWrite addr b is_dma)
      else if between 0xA000 addr 0xBFFF then cartridge_write addr v
      else if between 0xC000 addr 0xDFFF then ram_write (unat (addr - 0xC000)) v
      else if between 0xE000 addr 0xFDFF then ram_write (unat (addr - 0xE000)) v
      else if between 0xFE00 addr 0xFE9F then bindM (decay v) (\<lambda>b. videoWrite addr b is_dma)
      else if between 0xFEA0 addr 0xFEFF then returnM ()
      else if between 0xFF00 addr 0xFF45 \<or> between 0xFF47 addr 0xFF7F then
        bindM (decay v) (ioWrite addr)
      else if addr = 0xFF46 then bindM (decay v) dma
      else if between 0xFF80 addr 0xFFFE then stack_write (unat (addr - 0xFF80)) v
      else stack_write 0x7F v)"

definition no_dma :: "u8 \<Rightarrow> (('f, 'z) mm_scheme, unit) M" where
  "no_dma srcUpper = raiseM Diverges"

definition DMA :: "u8 \<Rightarrow> (('f, 'z) mm_scheme, unit) M" where
  "DMA srcUpper =
     (if 0xF1 < srcUpper then throw_error illegal_memory_address
      else thenM startDMA
        (forM [0..<0xA0] (\<lambda>i.
           let offset = of_nat i;
               srcAddr = push_bit 8 (ucast srcUpper) OR offset;
               dstAddr = 0xFE00 OR offset in
           bindM (mm_read srcAddr True) (\<lambda>v. write_with no_dma dstAddr v True))))"

definition mm_write :: "u16 \<Rightarrow> Byte \<Rightarrow> bool \<Rightarrow> (('f, 'z) mm_scheme, unit) M" where
  "mm_write = write_with DMA"

section \<open>Power-up\<close>

definition power_up_writes :: "(u16 \<times> u8) list" where
  "power_up_writes =
     [(0xFF05, 0x00), (0xFF06, 0x00), (0xFF07, 0x00), (0xFF10, 0x80), (0xFF11, 0xBF),
      (0xFF12, 0xF3), (0xFF14, 0xBF), (0xFF16, 0x3F), (0xFF17, 0x00), (0xFF19, 0xBF),
      (0xFF1A, 0x7F), (0xFF1B, 0xFF), (0xFF1C, 0x9F), (0xFF1E, 0xBF), (0xFF20, 0xFF),
      (0xFF21, 0x00), (0xFF22, 0x00), (0xFF23, 0xBF), (0xFF24, 0x77), (0xFF25, 0xF3),
      (0xFF26, 0xF1), (0xFF40, 0x91), (0xFF42, 0x00), (0xFF43, 0x00), (0xFF45, 0x00),
      (0xFF47, 0xFC), (0xFF48, 0xFF), (0xFF49, 0xFF), (0xFF4A, 0x00), (0xFF4B, 0x00),
      (0xFFFF, 0x00), (0xFF0F, 0x00)]"

definition mm_reset :: "(('f, 'z) mm_scheme, unit) M" where
  "mm_reset =
     thenM (modM (\<lambda>s. s\<lparr>stack := replicate 0x80 ci_default, workingRam := replicate 0x2000 ci_default\<rparr>))
     (forM power_up_writes (\<lambda>(addr, v). mm_write addr (lit v) False))"

section \<open>Well-formedness\<close>

lemma sprite_table_address: "i < 0xA0 \<Longrightarrow> unat (0xFE00 OR of_nat i :: u16) = 0xFE00 + i"
proof -
  assume i: "i < 0xA0"
  have "(0xFE00 OR of_nat i :: u16) = push_bit 8 (ucast (0xFE :: u8)) OR ucast (of_nat i :: u8)"
    using i by (simp add: of_nat_byte)
  moreover have "unat (0xFE :: u8) = 254" "unat (of_nat i :: u8) = i"
    using i by (simp_all add: unsigned_of_nat take_bit_eq_mod)
  ultimately show ?thesis
    by (simp only: unat_join_bytes)
qed

lemma sprite_table_not_dma: "i < 0xA0 \<Longrightarrow> (0xFE00 OR of_nat i :: u16) \<noteq> 0xFF46"
proof
  assume i: "i < 0xA0" and "(0xFE00 OR of_nat i :: u16) = 0xFF46"
  then have "unat (0xFF46 :: u16) = 0xFE00 + i"
    using sprite_table_address [OF i] by (simp only:)
  with i show False by simp
qed

lemma ram_offsets:
  "between 0xC000 addr 0xDFFF \<Longrightarrow> unat ((addr :: u16) - 0xC000) < 0x2000"
  "between 0xE000 addr 0xFDFF \<Longrightarrow> unat (addr - 0xE000) < 0x2000"
  "between 0xFF80 addr 0xFFFE \<Longrightarrow> unat (addr - 0xFF80) < 0x80"
  by (auto simp: unat_sub word_le_nat_alt)

locale mm_inv = io_inv I E + cart_inv I E for I :: "('f, 'z) mm_scheme \<Rightarrow> bool" and E +
  assumes upd_stack: "I s \<Longrightarrow> length m = 0x80 \<Longrightarrow> I (s\<lparr>stack := m\<rparr>)"
    and upd_ram: "I s \<Longrightarrow> length m = 0x2000 \<Longrightarrow> I (s\<lparr>workingRam := m\<rparr>)"
    and stack_length: "I s \<Longrightarrow> length (stack s) = 0x80"
    and ram_length: "I s \<Longrightarrow> length (workingRam s) = 0x2000"
begin

lemma get_memories:
  "safe I E (getM stack) (\<lambda>m. length m = 0x80)"
  "safe I E (getM workingRam) (\<lambda>m. length m = 0x2000)"
  by (simp_all add: safe_getM stack_length ram_length)

lemma safe_stack_read:
  "i < 0x80 \<Longrightarrow> safe I E (bindM (getM stack) (\<lambda>m. indexM UndefinedBehaviour m i)) (\<lambda>_. True)"
  by (rule safe_bindM_post [OF get_memories(1)], rule safe_indexM) simp

lemma safe_ram_read:
  "i < 0x2000 \<Longrightarrow> safe I E (bindM (getM workingRam) (\<lambda>m. indexM UndefinedBehaviour m i)) (\<lambda>_. True)"
  by (rule safe_bindM_post [OF get_memories(2)], rule safe_indexM) simp

lemma safe_stack_write: "i < 0x80 \<Longrightarrow> safe I E (stack_write i v) (\<lambda>_. True)"
  unfolding stack_write_def
  by (rule safe_bindM_post [OF get_memories(1)], rule safe_bindM [OF safe_indexM], simp,
      rule safe_modM, rule upd_stack) simp_all

lemma safe_ram_write: "i < 0x2000 \<Longrightarrow> safe I E (ram_write i v) (\<lambda>_. True)"
  unfolding ram_write_def
  by (rule safe_bindM_post [OF get_memories(2)], rule safe_bindM [OF safe_indexM], simp,
      rule safe_modM, rule upd_ram) simp_all

lemma safe_video_byte:
  "safe I E (bindM (videoRead a d) (\<lambda>v. returnM (lit v))) (\<lambda>_. True)"
  "safe I E (bindM (decay v) (\<lambda>b. videoWrite a b d)) (\<lambda>_. True)"
  by (intro safe_intro TrueI)+

lemma safe_io_byte:
  "between 0xFF00 a 0xFF7F \<Longrightarrow> safe I E (bindM (ioRead a) (\<lambda>v. returnM (lit v))) (\<lambda>_. True)"
  "0xFF00 \<le> a \<Longrightarrow> a \<le> 0xFF7F \<Longrightarrow> safe I E (bindM (decay v) (ioWrite a)) (\<lambda>_. True)"
  by (intro safe_bindM [OF safe_ioRead] safe_bindM [OF safe_ci_values(9)] safe_ioWrite safe_intro TrueI; simp)+

lemma safe_mm_read [safe_intro]: "safe I E (mm_read addr is_dma) (\<lambda>_. True)"
  unfolding mm_read_def
  by (intro safe_if safe_cartridge_read safe_video_byte safe_io_byte safe_ram_read safe_stack_read
        ram_offsets safe_thenM safe_throw_error safe_returnM TrueI) simp_all

lemma safe_write_with:
  assumes "\<And>b. addr = 0xFF46 \<Longrightarrow> safe I E (dma b) (\<lambda>_. True)"
  shows "safe I E (write_with dma addr v is_dma) (\<lambda>_. True)"
proof -
  have io: "0xFF00 \<le> addr \<and> addr \<le> 0xFF7F"
    if "between 0xFF00 addr 0xFF45 \<or> between 0xFF47 addr 0xFF7F"
    using that by (auto elim: order_trans [rotated] order_trans)
  show ?thesis
    unfolding write_with_def
    by (intro safe_if safe_cartridge_write safe_video_byte safe_io_byte(2) safe_ram_write safe_stack_write
          ram_offsets safe_returnM TrueI safe_bindM [OF safe_ci_values(9)])
       (use io assms in auto)
qed

lemma safe_DMA [safe_intro]: "safe I E (DMA b) (\<lambda>_. True)"
  unfolding DMA_def Let_def
  by (intro safe_intro safe_write_with) (use sprite_table_not_dma in force)

lemma safe_mm_write [safe_intro]: "safe I E (mm_write addr v is_dma) (\<lambda>_. True)"
  unfolding mm_write_def by (intro safe_write_with safe_DMA)

lemma safe_mm_reset [safe_intro]: "safe I E mm_reset (\<lambda>_. True)"
proof -
  have "I (s\<lparr>stack := replicate 0x80 ci_default, workingRam := replicate 0x2000 ci_default\<rparr>)"
    if "I s" for s
    using that by (intro upd_ram upd_stack) simp_all
  then show ?thesis
    unfolding mm_reset_def by (intro safe_intro safe_modM) auto
qed

end

definition mm_ok :: "('f, 'z) mm_scheme \<Rightarrow> bool" where
  "mm_ok s \<longleftrightarrow> io_ok s \<and> cart_ok s \<and> length (stack s) = 0x80 \<and> length (workingRam s) = 0x2000"

lemmas mm_ok_expand = mm_ok_def io_ok_expand cart_ok_def

lemma mm_ok_channels:
  "mm_ok s \<Longrightarrow> channel_ok i (get_ch i s)"
  "mm_ok s \<Longrightarrow> channel_ok i c \<Longrightarrow> mm_ok (set_ch i c s)"
  by (cases i; simp add: mm_ok_expand)+

interpretation memory_map: mm_inv mm_ok "faults no_ub"
  by unfold_locales
     (simp_all add: mm_ok_channels, simp_all add: mm_ok_expand count_error_def)

section \<open>The memories of the map\<close>

text \<open>
  The cells the map holds itself. Two addresses name the same cell when one is the echo of
  the other; every other address of these memories has a cell of its own.
\<close>

datatype cell = Ram nat | High nat

definition cell_of :: "u16 \<Rightarrow> cell option" where
  "cell_of addr =
     (if between 0xC000 addr 0xDFFF then Some (Ram (unat (addr - 0xC000)))
      else if between 0xE000 addr 0xFDFF then Some (Ram (unat (addr - 0xE000)))
      else if between 0xFF80 addr 0xFFFE then Some (High (unat (addr - 0xFF80)))
      else if addr = 0xFFFF then Some (High 0x7F)
      else None)"

fun get_cell :: "cell \<Rightarrow> ('f, 'z) mm_scheme \<Rightarrow> Byte" where
  "get_cell (Ram i) s = workingRam s ! i"
| "get_cell (High i) s = stack s ! i"

fun set_cell :: "cell \<Rightarrow> Byte \<Rightarrow> ('f, 'z) mm_scheme \<Rightarrow> ('f, 'z) mm_scheme" where
  "set_cell (Ram i) v s = s\<lparr>workingRam := (workingRam s)[i := v]\<rparr>"
| "set_cell (High i) v s = s\<lparr>stack := (stack s)[i := v]\<rparr>"

fun cell_bound :: "cell \<Rightarrow> bool" where
  "cell_bound (Ram i) = (i < 0x2000)"
| "cell_bound (High i) = (i < 0x80)"

lemma cell_of_bound: "cell_of a = Some c \<Longrightarrow> cell_bound c"
  unfolding cell_of_def by (auto simp: ram_offsets split: if_splits)

lemma cell_of_range: "cell_of a = Some c \<Longrightarrow> 0xC000 \<le> a"
  unfolding cell_of_def by (auto split: if_splits elim: order_trans [rotated])

definition memories_ok :: "('f, 'z) mm_scheme \<Rightarrow> bool" where
  "memories_ok s \<longleftrightarrow> length (stack s) = 0x80 \<and> length (workingRam s) = 0x2000"

lemma get_set_cell:
  "memories_ok s \<Longrightarrow> cell_bound c \<Longrightarrow> get_cell d (set_cell c v s) = (if c = d then v else get_cell d s)"
  by (cases c; cases d) (auto simp: memories_ok_def)

lemma set_cell_ok: "memories_ok (set_cell c v s) = memories_ok s"
  by (cases c) (simp_all add: memories_ok_def)

lemma mm_read_cell:
  assumes "memories_ok s" and "cell_of a = Some c"
  shows "mm_read a d s = (Inr (get_cell c s), s)"
  using assms cell_of_bound [OF assms(2)]
  by (auto simp: mm_read_def cell_of_def memories_ok_def word_le_nat_alt word_unat_eq_iff
        split: if_splits)

lemma mm_write_cell:
  assumes "memories_ok s" and "cell_of a = Some c"
  shows "mm_write a v d s = (Inr (), set_cell c v s)"
  using assms cell_of_bound [OF assms(2)]
  by (auto simp: mm_write_def write_with_def ram_write_def stack_write_def cell_of_def memories_ok_def
        word_le_nat_alt word_unat_eq_iff split: if_splits)

end
