(* ===== verification/Cpu.thy ===== *)
theory Cpu
  imports MemoryMap
begin

text \<open>
  \<^verbatim>\<open>libgb/cpu/cpu.hpp\<close> and the memory accesses of \<^verbatim>\<open>cpu.cpp\<close>: the
  state of the CPU on top of the memory map, the bus accesses that take a cycle and check for DMA
  conflicts, undefined data and return addresses, and the fetches through the program counter.
\<close>

section \<open>State\<close>

text \<open>
  The register file in use is the field \<open>registers\<close> of the state; here are the copy for the
  debugger and the stacks of the control-flow sanitizer. A vector's back is the list's end.
\<close>

record 'f gb = "'f mm" +
  comitted_registers :: CPURegisters
  return_address_pointers :: "u16 list"
  expected_return_addresses :: "u16 list"

definition cpu_reset :: "(('f, 'z) gb_scheme, unit) M" where
  "cpu_reset = updR (\<lambda>_. initial_registers)"

definition tick :: "(('f, 'z) gb_scheme, unit) M" where
  "tick = modM (\<lambda>s. s\<lparr>cycle := cycle s + 1\<rparr>)"

lemma tick_run [simp]: "tick s = (Inr (), s\<lparr>cycle := cycle s + 1\<rparr>)"
  by (simp add: tick_def)

section \<open>Bus accesses\<close>

definition is_high_ram :: "u16 \<Rightarrow> bool" where
  "is_high_ram addr = between 0xFF80 addr 0xFFFE"

definition check_bus :: "u16 \<Rightarrow> (('f, 'z) gb_scheme, unit) M" where
  "check_bus addr =
     bindM isInDMA (\<lambda>in_dma.
     whenM (\<not> is_high_ram addr \<and> in_dma) (throw_error dma_bus_conflict))"

definition check_return_pointer :: "ErrorKind \<Rightarrow> u16 \<Rightarrow> (('f, 'z) gb_scheme, unit) M" where
  "check_return_pointer kind addr =
     bindM (getM return_address_pointers) (\<lambda>ps. whenM (addr \<in> set ps) (throw_error kind))"

definition readU8 :: "u16 \<Rightarrow> bool \<Rightarrow> (('f, 'z) gb_scheme, Byte) M" where
  "readU8 addr allow_undef =
     thenM tick
     (thenM (check_bus addr)
     (bindM (mm_read addr False) (\<lambda>result.
      thenM (whenM (\<not> allow_undef \<and> undef result) (throw_error undefined_data))
      (thenM (check_return_pointer reading_return_address addr)
      (returnM result)))))"

definition readU16 :: "u16 \<Rightarrow> bool \<Rightarrow> (('f, 'z) gb_scheme, Word) M" where
  "readU16 addr allow_partial_undef =
     bindM (readU8 (addr + 1) allow_partial_undef) (\<lambda>upper.
     bindM (readU8 addr allow_partial_undef) (\<lambda>lower.
     let result = Word_bytes upper lower in
     thenM
       (if allow_partial_undef
        then whenM (low_undefined result \<and> high_undefined result) (throw_error undefined_data)
        else whenM (undef (base result)) (throw_error undefined_data))
       (returnM result)))"

definition writeU8 :: "u16 \<Rightarrow> Byte \<Rightarrow> bool \<Rightarrow> (('f, 'z) gb_scheme, unit) M" where
  "writeU8 addr v allow_undef =
     thenM tick
     (thenM (check_bus addr)
     (thenM (whenM (\<not> allow_undef \<and> undef v) (throw_error undefined_data))
     (thenM (check_return_pointer clobbered_return_address addr)
     (mm_write addr v False))))"

definition writeU16 :: "u16 \<Rightarrow> Word \<Rightarrow> bool \<Rightarrow> (('f, 'z) gb_scheme, unit) M" where
  "writeU16 addr v allow_partial_undef =
     thenM
       (if allow_partial_undef
        then whenM (low_undefined v \<and> high_undefined v) (throw_error undefined_data)
        else whenM (undef (base v)) (throw_error undefined_data))
     (thenM (writeU8 addr (Word_lower v) allow_partial_undef)
     (writeU8 (addr + 1) (Word_upper v) allow_partial_undef))"

lemma check_return_pointer_free:
  "a \<notin> set (return_address_pointers s) \<Longrightarrow> check_return_pointer k a s = (Inr (), s)"
  by (simp add: check_return_pointer_def)

lemma no_undef_check: "u \<or> \<not> x \<Longrightarrow> whenM (\<not> u \<and> x) m s = (Inr (), s)"
  by auto

lemma readU8_run:
  assumes "check_bus a (s\<lparr>cycle := cycle s + 1\<rparr>) = (Inr (), s\<lparr>cycle := cycle s + 1\<rparr>)"
    and "mm_read a False (s\<lparr>cycle := cycle s + 1\<rparr>) = (Inr v, t)"
    and "a \<notin> set (return_address_pointers t)" and "u \<or> \<not> undef v"
  shows "readU8 a u s = (Inr v, t)"
  by (simp add: readU8_def assms(1,2) no_undef_check [OF assms(4)] check_return_pointer_free [OF assms(3)]
      del: whenM_run)

lemma writeU8_run:
  assumes "check_bus a (s\<lparr>cycle := cycle s + 1\<rparr>) = (Inr (), s\<lparr>cycle := cycle s + 1\<rparr>)"
    and "mm_write a v False (s\<lparr>cycle := cycle s + 1\<rparr>) = (r, t)"
    and "a \<notin> set (return_address_pointers s)" and "u \<or> \<not> undef v"
  shows "writeU8 a v u s = (r, t)"
  by (simp add: writeU8_def assms(1,2) no_undef_check [OF assms(4)] check_return_pointer_free assms(3)
      del: whenM_run)

section \<open>Fetches\<close>

definition advancePC1Byte :: "(('f, 'z) gb_scheme, u8) M" where
  "advancePC1Byte = bindM incrementPC (\<lambda>pc. bindM (readU8 pc False) decay)"

definition advancePC2Bytes :: "(('f, 'z) gb_scheme, u16) M" where
  "advancePC2Bytes =
     bindM (getR reg_pc) (\<lambda>pc.
     bindM (readU16 pc False) (\<lambda>result.
     thenM (bindM (getR reg_pc) (\<lambda>pc. setPC (pc + 2)))
     (decay (base result))))"

section \<open>Register operands\<close>

datatype Register =
    R_A | R_F | R_B | R_C | R_D | R_E | R_H | R_L
  | R_AF | R_HL | R_BC | R_DE
  | R_HL_ptr | R_BC_ptr | R_DE_ptr
  | R_SP | R_PC

text \<open>The pair a pointer operand goes through.\<close>

definition pointer :: "Reg16 \<Rightarrow> (('f, 'z) gb_scheme, u16) M" where
  "pointer r = bindM (getU16 r) (\<lambda>w. decay (base w))"

fun getRegU8 :: "Register \<Rightarrow> (('f, 'z) gb_scheme, Byte) M" where
  "getRegU8 R_A = getU8 Reg8_A"
| "getRegU8 R_F = getU8 Reg8_F"
| "getRegU8 R_B = getU8 Reg8_B"
| "getRegU8 R_C = getU8 Reg8_C"
| "getRegU8 R_D = getU8 Reg8_D"
| "getRegU8 R_E = getU8 Reg8_E"
| "getRegU8 R_H = getU8 Reg8_H"
| "getRegU8 R_L = getU8 Reg8_L"
| "getRegU8 R_HL_ptr = bindM (pointer Reg16_HL) (\<lambda>p. readU8 p False)"
| "getRegU8 R_BC_ptr = bindM (pointer Reg16_BC) (\<lambda>p. readU8 p False)"
| "getRegU8 R_DE_ptr = bindM (pointer Reg16_DE) (\<lambda>p. readU8 p False)"
| "getRegU8 _ = raiseM (RuntimeError ''Register cannot be converted to u8'')"

fun setRegU8 :: "Register \<Rightarrow> Byte \<Rightarrow> (('f, 'z) gb_scheme, unit) M" where
  "setRegU8 R_A v = setU8 Reg8_A v"
| "setRegU8 R_F v = setU8 Reg8_F v"
| "setRegU8 R_B v = setU8 Reg8_B v"
| "setRegU8 R_C v = setU8 Reg8_C v"
| "setRegU8 R_D v = setU8 Reg8_D v"
| "setRegU8 R_E v = setU8 Reg8_E v"
| "setRegU8 R_H v = setU8 Reg8_H v"
| "setRegU8 R_L v = setU8 Reg8_L v"
| "setRegU8 R_HL_ptr v = bindM (pointer Reg16_HL) (\<lambda>p. writeU8 p v False)"
| "setRegU8 R_BC_ptr v = bindM (pointer Reg16_BC) (\<lambda>p. writeU8 p v False)"
| "setRegU8 R_DE_ptr v = bindM (pointer Reg16_DE) (\<lambda>p. writeU8 p v False)"
| "setRegU8 _ v = raiseM (RuntimeError ''Register cannot be converted to u8'')"

fun getRegU16 :: "Register \<Rightarrow> (('f, 'z) gb_scheme, Word) M" where
  "getRegU16 R_AF = getU16 Reg16_AF"
| "getRegU16 R_HL = getU16 Reg16_HL"
| "getRegU16 R_BC = getU16 Reg16_BC"
| "getRegU16 R_DE = getU16 Reg16_DE"
| "getRegU16 R_SP = getU16 Reg16_SP"
| "getRegU16 R_PC = getU16 Reg16_PC"
| "getRegU16 _ = raiseM (RuntimeError ''Register cannot be converted to u16'')"

fun setRegU16 :: "Register \<Rightarrow> Word \<Rightarrow> (('f, 'z) gb_scheme, unit) M" where
  "setRegU16 R_AF v = setU16 Reg16_AF v"
| "setRegU16 R_HL v = setU16 Reg16_HL v"
| "setRegU16 R_BC v = setU16 Reg16_BC v"
| "setRegU16 R_DE v = setU16 Reg16_DE v"
| "setRegU16 R_SP v = setU16 Reg16_SP v"
| "setRegU16 R_PC v = setU16 Reg16_PC v"
| "setRegU16 _ v = raiseM (RuntimeError ''Register cannot be converted to u16'')"

section \<open>Well-formedness\<close>

locale gb_inv = mm_inv I E + regs_inv I E for I :: "('f, 'z) gb_scheme \<Rightarrow> bool" and E +
  assumes upd_committed: "I s \<Longrightarrow> I (s\<lparr>comitted_registers := r\<rparr>)"
    and upd_pointers: "I s \<Longrightarrow> I (s\<lparr>return_address_pointers := ps\<rparr>)"
    and upd_expected: "I s \<Longrightarrow> I (s\<lparr>expected_return_addresses := as\<rparr>)"
    and initial_ok: "I s \<Longrightarrow> I (s\<lparr>registers := initial_registers\<rparr>)"
    and assert_ok: "I s \<Longrightarrow> AssertFailed \<in> E s"
begin

lemma safe_cpu_reset [safe_intro]: "safe I E cpu_reset (\<lambda>_. True)"
  unfolding cpu_reset_def updR_def by (rule safe_modM) (rule initial_ok)

lemma safe_tick [safe_intro]: "safe I E tick (\<lambda>_. True)"
  unfolding tick_def by (rule safe_modM) (rule upd_cycles)

lemma safe_checks [safe_intro]:
  "safe I E (check_bus a) (\<lambda>_. True)" "safe I E (check_return_pointer k a) (\<lambda>_. True)"
  unfolding check_bus_def check_return_pointer_def by (intro safe_intro TrueI)+

lemma safe_bytes [safe_intro]:
  "safe I E (readU8 a u) (\<lambda>_. True)" "safe I E (writeU8 a v u) (\<lambda>_. True)"
  unfolding readU8_def writeU8_def by (intro safe_intro TrueI)+

lemma safe_words [safe_intro]:
  "safe I E (readU16 a u) (\<lambda>_. True)" "safe I E (writeU16 a w u) (\<lambda>_. True)"
  unfolding readU16_def writeU16_def Let_def by (intro safe_intro TrueI)+

lemma safe_fetch [safe_intro]:
  "safe I E advancePC1Byte (\<lambda>_. True)" "safe I E advancePC2Bytes (\<lambda>_. True)"
  unfolding advancePC1Byte_def advancePC2Bytes_def by (intro safe_intro TrueI)+

lemma safe_pointer [safe_intro]: "safe I E (pointer r) (\<lambda>_. True)"
  unfolding pointer_def by (intro safe_intro TrueI)

lemma safe_operands [safe_intro]:
  "safe I E (getRegU8 r) (\<lambda>_. True)" "safe I E (setRegU8 r v) (\<lambda>_. True)"
  "safe I E (getRegU16 r) (\<lambda>_. True)" "safe I E (setRegU16 r w) (\<lambda>_. True)"
  by (cases r; simp only: getRegU8.simps setRegU8.simps getRegU16.simps setRegU16.simps;
      intro safe_intro runtime_error TrueI)+

end

definition gb_ok :: "('f, 'z) gb_scheme \<Rightarrow> bool" where
  "gb_ok s \<longleftrightarrow> mm_ok s \<and> regs_ok s"

lemmas gb_ok_expand = gb_ok_def mm_ok_expand regs_ok_def

lemma gb_ok_channels:
  "gb_ok s \<Longrightarrow> channel_ok i (get_ch i s)"
  "gb_ok s \<Longrightarrow> channel_ok i c \<Longrightarrow> gb_ok (set_ch i c s)"
  by (cases i; simp add: gb_ok_expand)+

text \<open>The exceptions of the machine: the sanitizer's assertion on return can fail.\<close>

definition machine_exns :: "exn set" where
  "machine_exns = - {UndefinedBehaviour, Diverges}"

interpretation machine: gb_inv gb_ok "faults machine_exns"
  by unfold_locales
     (simp_all add: gb_ok_channels, simp_all add: gb_ok_expand count_error_def machine_exns_def
        initial_registers_def flags_clean_def is_valid_pc_def)

end
