(* ===== verification/Instructions.thy ===== *)
theory Instructions
  imports Cpu
begin

text \<open>
  \<^verbatim>\<open>libgb/cpu/instructions.cpp\<close>: one definition per instruction, in the order of
  the file. A signed displacement is an \<^verbatim>\<open>8 word\<close> read with \<open>sint\<close>; sums that
  the code computes in \<open>int\<close> and stores in a \<open>uint16_t\<close> are \<open>word_of_int\<close>
  of an integer. Where the order of evaluation of two operands is not specified they are
  evaluated from left to right; both can fail with \<open>undefined_data\<close> only.
\<close>

section \<open>8-bit loads\<close>

definition LD_r_n :: "Register \<Rightarrow> u8 \<Rightarrow> (('f, 'z) gb_scheme, unit) M" where
  "LD_r_n r n = setRegU8 r (lit n)"

definition LD_r_nn :: "Register \<Rightarrow> u16 \<Rightarrow> (('f, 'z) gb_scheme, unit) M" where
  "LD_r_nn r nn = bindM (readU8 nn False) (setRegU8 r)"

definition LD_r1_r2 :: "Register \<Rightarrow> Register \<Rightarrow> (('f, 'z) gb_scheme, unit) M" where
  "LD_r1_r2 r1 r2 = bindM (getRegU8 r2) (setRegU8 r1)"

definition LD_r_A :: "Register \<Rightarrow> (('f, 'z) gb_scheme, unit) M" where
  "LD_r_A r = bindM (getR reg_a) (setRegU8 r)"

definition LD_nn_A :: "u16 \<Rightarrow> (('f, 'z) gb_scheme, unit) M" where
  "LD_nn_A addr = bindM (getR reg_a) (\<lambda>a. writeU8 addr a False)"

definition set_a :: "Byte \<Rightarrow> (('f, 'z) gb_scheme, unit) M" where
  "set_a v = updR (\<lambda>r. r\<lparr>reg_a := v\<rparr>)"

definition set_sp :: "u16 \<Rightarrow> (('f, 'z) gb_scheme, unit) M" where
  "set_sp v = updR (\<lambda>r. r\<lparr>reg_sp := v\<rparr>)"

definition LD_A_C :: "(('f, 'z) gb_scheme, unit) M" where
  "LD_A_C =
     bindM (getR reg_c) (\<lambda>c.
     bindM (decay (base (Word_bytes (lit 0xFF) c))) (\<lambda>addr.
     bindM (readU8 addr False) set_a))"

definition LD_C_A :: "(('f, 'z) gb_scheme, unit) M" where
  "LD_C_A =
     bindM (getR reg_c) (\<lambda>c.
     bindM (decay (base (Word_bytes (lit 0xFF) c))) (\<lambda>addr.
     bindM (getR reg_a) (\<lambda>a. writeU8 addr a False)))"

text \<open>The four loads through HL that step it, by subtraction or addition.\<close>

definition step_HL ::
  "(u16 CheckedInt \<Rightarrow> u16 CheckedInt \<Rightarrow> (('f, 'z) gb_scheme, u16 CheckedInt) M) \<Rightarrow> Word \<Rightarrow>
   (('f, 'z) gb_scheme, unit) M" where
  "step_HL f hl = bindM (Word_op f hl (word_lit 1)) (setRegU16 R_HL)"

definition LDD_A_HL :: "(('f, 'z) gb_scheme, unit) M" where
  "LDD_A_HL =
     bindM (getRegU16 R_HL) (\<lambda>hl.
     bindM (decay (base hl)) (\<lambda>addr.
     thenM (bindM (readU8 addr False) set_a)
     (step_HL ci_sub hl)))"

definition LDD_HL_A :: "(('f, 'z) gb_scheme, unit) M" where
  "LDD_HL_A =
     bindM (getRegU16 R_HL) (\<lambda>hl.
     bindM (decay (base hl)) (\<lambda>addr.
     thenM (bindM (getR reg_a) (\<lambda>a. writeU8 addr a False))
     (step_HL ci_sub hl)))"

definition LDI_A_HL :: "(('f, 'z) gb_scheme, unit) M" where
  "LDI_A_HL =
     bindM (getRegU16 R_HL) (\<lambda>hl.
     bindM (decay (base hl)) (\<lambda>addr.
     thenM (bindM (readU8 addr False) set_a)
     (step_HL ci_add hl)))"

definition LDI_HL_A :: "(('f, 'z) gb_scheme, unit) M" where
  "LDI_HL_A =
     bindM (getRegU16 R_HL) (\<lambda>hl.
     bindM (decay (base hl)) (\<lambda>addr.
     thenM (bindM (getR reg_a) (\<lambda>a. writeU8 addr a False))
     (step_HL ci_add hl)))"

definition LDH_n_A :: "u8 \<Rightarrow> (('f, 'z) gb_scheme, unit) M" where
  "LDH_n_A n = bindM (getR reg_a) (\<lambda>a. writeU8 (0xFF00 OR ucast n) a False)"

definition LDH_A_n :: "u8 \<Rightarrow> (('f, 'z) gb_scheme, unit) M" where
  "LDH_A_n n = bindM (readU8 (0xFF00 OR ucast n) False) set_a"

section \<open>16-bit loads\<close>

definition LD16_n_nn :: "Register \<Rightarrow> u16 \<Rightarrow> (('f, 'z) gb_scheme, unit) M" where
  "LD16_n_nn n nn = setRegU16 n (word_lit nn)"

definition LD16_SP_HL :: "(('f, 'z) gb_scheme, unit) M" where
  "LD16_SP_HL =
     thenM tick (bindM (getRegU16 R_HL) (\<lambda>hl. bindM (decay (base hl)) set_sp))"

definition ADD16_SIGN :: "Word \<Rightarrow> Byte \<Rightarrow> bool \<Rightarrow> (('f, 'z) gb_scheme, Word) M" where
  "ADD16_SIGN nn n from_sp =
     thenM tick
     (bindM (getU16 Reg16_SP) (\<lambda>sp.
      bindM (op2 ci_greater (ci_and n (lit 0x0F))
               (op2 ci_sub (returnM (lit 0x0F)) (ci_and (Word_lower sp) (lit 0x0F)))) (\<lambda>h.
      thenM (setFlags Flag_H h)
      (bindM (op2 ci_greater (ci_and n (lit 0xFF)) (ci_sub (lit 0xFF) (Word_lower sp))) (\<lambda>c.
       thenM (setFlags Flag_C c)
       (thenM (resetFlags (Flag_N OR Flag_Z))
       (bindM (decay (base nn)) (\<lambda>w.
        bindM (decay n) (\<lambda>d.
        returnM (Word_of (ci_flags (word_of_int (uint w + sint d)) from_sp False)))))))))))"

definition LDHL_SP_n :: "u8 \<Rightarrow> (('f, 'z) gb_scheme, unit) M" where
  "LDHL_SP_n n =
     bindM (getU16 Reg16_SP) (\<lambda>sp.
     bindM (ADD16_SIGN sp (lit n) True) (setRegU16 R_HL))"

definition LD_nn_SP :: "u16 \<Rightarrow> (('f, 'z) gb_scheme, unit) M" where
  "LD_nn_SP nn = bindM (getU16 Reg16_SP) (\<lambda>sp. writeU16 nn sp False)"

definition PUSH :: "Register \<Rightarrow> (('f, 'z) gb_scheme, unit) M" where
  "PUSH r =
     thenM tick
     (bindM (getR reg_sp) (\<lambda>sp.
      thenM (set_sp (sp - 2))
      (bindM (getRegU16 r) (\<lambda>v. writeU16 (sp - 2) v True))))"

definition POP :: "Register \<Rightarrow> (('f, 'z) gb_scheme, unit) M" where
  "POP r =
     bindM (getR reg_sp) (\<lambda>sp.
     thenM (bindM (readU16 sp True) (setRegU16 r))
     (bindM (getR reg_sp) (\<lambda>sp. set_sp (sp + 2))))"

section \<open>8-bit arithmetic and logic\<close>

definition ADD_n :: "Byte \<Rightarrow> bool \<Rightarrow> (('f, 'z) gb_scheme, unit) M" where
  "ADD_n n carry =
     (let carry_int = (if carry then lit 1 else lit 0) in
      bindM (if carry then ci_eq n (lit 0xFF) else returnM False) (\<lambda>carry_overflows.
      bindM (getR reg_a) (\<lambda>a.
      bindM (op2 ci_greater (ci_add n carry_int) (ci_sub (lit 0xFF) a)) (\<lambda>c.
      thenM (setFlags Flag_C (c \<or> carry_overflows))
      (bindM (op2 ci_greater
               (bindM (ci_and n (lit 0x0F)) (\<lambda>x. ci_add x carry_int))
               (bindM (ci_and a (lit 0x0F)) (ci_sub (lit 0x0F)))) (\<lambda>h.
       thenM (setFlags Flag_H h)
       (bindM (ci_add a n) (\<lambda>x.
        bindM (ci_add x carry_int) (\<lambda>result.
        thenM (set_a result)
        (bindM (ci_eq result (lit 0)) (\<lambda>z.
         thenM (setFlags Flag_Z z)
         (resetFlags Flag_N))))))))))))"

definition ADC_n :: "Byte \<Rightarrow> (('f, 'z) gb_scheme, unit) M" where
  "ADC_n n = bindM (getFlags Flag_C) (ADD_n n)"

definition SUB_n :: "Byte \<Rightarrow> bool \<Rightarrow> (('f, 'z) gb_scheme, unit) M" where
  "SUB_n n carry =
     (let carry_int = (if carry then lit 1 else lit 0) in
      bindM (ci_add n carry_int) (\<lambda>adjusted_n.
      bindM (if carry then ci_eq n (lit 0xFF) else returnM False) (\<lambda>carry_overflows.
      bindM (getR reg_a) (\<lambda>a.
      bindM (ci_less a adjusted_n) (\<lambda>c.
      thenM (setFlags Flag_C (c \<or> carry_overflows))
      (bindM (op2 ci_less (ci_and a (lit 0x0F))
                (bindM (ci_and n (lit 0x0F)) (\<lambda>x. ci_add x carry_int))) (\<lambda>h.
       thenM (setFlags Flag_H h)
       (bindM (ci_sub a adjusted_n) (\<lambda>result.
        thenM (set_a result)
        (bindM (ci_eq result (lit 0)) (\<lambda>z.
         thenM (setFlags Flag_Z z)
         (setFlags Flag_N True))))))))))))"

definition SBC_n :: "Byte \<Rightarrow> (('f, 'z) gb_scheme, unit) M" where
  "SBC_n n = bindM (getFlags Flag_C) (SUB_n n)"

definition AND_n :: "Byte \<Rightarrow> (('f, 'z) gb_scheme, unit) M" where
  "AND_n n =
     bindM (getR reg_a) (\<lambda>a.
     bindM (ci_and a n) (\<lambda>result.
     thenM (set_a result)
     (bindM (ci_eq result (lit 0)) (\<lambda>z.
      thenM (setFlags Flag_Z z)
      (thenM (setFlags Flag_H True)
      (resetFlags (Flag_N OR Flag_C)))))))"

definition OR_n :: "Byte \<Rightarrow> (('f, 'z) gb_scheme, unit) M" where
  "OR_n n =
     bindM (getR reg_a) (\<lambda>a.
     bindM (ci_or a n) (\<lambda>result.
     thenM (set_a result)
     (bindM (ci_eq result (lit 0)) (\<lambda>z.
      thenM (setFlags Flag_Z z)
      (resetFlags (Flag_H OR Flag_N OR Flag_C))))))"

definition XOR_n :: "Byte \<Rightarrow> (('f, 'z) gb_scheme, unit) M" where
  "XOR_n n =
     bindM (getR reg_a) (\<lambda>a.
     bindM (ci_xor a n) (\<lambda>result.
     thenM (set_a result)
     (bindM (ci_eq result (lit 0)) (\<lambda>z.
      thenM (setFlags Flag_Z z)
      (resetFlags (Flag_H OR Flag_N OR Flag_C))))))"

definition CP_n :: "Byte \<Rightarrow> (('f, 'z) gb_scheme, unit) M" where
  "CP_n n =
     bindM (getR reg_a) (\<lambda>a.
     bindM (ci_eq a n) (\<lambda>z.
     thenM (setFlags Flag_Z z)
     (thenM (setFlags Flag_N True)
     (bindM (op2 ci_less (ci_and a (lit 0x0F)) (ci_and n (lit 0x0F))) (\<lambda>h.
      thenM (setFlags Flag_H h)
      (bindM (ci_less a n) (setFlags Flag_C)))))))"

definition INC_r :: "Register \<Rightarrow> (('f, 'z) gb_scheme, unit) M" where
  "INC_r r =
     bindM (getRegU8 r) (\<lambda>v.
     bindM (ci_add v (lit 1)) (\<lambda>result.
     thenM (setRegU8 r result)
     (bindM (ci_eq result (lit 0)) (\<lambda>z.
      thenM (setFlags Flag_Z z)
      (bindM (op2 ci_eq (ci_and result (lit 0x0F)) (returnM (lit 0))) (\<lambda>h.
       thenM (setFlags Flag_H h)
       (resetFlags Flag_N)))))))"

definition DEC_r :: "Register \<Rightarrow> (('f, 'z) gb_scheme, unit) M" where
  "DEC_r r =
     bindM (getRegU8 r) (\<lambda>v.
     bindM (ci_sub v (lit 1)) (\<lambda>result.
     thenM (setRegU8 r result)
     (bindM (ci_eq result (lit 0)) (\<lambda>z.
      thenM (setFlags Flag_Z z)
      (bindM (op2 ci_eq (ci_and result (lit 0x0F)) (returnM (lit 0x0F))) (\<lambda>h.
       thenM (setFlags Flag_H h)
       (setFlags Flag_N True)))))))"

section \<open>16-bit arithmetic\<close>

definition ADD16 :: "Word \<Rightarrow> Word \<Rightarrow> (('f, 'z) gb_scheme, Word) M" where
  "ADD16 n1 n2 =
     thenM tick
     (thenM (resetFlags Flag_N)
     (bindM (op2 Word_greater (Word_op ci_and n2 (word_lit 0x0FFF))
              (bindM (Word_op ci_and n1 (word_lit 0x0FFF)) (Word_op ci_sub (word_lit 0x0FFF)))) (\<lambda>h.
      thenM (setFlags Flag_H h)
      (bindM (bindM (Word_op ci_sub (word_lit 0xFFFF) n1) (Word_greater n2)) (\<lambda>c.
       thenM (setFlags Flag_C c)
       (Word_op ci_add n1 n2))))))"

definition ADD16_HL_n :: "Register \<Rightarrow> (('f, 'z) gb_scheme, unit) M" where
  "ADD16_HL_n n =
     bindM (getRegU16 R_HL) (\<lambda>hl_val.
     bindM (getRegU16 n) (\<lambda>n_val.
     bindM (ADD16 hl_val n_val) (setRegU16 R_HL)))"

definition ADD16_SP_n :: "u8 \<Rightarrow> (('f, 'z) gb_scheme, unit) M" where
  "ADD16_SP_n n =
     thenM tick
     (bindM (getU16 Reg16_SP) (\<lambda>sp.
      bindM (ADD16_SIGN sp (lit n) True) (\<lambda>result.
      bindM (decay (base result)) set_sp)))"

definition INC16_nn :: "Register \<Rightarrow> (('f, 'z) gb_scheme, unit) M" where
  "INC16_nn nn =
     thenM tick
     (bindM (getRegU16 nn) (\<lambda>v. bindM (Word_op ci_add v (word_lit 1)) (setRegU16 nn)))"

definition DEC16_nn :: "Register \<Rightarrow> (('f, 'z) gb_scheme, unit) M" where
  "DEC16_nn nn =
     thenM tick
     (bindM (getRegU16 nn) (\<lambda>v. bindM (Word_op ci_sub v (word_lit 1)) (setRegU16 nn)))"

section \<open>Miscellaneous\<close>

definition SWAP_n :: "Register \<Rightarrow> (('f, 'z) gb_scheme, unit) M" where
  "SWAP_n n =
     bindM (getRegU8 n) (\<lambda>v.
     bindM (ci_eq v (lit 0)) (\<lambda>z.
     thenM (setFlags Flag_Z z)
     (thenM (resetFlags (Flag_N OR Flag_H OR Flag_C))
     (bindM (op2 ci_or (bindM (ci_and v (lit 0x0F)) (\<lambda>x. ci_shl x 4))
                       (bindM (ci_and v (lit 0xF0)) (\<lambda>x. ci_shr x 4))) (setRegU8 n)))))"

definition DAA :: "(('f, 'z) gb_scheme, unit) M" where
  "DAA =
     thenM
       (bindM (getFlags Flag_N) (\<lambda>subtracted.
        bindM (getR reg_a) (\<lambda>a.
        if \<not> subtracted then
          bindM (ci_greater a (lit 0x99)) (\<lambda>above.
          bindM (if above then returnM True else getFlags Flag_C) (\<lambda>upper.
          bindM (bindM (ci_and a (lit 0x0F)) (\<lambda>low. ci_greater low (lit 0x09))) (\<lambda>low_above.
          bindM (if low_above then returnM True else getFlags Flag_H) (\<lambda>lower.
          let adjust = (if upper then 0x60 else 0) OR (if lower then 0x06 else 0) in
          thenM (setFlags Flag_C upper)
          (bindM (ci_add a (lit adjust)) set_a)))))
        else
          bindM (getFlags Flag_C) (\<lambda>upper.
          bindM (getFlags Flag_H) (\<lambda>lower.
          let adjust = (if upper then 0x60 else 0) OR (if lower then 0x06 else 0) in
          thenM (setFlags Flag_C upper)
          (bindM (ci_sub a (lit adjust)) set_a))))))
     (bindM (getR reg_a) (\<lambda>a.
      bindM (ci_eq a (lit 0)) (\<lambda>z.
      thenM (setFlags Flag_Z z)
      (resetFlags Flag_H))))"

definition CPL :: "(('f, 'z) gb_scheme, unit) M" where
  "CPL =
     thenM (setFlags (Flag_N OR Flag_H) True)
     (bindM (getR reg_a) (\<lambda>a. bindM (ci_not a) set_a))"

definition CCF :: "(('f, 'z) gb_scheme, unit) M" where
  "CCF =
     thenM (resetFlags (Flag_N OR Flag_H))
     (bindM (getFlags Flag_C) (\<lambda>c. setFlags Flag_C (\<not> c)))"

definition SCF :: "(('f, 'z) gb_scheme, unit) M" where
  "SCF = thenM (resetFlags (Flag_N OR Flag_H)) (setFlags Flag_C True)"

definition NOP :: "(('f, 'z) gb_scheme, unit) M" where
  "NOP = returnM ()"

definition HALT :: "(('f, 'z) gb_scheme, unit) M" where
  "HALT = updR (\<lambda>r. r\<lparr>reg_halt := True\<rparr>)"

definition STOP :: "(('f, 'z) gb_scheme, unit) M" where
  "STOP = returnM ()"

fun set_IME2 :: "bool \<Rightarrow> CPURegisters \<Rightarrow> CPURegisters" where
  "set_IME2 b r = (case reg_IME r of (i0, i1, i2) \<Rightarrow> r\<lparr>reg_IME := (i0, i1, b)\<rparr>)"

definition DI :: "(('f, 'z) gb_scheme, unit) M" where
  "DI = updR (set_IME2 False)"

definition EI :: "(('f, 'z) gb_scheme, unit) M" where
  "EI = updR (set_IME2 True)"

section \<open>Rotates, shifts and bits\<close>

text \<open>The flags every rotation and shift sets: C from a bit of the operand, N and H reset.\<close>

definition carry_from :: "Byte \<Rightarrow> u8 \<Rightarrow> (('f, 'z) gb_scheme, bool) M" where
  "carry_from v msk = bindM (ci_and v (lit msk)) (\<lambda>x. ci_neq x (lit 0))"

definition rotate_flags :: "Byte \<Rightarrow> u8 \<Rightarrow> (('f, 'z) gb_scheme, unit) M" where
  "rotate_flags v msk =
     thenM (bindM (carry_from v msk) (setFlags Flag_C))
     (resetFlags (Flag_N OR Flag_H))"

definition carry_bit :: "(('f, 'z) gb_scheme, Byte) M" where
  "carry_bit = bindM (getFlags Flag_C) (\<lambda>c. returnM (if c then lit 1 else lit 0))"

definition ROT_LC :: "Byte \<Rightarrow> (('f, 'z) gb_scheme, Byte) M" where
  "ROT_LC v =
     bindM (op2 ci_or (ci_shl v 1) (ci_shr v 7)) (\<lambda>result.
     thenM (rotate_flags v 0x80) (returnM result))"

definition ROT_L :: "Byte \<Rightarrow> (('f, 'z) gb_scheme, Byte) M" where
  "ROT_L v =
     bindM carry_bit (\<lambda>c.
     bindM (bindM (ci_shl v 1) (\<lambda>x. ci_or x c)) (\<lambda>result.
     thenM (rotate_flags v 0x80) (returnM result)))"

definition ROT_RC :: "Byte \<Rightarrow> (('f, 'z) gb_scheme, Byte) M" where
  "ROT_RC v =
     bindM (op2 ci_or (bindM (ci_and v (lit 1)) (\<lambda>x. ci_shl x 7)) (ci_shr v 1)) (\<lambda>result.
     thenM (rotate_flags v 0x01) (returnM result))"

definition ROT_R :: "Byte \<Rightarrow> (('f, 'z) gb_scheme, Byte) M" where
  "ROT_R v =
     bindM carry_bit (\<lambda>c.
     bindM (op2 ci_or (ci_shl c 7) (ci_shr v 1)) (\<lambda>result.
     thenM (rotate_flags v 0x01) (returnM result)))"

definition rotate_A :: "(Byte \<Rightarrow> (('f, 'z) gb_scheme, Byte) M) \<Rightarrow> (('f, 'z) gb_scheme, unit) M" where
  "rotate_A rot = thenM (resetFlags Flag_Z) (bindM (getR reg_a) (\<lambda>a. bindM (rot a) set_a))"

definition RLCA :: "(('f, 'z) gb_scheme, unit) M" where
  "RLCA = rotate_A ROT_LC"

definition RLA :: "(('f, 'z) gb_scheme, unit) M" where
  "RLA = rotate_A ROT_L"

definition RRCA :: "(('f, 'z) gb_scheme, unit) M" where
  "RRCA = rotate_A ROT_RC"

definition RRA :: "(('f, 'z) gb_scheme, unit) M" where
  "RRA = rotate_A ROT_R"

definition rotate_r ::
  "(Byte \<Rightarrow> (('f, 'z) gb_scheme, Byte) M) \<Rightarrow> Register \<Rightarrow> (('f, 'z) gb_scheme, unit) M" where
  "rotate_r rot r =
     bindM (getRegU8 r) (\<lambda>v.
     bindM (rot v) (\<lambda>result.
     thenM (bindM (ci_eq result (lit 0)) (setFlags Flag_Z))
     (setRegU8 r result)))"

definition RLC_r :: "Register \<Rightarrow> (('f, 'z) gb_scheme, unit) M" where
  "RLC_r r = rotate_r ROT_LC r"

definition RL_r :: "Register \<Rightarrow> (('f, 'z) gb_scheme, unit) M" where
  "RL_r r = rotate_r ROT_L r"

definition RRC_r :: "Register \<Rightarrow> (('f, 'z) gb_scheme, unit) M" where
  "RRC_r r = rotate_r ROT_RC r"

definition RR_r :: "Register \<Rightarrow> (('f, 'z) gb_scheme, unit) M" where
  "RR_r r = rotate_r ROT_R r"

definition SLA_n :: "Register \<Rightarrow> (('f, 'z) gb_scheme, unit) M" where
  "SLA_n r =
     bindM (getRegU8 r) (\<lambda>v.
     thenM (bindM (ci_shl v 1) (setRegU8 r))
     (thenM (resetFlags (Flag_N OR Flag_H))
     (thenM (bindM (bindM (ci_and v (lit 0x7F)) (\<lambda>x. ci_eq x (lit 0))) (setFlags Flag_Z))
     (bindM (carry_from v 0x80) (setFlags Flag_C)))))"

definition SRA_n :: "Register \<Rightarrow> (('f, 'z) gb_scheme, unit) M" where
  "SRA_n r =
     bindM (getRegU8 r) (\<lambda>v.
     bindM (op2 ci_or (ci_shr v 1) (ci_and v (lit 0x80))) (\<lambda>result.
     thenM (resetFlags (Flag_N OR Flag_H))
     (thenM (bindM (ci_eq result (lit 0)) (setFlags Flag_Z))
     (thenM (bindM (carry_from v 0x01) (setFlags Flag_C))
     (setRegU8 r result)))))"

definition SRL_n :: "Register \<Rightarrow> (('f, 'z) gb_scheme, unit) M" where
  "SRL_n r =
     bindM (getRegU8 r) (\<lambda>v.
     bindM (ci_shr v 1) (\<lambda>result.
     thenM (resetFlags (Flag_N OR Flag_H))
     (thenM (bindM (ci_eq result (lit 0)) (setFlags Flag_Z))
     (thenM (bindM (carry_from v 0x01) (setFlags Flag_C))
     (setRegU8 r result)))))"

definition BIT_b_r :: "nat \<Rightarrow> Register \<Rightarrow> (('f, 'z) gb_scheme, unit) M" where
  "BIT_b_r b r =
     bindM (op2 ci_and (getRegU8 r) (ci_shl (lit 1) b)) (\<lambda>x.
     bindM (ci_eq x (lit 0)) (\<lambda>z.
     thenM (setFlags Flag_Z z)
     (thenM (setFlags Flag_H True)
     (resetFlags Flag_N))))"

definition SET_b_r :: "nat \<Rightarrow> Register \<Rightarrow> (('f, 'z) gb_scheme, unit) M" where
  "SET_b_r b r = bindM (op2 ci_or (getRegU8 r) (ci_shl (lit 1) b)) (setRegU8 r)"

definition RES_b_r :: "nat \<Rightarrow> Register \<Rightarrow> (('f, 'z) gb_scheme, unit) M" where
  "RES_b_r b r =
     bindM (op2 ci_and (getRegU8 r) (bindM (ci_shl (lit 1) b) ci_not)) (setRegU8 r)"

section \<open>Jumps, calls and returns\<close>

definition JP_nn :: "u16 \<Rightarrow> (('f, 'z) gb_scheme, unit) M" where
  "JP_nn nn = thenM tick (setPC nn)"

definition JP_cc_nn :: "Flag \<Rightarrow> bool \<Rightarrow> u16 \<Rightarrow> (('f, 'z) gb_scheme, unit) M" where
  "JP_cc_nn f on nn = bindM (getFlags f) (\<lambda>b. whenM (b = on) (JP_nn nn))"

definition JP_HL :: "(('f, 'z) gb_scheme, unit) M" where
  "JP_HL = bindM (getRegU16 R_HL) (\<lambda>hl. bindM (decay (base hl)) setPC)"

definition JR_n :: "u8 \<Rightarrow> (('f, 'z) gb_scheme, unit) M" where
  "JR_n n = bindM (getR reg_pc) (\<lambda>pc. JP_nn (word_of_int (uint pc + sint n)))"

definition JR_cc_n :: "Flag \<Rightarrow> bool \<Rightarrow> u8 \<Rightarrow> (('f, 'z) gb_scheme, unit) M" where
  "JR_cc_n f on n = bindM (getR reg_pc) (\<lambda>pc. JP_cc_nn f on (word_of_int (uint pc + sint n)))"

definition push_call_frame :: "(('f, 'z) gb_scheme, unit) M" where
  "push_call_frame =
     modM (\<lambda>s. s\<lparr>expected_return_addresses := expected_return_addresses s @ [reg_pc (registers s)],
       return_address_pointers :=
         return_address_pointers s @ [reg_sp (registers s) + 1] @ [reg_sp (registers s)]\<rparr>)"

definition CALL_nn :: "u16 \<Rightarrow> (('f, 'z) gb_scheme, unit) M" where
  "CALL_nn nn = thenM (PUSH R_PC) (thenM push_call_frame (setPC nn))"

definition CALL_cc_nn :: "Flag \<Rightarrow> bool \<Rightarrow> u16 \<Rightarrow> (('f, 'z) gb_scheme, unit) M" where
  "CALL_cc_nn f on nn = bindM (getFlags f) (\<lambda>b. whenM (b = on) (CALL_nn nn))"

definition RST_n :: "u8 \<Rightarrow> (('f, 'z) gb_scheme, unit) M" where
  "RST_n n = CALL_nn (ucast n)"

text \<open>The local function \<open>pop_back\<close> of \<open>RET\<close>: zero when the vector is empty.\<close>

definition pop_back :: "u16 list \<Rightarrow> u16 \<times> u16 list" where
  "pop_back vec = (if vec = [] then (0, []) else (last vec, butlast vec))"

definition pop_pointer :: "(('f, 'z) gb_scheme, u16) M" where
  "pop_pointer =
     bindM (getM return_address_pointers) (\<lambda>ps.
     thenM (modM (\<lambda>s. s\<lparr>return_address_pointers := snd (pop_back ps)\<rparr>))
     (returnM (fst (pop_back ps))))"

definition pop_expected :: "(('f, 'z) gb_scheme, u16) M" where
  "pop_expected =
     bindM (getM expected_return_addresses) (\<lambda>es.
     thenM (modM (\<lambda>s. s\<lparr>expected_return_addresses := snd (pop_back es)\<rparr>))
     (returnM (fst (pop_back es))))"

definition forget_frames :: "(('f, 'z) gb_scheme, unit) M" where
  "forget_frames = modM (\<lambda>s. s\<lparr>return_address_pointers := [], expected_return_addresses := []\<rparr>)"

definition RET :: "(('f, 'z) gb_scheme, unit) M" where
  "RET =
     bindM pop_pointer (\<lambda>expected_sp.
     bindM pop_pointer (\<lambda>expected_sp_plus_1.
     thenM (assertM (uint expected_sp_plus_1 = uint expected_sp + 1 \<or>
                     (expected_sp = 0 \<and> expected_sp_plus_1 = 0)))
     (bindM (getR reg_sp) (\<lambda>sp.
      thenM (whenM (expected_sp \<noteq> sp) (thenM (throw_error call_frame_violation) forget_frames))
      (bindM pop_expected (\<lambda>expected_addr.
       bindM (bindM (readU16 sp False) (\<lambda>w. decay (base w))) (\<lambda>actual_addr.
       thenM (whenM (expected_addr \<noteq> actual_addr)
         (thenM (throw_error clobbered_return_address) forget_frames))
       (thenM (bindM (getR reg_sp) (\<lambda>sp. set_sp (sp + 2)))
       (JP_nn actual_addr)))))))))"

definition RET_cc :: "Flag \<Rightarrow> bool \<Rightarrow> (('f, 'z) gb_scheme, unit) M" where
  "RET_cc f on = thenM tick (bindM (getFlags f) (\<lambda>b. whenM (b = on) RET))"

definition RETI :: "(('f, 'z) gb_scheme, unit) M" where
  "RETI = thenM (updR (\<lambda>r. r\<lparr>reg_IME := (True, True, True)\<rparr>)) RET"

section \<open>Safety\<close>

lemma flag_masks_clean [simp]:
  "Flag_C AND 0x0F = 0" "Flag_H AND 0x0F = 0" "Flag_N AND 0x0F = 0" "Flag_Z AND 0x0F = 0"
  "(Flag_N OR Flag_Z) AND 0x0F = 0" "(Flag_N OR Flag_C) AND 0x0F = 0" "(Flag_N OR Flag_H) AND 0x0F = 0"
  "(Flag_H OR Flag_N OR Flag_C) AND 0x0F = 0" "(Flag_N OR Flag_H OR Flag_C) AND 0x0F = 0"
  by (simp_all add: Flag_defs)

context gb_inv
begin

lemma safe_set_registers [safe_intro]:
  "safe I E (set_a v) (\<lambda>_. True)" "safe I E (set_sp w) (\<lambda>_. True)"
  "safe I E HALT (\<lambda>_. True)" "safe I E DI (\<lambda>_. True)" "safe I E EI (\<lambda>_. True)"
  unfolding set_a_def set_sp_def HALT_def DI_def EI_def
  by (intro safe_updR; simp split: prod.splits)+

lemma safe_step_HL [safe_intro]:
  "safe I E (step_HL ci_add w) (\<lambda>_. True)" "safe I E (step_HL ci_sub w) (\<lambda>_. True)"
  unfolding step_HL_def by (intro safe_intro)+

lemma safe_loads [safe_intro]:
  "safe I E (LD_r_n r n) (\<lambda>_. True)" "safe I E (LD_r_nn r a) (\<lambda>_. True)"
  "safe I E (LD_r1_r2 r r2) (\<lambda>_. True)" "safe I E (LD_r_A r) (\<lambda>_. True)"
  "safe I E (LD_nn_A a) (\<lambda>_. True)" "safe I E LD_A_C (\<lambda>_. True)" "safe I E LD_C_A (\<lambda>_. True)"
  "safe I E LDD_A_HL (\<lambda>_. True)" "safe I E LDD_HL_A (\<lambda>_. True)"
  "safe I E LDI_A_HL (\<lambda>_. True)" "safe I E LDI_HL_A (\<lambda>_. True)"
  "safe I E (LDH_n_A n) (\<lambda>_. True)" "safe I E (LDH_A_n n) (\<lambda>_. True)"
  unfolding LD_r_n_def LD_r_nn_def LD_r1_r2_def LD_r_A_def LD_nn_A_def LD_A_C_def LD_C_A_def
    LDD_A_HL_def LDD_HL_A_def LDI_A_HL_def LDI_HL_A_def LDH_n_A_def LDH_A_n_def
  by (intro safe_intro)+

lemma safe_ADD16_SIGN [safe_intro]: "safe I E (ADD16_SIGN w b p) (\<lambda>_. True)"
  unfolding ADD16_SIGN_def by (intro safe_intro flag_masks_clean TrueI)

lemma safe_loads16 [safe_intro]:
  "safe I E (LD16_n_nn r a) (\<lambda>_. True)" "safe I E LD16_SP_HL (\<lambda>_. True)"
  "safe I E (LDHL_SP_n n) (\<lambda>_. True)" "safe I E (LD_nn_SP a) (\<lambda>_. True)"
  "safe I E (PUSH r) (\<lambda>_. True)" "safe I E (POP r) (\<lambda>_. True)"
  unfolding LD16_n_nn_def LD16_SP_HL_def LDHL_SP_n_def LD_nn_SP_def PUSH_def POP_def
  by (intro safe_intro)+

lemma safe_alu [safe_intro]:
  "safe I E (ADD_n b c) (\<lambda>_. True)" "safe I E (ADC_n b) (\<lambda>_. True)"
  "safe I E (SUB_n b c) (\<lambda>_. True)" "safe I E (SBC_n b) (\<lambda>_. True)"
  "safe I E (AND_n b) (\<lambda>_. True)" "safe I E (OR_n b) (\<lambda>_. True)"
  "safe I E (XOR_n b) (\<lambda>_. True)" "safe I E (CP_n b) (\<lambda>_. True)"
  "safe I E (INC_r r) (\<lambda>_. True)" "safe I E (DEC_r r) (\<lambda>_. True)"
  unfolding ADD_n_def ADC_n_def SUB_n_def SBC_n_def AND_n_def OR_n_def XOR_n_def CP_n_def
    INC_r_def DEC_r_def Let_def
  by (intro safe_intro flag_masks_clean TrueI)+

lemma safe_alu16 [safe_intro]:
  "safe I E (ADD16 v w) (\<lambda>_. True)" "safe I E (ADD16_HL_n r) (\<lambda>_. True)"
  "safe I E (ADD16_SP_n n) (\<lambda>_. True)" "safe I E (INC16_nn r) (\<lambda>_. True)"
  "safe I E (DEC16_nn r) (\<lambda>_. True)"
  unfolding ADD16_def ADD16_HL_n_def ADD16_SP_n_def INC16_nn_def DEC16_nn_def
  by (intro safe_intro flag_masks_clean TrueI)+

lemma safe_misc [safe_intro]:
  "safe I E (SWAP_n r) (\<lambda>_. True)" "safe I E DAA (\<lambda>_. True)" "safe I E CPL (\<lambda>_. True)"
  "safe I E CCF (\<lambda>_. True)" "safe I E SCF (\<lambda>_. True)" "safe I E NOP (\<lambda>_. True)"
  "safe I E STOP (\<lambda>_. True)"
  unfolding SWAP_n_def DAA_def CPL_def CCF_def SCF_def NOP_def STOP_def Let_def
  by (intro safe_intro flag_masks_clean TrueI)+

lemma safe_rotate_flags [safe_intro]:
  "safe I E (carry_from v m) (\<lambda>_. True)" "safe I E (rotate_flags v m) (\<lambda>_. True)"
  "safe I E carry_bit (\<lambda>_. True)"
  unfolding carry_from_def rotate_flags_def carry_bit_def by (intro safe_intro flag_masks_clean TrueI)+

lemma safe_rotations [safe_intro]:
  "safe I E (ROT_LC v) (\<lambda>_. True)" "safe I E (ROT_L v) (\<lambda>_. True)"
  "safe I E (ROT_RC v) (\<lambda>_. True)" "safe I E (ROT_R v) (\<lambda>_. True)"
  unfolding ROT_LC_def ROT_L_def ROT_RC_def ROT_R_def by (intro safe_intro TrueI)+

lemma safe_rotates [safe_intro]:
  "safe I E RLCA (\<lambda>_. True)" "safe I E RLA (\<lambda>_. True)" "safe I E RRCA (\<lambda>_. True)"
  "safe I E RRA (\<lambda>_. True)" "safe I E (RLC_r r) (\<lambda>_. True)" "safe I E (RL_r r) (\<lambda>_. True)"
  "safe I E (RRC_r r) (\<lambda>_. True)" "safe I E (RR_r r) (\<lambda>_. True)" "safe I E (SLA_n r) (\<lambda>_. True)"
  "safe I E (SRA_n r) (\<lambda>_. True)" "safe I E (SRL_n r) (\<lambda>_. True)"
  "safe I E (BIT_b_r n r) (\<lambda>_. True)" "safe I E (SET_b_r n r) (\<lambda>_. True)" "safe I E (RES_b_r n r) (\<lambda>_. True)"
  unfolding RLCA_def RLA_def RRCA_def RRA_def RLC_r_def RL_r_def RRC_r_def RR_r_def rotate_A_def rotate_r_def
    SLA_n_def SRA_n_def SRL_n_def BIT_b_r_def SET_b_r_def RES_b_r_def
  by (intro safe_intro flag_masks_clean TrueI)+

lemma safe_frames [safe_intro]:
  "safe I E push_call_frame (\<lambda>_. True)" "safe I E pop_pointer (\<lambda>_. True)"
  "safe I E pop_expected (\<lambda>_. True)" "safe I E forget_frames (\<lambda>_. True)"
  unfolding push_call_frame_def pop_pointer_def pop_expected_def forget_frames_def
  by (intro safe_intro safe_modM upd_pointers upd_expected TrueI; assumption?)+

lemma safe_failing_assert [safe_intro]: "safe I E (assertM b) (\<lambda>_. True)"
  unfolding assertM_def by (intro safe_intro assert_ok TrueI)

lemma safe_jumps [safe_intro]:
  "safe I E (JP_nn a) (\<lambda>_. True)" "safe I E (JP_cc_nn f b a) (\<lambda>_. True)" "safe I E JP_HL (\<lambda>_. True)"
  "safe I E (JR_n n) (\<lambda>_. True)" "safe I E (JR_cc_n f b n) (\<lambda>_. True)"
  "safe I E (CALL_nn a) (\<lambda>_. True)" "safe I E (CALL_cc_nn f b a) (\<lambda>_. True)" "safe I E (RST_n n) (\<lambda>_. True)"
  unfolding JP_nn_def JP_cc_nn_def JP_HL_def JR_n_def JR_cc_n_def CALL_nn_def CALL_cc_nn_def RST_n_def
  by (intro safe_intro TrueI)+

lemma safe_returns [safe_intro]:
  "safe I E RET (\<lambda>_. True)" "safe I E (RET_cc f b) (\<lambda>_. True)" "safe I E RETI (\<lambda>_. True)"
proof -
  show RET: "safe I E RET (\<lambda>_. True)"
    unfolding RET_def by (intro safe_intro TrueI)
  show "safe I E (RET_cc f b) (\<lambda>_. True)" "safe I E RETI (\<lambda>_. True)"
    unfolding RET_cc_def RETI_def by (intro safe_intro safe_updR RET; simp)+
qed

end

end
