(* ===== verification/Opcodes.thy ===== *)
theory Opcodes
  imports Instructions
begin

text \<open>
  \<^verbatim>\<open>libgb/cpu/opcodes.cpp\<close>: the decoder. The switch of
  \<open>processNextInstruction\<close> is cut at its section comments into partial functions from the
  opcode to what its case does; the opcodes that no section knows are the default case.
\<close>

section \<open>Operand tables\<close>

definition registerOpcodes :: "Register list" where
  "registerOpcodes = [R_B, R_C, R_D, R_E, R_H, R_L, R_HL_ptr, R_A]"

definition register16Opcodes :: "Register list" where
  "register16Opcodes = [R_BC, R_DE, R_HL, R_SP]"

definition operand :: "nat \<Rightarrow> (('f, 'z) gb_scheme, Register) M" where
  "operand i = indexM UndefinedBehaviour registerOpcodes i"

definition operand16 :: "nat \<Rightarrow> (('f, 'z) gb_scheme, Register) M" where
  "operand16 i = indexM UndefinedBehaviour register16Opcodes i"

text \<open>A case that takes its operand from the register table, from memory or as an immediate.\<close>

definition with_operand ::
  "u8 \<Rightarrow> (Register \<Rightarrow> (('f, 'z) gb_scheme, unit) M) \<Rightarrow> (('f, 'z) gb_scheme, unit) M" where
  "with_operand i f = bindM (operand (unat i)) f"

definition with_value ::
  "u8 \<Rightarrow> (Byte \<Rightarrow> (('f, 'z) gb_scheme, unit) M) \<Rightarrow> (('f, 'z) gb_scheme, unit) M" where
  "with_value i f = bindM (operand (unat i)) (\<lambda>r. bindM (getRegU8 r) f)"

definition with_byte :: "(u8 \<Rightarrow> (('f, 'z) gb_scheme, unit) M) \<Rightarrow> (('f, 'z) gb_scheme, unit) M" where
  "with_byte f = bindM advancePC1Byte f"

definition with_word :: "(u16 \<Rightarrow> (('f, 'z) gb_scheme, unit) M) \<Rightarrow> (('f, 'z) gb_scheme, unit) M" where
  "with_word f = bindM advancePC2Bytes f"

section \<open>The sections of the switch\<close>

definition decode_load8 :: "u8 \<Rightarrow> (('f, 'z) gb_scheme, unit) M option" where
  "decode_load8 opcode =
     (if opcode \<in> {0x06, 0x0E, 0x16, 0x1E, 0x26, 0x2E, 0x36} then
        Some (with_operand (drop_bit 3 (opcode - 0x06)) (\<lambda>r. with_byte (LD_r_n r)))
      else if between 0x78 opcode 0x7F then Some (with_operand (opcode - 0x78) (LD_r1_r2 R_A))
      else if between 0x40 opcode 0x46 then Some (with_operand (opcode - 0x40) (LD_r1_r2 R_B))
      else if between 0x48 opcode 0x4E then Some (with_operand (opcode - 0x48) (LD_r1_r2 R_C))
      else if between 0x50 opcode 0x56 then Some (with_operand (opcode - 0x50) (LD_r1_r2 R_D))
      else if between 0x58 opcode 0x5E then Some (with_operand (opcode - 0x58) (LD_r1_r2 R_E))
      else if between 0x60 opcode 0x66 then Some (with_operand (opcode - 0x60) (LD_r1_r2 R_H))
      else if between 0x68 opcode 0x6E then Some (with_operand (opcode - 0x68) (LD_r1_r2 R_L))
      else if between 0x70 opcode 0x75 then Some (with_operand (opcode - 0x70) (LD_r1_r2 R_HL_ptr))
      else if opcode = 0x0A then Some (LD_r1_r2 R_A R_BC_ptr)
      else if opcode = 0x1A then Some (LD_r1_r2 R_A R_DE_ptr)
      else if opcode = 0xFA then Some (with_word (LD_r_nn R_A))
      else if opcode = 0x3E then Some (with_byte (LD_r_n R_A))
      else if opcode \<in> {0x47, 0x4F, 0x57, 0x5F, 0x67, 0x6F, 0x77} then
        Some (with_operand (drop_bit 3 (opcode - 0x47)) LD_r_A)
      else if opcode = 0x02 then Some (LD_r_A R_BC_ptr)
      else if opcode = 0x12 then Some (LD_r_A R_DE_ptr)
      else if opcode = 0xEA then Some (with_word LD_nn_A)
      else if opcode = 0xF2 then Some LD_A_C
      else if opcode = 0xE2 then Some LD_C_A
      else if opcode = 0x3A then Some LDD_A_HL
      else if opcode = 0x32 then Some LDD_HL_A
      else if opcode = 0x2A then Some LDI_A_HL
      else if opcode = 0x22 then Some LDI_HL_A
      else if opcode = 0xE0 then Some (with_byte LDH_n_A)
      else if opcode = 0xF0 then Some (with_byte LDH_A_n)
      else None)"

definition with_operand16 ::
  "u8 \<Rightarrow> (Register \<Rightarrow> (('f, 'z) gb_scheme, unit) M) \<Rightarrow> (('f, 'z) gb_scheme, unit) M" where
  "with_operand16 opcode f = bindM (operand16 (unat (drop_bit 4 opcode))) f"

definition decode_load16 :: "u8 \<Rightarrow> (('f, 'z) gb_scheme, unit) M option" where
  "decode_load16 opcode =
     (if opcode \<in> {0x01, 0x11, 0x21, 0x31} then
        Some (with_operand16 opcode (\<lambda>r. with_word (LD16_n_nn r)))
      else if opcode = 0xF9 then Some LD16_SP_HL
      else if opcode = 0xF8 then Some (with_byte LDHL_SP_n)
      else if opcode = 0x08 then Some (with_word LD_nn_SP)
      else if opcode = 0xF5 then Some (PUSH R_AF)
      else if opcode = 0xC5 then Some (PUSH R_BC)
      else if opcode = 0xD5 then Some (PUSH R_DE)
      else if opcode = 0xE5 then Some (PUSH R_HL)
      else if opcode = 0xF1 then Some (POP R_AF)
      else if opcode = 0xC1 then Some (POP R_BC)
      else if opcode = 0xD1 then Some (POP R_DE)
      else if opcode = 0xE1 then Some (POP R_HL)
      else None)"

definition decode_alu8 :: "u8 \<Rightarrow> (('f, 'z) gb_scheme, unit) M option" where
  "decode_alu8 opcode =
     (if between 0x80 opcode 0x87 then Some (with_value (opcode - 0x80) (\<lambda>v. ADD_n v False))
      else if opcode = 0xC6 then Some (with_byte (\<lambda>n. ADD_n (lit n) False))
      else if between 0x88 opcode 0x8F then Some (with_value (opcode - 0x88) ADC_n)
      else if opcode = 0xCE then Some (with_byte (\<lambda>n. ADC_n (lit n)))
      else if between 0x90 opcode 0x97 then Some (with_value (opcode - 0x90) (\<lambda>v. SUB_n v False))
      else if opcode = 0xD6 then Some (with_byte (\<lambda>n. SUB_n (lit n) False))
      else if between 0x98 opcode 0x9F then Some (with_value (opcode - 0x98) SBC_n)
      else if opcode = 0xDE then Some (with_byte (\<lambda>n. SBC_n (lit n)))
      else if between 0xA0 opcode 0xA7 then Some (with_value (opcode - 0xA0) AND_n)
      else if opcode = 0xE6 then Some (with_byte (\<lambda>n. AND_n (lit n)))
      else if between 0xB0 opcode 0xB7 then Some (with_value (opcode - 0xB0) OR_n)
      else if opcode = 0xF6 then Some (with_byte (\<lambda>n. OR_n (lit n)))
      else if between 0xA8 opcode 0xAF then Some (with_value (opcode - 0xA8) XOR_n)
      else if opcode = 0xEE then Some (with_byte (\<lambda>n. XOR_n (lit n)))
      else if between 0xB8 opcode 0xBF then Some (with_value (opcode - 0xB8) CP_n)
      else if opcode = 0xFE then Some (with_byte (\<lambda>n. CP_n (lit n)))
      else if opcode = 0x3C then Some (INC_r R_A)
      else if opcode = 0x04 then Some (INC_r R_B)
      else if opcode = 0x0C then Some (INC_r R_C)
      else if opcode = 0x14 then Some (INC_r R_D)
      else if opcode = 0x1C then Some (INC_r R_E)
      else if opcode = 0x24 then Some (INC_r R_H)
      else if opcode = 0x2C then Some (INC_r R_L)
      else if opcode = 0x34 then Some (INC_r R_HL_ptr)
      else if opcode = 0x3D then Some (DEC_r R_A)
      else if opcode = 0x05 then Some (DEC_r R_B)
      else if opcode = 0x0D then Some (DEC_r R_C)
      else if opcode = 0x15 then Some (DEC_r R_D)
      else if opcode = 0x1D then Some (DEC_r R_E)
      else if opcode = 0x25 then Some (DEC_r R_H)
      else if opcode = 0x2D then Some (DEC_r R_L)
      else if opcode = 0x35 then Some (DEC_r R_HL_ptr)
      else None)"

definition decode_alu16 :: "u8 \<Rightarrow> (('f, 'z) gb_scheme, unit) M option" where
  "decode_alu16 opcode =
     (if opcode \<in> {0x09, 0x19, 0x29, 0x39} then Some (with_operand16 opcode ADD16_HL_n)
      else if opcode = 0xE8 then Some (with_byte ADD16_SP_n)
      else if opcode \<in> {0x03, 0x13, 0x23, 0x33} then Some (with_operand16 opcode INC16_nn)
      else if opcode \<in> {0x0B, 0x1B, 0x2B, 0x3B} then Some (with_operand16 opcode DEC16_nn)
      else None)"

definition decode_misc :: "u8 \<Rightarrow> (('f, 'z) gb_scheme, unit) M option" where
  "decode_misc opcode =
     (if opcode = 0x27 then Some DAA
      else if opcode = 0x2F then Some CPL
      else if opcode = 0x3F then Some CCF
      else if opcode = 0x37 then Some SCF
      else if opcode = 0x00 then Some NOP
      else if opcode = 0x76 then Some HALT
      else if opcode = 0x10 then Some STOP
      else if opcode = 0xF3 then Some DI
      else if opcode = 0xFB then Some EI
      else None)"

definition execute_CB :: "u8 \<Rightarrow> (('f, 'z) gb_scheme, unit) M" where
  "execute_CB arg =
     (if between 0x00 arg 0x07 then with_operand arg RLC_r
      else if between 0x08 arg 0x0F then with_operand (arg - 0x08) RRC_r
      else if between 0x10 arg 0x17 then with_operand (arg - 0x10) RL_r
      else if between 0x18 arg 0x1F then with_operand (arg - 0x18) RR_r
      else if between 0x20 arg 0x27 then with_operand (arg - 0x20) SLA_n
      else if between 0x28 arg 0x2F then with_operand (arg - 0x28) SRA_n
      else if between 0x30 arg 0x37 then with_operand (arg - 0x30) SWAP_n
      else if between 0x38 arg 0x3F then with_operand (arg - 0x38) SRL_n
      else if between 0x40 arg 0x7F then
        with_operand (arg mod 0x08) (BIT_b_r (unat (drop_bit 3 (arg - 0x40))))
      else if between 0x80 arg 0xBF then
        with_operand (arg mod 0x08) (RES_b_r (unat (drop_bit 3 (arg - 0x80))))
      else if between 0xC0 arg 0xFF then
        with_operand (arg mod 0x08) (SET_b_r (unat (drop_bit 3 (arg - 0xC0))))
      else throw_error bad_opcode)"

definition decode_rotate :: "u8 \<Rightarrow> (('f, 'z) gb_scheme, unit) M option" where
  "decode_rotate opcode =
     (if opcode = 0xCB then Some (with_byte execute_CB)
      else if opcode = 0x07 then Some RLCA
      else if opcode = 0x17 then Some RLA
      else if opcode = 0x0F then Some RRCA
      else if opcode = 0x1F then Some RRA
      else None)"

definition decode_jump :: "u8 \<Rightarrow> (('f, 'z) gb_scheme, unit) M option" where
  "decode_jump opcode =
     (if opcode = 0xC3 then Some (with_word JP_nn)
      else if opcode = 0xC2 then Some (with_word (JP_cc_nn Flag_Z False))
      else if opcode = 0xCA then Some (with_word (JP_cc_nn Flag_Z True))
      else if opcode = 0xD2 then Some (with_word (JP_cc_nn Flag_C False))
      else if opcode = 0xDA then Some (with_word (JP_cc_nn Flag_C True))
      else if opcode = 0xE9 then Some JP_HL
      else if opcode = 0x18 then Some (with_byte JR_n)
      else if opcode = 0x20 then Some (with_byte (JR_cc_n Flag_Z False))
      else if opcode = 0x28 then Some (with_byte (JR_cc_n Flag_Z True))
      else if opcode = 0x30 then Some (with_byte (JR_cc_n Flag_C False))
      else if opcode = 0x38 then Some (with_byte (JR_cc_n Flag_C True))
      else None)"

definition decode_call :: "u8 \<Rightarrow> (('f, 'z) gb_scheme, unit) M option" where
  "decode_call opcode =
     (if opcode = 0xCD then Some (with_word CALL_nn)
      else if opcode = 0xC4 then Some (with_word (CALL_cc_nn Flag_Z False))
      else if opcode = 0xCC then Some (with_word (CALL_cc_nn Flag_Z True))
      else if opcode = 0xD4 then Some (with_word (CALL_cc_nn Flag_C False))
      else if opcode = 0xDC then Some (with_word (CALL_cc_nn Flag_C True))
      else if opcode \<in> {0xC7, 0xCF, 0xD7, 0xDF, 0xE7, 0xEF, 0xF7, 0xFF} then
        Some (RST_n (opcode - 0xC7))
      else None)"

definition decode_return :: "u8 \<Rightarrow> (('f, 'z) gb_scheme, unit) M option" where
  "decode_return opcode =
     (if opcode = 0xC9 then Some RET
      else if opcode = 0xC0 then Some (RET_cc Flag_Z False)
      else if opcode = 0xC8 then Some (RET_cc Flag_Z True)
      else if opcode = 0xD0 then Some (RET_cc Flag_C False)
      else if opcode = 0xD8 then Some (RET_cc Flag_C True)
      else if opcode = 0xD9 then Some RETI
      else None)"

definition decode_trap :: "u8 \<Rightarrow> (('f, 'z) gb_scheme, unit) M" where
  "decode_trap opcode =
     (if opcode = 0xD3 then throw_error trap
      else if opcode = 0xE3 then throw_error debug_trap
      else throw_error bad_opcode)"

definition sections :: "(u8 \<Rightarrow> (('f, 'z) gb_scheme, unit) M option) list" where
  "sections = [decode_load8, decode_load16, decode_alu8, decode_alu16, decode_misc,
     decode_rotate, decode_jump, decode_call, decode_return]"

fun first_section ::
  "(u8 \<Rightarrow> (('f, 'z) gb_scheme, unit) M option) list \<Rightarrow> u8 \<Rightarrow> (('f, 'z) gb_scheme, unit) M" where
  "first_section [] opcode = decode_trap opcode"
| "first_section (d # ds) opcode = (case d opcode of Some m \<Rightarrow> m | None \<Rightarrow> first_section ds opcode)"

definition execute :: "u8 \<Rightarrow> (('f, 'z) gb_scheme, unit) M" where
  "execute opcode = first_section sections opcode"

definition processNextInstruction :: "(('f, 'z) gb_scheme, unit) M" where
  "processNextInstruction = bindM advancePC1Byte execute"

section \<open>Safety\<close>

text \<open>Every table index an opcode computes lies in its table.\<close>

lemma range_index:
  "unat lo \<le> unat opcode \<Longrightarrow> unat opcode \<le> unat lo + 7 \<Longrightarrow> unat ((opcode :: u8) - lo) < 8"
  by (simp add: unat_sub word_le_nat_alt)

lemma mod_index: "unat ((arg :: u8) mod 8) < 8"
  by (simp add: unat_mod)

definition safe_case :: "('s \<Rightarrow> bool) \<Rightarrow> ('s \<Rightarrow> exn set) \<Rightarrow> ('s, unit) M option \<Rightarrow> bool" where
  "safe_case I E d = (case d of None \<Rightarrow> True | Some m \<Rightarrow> safe I E m (\<lambda>_. True))"

lemma safe_case_intros:
  "(b \<Longrightarrow> safe_case I E x) \<Longrightarrow> safe_case I E y \<Longrightarrow> safe_case I E (if b then x else y)"
  "safe I E m (\<lambda>_. True) \<Longrightarrow> safe_case I E (Some m)"
  "safe_case I E None"
  by (simp_all add: safe_case_def)

context gb_inv
begin

lemma safe_with [safe_intro]:
  "(\<And>n. safe I E (g n) (\<lambda>_. True)) \<Longrightarrow> safe I E (with_byte g) (\<lambda>_. True)"
  "(\<And>n. safe I E (h n) (\<lambda>_. True)) \<Longrightarrow> safe I E (with_word h) (\<lambda>_. True)"
  unfolding with_byte_def with_word_def by (intro safe_intro; assumption?)+

lemma safe_with_operands:
  "unat i < 8 \<Longrightarrow> (\<And>r. safe I E (f r) (\<lambda>_. True)) \<Longrightarrow> safe I E (with_operand i f) (\<lambda>_. True)"
  "unat i < 8 \<Longrightarrow> (\<And>v. safe I E (g v) (\<lambda>_. True)) \<Longrightarrow> safe I E (with_value i g) (\<lambda>_. True)"
  "unat (drop_bit 4 j) < 4 \<Longrightarrow> (\<And>r. safe I E (f r) (\<lambda>_. True)) \<Longrightarrow> safe I E (with_operand16 j f) (\<lambda>_. True)"
  unfolding with_operand_def with_value_def with_operand16_def operand_def operand16_def
    registerOpcodes_def register16Opcodes_def
  by (intro safe_bindM [OF safe_indexM] safe_bindM [OF safe_operands(1)]; simp)+

lemma safe_execute_CB [safe_intro]: "safe I E (execute_CB arg) (\<lambda>_. True)"
  unfolding execute_CB_def
  by (intro safe_if safe_with_operands safe_intro mod_index)
     (simp_all add: range_index word_le_nat_alt)

lemma safe_decode_load8: "safe_case I E (decode_load8 opcode)"
  unfolding decode_load8_def
  by (intro safe_case_intros safe_with_operands safe_loads safe_with)
     (auto simp: range_index word_le_nat_alt)

lemma safe_decode_load16: "safe_case I E (decode_load16 opcode)"
  unfolding decode_load16_def
  by (intro safe_case_intros safe_with_operands safe_loads16 safe_with) auto

lemma safe_decode_alu8: "safe_case I E (decode_alu8 opcode)"
  unfolding decode_alu8_def
  by (intro safe_case_intros safe_with_operands safe_alu safe_with)
     (auto simp: range_index word_le_nat_alt)

lemma safe_decode_alu16: "safe_case I E (decode_alu16 opcode)"
  unfolding decode_alu16_def
  by (intro safe_case_intros safe_with_operands safe_alu16 safe_with) auto

lemma safe_decode_rest:
  "safe_case I E (decode_misc opcode)" "safe_case I E (decode_rotate opcode)"
  "safe_case I E (decode_jump opcode)" "safe_case I E (decode_call opcode)"
  "safe_case I E (decode_return opcode)"
  unfolding decode_misc_def decode_rotate_def decode_jump_def decode_call_def decode_return_def
  by (intro safe_case_intros safe_intro)+

lemma safe_first_section:
  "list_all (\<lambda>d. safe_case I E (d opcode)) ds \<Longrightarrow> safe I E (first_section ds opcode) (\<lambda>_. True)"
proof (induction ds)
  case Nil
  show ?case by (simp add: decode_trap_def) (intro conjI impI safe_intro)
next
  case (Cons d ds)
  then show ?case by (cases "d opcode") (simp_all add: safe_case_def)
qed

lemma safe_processNextInstruction [safe_intro]: "safe I E processNextInstruction (\<lambda>_. True)"
proof -
  have "safe I E (execute opcode) (\<lambda>_. True)" for opcode
    unfolding execute_def sections_def
    by (rule safe_first_section)
       (simp add: safe_decode_load8 safe_decode_load16 safe_decode_alu8 safe_decode_alu16 safe_decode_rest)
  then show ?thesis unfolding processNextInstruction_def by (intro safe_intro)
qed

end

end
