(* ===== verification/Gb.thy ===== *)
theory Gb
  imports Opcodes
begin

text \<open>
  The interrupt dispatch and the clock of \<^verbatim>\<open>libgb/cpu/cpu.cpp\<close>, and
  \<^verbatim>\<open>libgb/gb.hpp\<close> and \<^verbatim>\<open>gb.cpp\<close>: the assembled machine, its
  construction, reset, clock and stand-alone loop. What the loop prints at a debug trap is not
  modelled; the cycle it remembers is.
\<close>

section \<open>Interrupts\<close>

definition service_interrupt :: "nat \<Rightarrow> (('f, 'z) gb_scheme, unit) M" where
  "service_interrupt b =
     bindM (mm_read 0xFF0F False) (\<lambda>v.
     bindM (ci_xor v (lit (push_bit b 1))) (\<lambda>v'.
     thenM (mm_write 0xFF0F v' False)
     (CALL_nn (0x40 + 0x08 * of_nat b))))"

definition triggered_interrupts :: "(('f, 'z) gb_scheme, u8) M" where
  "triggered_interrupts =
     bindM (mm_read 0xFFFF False) (\<lambda>enabled.
     bindM (mm_read 0xFF0F False) (\<lambda>requested.
     bindM (ci_and enabled requested) (\<lambda>x.
     bindM (ci_and x (lit 0x1F)) decay)))"

definition handleInterrupts :: "(('f, 'z) gb_scheme, unit) M" where
  "handleInterrupts =
     bindM triggered_interrupts (\<lambda>triggered.
     whenM (triggered \<noteq> 0)
       (thenM (updR (\<lambda>r. r\<lparr>reg_halt := False\<rparr>))
       (bindM (getR reg_IME) (\<lambda>ime.
        whenM (fst ime)
          (thenM (updR (\<lambda>r. r\<lparr>reg_IME := (False, False, False)\<rparr>))
          (case find (\<lambda>b. triggered AND push_bit b 1 \<noteq> 0) [0..<5] of
             None \<Rightarrow> returnM ()
           | Some b \<Rightarrow> service_interrupt b))))))"

section \<open>The clock of the CPU\<close>

fun shift_IME :: "CPURegisters \<Rightarrow> CPURegisters" where
  "shift_IME r = (case reg_IME r of (i0, i1, i2) \<Rightarrow> r\<lparr>reg_IME := (i1, i2, i2)\<rparr>)"

definition commit_registers :: "(('f, 'z) gb_scheme, unit) M" where
  "commit_registers = modM (\<lambda>s. s\<lparr>comitted_registers := registers s\<rparr>)"

definition cpu_clock :: "(('f, 'z) gb_scheme, unit) M" where
  "cpu_clock =
     thenM handleInterrupts
     (bindM (getR reg_halt) (\<lambda>halted.
      if halted then tick
      else thenM processNextInstruction
        (thenM (updR shift_IME) commit_registers)))"

section \<open>The machine\<close>

definition blank_io_memory :: "u8 list" where
  "blank_io_memory = replicate 0x80 0"

text \<open>The members after their initialisers have run, before the memory map resets itself.\<close>

definition power_off :: "(ErrorKind \<Rightarrow> bool) \<Rightarrow> controller \<Rightarrow> 'f frontend \<Rightarrow> u64 \<Rightarrow> 'f gb" where
  "power_off permitted ctl fe host_sample_frequency =
     \<lparr>error_count = (\<lambda>_. 0), error_kind_permitted = permitted,
      registers = initial_registers, controller_of = ctl,
      io_memory = blank_io_memory, frontend = fe,
      sprites = blank_sprites, patternTables = blank_patterns, backgroundMaps = blank_maps,
      vCycleCount = 0, windowOffsetY = 0,
      m_gameboy_clocks_per_host_sample = 4213440 div host_sample_frequency,
      m_clocks_till_sample = 0, m_last_clock = 0, m_div_apu_counter = 0, m_last_div_value = 0,
      m_apu_has_power = False,
      m_channel1 = new_channel Channel1Registers, m_channel2 = new_channel Channel2Registers,
      m_channel3 = new_channel Channel3Registers, m_channel4 = new_channel Channel4Registers,
      m_channel1_sweep_countdown = 0, m_channel1_sweep_active = False,
      m_channel1_sweep_locked_until_trigger = False, m_channel4_lsr = 0,
      m_samples_since_last_flush = [],
      inputs = 0xFF, lastCycle = 0, tCycleCount = 0, dmaStartTime = 0, cycle = 0,
      stack = replicate 0x80 ci_default, workingRam = replicate 0x2000 ci_default,
      comitted_registers = initial_registers,
      return_address_pointers = [], expected_return_addresses = []\<rparr>"

text \<open>
  The members around a cartridge, in the error state the process is in: the audio unit divides by the
  frequency of the frontend, and the memory map resets itself last.
\<close>

definition GB_members :: "errs \<Rightarrow> controller \<Rightarrow> 'f frontend \<Rightarrow> u64 \<Rightarrow> (exn + unit) \<times> 'f gb" where
  "GB_members e ctl fe host_sample_frequency =
     thenM (whenM (host_sample_frequency = 0) (raiseM UndefinedBehaviour)) mm_reset
       ((power_off (error_kind_permitted e) ctl fe host_sample_frequency)\<lparr>error_count := error_count e\<rparr>)"

text \<open>
  The constructor: the cartridge is loaded from its file, then the frontend, null if it was moved away, is
  asked for its frequency. The files and that frequency are parameters.
\<close>

definition GB :: "(string \<Rightarrow> u8 list option) \<Rightarrow> u64 \<Rightarrow> string \<Rightarrow> 'f frontend option \<Rightarrow> (errs, 'f gb) M" where
  "GB files host_sample_frequency rom_file io_frontend =
     (case files rom_file of
        None \<Rightarrow> raiseM (RuntimeError ''Couldn't open ROM'')
      | Some bytes \<Rightarrow>
          bindM (make_cartridge bytes) (\<lambda>(metadata, ctl).
          case io_frontend of
            None \<Rightarrow> raiseM UndefinedBehaviour
          | Some fe \<Rightarrow> (\<lambda>e. case GB_members e ctl fe host_sample_frequency of
              (Inl x, g) \<Rightarrow> (Inl x, errs.truncate g)
            | (Inr _, g) \<Rightarrow> (Inr g, errs.truncate g))))"

definition gb_readU8 :: "u16 \<Rightarrow> (('f, 'z) gb_scheme, Byte) M" where
  "gb_readU8 addr = mm_read addr False"

definition gb_readU16 :: "u16 \<Rightarrow> (('f, 'z) gb_scheme, Word) M" where
  "gb_readU16 addr =
     bindM (mm_read (addr + 1) False) (\<lambda>upper.
     bindM (mm_read addr False) (\<lambda>lower. returnM (Word_bytes upper lower)))"

definition gb_reset :: "(('f, 'z) gb_scheme, unit) M" where
  "gb_reset = thenM io_reset (thenM mm_reset cpu_reset)"

definition gb_clock :: "(('f, 'z) gb_scheme, unit) M" where
  "gb_clock = thenM io_update cpu_clock"

text \<open>
  The loop of \<open>run_standalone\<close>: \<open>None\<close> when the frontend never asks to exit. Debug
  traps are caught, other exceptions leave it.
\<close>

partial_function (option) run_standalone ::
  "u64 \<Rightarrow> ('f, 'z) gb_scheme \<Rightarrow> ((exn + u64) \<times> ('f, 'z) gb_scheme) option" where
  "run_standalone last_debug_trap s =
     (case isSimulationFinished s of
        (Inl e, s1) \<Rightarrow> Some (Inl e, s1)
      | (Inr finished, s1) \<Rightarrow>
          if finished then Some (Inr last_debug_trap, s1)
          else (case gb_clock s1 of
              (Inr _, s2) \<Rightarrow> run_standalone last_debug_trap s2
            | (Inl e, s2) \<Rightarrow>
                if is_DebugTrap e then run_standalone (cycle s2) s2 else Some (Inl e, s2)))"

text \<open>The states the machine goes through, thrown exceptions caught by a debugger included.\<close>

inductive gb_reachable :: "('f, 'z) gb_scheme \<Rightarrow> ('f, 'z) gb_scheme \<Rightarrow> bool" for s where
  start: "gb_reachable s s"
| clocked: "gb_reachable s t \<Longrightarrow> gb_clock t = (r, u) \<Longrightarrow> gb_reachable s u"
| polled: "gb_reachable s t \<Longrightarrow> isSimulationFinished t = (r, u) \<Longrightarrow> gb_reachable s u"
| was_reset: "gb_reachable s t \<Longrightarrow> gb_reset t = (r, u) \<Longrightarrow> gb_reachable s u"

section \<open>Safety\<close>

lemma isSimulationFinished_returns:
  obtains b t where "isSimulationFinished s = (Inr b, t)"
  by (cases "fe_isExitRequested (frontend s) (fe_state (frontend s))")
     (simp add: isSimulationFinished_def fe_call_def)

context gb_inv
begin

lemma safe_interrupts [safe_intro]:
  "safe I E triggered_interrupts (\<lambda>_. True)" "safe I E (service_interrupt b) (\<lambda>_. True)"
  "safe I E handleInterrupts (\<lambda>_. True)"
proof -
  show t: "safe I E triggered_interrupts (\<lambda>_. True)" "safe I E (service_interrupt b) (\<lambda>_. True)" for b
    unfolding triggered_interrupts_def service_interrupt_def by (intro safe_intro)+
  show "safe I E handleInterrupts (\<lambda>_. True)"
    unfolding handleInterrupts_def by (intro safe_intro t safe_updR TrueI; simp)
qed

lemma safe_cpu_clock [safe_intro]: "safe I E cpu_clock (\<lambda>_. True)"
  unfolding cpu_clock_def commit_registers_def
  by (intro safe_intro safe_updR safe_modM upd_committed) (auto split: prod.splits)

lemma safe_gb_operations:
  "safe I E (gb_readU8 a) (\<lambda>_. True)" "safe I E (gb_readU16 a) (\<lambda>_. True)"
  "safe I E gb_reset (\<lambda>_. True)" "safe I E gb_clock (\<lambda>_. True)"
  unfolding gb_readU8_def gb_readU16_def gb_reset_def gb_clock_def
  by (intro safe_intro TrueI)+

text \<open>
  The stand-alone loop is left on the exit request of the frontend or by an exception of the clock that
  is not a debug trap, and keeps the invariant.
\<close>

lemma run_standalone_inv:
  assumes "run_standalone n s = Some x" and "I s"
  shows "I (snd x) \<and> (\<forall>e. fst x = Inl e \<longrightarrow> e \<in> E (snd x) \<and> \<not> is_DebugTrap e) \<and>
    (\<forall>k. fst x = Inr k \<longrightarrow> (\<exists>u. I u \<and> isSimulationFinished u = (Inr True, snd x)))"
proof -
  define left where "left x \<longleftrightarrow> I (snd x) \<and> (\<forall>e. fst x = Inl e \<longrightarrow> e \<in> E (snd x) \<and> \<not> is_DebugTrap e) \<and>
    (\<forall>k. fst x = Inr k \<longrightarrow> (\<exists>u. I u \<and> isSimulationFinished u = (Inr True, snd x)))" for x :: "(exn + u64) \<times> _"
  have "I s \<longrightarrow> left x"
  proof (rule run_standalone.raw_induct [OF _ assms(1), where P = "\<lambda>_ s x. I s \<longrightarrow> left x"], rule impI, goal_cases)
    case (1 rs n s x)
    obtain b s1 where poll: "isSimulationFinished s = (Inr b, s1)"
      by (rule isSimulationFinished_returns)
    obtain c s2 where clk: "gb_clock s1 = (c, s2)" by (cases "gb_clock s1")
    have s1: "I s1" using safe_run(1) [OF safe_io_update(2) poll 1(3)] .
    have s2: "I s2" "\<And>e. c = Inl e \<Longrightarrow> e \<in> E s2"
      using safe_run [OF safe_gb_operations(4) clk s1] by blast+
    have "left (Inr n, s1)" if b using that s1 poll 1(3) unfolding left_def by auto
    moreover have "left (Inl e, s2)" if "c = Inl e" "\<not> is_DebugTrap e" for e using that s2 unfolding left_def by simp
    moreover have "left x" if "rs m s2 = Some x" for m using 1(1) [OF that] s2(1) by blast
    ultimately show ?case
      using 1(2) poll clk by (cases b; cases c) (auto split: if_splits)
  qed
  then show ?thesis using assms(2) unfolding left_def by blast
qed

end

section \<open>Construction\<close>

lemma new_channels_ok:
  "channel_ok CH1 (new_channel Channel1Registers)" "channel_ok CH2 (new_channel Channel2Registers)"
  "channel_ok CH3 (new_channel Channel3Registers)" "channel_ok CH4 (new_channel Channel4Registers)"
  by (simp_all add: channel_ok_def new_channel_def)

lemma power_off_ok:
  assumes "ctl_ok ctl" and "flush_ok fe"
  shows "gb_ok (power_off permitted ctl fe freq)"
  using assms new_channels_ok
  by (simp add: gb_ok_expand power_off_def blank_io_memory_def initial_registers_def flags_clean_def
      is_valid_pc_def)

text \<open>A machine with an empty ROM-only cartridge and the headless frontend, nothing permitted.\<close>

definition switched_on :: "u8 list gb" where
  "switched_on = power_off (\<lambda>_. False) (RomOnly \<lparr>ro_rom = []\<rparr>) headless 44100"

lemma switched_on_ok: "gb_ok switched_on"
  unfolding switched_on_def by (rule power_off_ok) (simp_all add: headless.flush_ok)

lemma switched_on_fields [simp]:
  "registers switched_on = initial_registers" "controller_of switched_on = RomOnly \<lparr>ro_rom = []\<rparr>"
  "error_kind_permitted switched_on = (\<lambda>_. False)" "error_count switched_on = (\<lambda>_. 0)"
  "io_memory switched_on = blank_io_memory" "frontend switched_on = headless"
  "cycle switched_on = 0" "dmaStartTime switched_on = 0" "m_last_clock switched_on = 0"
  "return_address_pointers switched_on = []" "expected_return_addresses switched_on = []"
  "stack switched_on = replicate 0x80 ci_default" "workingRam switched_on = replicate 0x2000 ci_default"
  by (simp_all add: switched_on_def power_off_def)

lemma switched_on_gpu: "gpu_ok switched_on"
  using switched_on_ok by (simp add: gb_ok_def mm_ok_def io_ok_def)

section \<open>The first clock\<close>

lemma switched_on_idle [simp]:
  "lastCycle switched_on = 0" "tCycleCount switched_on = 0" "vCycleCount switched_on = 0"
  "m_samples_since_last_flush switched_on = []"
  by (simp_all add: switched_on_def power_off_def)

lemma blank_io [simp]: "i < 0x80 \<Longrightarrow> blank_io_memory ! i = 0" "length blank_io_memory = 0x80"
  by (simp_all add: blank_io_memory_def)

text \<open>The state after the update, wherever the registers stand.\<close>

lemma first_update:
  obtains t where "io_update (switched_on\<lparr>registers := r\<rparr>) = (Inr (), t)" and "registers t = r"
    and "io_memory t = blank_io_memory[4 := 0, 0x44 := 0, 0x41 := 0]" and "stack t = replicate 0x80 ci_default"
    and "controller_of t = RomOnly \<lparr>ro_rom = []\<rparr>" and "dmaStartTime t = 0"
    and "return_address_pointers t = []" and "error_kind_permitted t = (\<lambda>_. False)"
proof -
  have "updateTimers (switched_on\<lparr>registers := r\<rparr>) = (Inr (), switched_on\<lparr>registers := r, lastCycle := 0,
      vCycleCount := 0, tCycleCount := 0, io_memory := blank_io_memory[4 := 0]\<rparr>)"
    by (simp add: updateTimers_def Let_def gpu_updateTimers_def io_set_def io_get_def clock_to_def)
  then have "\<exists>t. io_update (switched_on\<lparr>registers := r\<rparr>) = (Inr (), t) \<and> registers t = r \<and>
      io_memory t = blank_io_memory[4 := 0, 0x44 := 0, 0x41 := 0] \<and> stack t = replicate 0x80 ci_default \<and>
      controller_of t = RomOnly \<lparr>ro_rom = []\<rparr> \<and> dmaStartTime t = 0 \<and> return_address_pointers t = [] \<and>
      error_kind_permitted t = (\<lambda>_. False)"
    by (simp add: io_update_def flush_audio_def get_samples_def flush_samples_def headless_def fe_call_def
        updateLCD_def io_get_def io_set_def)
  then show thesis using that by blast
qed

lemma execute_nop: "execute 0 s = (Inr (), s)"
  by (simp add: execute_def sections_def decode_load8_def decode_load16_def decode_alu8_def decode_alu16_def
      decode_misc_def decode_rotate_def decode_jump_def decode_call_def decode_return_def NOP_def)

lemmas first_instruction = gb_clock_def cpu_clock_def handleInterrupts_def triggered_interrupts_def mm_read_def
  ci_default_def processNextInstruction_def execute_nop initial_registers_def ioRead_def advancePC1Byte_def
  incrementPC_def setPC_def is_valid_pc_def readU8_def tick_def check_bus_def cartridge_read_def ro_read_def
  commit_registers_def isInDMA_def check_return_pointer_def

lemma first_clock: "\<exists>t. gb_clock switched_on = (Inr (), t) \<and> reg_pc (registers t) = 0x101"
proof -
  have "switched_on\<lparr>registers := initial_registers\<rparr> = switched_on" by (cases switched_on) (simp flip: switched_on_fields(1))
  then obtain t where t: "io_update switched_on = (Inr (), t)" "registers t = initial_registers"
    "io_memory t = blank_io_memory[4 := 0, 0x44 := 0, 0x41 := 0]" "stack t = replicate 0x80 ci_default"
    "controller_of t = RomOnly \<lparr>ro_rom = []\<rparr>" "dmaStartTime t = 0" "return_address_pointers t = []"
    by (metis first_update)
  then show ?thesis by (simp add: first_instruction)
qed

text \<open>Outside the program memory the fetch is refused.\<close>

lemma first_clock_lost:
  "\<exists>t. gb_clock (switched_on\<lparr>registers := initial_registers\<lparr>reg_pc := 0xC000\<rparr>\<rparr>) =
    (Inl (Thrown pc_outside_of_program_memory), t)"
proof (rule first_update [of "initial_registers\<lparr>reg_pc := 0xC000\<rparr>"])
  fix t assume t: "io_update (switched_on\<lparr>registers := initial_registers\<lparr>reg_pc := 0xC000\<rparr>\<rparr>) = (Inr (), t)"
    "registers t = initial_registers\<lparr>reg_pc := 0xC000\<rparr>" "io_memory t = blank_io_memory[4 := 0, 0x44 := 0, 0x41 := 0]"
    "stack t = replicate 0x80 ci_default" "error_kind_permitted t = (\<lambda>_. False)"
  then show ?thesis by (simp add: first_instruction throw_error_run)
qed

end
