(* ===== verification/Alu.thy ===== *)
theory Alu
  imports Gb
begin

text \<open>
  What the arithmetic and logic instructions compute, against integer arithmetic: results and
  each flag, for defined operands, with everything else unchanged.
\<close>

section \<open>Bytes as integers\<close>

lemma u8_range: "0 \<le> uint (x :: u8)" "uint (x :: u8) < 256"
  using uint_lt2p [of x] by simp_all

lemma u8_add: "uint (x + y :: u8) = (if uint x + uint y < 256 then uint x + uint y else uint x + uint y - 256)"
  by (simp add: uint_plus_if')

lemma u8_sub: "uint (x - y :: u8) = (if uint y \<le> uint x then uint x - uint y else uint x - uint y + 256)"
  by (simp add: uint_sub_if')

lemma u8_nibble: "uint (x AND 0x0F :: u8) = uint x mod 16"
  using and_mask_unat [of x 4]
  by (simp add: mask_eq_exp_minus_1 uint_nat zmod_int del: of_nat_unat)

lemma u8_total: "uint (word_of_int k :: u8) = k mod 256"
  by (simp add: uint_word_of_int)

section \<open>Flags of a register file\<close>

lemma flag_set_with_flags [simp]:
  "flag_set (with_flags Flag_C b r) Flag_C = b" "flag_set (with_flags Flag_C b r) Flag_H = flag_set r Flag_H"
  "flag_set (with_flags Flag_C b r) Flag_N = flag_set r Flag_N" "flag_set (with_flags Flag_C b r) Flag_Z = flag_set r Flag_Z"
  "flag_set (with_flags Flag_H b r) Flag_C = flag_set r Flag_C" "flag_set (with_flags Flag_H b r) Flag_H = b"
  "flag_set (with_flags Flag_H b r) Flag_N = flag_set r Flag_N" "flag_set (with_flags Flag_H b r) Flag_Z = flag_set r Flag_Z"
  "flag_set (with_flags Flag_N b r) Flag_C = flag_set r Flag_C" "flag_set (with_flags Flag_N b r) Flag_H = flag_set r Flag_H"
  "flag_set (with_flags Flag_N b r) Flag_N = b" "flag_set (with_flags Flag_N b r) Flag_Z = flag_set r Flag_Z"
  "flag_set (with_flags Flag_Z b r) Flag_C = flag_set r Flag_C" "flag_set (with_flags Flag_Z b r) Flag_H = flag_set r Flag_H"
  "flag_set (with_flags Flag_Z b r) Flag_N = flag_set r Flag_N" "flag_set (with_flags Flag_Z b r) Flag_Z = b"
  by (simp_all add: flag_set_def Flag_defs bit.conj_disj_distrib2 and.assoc)

lemma flag_set_reset_pair [simp]:
  "flag_set (with_flags (Flag_N OR Flag_H) b r) Flag_C = flag_set r Flag_C"
  "flag_set (with_flags (Flag_N OR Flag_H) b r) Flag_Z = flag_set r Flag_Z"
  "flag_set (with_flags (Flag_N OR Flag_H) b r) Flag_N = b"
  "flag_set (with_flags (Flag_N OR Flag_H) b r) Flag_H = b"
  by (simp_all add: flag_set_def Flag_defs bit.conj_disj_distrib2 and.assoc)

lemma flag_set_update [simp]:
  "flag_set (r\<lparr>reg_a := a\<rparr>) m = flag_set r m" "flag_set (r\<lparr>reg_sp := w\<rparr>) m = flag_set r m"
  "flag_set (r\<lparr>reg_pc := w\<rparr>) m = flag_set r m"
  by (simp_all add: flag_set_def)

text \<open>Two register files that agree on everything but the accumulator and the flags.\<close>

definition same_but_af :: "CPURegisters \<Rightarrow> CPURegisters \<Rightarrow> bool" where
  "same_but_af r' r \<longleftrightarrow> r'\<lparr>reg_a := reg_a r, reg_f := reg_f r\<rparr> = r"

lemma same_but_af_refl [simp]: "same_but_af r r"
  by (simp add: same_but_af_def)

lemma same_but_af_updates [simp]:
  "same_but_af (with_flags m b r') r = same_but_af r' r"
  "same_but_af (r'\<lparr>reg_a := a\<rparr>) r = same_but_af r' r"
  by (simp_all add: same_but_af_def with_flags_def)

lemma set_a_run [simp]: "set_a v s = (Inr (), s\<lparr>registers := (registers s)\<lparr>reg_a := v\<rparr>\<rparr>)"
  by (simp add: set_a_def)

text \<open>The accumulator and the flag register are defined.\<close>

definition af_defined :: "'z regfile_scheme \<Rightarrow> bool" where
  "af_defined s \<longleftrightarrow> \<not> undef (reg_a (registers s)) \<and> \<not> undef (reg_f (registers s))"

section \<open>Addition\<close>

text \<open>The register file after an addition or subtraction that sets the four flags.\<close>

definition after_alu :: "Byte \<Rightarrow> bool \<Rightarrow> bool \<Rightarrow> bool \<Rightarrow> bool \<Rightarrow> CPURegisters \<Rightarrow> CPURegisters" where
  "after_alu a z n h c r =
     with_flags Flag_N n (with_flags Flag_Z z ((with_flags Flag_H h (with_flags Flag_C c r))\<lparr>reg_a := a\<rparr>))"

lemma after_alu_simps [simp]:
  "reg_a (after_alu a z n h c r) = a" "undef (reg_f (after_alu a z n h c r)) = False"
  "flag_set (after_alu a z n h c r) Flag_Z = z" "flag_set (after_alu a z n h c r) Flag_N = n"
  "flag_set (after_alu a z n h c r) Flag_H = h" "flag_set (after_alu a z n h c r) Flag_C = c"
  "same_but_af (after_alu a z n h c r) r"
  by (simp_all add: after_alu_def)

lemma ADD_n_run:
  fixes c :: bool
  assumes "af_defined s" and "\<not> undef n"
  defines "a \<equiv> reg_a (registers s)"
  defines "result \<equiv> data a + data n + of_bool c"
  shows "ADD_n n c s = (Inr (), s\<lparr>registers :=
      after_alu (ci_flags result (derived_from_sp a \<or> derived_from_sp n) False) (result = 0) False
        (0x0F - (data a AND 0x0F) < (data n AND 0x0F) + of_bool c)
        (0xFF - data a < data n + of_bool c \<or> c \<and> data n = 0xFF) (registers s)\<rparr>)"
  using assms
  by (cases c) (simp_all add: ADD_n_def Let_def af_defined_def setFlags_run resetFlags_run after_alu_def)

lemma SUB_n_run:
  fixes c :: bool
  assumes "af_defined s" and "\<not> undef n"
  defines "a \<equiv> reg_a (registers s)"
  defines "result \<equiv> data a - (data n + of_bool c)"
  shows "SUB_n n c s = (Inr (), s\<lparr>registers :=
      after_alu (ci_flags result (derived_from_sp a \<or> derived_from_sp n) False) (result = 0) True
        (data a AND 0x0F < (data n AND 0x0F) + of_bool c)
        (data a < data n + of_bool c \<or> c \<and> data n = 0xFF) (registers s)\<rparr>)"
  using assms
  by (cases c) (simp_all add: SUB_n_def Let_def af_defined_def setFlags_run resetFlags_run after_alu_def)

lemma add_half_carry:
  "0x0F - (x AND 0x0F) < (y AND 0x0F) + (of_bool c :: u8) \<longleftrightarrow>
   15 < uint x mod 16 + uint y mod 16 + of_bool c"
  unfolding word_less_def u8_add u8_sub u8_nibble
  by (cases c) (simp_all; presburger)+

lemma add_carry:
  "0xFF - x < y + (of_bool c :: u8) \<or> c \<and> y = 0xFF \<longleftrightarrow> 255 < uint x + uint y + of_bool c"
proof -
  have int_carry: "255 - v < (if c \<and> w = 255 then 0 else w + of_bool c) \<or> c \<and> w = 255 \<longleftrightarrow>
      255 < v + w + of_bool c"
    if "0 \<le> v" "v < 256" "0 \<le> w" "w < 256" for v w :: int
    using that by (cases c) auto
  have "uint (y + of_bool c) = (if c \<and> uint y = 255 then 0 else uint y + of_bool c)"
    using u8_range [of y] by (cases c) (auto simp: u8_add)
  moreover have "uint (0xFF - x) = 255 - uint x"
    using u8_range [of x] by (simp add: u8_sub)
  ultimately show ?thesis
    unfolding word_less_def word_uint_eq_iff
    using int_carry [OF u8_range u8_range, of x y] by simp
qed

lemma sub_half_carry:
  "x AND 0x0F < (y AND 0x0F) + (of_bool c :: u8) \<longleftrightarrow> uint x mod 16 < uint y mod 16 + of_bool c"
  unfolding word_less_def u8_add u8_nibble
  by (cases c) (simp_all; presburger)+

lemma sub_carry:
  "x < y + (of_bool c :: u8) \<or> c \<and> y = 0xFF \<longleftrightarrow> uint x < uint y + of_bool c"
  unfolding word_less_def u8_add word_uint_eq_iff
  using u8_range [of x] u8_range [of y] by (cases c) auto

lemma ADD_n_effect:
  assumes "af_defined s" and "\<not> undef n"
  obtains r where "ADD_n n c s = (Inr (), s\<lparr>registers := r\<rparr>)"
    and "uint (data (reg_a r)) = (uint (data (reg_a (registers s))) + uint (data n) + of_bool c) mod 256"
    and "\<not> undef (reg_a r)" and "\<not> undef (reg_f r)"
    and "flag_set r Flag_C \<longleftrightarrow> 255 < uint (data (reg_a (registers s))) + uint (data n) + of_bool c"
    and "flag_set r Flag_H \<longleftrightarrow>
      15 < uint (data (reg_a (registers s))) mod 16 + uint (data n) mod 16 + of_bool c"
    and "flag_set r Flag_Z \<longleftrightarrow> (uint (data (reg_a (registers s))) + uint (data n) + of_bool c) mod 256 = 0"
    and "\<not> flag_set r Flag_N" and "same_but_af r (registers s)"
proof -
  let ?a = "data (reg_a (registers s))"
  let ?total = "uint ?a + uint (data n) + of_bool c"
  have "?a + data n + of_bool c = word_of_int ?total" by simp
  then have result: "uint (?a + data n + of_bool c) = ?total mod 256"
    by (simp only: u8_total)
  then have zero: "?a + data n + of_bool c = 0 \<longleftrightarrow> ?total mod 256 = 0"
    by (simp only: word_uint_eq_iff) simp
  show thesis
    by (rule that [OF ADD_n_run [OF assms]])
       (simp_all only: after_alu_simps ci_sel add_half_carry add_carry result zero simp_thms)
qed

lemma SUB_n_effect:
  assumes "af_defined s" and "\<not> undef n"
  obtains r where "SUB_n n c s = (Inr (), s\<lparr>registers := r\<rparr>)"
    and "uint (data (reg_a r)) = (uint (data (reg_a (registers s))) - (uint (data n) + of_bool c)) mod 256"
    and "\<not> undef (reg_a r)" and "\<not> undef (reg_f r)"
    and "flag_set r Flag_C \<longleftrightarrow> uint (data (reg_a (registers s))) < uint (data n) + of_bool c"
    and "flag_set r Flag_H \<longleftrightarrow>
      uint (data (reg_a (registers s))) mod 16 < uint (data n) mod 16 + of_bool c"
    and "flag_set r Flag_Z \<longleftrightarrow> (uint (data (reg_a (registers s))) - (uint (data n) + of_bool c)) mod 256 = 0"
    and "flag_set r Flag_N" and "same_but_af r (registers s)"
proof -
  let ?a = "data (reg_a (registers s))"
  let ?total = "uint ?a - (uint (data n) + of_bool c)"
  have "?a - (data n + of_bool c) = word_of_int ?total" by simp
  then have result: "uint (?a - (data n + of_bool c)) = ?total mod 256"
    by (simp only: u8_total)
  then have zero: "?a - (data n + of_bool c) = 0 \<longleftrightarrow> ?total mod 256 = 0"
    by (simp only: word_uint_eq_iff) simp
  show thesis
    by (rule that [OF SUB_n_run [OF assms]])
       (simp_all only: after_alu_simps ci_sel sub_half_carry sub_carry result zero simp_thms)
qed

text \<open>
  C8. Addition with or without carry computes the sum of the operands modulo 256; C, H, Z and N
  say whether the sum exceeds a byte, whether the sum of the low nibbles exceeds a nibble,
  whether the result is zero, and nothing else of the machine changes.
\<close>

theorem ADD_n_correct:
  assumes "af_defined s" and "\<not> undef n"
  shows "\<exists>r. ADD_n n c s = (Inr (), s\<lparr>registers := r\<rparr>) \<and>
    (let x = uint (data (reg_a (registers s))); y = uint (data n); total = x + y + of_bool c in
       uint (data (reg_a r)) = total mod 256 \<and> \<not> undef (reg_a r) \<and>
       (flag_set r Flag_C \<longleftrightarrow> 255 < total) \<and>
       (flag_set r Flag_H \<longleftrightarrow> 15 < x mod 16 + y mod 16 + of_bool c) \<and>
       (flag_set r Flag_Z \<longleftrightarrow> total mod 256 = 0) \<and> \<not> flag_set r Flag_N \<and>
       same_but_af r (registers s))"
  unfolding Let_def by (rule ADD_n_effect [OF assms]) (rule exI, intro conjI)


text \<open>
  \<open>CP\<close> sets the flags as \<open>SUB\<close> does and leaves the accumulator.
\<close>

theorem CP_n_is_SUB_n:
  assumes "af_defined s" and "\<not> undef n"
  shows "\<exists>r r'. CP_n n s = (Inr (), s\<lparr>registers := r\<rparr>) \<and>
    SUB_n n False s = (Inr (), s\<lparr>registers := r'\<rparr>) \<and>
    reg_a r = reg_a (registers s) \<and> same_but_af r (registers s) \<and>
    (\<forall>f \<in> {Flag_C, Flag_H, Flag_N, Flag_Z}. flag_set r f = flag_set r' f)"
proof -
  let ?a = "data (reg_a (registers s))"
  let ?r = "with_flags Flag_C (?a < data n) (with_flags Flag_H (?a AND 0x0F < data n AND 0x0F)
      (with_flags Flag_N True (with_flags Flag_Z (?a = data n) (registers s))))"
  have cp: "CP_n n s = (Inr (), s\<lparr>registers := ?r\<rparr>)"
    using assms by (simp add: CP_n_def af_defined_def setFlags_run)
  have "?a = data n \<longleftrightarrow> ?a - data n = 0" by simp
  then show ?thesis
    using cp SUB_n_run [OF assms, of False] by fastforce
qed

section \<open>Decimal adjustment\<close>

definition bcd :: "u8 \<Rightarrow> bool" where
  "bcd x \<longleftrightarrow> uint x mod 16 \<le> 9 \<and> uint x div 16 \<le> 9"

definition bcd_value :: "u8 \<Rightarrow> int" where
  "bcd_value x = 10 * (uint x div 16) + uint x mod 16"

lemma nibbles_of: "0 \<le> l \<Longrightarrow> l < 16 \<Longrightarrow> (16 * h + l) div 16 = (h :: int) \<and> (16 * h + l) mod 16 = l"
  by simp

lemma mod_once:
  fixes k m :: int
  assumes "0 \<le> k" and "k < 2 * m"
  shows "k mod m = (if k < m then k else k - m)"
proof (cases "k < m")
  case False
  have "k mod m = (k - m) mod m" by simp
  also have "\<dots> = k - m" using False assms by (intro mod_pos_pos_trivial) simp_all
  finally show ?thesis using False by simp
qed (use assms in simp)

lemma u8_nibbles: "uint (x :: u8) = 16 * (uint x div 16) + uint x mod 16"
  by simp

text \<open>The arithmetic of the adjustment, on the digits of the operands.\<close>

lemma daa_add_digits:
  fixes h1 l1 h2 l2 c :: int
  assumes "0 \<le> h1" "h1 \<le> 9" "0 \<le> l1" "l1 \<le> 9" "0 \<le> h2" "h2 \<le> 9" "0 \<le> l2" "l2 \<le> 9" "0 \<le> c" "c \<le> 1"
    and t: "t = 16 * h1 + l1 + (16 * h2 + l2) + c"
    and upper: "upper \<longleftrightarrow> 0x99 < t mod 256 \<or> 255 < t"
    and lower: "lower \<longleftrightarrow> 9 < t mod 256 mod 16 \<or> 15 < l1 + l2 + c"
  shows "\<exists>h l. (t mod 256 + ((if upper then 0x60 else 0) + (if lower then 0x06 else 0))) mod 256 = 16 * h + l \<and>
    0 \<le> h \<and> h \<le> 9 \<and> 0 \<le> l \<and> l \<le> 9 \<and>
    10 * h + l + (if upper then 100 else 0) = 10 * h1 + l1 + (10 * h2 + l2) + c"
proof -
  let ?l = "l1 + l2 + c" and ?h = "h1 + h2"
  have tv: "t = 16 * ?h + ?l" using t by simp
  have tm: "t mod 256 = (if t < 256 then t else t - 256)"
    using assms(1-10) tv by (intro mod_once) auto
  have low: "t mod 256 mod 16 = (if ?l < 16 then ?l else ?l - 16)"
  proof -
    have "t mod 256 mod 16 = t mod 16" by (simp add: mod_mod_cancel)
    also have "\<dots> = (?l + 16 * ?h) mod 16" using tv by (simp only: add.commute)
    also have "\<dots> = ?l mod 16" by (rule mod_mult_self2)
    finally show ?thesis
      using assms(1-10) by (simp add: mod_once)
  qed
  have lower': "lower \<longleftrightarrow> 9 < ?l" using lower low by auto
  have upper': "upper \<longleftrightarrow> 0x99 < t" using upper tm by auto
  show ?thesis
  proof (cases "9 < ?l")
    case False
    then have u: "upper \<longleftrightarrow> 10 \<le> ?h" using upper' tv assms(1-10) by auto
    have "(t mod 256 + ((if upper then 0x60 else 0) + (if lower then 0x06 else 0))) mod 256 =
        16 * (if upper then ?h - 10 else ?h) + ?l"
      using False u lower' tm tv assms(1-10) by (auto simp: mod_once)
    with False u assms(1-10) show ?thesis
      by (intro exI [of _ "if upper then ?h - 10 else ?h"] exI [of _ ?l]) auto
  next
    case True
    then have u: "upper \<longleftrightarrow> 9 \<le> ?h" using upper' tv assms(1-10) by auto
    have "(t mod 256 + ((if upper then 0x60 else 0) + (if lower then 0x06 else 0))) mod 256 =
        16 * (if upper then ?h - 9 else ?h + 1) + (?l - 10)"
      using True u lower' tm tv assms(1-10) by (auto simp: mod_once)
    with True u assms(1-10) show ?thesis
      by (intro exI [of _ "if upper then ?h - 9 else ?h + 1"] exI [of _ "?l - 10"]) auto
  qed
qed

definition daa_adjust :: "bool \<Rightarrow> bool \<Rightarrow> u8" where
  "daa_adjust upper lower = (if upper then 0x60 else 0) + (if lower then 0x06 else 0)"

definition after_daa :: "u8 \<Rightarrow> bool \<Rightarrow> CPURegisters \<Rightarrow> CPURegisters" where
  "after_daa result upper r =
     with_flags Flag_H False (with_flags Flag_Z (result = 0)
       ((with_flags Flag_C upper r)\<lparr>reg_a := ci_flags result (derived_from_sp (reg_a r)) False\<rparr>))"

lemma after_daa_simps [simp]:
  "data (reg_a (after_daa v u r)) = v" "undef (reg_a (after_daa v u r)) = False"
  "flag_set (after_daa v u r) Flag_C = u" "flag_set (after_daa v u r) Flag_H = False"
  "flag_set (after_daa v u r) Flag_Z = (v = 0)" "flag_set (after_daa v u r) Flag_N = flag_set r Flag_N"
  "same_but_af (after_daa v u r) r' = same_but_af r r'"
  by (simp_all add: after_daa_def)

lemma getFlags_bind [simp]:
  "\<not> undef (reg_f (registers s)) \<Longrightarrow> bindM (getFlags m) k s = k (flag_set (registers s) m) s"
  by (simp add: bindM_run getFlags_run)

lemma DAA_run_add:
  assumes "af_defined s" and "\<not> flag_set (registers s) Flag_N"
    and "upper \<longleftrightarrow> 0x99 < data (reg_a (registers s)) \<or> flag_set (registers s) Flag_C"
    and "lower \<longleftrightarrow> 0x09 < data (reg_a (registers s)) AND 0x0F \<or> flag_set (registers s) Flag_H"
  shows "DAA s = (Inr (), s\<lparr>registers :=
    after_daa (data (reg_a (registers s)) + daa_adjust upper lower) upper (registers s)\<rparr>)"
  using assms(1,2) unfolding assms(3,4)
  by (cases "0x99 < data (reg_a (registers s))"; cases "0x09 < data (reg_a (registers s)) AND 0x0F";
      cases "flag_set (registers s) Flag_C"; cases "flag_set (registers s) Flag_H")
     (simp_all add: DAA_def Let_def af_defined_def setFlags_run resetFlags_run after_daa_def daa_adjust_def)

lemma DAA_run_sub:
  assumes "af_defined s" and "flag_set (registers s) Flag_N"
    and "upper \<longleftrightarrow> flag_set (registers s) Flag_C" and "lower \<longleftrightarrow> flag_set (registers s) Flag_H"
  shows "DAA s = (Inr (), s\<lparr>registers :=
    after_daa (data (reg_a (registers s)) - daa_adjust upper lower) upper (registers s)\<rparr>)"
  using assms(1,2) unfolding assms(3,4)
  by (cases "flag_set (registers s) Flag_C"; cases "flag_set (registers s) Flag_H")
     (simp_all add: DAA_def Let_def af_defined_def setFlags_run resetFlags_run after_daa_def daa_adjust_def)

lemma uint_daa_adjust: "uint (daa_adjust u l) = (if u then 0x60 else 0) + (if l then 0x06 else 0)"
  by (simp add: daa_adjust_def)

lemma bcd_of_digits:
  assumes "uint (x :: u8) = 16 * h + l" and "0 \<le> l" and "l \<le> 9" and "h \<le> 9"
  shows "bcd x \<and> bcd_value x = 10 * h + l"
proof -
  have "uint x div 16 = h \<and> uint x mod 16 = l"
    unfolding assms(1) using assms by (intro nibbles_of) simp_all
  then show ?thesis using assms by (simp add: bcd_def bcd_value_def)
qed

text \<open>
  C10. \<open>DAA\<close> after an addition of two binary coded decimal bytes leaves the decimal sum of
  their values, with the carry flag as the hundreds.
\<close>

theorem DAA_after_addition:
  assumes "af_defined s" and "\<not> undef n" and "bcd (data (reg_a (registers s)))" and "bcd (data n)"
  shows "\<exists>r. thenM (ADD_n n c) DAA s = (Inr (), s\<lparr>registers := r\<rparr>) \<and> bcd (data (reg_a r)) \<and>
    bcd_value (data (reg_a r)) + (if flag_set r Flag_C then 100 else 0) =
      bcd_value (data (reg_a (registers s))) + bcd_value (data n) + of_bool c"
proof -
  let ?x = "data (reg_a (registers s))" and ?y = "data n"
  let ?t = "uint ?x + uint ?y + of_bool c"
  obtain r where add: "ADD_n n c s = (Inr (), s\<lparr>registers := r\<rparr>)"
    and res: "uint (data (reg_a r)) = ?t mod 256" "\<not> undef (reg_a r)"
    and def: "\<not> undef (reg_f r)"
    and fl: "flag_set r Flag_C \<longleftrightarrow> 255 < ?t" "\<not> flag_set r Flag_N"
      "flag_set r Flag_H \<longleftrightarrow> 15 < uint ?x mod 16 + uint ?y mod 16 + of_bool c"
    by (rule ADD_n_effect [OF assms(1,2)])
  have digits: "uint ?x mod 16 \<le> 9" "uint ?x div 16 \<le> 9" "uint ?y mod 16 \<le> 9" "uint ?y div 16 \<le> 9"
      "0 \<le> uint ?x div 16" "0 \<le> uint ?y div 16" "0 \<le> (of_bool c :: int)" "(of_bool c :: int) \<le> 1"
      "0 \<le> uint ?x mod 16" "0 \<le> uint ?y mod 16"
    using assms(3,4) by (simp_all add: bcd_def pos_imp_zdiv_nonneg_iff)
  let ?a = "data (reg_a r)"
  let ?upper = "0x99 < ?a \<or> flag_set r Flag_C" and ?lower = "0x09 < ?a AND 0x0F \<or> flag_set r Flag_H"
  have daa: "DAA (s\<lparr>registers := r\<rparr>) =
      (Inr (), s\<lparr>registers := after_daa (?a + daa_adjust ?upper ?lower) ?upper r\<rparr>)"
    using DAA_run_add [of "s\<lparr>registers := r\<rparr>" ?upper ?lower] res(2) def fl(2) by (simp add: af_defined_def)
  have upper: "?upper \<longleftrightarrow> 0x99 < ?t mod 256 \<or> 255 < ?t"
    using fl(1) res(1) by (simp add: word_less_def)
  have lower: "?lower \<longleftrightarrow> 9 < ?t mod 256 mod 16 \<or> 15 < uint ?x mod 16 + uint ?y mod 16 + of_bool c"
    using fl(3) by (simp add: word_less_def u8_nibble res(1))
  have t: "?t = 16 * (uint ?x div 16) + uint ?x mod 16 + (16 * (uint ?y div 16) + uint ?y mod 16) + of_bool c"
    by simp
  obtain h l where hl: "(?t mod 256 + ((if ?upper then 0x60 else 0) + (if ?lower then 0x06 else 0))) mod 256 = 16 * h + l"
    and b: "0 \<le> h" "h \<le> 9" "0 \<le> l" "l \<le> 9"
    and v: "10 * h + l + (if ?upper then 100 else 0) =
      10 * (uint ?x div 16) + uint ?x mod 16 + (10 * (uint ?y div 16) + uint ?y mod 16) + of_bool c"
    using daa_add_digits [OF digits(5,2,9,1,6,4,10,3,7,8) t upper lower] by blast
  have "uint (?a + daa_adjust ?upper ?lower) = 16 * h + l"
    using hl by (simp add: uint_word_ariths res(1) uint_daa_adjust del: if_split)
  from bcd_of_digits [OF this b(3,4,2)] have "bcd (?a + daa_adjust ?upper ?lower)"
    and "bcd_value (?a + daa_adjust ?upper ?lower) = 10 * h + l" by simp_all
  with add daa v show ?thesis
    by (intro exI [of _ "after_daa (?a + daa_adjust ?upper ?lower) ?upper r"])
       (simp add: bcd_value_def)
qed

lemma small_digits: "0 \<le> h \<Longrightarrow> h \<le> 9 \<Longrightarrow> 0 \<le> l \<Longrightarrow> l \<le> 9 \<Longrightarrow> (16 * h + l) mod 256 = 16 * h + (l :: int)"
  by (intro mod_pos_pos_trivial) linarith+

lemma daa_sub_digits:
  fixes h1 l1 h2 l2 c :: int
  assumes "0 \<le> h1" "h1 \<le> 9" "0 \<le> l1" "l1 \<le> 9" "0 \<le> h2" "h2 \<le> 9" "0 \<le> l2" "l2 \<le> 9" "0 \<le> c" "c \<le> 1"
    and d: "d = 16 * h1 + l1 - (16 * h2 + l2 + c)"
    and upper: "upper \<longleftrightarrow> d < 0" and lower: "lower \<longleftrightarrow> l1 < l2 + c"
  shows "\<exists>h l. (d - ((if upper then 0x60 else 0) + (if lower then 0x06 else 0))) mod 256 = 16 * h + l \<and>
    0 \<le> h \<and> h \<le> 9 \<and> 0 \<le> l \<and> l \<le> 9 \<and>
    10 * h + l = 10 * h1 + l1 - (10 * h2 + l2) - c + (if upper then 100 else 0)"
proof -
  let ?h = "h1 - h2 - (if lower then 1 else 0) + (if upper then 10 else 0)"
  let ?l = "l1 - l2 - c + (if lower then 10 else 0)"
  have digits: "0 \<le> ?h" "?h \<le> 9" "0 \<le> ?l" "?l \<le> 9"
    using assms by (auto split: if_splits)
  have wrap: "(k - (if upper then 256 else 0)) mod 256 = k mod 256" for k :: int
    by (cases upper) simp_all
  have "d - ((if upper then 0x60 else 0) + (if lower then 0x06 else 0)) =
      16 * ?h + ?l - (if upper then 256 else 0)"
    using d by (cases upper; cases lower) simp_all
  then have "(d - ((if upper then 0x60 else 0) + (if lower then 0x06 else 0))) mod 256 = (16 * ?h + ?l) mod 256"
    by (simp only: wrap)
  also have "\<dots> = 16 * ?h + ?l"
    by (rule small_digits [OF digits])
  finally show ?thesis
    using digits by (intro exI [of _ ?h] exI [of _ ?l]) (cases upper; cases lower; simp)
qed

text \<open>
  C11. \<open>DAA\<close> after a subtraction of binary coded decimal bytes leaves the decimal
  difference, with the carry flag as a borrow of one hundred.
\<close>

theorem DAA_after_subtraction:
  assumes "af_defined s" and "\<not> undef n" and "bcd (data (reg_a (registers s)))" and "bcd (data n)"
  shows "\<exists>r. thenM (SUB_n n c) DAA s = (Inr (), s\<lparr>registers := r\<rparr>) \<and> bcd (data (reg_a r)) \<and>
    bcd_value (data (reg_a r)) =
      bcd_value (data (reg_a (registers s))) - bcd_value (data n) - of_bool c +
      (if flag_set r Flag_C then 100 else 0)"
proof -
  let ?x = "data (reg_a (registers s))" and ?y = "data n"
  let ?d = "uint ?x - (uint ?y + of_bool c)"
  obtain r where sub: "SUB_n n c s = (Inr (), s\<lparr>registers := r\<rparr>)"
    and res: "uint (data (reg_a r)) = ?d mod 256" "\<not> undef (reg_a r)"
    and def: "\<not> undef (reg_f r)"
    and fl: "flag_set r Flag_C \<longleftrightarrow> uint ?x < uint ?y + of_bool c" "flag_set r Flag_N"
      "flag_set r Flag_H \<longleftrightarrow> uint ?x mod 16 < uint ?y mod 16 + of_bool c"
    by (rule SUB_n_effect [OF assms(1,2)])
  have digits: "0 \<le> uint ?x div 16" "uint ?x div 16 \<le> 9" "0 \<le> uint ?x mod 16" "uint ?x mod 16 \<le> 9"
      "0 \<le> uint ?y div 16" "uint ?y div 16 \<le> 9" "0 \<le> uint ?y mod 16" "uint ?y mod 16 \<le> 9"
      "0 \<le> (of_bool c :: int)" "(of_bool c :: int) \<le> 1"
    using assms(3,4) by (simp_all add: bcd_def pos_imp_zdiv_nonneg_iff)
  let ?a = "data (reg_a r)" and ?upper = "flag_set r Flag_C" and ?lower = "flag_set r Flag_H"
  have daa: "DAA (s\<lparr>registers := r\<rparr>) =
      (Inr (), s\<lparr>registers := after_daa (?a - daa_adjust ?upper ?lower) ?upper r\<rparr>)"
    using DAA_run_sub [of "s\<lparr>registers := r\<rparr>" ?upper ?lower] res(2) def fl(2) by (simp add: af_defined_def)
  have d: "?d = 16 * (uint ?x div 16) + uint ?x mod 16 - (16 * (uint ?y div 16) + uint ?y mod 16 + of_bool c)"
    by simp
  have upper: "?upper \<longleftrightarrow> ?d < 0" using fl(1) by linarith
  obtain h l where hl: "(?d - ((if ?upper then 0x60 else 0) + (if ?lower then 0x06 else 0))) mod 256 = 16 * h + l"
    and b: "0 \<le> h" "h \<le> 9" "0 \<le> l" "l \<le> 9"
    and v: "10 * h + l = 10 * (uint ?x div 16) + uint ?x mod 16 -
      (10 * (uint ?y div 16) + uint ?y mod 16) - of_bool c + (if ?upper then 100 else 0)"
    using daa_sub_digits [OF digits d upper fl(3)] by blast
  have "uint (?a - daa_adjust ?upper ?lower) = 16 * h + l"
    using hl by (simp add: uint_word_ariths res(1) uint_daa_adjust mod_diff_left_eq del: if_split)
  from bcd_of_digits [OF this b(3,4,2)] have "bcd (?a - daa_adjust ?upper ?lower)"
    and "bcd_value (?a - daa_adjust ?upper ?lower) = 10 * h + l" by simp_all
  with sub daa v show ?thesis
    by (intro exI [of _ "after_daa (?a - daa_adjust ?upper ?lower) ?upper r"])
       (simp add: bcd_value_def)
qed

section \<open>Logic\<close>

text \<open>What a logic instruction leaves: the result, Z from it, H as given, N and C reset.\<close>

definition logic_result :: "u8 \<Rightarrow> bool \<Rightarrow> CPURegisters \<Rightarrow> CPURegisters \<Rightarrow> bool" where
  "logic_result v h r r' \<longleftrightarrow>
     data (reg_a r') = v \<and> \<not> undef (reg_a r') \<and> (flag_set r' Flag_Z \<longleftrightarrow> v = 0) \<and>
     (flag_set r' Flag_H \<longleftrightarrow> h) \<and> \<not> flag_set r' Flag_N \<and> \<not> flag_set r' Flag_C \<and> same_but_af r' r"

lemma flag_set_reset_logic [simp]:
  "flag_set (with_flags (Flag_N OR Flag_C) False r) Flag_Z = flag_set r Flag_Z"
  "flag_set (with_flags (Flag_N OR Flag_C) False r) Flag_H = flag_set r Flag_H"
  "flag_set (with_flags (Flag_N OR Flag_C) False r) Flag_N = False"
  "flag_set (with_flags (Flag_N OR Flag_C) False r) Flag_C = False"
  "flag_set (with_flags (Flag_H OR Flag_N OR Flag_C) False r) Flag_Z = flag_set r Flag_Z"
  "flag_set (with_flags (Flag_H OR Flag_N OR Flag_C) False r) Flag_H = False"
  "flag_set (with_flags (Flag_H OR Flag_N OR Flag_C) False r) Flag_N = False"
  "flag_set (with_flags (Flag_H OR Flag_N OR Flag_C) False r) Flag_C = False"
  by (simp_all add: flag_set_def Flag_defs bit.conj_disj_distrib2 and.assoc)

text \<open>
  C12. The logic instructions: AND with H set, OR and XOR with H reset, C and N reset, Z for a
  zero result; an AND with a defined zero is defined even on an undefined accumulator.
\<close>

theorem logic_correct:
  assumes f: "\<not> undef (reg_f (registers s))" and n: "\<not> undef n"
    and a: "\<not> undef (reg_a (registers s)) \<or> data n = 0"
  shows "(\<exists>r. AND_n n s = (Inr (), s\<lparr>registers := r\<rparr>) \<and>
      logic_result (data (reg_a (registers s)) AND data n) True (registers s) r) \<and>
    (\<not> undef (reg_a (registers s)) \<longrightarrow>
      (\<exists>r. OR_n n s = (Inr (), s\<lparr>registers := r\<rparr>) \<and>
         logic_result (data (reg_a (registers s)) OR data n) False (registers s) r) \<and>
      (\<exists>r. XOR_n n s = (Inr (), s\<lparr>registers := r\<rparr>) \<and>
         logic_result (data (reg_a (registers s)) XOR data n) False (registers s) r))"
proof -
  let ?a = "reg_a (registers s)"
  let ?regs = "\<lambda>v. (with_flags Flag_Z (v = 0) ((registers s)\<lparr>reg_a :=
      ci_flags v (derived_from_sp ?a \<or> derived_from_sp n) False\<rparr>))"
  have "AND_n n s = (Inr (), s\<lparr>registers := with_flags (Flag_N OR Flag_C) False
      (with_flags Flag_H True (?regs (data ?a AND data n)))\<rparr>)"
    using assms by (auto simp: AND_n_def setFlags_run resetFlags_run)
  moreover have "OR_n n s = (Inr (), s\<lparr>registers := with_flags (Flag_H OR Flag_N OR Flag_C) False
      (?regs (data ?a OR data n))\<rparr>)" if "\<not> undef ?a"
    using f n that by (simp add: OR_n_def setFlags_run resetFlags_run)
  moreover have "XOR_n n s = (Inr (), s\<lparr>registers := with_flags (Flag_H OR Flag_N OR Flag_C) False
      (?regs (data ?a XOR data n))\<rparr>)" if "\<not> undef ?a"
    using f n that by (simp add: XOR_n_def setFlags_run resetFlags_run)
  moreover have "logic_result v True (registers s)
      (with_flags (Flag_N OR Flag_C) False (with_flags Flag_H True (?regs v)))"
    "logic_result v False (registers s) (with_flags (Flag_H OR Flag_N OR Flag_C) False (?regs v))" for v
    by (simp_all add: logic_result_def)
  ultimately show ?thesis by blast
qed

section \<open>16-bit addition\<close>

lemma u16_add: "uint (x + y :: u16) = (if uint x + uint y < 65536 then uint x + uint y else uint x + uint y - 65536)"
  by (simp add: uint_plus_if')

lemma u16_sub: "uint (x - y :: u16) = (if uint y \<le> uint x then uint x - uint y else uint x - uint y + 65536)"
  by (simp add: uint_sub_if')

lemma u16_range: "0 \<le> uint (x :: u16)" "uint (x :: u16) < 65536"
  using uint_lt2p [of x] by simp_all

lemma u16_low12: "uint (x AND 0x0FFF :: u16) = uint x mod 4096"
  using and_mask_unat [of x 12]
  by (simp add: mask_eq_exp_minus_1 uint_nat zmod_int del: of_nat_unat)

lemma add16_carries:
  "0x0FFF - (x AND 0x0FFF) < (y AND 0x0FFF :: u16) \<longleftrightarrow> 4095 < uint x mod 4096 + uint y mod 4096"
  "0xFFFF - x < y \<longleftrightarrow> 65535 < uint x + uint y"
proof -
  have "uint (0x0FFF - (x AND 0x0FFF)) = 4095 - uint x mod 4096"
    by (simp add: u16_sub u16_low12)
  then show "0x0FFF - (x AND 0x0FFF) < (y AND 0x0FFF) \<longleftrightarrow> 4095 < uint x mod 4096 + uint y mod 4096"
    unfolding word_less_def u16_low12 by linarith
  have "uint (0xFFFF :: u16) = 65535" by simp
  then have "uint (0xFFFF - x) = 65535 - uint x"
    using u16_range [of x] by (simp only: u16_sub) simp
  then show "0xFFFF - x < y \<longleftrightarrow> 65535 < uint x + uint y"
    unfolding word_less_def by linarith
qed

text \<open>
  C13. \<open>ADD HL\<close>: the 16-bit sum modulo 65536, C and H from the sums of the whole values
  and of the low twelve bits, N reset, Z kept, one extra cycle.
\<close>

theorem ADD16_correct:
  assumes "\<not> undef (reg_f (registers s))" and "\<not> undef (base v)" and "\<not> undef (base w)"
  shows "\<exists>r result. ADD16 v w s = (Inr result, s\<lparr>cycle := cycle s + 1, registers := r\<rparr>) \<and>
    (let x = uint (data (base v)); y = uint (data (base w)) in
       uint (data (base result)) = (x + y) mod 65536 \<and> \<not> undef (base result) \<and>
       (flag_set r Flag_C \<longleftrightarrow> 65535 < x + y) \<and>
       (flag_set r Flag_H \<longleftrightarrow> 4095 < x mod 4096 + y mod 4096) \<and>
       \<not> flag_set r Flag_N \<and> (flag_set r Flag_Z \<longleftrightarrow> flag_set (registers s) Flag_Z) \<and>
       same_but_af r (registers s))"
proof -
  let ?x = "data (base v)" and ?y = "data (base w)"
  let ?r = "with_flags Flag_C (0xFFFF - ?x < ?y)
      (with_flags Flag_H (0x0FFF - (?x AND 0x0FFF) < ?y AND 0x0FFF) (with_flags Flag_N False (registers s)))"
  let ?result = "Word_of (ci_flags (?x + ?y) (derived_from_sp (base v) \<or> derived_from_sp (base w)) False)"
  have "ADD16 v w s = (Inr (Word_of (ci_flags (?x + ?y) (derived_from_sp (base v) \<or> derived_from_sp (base w)) False)),
      s\<lparr>cycle := cycle s + 1, registers := ?r\<rparr>)"
    using assms by (simp add: ADD16_def word_lit_def setFlags_run resetFlags_run)
  moreover have "uint (?x + ?y) = (uint ?x + uint ?y) mod 65536"
    by (simp add: uint_word_ariths)
  ultimately show ?thesis
    unfolding Let_def by (intro exI [of _ ?r] exI [of _ ?result] conjI) (simp_all add: add16_carries)
qed

section \<open>Rotation through the carry\<close>

lemma push_bit_or_low: "uint (push_bit 1 (x :: u8) OR of_bool c) = 2 * uint x mod 256 + of_bool c"
proof -
  have "push_bit 1 x AND of_bool c = 0"
    by (rule bit_eqI) (auto simp only: bit_and_iff bit_push_bit_iff bit_of_bool_iff bit_0_eq bot_apply bot_bool_def)
  then have "push_bit 1 x OR of_bool c = push_bit 1 x + of_bool c"
    by (simp add: disjunctive_add_eq_or)
  moreover have "uint (push_bit 1 x) = 2 * uint x mod 256"
    by (subst unsigned_push_bit_eq) (simp add: push_bit_eq_mult take_bit_eq_mod mult.commute)
  moreover have "2 * uint x mod 256 + of_bool c < 256"
    by (cases c) (simp_all, presburger)
  ultimately show ?thesis
    using u8_add [of "push_bit 1 x" "of_bool c"] by (cases c) simp_all
qed

lemma byte_top_bit:
  fixes k :: int
  assumes "0 \<le> k" and "k < 256"
  shows "odd (k div 128) \<longleftrightarrow> 128 \<le> k"
    and "2 * k mod 256 = (if 128 \<le> k then 2 * k - 256 else 2 * k)"
proof -
  have "k div 128 = (if 128 \<le> k then 1 else 0)"
  proof (cases "128 \<le> k")
    case True
    then have "k div 128 = 1" using assms by (intro int_div_pos_eq [of _ _ _ "k - 128"]) linarith+
    with True show ?thesis by simp
  next
    case False
    then show ?thesis using assms by (simp only: div_pos_pos_trivial if_False)
  qed
  then show "odd (k div 128) \<longleftrightarrow> 128 \<le> k" by (cases "128 \<le> k") (simp_all only: if_True if_False odd_one even_zero not_True_eq_False not_False_eq_True)
  show "2 * k mod 256 = (if 128 \<le> k then 2 * k - 256 else 2 * k)"
  proof (cases "128 \<le> k")
    case True
    then have "2 * k mod 256 = 2 * k - 256"
      using assms by (intro int_mod_pos_eq [of _ _ 1]) linarith+
    with True show ?thesis by simp
  next
    case False
    then show ?thesis using assms by (simp only: mod_pos_pos_trivial if_False)
  qed
qed

lemma high_bit: "(x :: u8) AND 0x80 \<noteq> 0 \<longleftrightarrow> 128 \<le> uint x"
proof -
  have "(0x80 :: u8) = push_bit 7 1" by simp
  then have "x AND 0x80 \<noteq> 0 \<longleftrightarrow> bit x 7" by (simp add: bit_iff_and_push_bit_not_eq_0)
  also have "\<dots> \<longleftrightarrow> bit (uint x) 7" by (simp add: bit_simps)
  also have "\<dots> \<longleftrightarrow> odd (uint x div 2 ^ 7)" by (simp only: bit_iff_odd)
  also have "\<dots> \<longleftrightarrow> 128 \<le> uint x" using byte_top_bit(1) [OF u8_range, of x] by simp
  finally show ?thesis .
qed

text \<open>
  C14. \<open>RLA\<close> rotates the nine bits made of the carry flag and the accumulator one place to
  the left, and resets Z, N and H.
\<close>

theorem RLA_rotates_nine_bits:
  assumes "af_defined s"
  shows "\<exists>r. RLA s = (Inr (), s\<lparr>registers := r\<rparr>) \<and> same_but_af r (registers s) \<and>
    \<not> flag_set r Flag_Z \<and> \<not> flag_set r Flag_N \<and> \<not> flag_set r Flag_H \<and>
    (let v = uint (data (reg_a (registers s))) + (if flag_set (registers s) Flag_C then 256 else 0) in
     uint (data (reg_a r)) + (if flag_set r Flag_C then 256 else 0) = 2 * v mod 512 + v div 256)"
proof -
  let ?x = "data (reg_a (registers s))" and ?c = "flag_set (registers s) Flag_C"
  let ?r = "(with_flags (Flag_N OR Flag_H) False (with_flags Flag_C (?x AND 0x80 \<noteq> 0)
      (with_flags Flag_Z False (registers s))))\<lparr>reg_a :=
        ci_flags (push_bit 1 ?x OR of_bool ?c) (derived_from_sp (reg_a (registers s))) False\<rparr>"
  have "RLA s = (Inr (), s\<lparr>registers := ?r\<rparr>)"
    using assms
    by (simp add: RLA_def rotate_A_def ROT_L_def carry_bit_def rotate_flags_def carry_from_def
        af_defined_def setFlags_run resetFlags_run)
  moreover have "2 * uint ?x mod 256 + of_bool b + (if 128 \<le> uint ?x then 256 else 0) =
      2 * (uint ?x + (if b then 256 else 0)) mod 512 + (uint ?x + (if b then 256 else 0)) div 256" for b
  proof -
    have "2 * (uint ?x + (if b then 256 else 0)) mod 512 = 2 * uint ?x"
      using u8_range [of ?x] by (cases b) simp_all
    moreover have "(uint ?x + (if b then 256 else 0)) div 256 = of_bool b"
      using div_pos_pos_trivial [OF u8_range, of ?x] by (cases b) simp_all
    ultimately show ?thesis using byte_top_bit(2) [OF u8_range, of ?x] by simp
  qed
  ultimately show ?thesis
    by (intro exI [of _ ?r] conjI) (simp_all only: Let_def, simp_all add: push_bit_or_low [simplified] high_bit)
qed

section \<open>The properties at concrete inputs\<close>

lemma switched_on_af: "af_defined switched_on"
  by (simp add: af_defined_def initial_registers_def)

lemma ADD_n_correct_witness:
  "\<exists>r. ADD_n (lit 0xFF) True switched_on = (Inr (), switched_on\<lparr>registers := r\<rparr>) \<and>
    uint (data (reg_a r)) = 1 \<and> flag_set r Flag_C \<and> flag_set r Flag_H \<and> \<not> flag_set r Flag_Z"
  using ADD_n_correct [OF switched_on_af, of "lit 0xFF" True]
  by (auto simp: initial_registers_def Let_def)


lemma CP_n_is_SUB_n_witness:
  "\<exists>r r'. CP_n (lit 0x02) switched_on = (Inr (), switched_on\<lparr>registers := r\<rparr>) \<and>
    SUB_n (lit 0x02) False switched_on = (Inr (), switched_on\<lparr>registers := r'\<rparr>) \<and>
    data (reg_a r) = 1"
  using CP_n_is_SUB_n [OF switched_on_af, of "lit 0x02"]
  by (auto simp: initial_registers_def)

lemma DAA_after_addition_witness:
  "\<exists>r. thenM (ADD_n (lit 0x99) False) DAA switched_on = (Inr (), switched_on\<lparr>registers := r\<rparr>) \<and>
    bcd_value (data (reg_a r)) + (if flag_set r Flag_C then 100 else 0) = 100"
  using DAA_after_addition [OF switched_on_af, of "lit 0x99" False]
  by (auto simp: initial_registers_def bcd_def bcd_value_def)

lemma DAA_after_subtraction_witness:
  "\<exists>r. thenM (SUB_n (lit 0x02) False) DAA switched_on = (Inr (), switched_on\<lparr>registers := r\<rparr>) \<and>
    bcd_value (data (reg_a r)) \<in> {-1, 99}"
proof -
  have "bcd (1 :: u8)" "bcd (2 :: u8)" by (simp_all add: bcd_def)
  then show ?thesis
    using DAA_after_subtraction [OF switched_on_af, of "lit 0x02" False]
    by (auto simp: initial_registers_def bcd_value_def [of 1] bcd_value_def [of 2] split: if_splits)
qed

lemma logic_correct_witness:
  "\<exists>r. AND_n (lit 0x03) switched_on = (Inr (), switched_on\<lparr>registers := r\<rparr>) \<and> data (reg_a r) = 1 \<and> flag_set r Flag_H"
  using logic_correct [of switched_on "lit 0x03"]
  by (auto simp: initial_registers_def logic_result_def)

lemma ADD16_correct_witness:
  "\<exists>r result. ADD16 (word_lit 0xFFFF) (word_lit 1) switched_on =
      (Inr result, switched_on\<lparr>cycle := 1, registers := r\<rparr>) \<and>
    uint (data (base result)) = 0 \<and> flag_set r Flag_C"
  using ADD16_correct [of switched_on "word_lit 0xFFFF" "word_lit 1"]
  by (auto simp: initial_registers_def word_lit_def Word_of_def Let_def)

lemma RLA_rotates_nine_bits_witness:
  "\<exists>r. RLA switched_on = (Inr (), switched_on\<lparr>registers := r\<rparr>) \<and>
    uint (data (reg_a r)) + (if flag_set r Flag_C then 256 else 0) = 3"
  using RLA_rotates_nine_bits [OF switched_on_af]
  by (auto simp: initial_registers_def flag_set_def Flag_C_def Let_def)
end
