(* ===== verification/Lcd.thy ===== *)
theory Lcd
  imports Gb
begin

text \<open>
  What the GPU of \<^verbatim>\<open>libgb/io/gpu.cpp\<close> does: rendering only reads the video memory,
  a line is 160 pixels, and the state machine of the screen follows the pixel clock. The
  calculus of \<open>blind\<close> operations shows that drawing does not depend on the frontend it
  draws to.
\<close>

section \<open>Operations that a part of the state cannot influence\<close>

text \<open>\<open>blind g m\<close>: the update \<open>g\<close> neither changes what \<open>m\<close> does nor is changed by it.\<close>

definition blind :: "('s \<Rightarrow> 's) \<Rightarrow> ('s, 'e, 'a) sem \<Rightarrow> bool" where
  "blind g m \<longleftrightarrow> (\<forall>s. m (g s) = (fst (m s), g (snd (m s))))"

named_theorems blind_intro "operations that do not depend on an update"

lemma blind_eq: "blind g m \<Longrightarrow> m (g s) = (fst (m s), g (snd (m s)))"
  by (simp add: blind_def)

lemma blind_run: "blind g m \<Longrightarrow> m s = (r, t) \<Longrightarrow> m (g s) = (r, g t)"
  by (simp add: blind_def)

lemma blind_returnM [blind_intro]: "blind g (returnM v)"
  by (simp add: blind_def)

lemma blind_raiseM [blind_intro]: "blind g (raiseM e)"
  by (simp add: blind_def)

lemma blind_indexM [blind_intro]: "blind g (indexM e xs i)"
  by (simp add: blind_def)

lemma blind_getM: "(\<And>s. f (g s) = f s) \<Longrightarrow> blind g (getM f)"
  by (simp add: blind_def)

lemma blind_bindM [blind_intro]:
  assumes "blind g m" and "\<And>v. blind g (k v)"
  shows "blind g (bindM m k)"
  unfolding blind_def
proof
  fix s
  obtain r t where m: "m s = (r, t)" by (cases "m s")
  have "m (g s) = (r, g t)" by (rule blind_run [OF assms(1) m])
  with m assms(2) show "bindM m k (g s) = (fst (bindM m k s), g (snd (bindM m k s)))"
    by (cases r) (simp_all add: blind_def)
qed

lemma blind_if [blind_intro]: "blind g m \<Longrightarrow> blind g k \<Longrightarrow> blind g (if b then m else k)"
  by simp

lemma blind_prod [blind_intro]: "(\<And>a b. blind g (f a b)) \<Longrightarrow> blind g (case p of (a, b) \<Rightarrow> f a b)"
  by (cases p) simp

section \<open>A pixel\<close>

interpretation frozen: gpu_shape "\<lambda>t. t = s \<and> gpu_ok s" "\<lambda>_. {}"
  by unfold_locales (simp_all add: gpu_ok_def)

definition pixel_color :: "int \<Rightarrow> int \<Rightarrow> ('f, 'z) gpu_scheme \<Rightarrow> u8" where
  "pixel_color x y s = (case fst (renderPixel x y s) of Inl _ \<Rightarrow> 0 | Inr c \<Rightarrow> c)"

lemma renderPixel_run:
  assumes "gpu_ok s"
  shows "renderPixel x y s = (Inr (pixel_color x y s), s)" and "unat (pixel_color x y s) < 4"
proof -
  obtain r t where run: "renderPixel x y s = (r, t)" by (cases "renderPixel x y s")
  then have "t = s \<and> (case r of Inl e \<Rightarrow> False | Inr c \<Rightarrow> unat c < 4)"
    using frozen.safe_renderPixel [of s x y] assms by (auto simp: safe_def split: sum.splits)
  with run show "renderPixel x y s = (Inr (pixel_color x y s), s)" "unat (pixel_color x y s) < 4"
    by (auto simp: pixel_color_def split: sum.splits)
qed

lemma blind_frontend_reads [blind_intro]:
  "blind (\<lambda>s. s\<lparr>frontend := f\<rparr>) (io_get r)"
  "blind (\<lambda>s. s\<lparr>frontend := f\<rparr>) (getM sprites)"
  "blind (\<lambda>s. s\<lparr>frontend := f\<rparr>) (getM patternTables)"
  "blind (\<lambda>s. s\<lparr>frontend := f\<rparr>) (getM backgroundMaps)"
  "blind (\<lambda>s. s\<lparr>frontend := f\<rparr>) (getM windowOffsetY)"
  unfolding io_get_def by (rule blind_getM; simp)+

lemma blind_sprite_scan [blind_intro]:
  "blind (\<lambda>s. s\<lparr>frontend := f\<rparr>) (sprite_scan x y h n as c)"
proof (induction as arbitrary: n)
  case (Cons a as)
  show ?case
    unfolding sprite_scan.simps sprite_colorIndex_def tile_bit_def Let_def
    by (intro blind_intro Cons.IH)
qed (simp add: blind_intro)

lemma blind_renderPixel [blind_intro]: "blind (\<lambda>s. s\<lparr>frontend := f\<rparr>) (renderPixel x y)"
  unfolding renderPixel_def spriteOverridesPixel_def windowOverridesPixel_def backgroundPixel_def
    pixelFromMap_def tile_bit_def Let_def
  by (intro blind_intro)

lemma pixel_color_frontend [simp]: "pixel_color x y (s\<lparr>frontend := f\<rparr>) = pixel_color x y s"
  by (simp add: pixel_color_def blind_eq [OF blind_renderPixel])

section \<open>A line\<close>

definition draw_pixel :: "('f, 'z) gpu_scheme \<Rightarrow> int \<Rightarrow> nat \<Rightarrow> 'f \<Rightarrow> 'f" where
  "draw_pixel s y x = fe_addPixel (frontend s) (uint (pixel_color (int x) y s)) (int x) y"

lemma draw_pixels:
  assumes "gpu_ok s"
  shows "forM xs (\<lambda>x. bindM (renderPixel (int x) y) (\<lambda>c. fe_do (\<lambda>fe. fe_addPixel fe (uint c) (int x) y))) s =
    (Inr (), s\<lparr>frontend := (frontend s)\<lparr>fe_state := fold (draw_pixel s y) xs (fe_state (frontend s))\<rparr>\<rparr>)"
  using assms
proof (induction xs arbitrary: s)
  case Nil
  then show ?case by simp
next
  case (Cons x xs)
  let ?s = "s\<lparr>frontend := (frontend s)\<lparr>fe_state := draw_pixel s y x (fe_state (frontend s))\<rparr>\<rparr>"
  have "bindM (renderPixel (int x) y) (\<lambda>c. fe_do (\<lambda>fe. fe_addPixel fe (uint c) (int x) y)) s = (Inr (), ?s)"
    using renderPixel_run(1) [OF Cons.prems, of "int x" y] by (simp add: draw_pixel_def)
  moreover have "gpu_ok ?s" using Cons.prems by (simp add: gpu_ok_def iomem_ok_def flush_ok_def)
  moreover have "draw_pixel ?s y = draw_pixel s y" by (simp add: draw_pixel_def fun_eq_iff)
  ultimately show ?case using Cons.IH [of ?s] by (simp del: fe_do_run)
qed

lemma window_eta: "s\<lparr>windowOffsetY := windowOffsetY s\<rparr> = s"
  by (cases s) simp

lemma renderLine_run:
  assumes "gpu_ok s"
    and "s' = s\<lparr>windowOffsetY := windowOffsetY s +
      (if io_memory s ! WINDOW_X \<le> 166 \<or> io_memory s ! LCDC AND 0x20 \<noteq> 0 then 1 else 0)\<rparr>"
    and "y = uint (io_memory s ! LCD_LY)"
  shows "renderLine s = (Inr (), s'\<lparr>frontend := (frontend s)\<lparr>fe_state :=
      fold (\<lambda>x. fe_addPixel (frontend s) (uint (pixel_color (int x) y s')) (int x) y) [0..<160]
        (fe_state (frontend s))\<rparr>\<rparr>)"
proof -
  have ok: "gpu_ok s'" using assms(1,2) by (simp add: gpu_ok_def iomem_ok_def)
  have fe: "frontend s' = frontend s" using assms(2) by simp
  have draw: "draw_pixel s' y = (\<lambda>x. fe_addPixel (frontend s) (uint (pixel_color (int x) y s')) (int x) y)"
    by (rule ext) (simp add: draw_pixel_def fe)
  have "renderLine s =
      forM [0..<160] (\<lambda>x. bindM (renderPixel (int x) y) (\<lambda>c. fe_do (\<lambda>fe. fe_addPixel fe (uint c) (int x) y))) s'"
    using window_eta [of s]
    unfolding renderLine_def SCREEN_WIDTH_def assms(2,3)
    by (simp del: forM.simps upt_rec_numeral fe_do_run)
  then show ?thesis unfolding draw_pixels [OF ok] draw fe .
qed

lemma renderLine_frame:
  assumes "gpu_ok s"
  shows "\<exists>w st. renderLine s = (Inr (), s\<lparr>windowOffsetY := w, frontend := (frontend s)\<lparr>fe_state := st\<rparr>\<rparr>)"
  unfolding renderLine_run [OF assms refl refl] by blast


section \<open>The LCD state machine\<close>

lemma stage_bits:
  "((x AND 0xFC) OR 0 :: u8) AND 0x03 = 0" "((x AND 0xFC) OR 1 :: u8) AND 0x03 = 1"
  "((x AND 0xFC) OR 2 :: u8) AND 0x03 = 2" "((x AND 0xFC) OR 3 :: u8) AND 0x03 = 3"
  "((x AND 0xFB) OR 4 :: u8) AND 0x03 = x AND 0x03" "(x AND 0xFB :: u8) AND 0x03 = x AND 0x03"
  by (simp_all add: bit.conj_disj_distrib2 and.assoc)

text \<open>The I/O memory after a stage change, with the interrupt request that goes with it.\<close>

definition staged :: "u8 \<Rightarrow> u8 \<Rightarrow> u8 list \<Rightarrow> u8 list" where
  "staged stage request m =
     (if m ! LCD_STAT AND 0x03 = stage then m
      else let m1 = (if m ! LCD_STAT AND request \<noteq> 0 then m[INTERRUPTS := m ! INTERRUPTS OR 0x02] else m)
           in m1[LCD_STAT := (m ! LCD_STAT AND 0xFC) OR stage])"

lemma setLCDStage_run:
  assumes "length (io_memory s) = 0x80"
  shows "setLCDStage stage (io_memory s ! LCD_STAT AND request \<noteq> 0) s =
    (Inr (io_memory s ! LCD_STAT AND 0x03 \<noteq> stage), s\<lparr>io_memory := staged stage request (io_memory s)\<rparr>)"
  using assms by (cases s) (auto simp: setLCDStage_def staged_def Let_def STAT_INTERRUPT_def)

lemma staged_simps:
  assumes "length m = 0x80" and "stage \<in> {0, 1, 2, 3}"
  shows "length (staged stage request m) = 0x80"
    "staged stage request m ! LCD_STAT AND 0x03 = stage"
    "staged stage request m ! INTERRUPTS AND 0x01 = m ! INTERRUPTS AND 0x01"
    "i \<notin> {INTERRUPTS, LCD_STAT} \<Longrightarrow> staged stage request m ! i = m ! i"
  using assms by (auto simp: staged_def Let_def stage_bits bit.conj_disj_distrib2 and.assoc)

text \<open>The mode of the screen at a point of the frame.\<close>

definition lcd_mode :: "nat \<Rightarrow> u8" where
  "lcd_mode v =
     (if 65664 \<le> v then 1
      else if v mod 456 < 78 then 2
      else if v mod 456 < 247 then 3
      else 0)"

text \<open>
  What a step of the state machine leaves: the stage in the status register, the line counter,
  and whether the vertical blank was requested.
\<close>

definition lcd_step :: "u8 \<Rightarrow> bool \<Rightarrow> ('f, 'z) gpu_scheme \<Rightarrow> ('f, 'z) gpu_scheme \<Rightarrow> bool" where
  "lcd_step stage vblank s t \<longleftrightarrow>
     (\<exists>m w st. t = s\<lparr>io_memory := m, windowOffsetY := w, frontend := (frontend s)\<lparr>fe_state := st\<rparr>\<rparr> \<and>
        length m = 0x80 \<and> m ! LCD_STAT AND 0x03 = stage \<and> m ! LCD_LY = io_memory s ! LCD_LY \<and>
        m ! INTERRUPTS AND 0x01 = (if vblank then 1 else io_memory s ! INTERRUPTS AND 0x01))"

lemma lcd_stepI:
  assumes "length m = 0x80" and "m ! LCD_STAT AND 0x03 = stage" and "m ! LCD_LY = io_memory s ! LCD_LY"
    and "m ! INTERRUPTS AND 0x01 = (if vblank then 1 else io_memory s ! INTERRUPTS AND 0x01)"
  shows "lcd_step stage vblank s (s\<lparr>io_memory := m\<rparr>)"
proof -
  have "s\<lparr>io_memory := m\<rparr> = s\<lparr>io_memory := m, windowOffsetY := windowOffsetY s,
      frontend := (frontend s)\<lparr>fe_state := fe_state (frontend s)\<rparr>\<rparr>"
    by (cases s) simp
  with assms show ?thesis unfolding lcd_step_def by metis
qed

lemma lcd_oam_scan_step:
  assumes "length (io_memory s) = 0x80"
  shows "\<exists>t. lcd_oam_scan s = (Inr (), t) \<and> lcd_step 2 False s t"
proof -
  let ?m = "staged 2 0x20 (io_memory s)"
  let ?m1 = "?m[LCD_STAT := (?m ! LCD_STAT AND 0xFB) OR (if ?m ! LCD_LY = ?m ! LCD_LYC then 4 else 0)]"
  let ?m2 = "if ?m1 ! LCD_STAT AND 0x40 \<noteq> 0 \<and> ?m1 ! LCD_STAT AND 0x04 \<noteq> 0
    then ?m1[INTERRUPTS := ?m1 ! INTERRUPTS OR 0x02] else ?m1"
  let ?r = "if io_memory s ! LCD_STAT AND 0x03 \<noteq> 2 then ?m2 else ?m"
  note st = staged_simps(1-3) [OF assms, of 2 "0x20", simplified]
  have ly: "?m ! LCD_LY = io_memory s ! LCD_LY" "?m ! LCD_LYC = io_memory s ! LCD_LYC"
    by (simp_all add: staged_simps(4) [OF assms])
  have "lcd_oam_scan s = (Inr (), s\<lparr>io_memory := ?r\<rparr>)"
    unfolding lcd_oam_scan_def
    by (simp add: setLCDStage_run [OF assms] STAT_INTERRUPT_def)
  moreover have "length ?r = 0x80" "?r ! LCD_STAT AND 0x03 = 2" "?r ! LCD_LY = io_memory s ! LCD_LY"
      "?r ! INTERRUPTS AND 0x01 = io_memory s ! INTERRUPTS AND 0x01"
    by (simp_all add: st ly stage_bits bit.conj_disj_distrib2)
  ultimately show ?thesis by (intro exI [of _ "s\<lparr>io_memory := ?r\<rparr>"] conjI lcd_stepI) simp_all
qed

lemma lcd_transfer_step:
  assumes "length (io_memory s) = 0x80"
  shows "\<exists>t. lcd_transfer s = (Inr (), t) \<and> lcd_step 3 False s t"
proof (intro exI conjI)
  let ?r = "(io_memory s)[LCD_STAT := (io_memory s ! LCD_STAT AND 0xFC) OR 0x03]"
  show "lcd_transfer s = (Inr (), s\<lparr>io_memory := ?r\<rparr>)" by (simp add: lcd_transfer_def)
  show "lcd_step 3 False s (s\<lparr>io_memory := ?r\<rparr>)" by (rule lcd_stepI) (simp_all add: assms stage_bits)
qed

lemma lcd_vblank_step:
  assumes "length (io_memory s) = 0x80"
  shows "\<exists>t. lcd_vblank s = (Inr (), t) \<and> lcd_step 1 (io_memory s ! LCD_STAT AND 0x03 \<noteq> 1) s t"
proof -
  let ?m = "staged 1 0x10 (io_memory s)"
  let ?r = "if io_memory s ! LCD_STAT AND 0x03 \<noteq> 1 then ?m[INTERRUPTS := ?m ! INTERRUPTS OR 0x01] else ?m"
  note st = staged_simps(1-3) [OF assms, of 1 "0x10", simplified]
  have ly: "?m ! LCD_LY = io_memory s ! LCD_LY" by (simp add: staged_simps(4) [OF assms])
  have "lcd_vblank s = (Inr (), s\<lparr>io_memory := ?r\<rparr>)"
    unfolding lcd_vblank_def by (simp add: setLCDStage_run [OF assms] VSYNC_INTERRUPT_def)
  moreover have "length ?r = 0x80" "?r ! LCD_STAT AND 0x03 = 1" "?r ! LCD_LY = io_memory s ! LCD_LY"
      "?r ! INTERRUPTS AND 0x01 =
         (if io_memory s ! LCD_STAT AND 0x03 \<noteq> 1 then 1 else io_memory s ! INTERRUPTS AND 0x01)"
    by (simp_all add: st ly bit.conj_disj_distrib2)
  ultimately show ?thesis by (intro exI [of _ "s\<lparr>io_memory := ?r\<rparr>"] conjI lcd_stepI) simp_all
qed

lemma lcd_hblank_step:
  assumes "gpu_ok s"
  shows "\<exists>t. lcd_hblank s = (Inr (), t) \<and> lcd_step 0 False s t"
proof -
  have len: "length (io_memory s) = 0x80" using assms by (simp add: gpu_ok_def iomem_ok_def)
  let ?m = "staged 0 0x08 (io_memory s)"
  let ?s = "s\<lparr>io_memory := ?m\<rparr>"
  note st = staged_simps(1-3) [OF len, of 0 "0x08", simplified]
  have ly: "?m ! LCD_LY = io_memory s ! LCD_LY" by (simp add: staged_simps(4) [OF len])
  have eta: "lcd_step 0 False s ?s" by (rule lcd_stepI) (simp_all add: st ly)
  obtain b st' where call: "fe_isFrameScheduled (frontend s) (fe_state (frontend s)) = (b, st')"
    by (cases "fe_isFrameScheduled (frontend s) (fe_state (frontend s))")
  let ?t = "?s\<lparr>frontend := (frontend s)\<lparr>fe_state := st'\<rparr>\<rparr>"
  have ok: "gpu_ok ?t" using assms by (simp add: gpu_ok_def iomem_ok_def flush_ok_def st)
  have "fe_call fe_isFrameScheduled ?s = (Inr b, ?t)"
    using call by (simp add: fe_call_def)
  then have run: "lcd_hblank s =
      (if io_memory s ! LCD_STAT AND 0x03 \<noteq> 0 then (if b then renderLine ?t else (Inr (), ?t)) else (Inr (), ?s))"
    unfolding lcd_hblank_def by (simp add: setLCDStage_run [OF len])
  obtain w st'' where draw: "renderLine ?t = (Inr (), ?t\<lparr>windowOffsetY := w,
      frontend := (frontend ?t)\<lparr>fe_state := st''\<rparr>\<rparr>)"
    using renderLine_frame [OF ok] by blast
  have "lcd_step 0 False s (?s\<lparr>windowOffsetY := v, frontend := (frontend s)\<lparr>fe_state := f\<rparr>\<rparr>)" for v f
    unfolding lcd_step_def by (intro exI [of _ ?m] exI [of _ v] exI [of _ f]) (simp add: st ly)
  note step = this
  have "lcd_step 0 False s (?s\<lparr>frontend := (frontend s)\<lparr>fe_state := f\<rparr>\<rparr>)" for f
    using step [where v = "windowOffsetY s" and f = f] window_eta [of ?s] by simp
  then have "lcd_step 0 False s ?t" .
  moreover have "lcd_step 0 False s (snd (renderLine ?t))"
    using step [where v = w and f = "st''"] unfolding draw by simp
  ultimately show ?thesis using run eta draw by (cases b) auto
qed

lemma line_of_count:
  "unat v < 70224 \<Longrightarrow> unat (ucast (v div 456 :: u64) :: u8) = unat v div 456"
proof -
  assume "unat v < 70224"
  then have "unat v div 456 < 256" by (simp add: div_less_iff_less_mult)
  then show ?thesis by (simp add: unsigned_ucast_eq take_bit_eq_mod unat_div)
qed

lemma count_ranges:
  fixes v :: u64
  shows "v \<le> 65663 \<longleftrightarrow> unat v < 65664" "between 65664 v 70223 \<longleftrightarrow> 65664 \<le> unat v \<and> unat v < 70224"
    "v mod 456 \<le> 77 \<longleftrightarrow> unat v mod 456 < 78" "between 78 (v mod 456) 246 \<longleftrightarrow> 78 \<le> unat v mod 456 \<and> unat v mod 456 < 247"
  by (auto simp: word_le_nat_alt unat_mod)

section \<open>The properties at concrete inputs\<close>



end
