(* ===== verification/Video.thy ===== *)
theory Video
  imports Gb
begin

text \<open>
  Video memory as the CPU and the transfer unit see it: a store of bytes. The three tables of
  \<^verbatim>\<open>io/gpu.hpp\<close> (tile patterns, tile maps, sprite attributes) are read off as one function from
  addresses to bytes, and every access the PPU does not block reads or updates that function at
  exactly one address. The laws are those of the locale \<open>byte_store\<close>.
\<close>

fun sprite_byte :: "SpriteAttribute \<Rightarrow> nat \<Rightarrow> u8" where
  "sprite_byte a i = (if i = 0 then spr_y a else if i = 1 then spr_x a else if i = 2 then spr_tile a else spr_attribs a)"

text \<open>The byte the video memory holds at an address, read off the three tables.\<close>

definition video_byte :: "('f, 'z) gpu_scheme \<Rightarrow> u16 \<Rightarrow> u8" where
  "video_byte s a =
     (let n = unat a in
      if n < 0x9800 then
        patternTables s ! ((n - 0x8000) div 16) ! ((n - 0x8000) mod 16 div 2) ! ((n - 0x8000) mod 16 mod 2)
      else if n < 0xA000 then
        backgroundMaps s ! ((n - 0x9800) div 1024) ! ((n - 0x9800) mod 1024 div 32) ! ((n - 0x9800) mod 1024 mod 32)
      else sprite_byte (sprites s ! ((n - 0xFE00) div 4)) ((n - 0xFE00) mod 4))"

definition video_address :: "u16 \<Rightarrow> bool" where
  "video_address a \<longleftrightarrow> between 0x8000 a 0x9FFF \<or> between 0xFE00 a 0xFE9F"

text \<open>The PPU does not block the access: the transfer unit ignores it, the CPU waits for the mode.\<close>

definition video_open :: "bool \<Rightarrow> ('f, 'z) gpu_scheme \<Rightarrow> u16 \<Rightarrow> bool" where
  "video_open is_dma s a \<longleftrightarrow> video_address a \<and>
     (is_dma \<or> io_memory s ! LCD_STAT AND 0b11 \<noteq> 3 \<and>
        (0xFE00 \<le> a \<longrightarrow> io_memory s ! LCD_STAT AND 0b11 \<noteq> 2))"

lemma offset_nat:
  fixes a k :: u16
  assumes "k \<le> a"
  shows "unat ((a - k) div m) = (unat a - unat k) div unat m" "unat ((a - k) mod m) = (unat a - unat k) mod unat m"
    "unat ((a - k) mod m div l) = (unat a - unat k) mod unat m div unat l"
    "unat ((a - k) mod m mod l) = (unat a - unat k) mod unat m mod unat l"
  using assms by (simp_all add: unat_div unat_mod unat_sub)

lemma offset_bounds:
  "0x8000 \<le> n \<Longrightarrow> n < 0x9800 \<Longrightarrow> (n - 0x8000) div 16 < (0x180 :: nat)"
  "0x9800 \<le> n \<Longrightarrow> n < 0xA000 \<Longrightarrow> (n - 0x9800) div 1024 < (2 :: nat)"
  "0xFE00 \<le> n \<Longrightarrow> n < 0xFEA0 \<Longrightarrow> (n - 0xFE00) div 4 < (40 :: nat)"
  "m mod 16 div 2 < (8 :: nat)" "m mod 16 mod 2 < (2 :: nat)" "m mod 1024 div 32 < (0x20 :: nat)"
  "m mod 1024 mod 32 < (0x20 :: nat)"
  by (simp_all add: less_mult_imp_div_less)

lemma shape_lengths:
  "patterns_ok ts \<Longrightarrow> length ts = 0x180" "maps_ok ms \<Longrightarrow> length ms = 2"
  "patterns_ok ts \<Longrightarrow> i < 0x180 \<Longrightarrow> length (ts ! i) = 8" "maps_ok ms \<Longrightarrow> i < 2 \<Longrightarrow> length (ms ! i) = 0x20"
  "patterns_ok ts \<Longrightarrow> i < 0x180 \<Longrightarrow> j < 8 \<Longrightarrow> length (ts ! i ! j) = 2"
  "maps_ok ms \<Longrightarrow> i < 2 \<Longrightarrow> j < 0x20 \<Longrightarrow> length (ms ! i ! j) = 0x20"
  by (simp_all add: patterns_ok_def maps_ok_def tile_ok_def map_ok_def list_all_length)

lemma gpu_ok_shapes:
  "gpu_ok s \<Longrightarrow> patterns_ok (patternTables s)" "gpu_ok s \<Longrightarrow> maps_ok (backgroundMaps s)"
  "gpu_ok s \<Longrightarrow> length (sprites s) = 40"
  by (simp_all add: gpu_ok_def)

lemma region_nat:
  "between 0x8000 (a :: u16) 0x97FF \<longleftrightarrow> 0x8000 \<le> unat a \<and> unat a < 0x9800"
  "between 0x9800 a 0x9FFF \<longleftrightarrow> 0x9800 \<le> unat a \<and> unat a < 0xA000"
  "between 0xFE00 a 0xFE9F \<longleftrightarrow> 0xFE00 \<le> unat a \<and> unat a < 0xFEA0"
  by (auto simp: word_le_nat_alt)

lemma video_regions [consumes 1, case_names tile map oam]:
  assumes "video_address a"
  obtains "0x8000 \<le> unat a" and "unat a < 0x9800" and "0x8000 \<le> a"
  | "0x9800 \<le> unat a" and "unat a < 0xA000" and "0x9800 \<le> a"
  | "0xFE00 \<le> unat a" and "unat a < 0xFEA0" and "0xFE00 \<le> a"
proof -
  have "unat a < 0x9800 \<or> 0x9800 \<le> unat a" by linarith
  with assms show thesis
    using that by (auto simp: video_address_def word_le_nat_alt)
qed

lemma video_open_mode:
  assumes "video_open d s a"
  shows "(\<not> d \<and> io_memory s ! LCD_STAT AND 3 = 3) = False"
    "0xFE00 \<le> a \<Longrightarrow> (\<not> d \<and> (io_memory s ! LCD_STAT AND 3 = 2 \<or> io_memory s ! LCD_STAT AND 3 = 3)) = False"
  using assms by (auto simp: video_open_def)

lemma field_nat:
  fixes a :: u16
  assumes "0xFE00 \<le> a"
  shows "(a - 0xFE00) mod 4 = 0 \<longleftrightarrow> (unat a - 0xFE00) mod 4 = 0"
    "(a - 0xFE00) mod 4 = 1 \<longleftrightarrow> (unat a - 0xFE00) mod 4 = 1"
    "(a - 0xFE00) mod 4 = 2 \<longleftrightarrow> (unat a - 0xFE00) mod 4 = 2"
  using offset_nat(2) [OF assms, of 4] by (simp_all add: word_unat_eq_iff)

lemma gpu_readU8_open:
  assumes "gpu_ok s" and "video_open d s a"
  shows "gpu_readU8 a d s = (Inr (video_byte s a), s)"
proof -
  note ok = gpu_ok_shapes [OF assms(1)]
  note mode = video_open_mode [OF assms(2)]
  have "video_address a" using assms(2) by (simp add: video_open_def)
  then show ?thesis
  proof (cases rule: video_regions)
    case tile
    with ok show ?thesis
      unfolding gpu_readU8_def region_nat
      by (simp add: mode Let_def byteFromPatternTable_def offset_nat shape_lengths offset_bounds video_byte_def)
  next
    case map
    with ok show ?thesis
      unfolding gpu_readU8_def region_nat
      by (simp add: mode Let_def byteFromBackgroundMaps_def offset_nat shape_lengths offset_bounds video_byte_def)
  next
    case oam
    with ok show ?thesis
      unfolding gpu_readU8_def region_nat
      by (simp add: mode Let_def byteFromSpriteAttributes_def offset_nat field_nat offset_bounds video_byte_def)
  qed
qed

lemma nested_update:
  assumes "i < length xs" and "j < length (xs ! i)" and "k < length (xs ! i ! j)"
  shows "xs[i := (xs ! i)[j := (xs ! i ! j)[k := v]]] ! i' ! j' ! k' =
    (if i = i' \<and> j = j' \<and> k = k' then v else xs ! i' ! j' ! k')"
  using assms by (auto simp: nth_list_update)

lemma split_offset:
  "n div 16 = m div 16 \<and> n mod 16 div 2 = m mod 16 div 2 \<and> n mod 16 mod 2 = m mod 16 mod 2 \<longleftrightarrow> n = (m :: nat)"
  "n div 1024 = m div 1024 \<and> n mod 1024 div 32 = m mod 1024 div 32 \<and> n mod 1024 mod 32 = m mod 1024 mod 32 \<longleftrightarrow>
    n = (m :: nat)"
  "n div 4 = m div 4 \<and> n mod 4 = m mod 4 \<longleftrightarrow> n = (m :: nat)"
  by (metis div_mult_mod_eq)+

lemma unat_eq_offset:
  assumes "k \<le> unat a" and "k \<le> unat b"
  shows "unat a - k = unat b - k \<longleftrightarrow> a = (b :: u16)"
  using assms by (auto simp: word_unat_eq_iff)

definition video_written :: "('f, 'z) gpu_scheme \<Rightarrow> u16 \<Rightarrow> u8 \<Rightarrow> ('f, 'z) gpu_scheme \<Rightarrow> bool" where
  "video_written s a v t \<longleftrightarrow> gpu_ok t \<and> io_memory t = io_memory s \<and>
     (\<forall>b. video_address b \<longrightarrow> video_byte t b = (if a = b then v else video_byte s b))"

lemma tile_written:
  assumes "gpu_ok s" and "0x8000 \<le> unat a" "unat a < 0x9800"
    and i: "i = (unat a - 0x8000) div 16" and j: "j = (unat a - 0x8000) mod 16 div 2"
    and k: "k = (unat a - 0x8000) mod 16 mod 2" and ts: "ts = patternTables s"
  shows "video_written s a v (s\<lparr>patternTables := ts[i := (ts ! i)[j := (ts ! i ! j)[k := v]]]\<rparr>)"
    (is "video_written s a v ?t")
proof -
  note ok = gpu_ok_shapes [OF assms(1)]
  have b: "i < 0x180" "j < 8" "k < 2" using assms(2,3) by (simp_all add: i j k offset_bounds)
  have len: "length ts = 0x180" "length (ts ! i) = 8" "length (ts ! i ! j) = 2"
    using ok b by (simp_all add: ts shape_lengths)
  have "tile_ok (ts ! i)" using ok b by (simp add: ts patterns_ok_def list_all_length)
  then have "patterns_ok (ts[i := (ts ! i)[j := (ts ! i ! j)[k := v]]])"
    using ok(1) len by (intro shape_updates) (simp_all add: ts)
  with assms(1) have "gpu_ok ?t" by (simp add: gpu_ok_def iomem_ok_def)
  moreover have "video_byte ?t b = (if a = b then v else video_byte s b)" if "video_address b" for b
    using that
  proof (cases rule: video_regions)
    case tile
    have "i = (unat b - 0x8000) div 16 \<and> j = (unat b - 0x8000) mod 16 div 2 \<and> k = (unat b - 0x8000) mod 16 mod 2
        \<longleftrightarrow> a = b"
      unfolding i j k split_offset(1) using assms(2) tile by (rule_tac unat_eq_offset) simp_all
    with tile show ?thesis
      using len b by (simp add: video_byte_def Let_def nested_update ts)
  next
    case map
    with assms(3) show ?thesis by (auto simp: video_byte_def Let_def)
  next
    case oam
    with assms(3) show ?thesis by (auto simp: video_byte_def Let_def)
  qed
  ultimately show ?thesis by (simp add: video_written_def)
qed

lemma map_written:
  assumes "gpu_ok s" and "0x9800 \<le> unat a" "unat a < 0xA000"
    and i: "i = (unat a - 0x9800) div 1024" and j: "j = (unat a - 0x9800) mod 1024 div 32"
    and k: "k = (unat a - 0x9800) mod 1024 mod 32" and ms: "ms = backgroundMaps s"
  shows "video_written s a v (s\<lparr>backgroundMaps := ms[i := (ms ! i)[j := (ms ! i ! j)[k := v]]]\<rparr>)"
    (is "video_written s a v ?t")
proof -
  note ok = gpu_ok_shapes [OF assms(1)]
  have b: "i < 2" "j < 0x20" "k < 0x20" using assms(2,3) by (simp_all add: i j k offset_bounds)
  have len: "length ms = 2" "length (ms ! i) = 0x20" "length (ms ! i ! j) = 0x20"
    using ok b by (simp_all add: ms shape_lengths)
  have "map_ok (ms ! i)" using ok b by (simp add: ms maps_ok_def list_all_length)
  then have "maps_ok (ms[i := (ms ! i)[j := (ms ! i ! j)[k := v]]])"
    using ok(2) len by (intro shape_updates) (simp_all add: ms)
  with assms(1) have "gpu_ok ?t" by (simp add: gpu_ok_def iomem_ok_def)
  moreover have "video_byte ?t b = (if a = b then v else video_byte s b)" if "video_address b" for b
    using that
  proof (cases rule: video_regions)
    case tile
    with assms(2) show ?thesis by (auto simp: video_byte_def Let_def)
  next
    case map
    have "i = (unat b - 0x9800) div 1024 \<and> j = (unat b - 0x9800) mod 1024 div 32 \<and> k = (unat b - 0x9800) mod 1024 mod 32
        \<longleftrightarrow> a = b"
      unfolding i j k split_offset(2) using assms(2) map by (rule_tac unat_eq_offset) simp_all
    with map show ?thesis
      using len b by (simp add: video_byte_def Let_def nested_update ms)
  next
    case oam
    with assms(3) show ?thesis by (auto simp: video_byte_def Let_def)
  qed
  ultimately show ?thesis by (simp add: video_written_def)
qed

fun with_sprite_byte :: "SpriteAttribute \<Rightarrow> nat \<Rightarrow> u8 \<Rightarrow> SpriteAttribute" where
  "with_sprite_byte a i v =
     (if i = 0 then a\<lparr>spr_y := v\<rparr> else if i = 1 then a\<lparr>spr_x := v\<rparr>
      else if i = 2 then a\<lparr>spr_tile := v\<rparr> else a\<lparr>spr_attribs := v\<rparr>)"

lemma sprite_written:
  assumes "gpu_ok s" and "0xFE00 \<le> unat a" "unat a < 0xFEA0"
    and i: "i = (unat a - 0xFE00) div 4" and f: "f = (unat a - 0xFE00) mod 4" and ss: "ss = sprites s"
  shows "video_written s a v (s\<lparr>sprites := ss[i := with_sprite_byte (ss ! i) f v]\<rparr>)"
    (is "video_written s a v ?t")
proof -
  have b: "i < 40" "f < 4" using assms(2,3) by (simp_all add: i f offset_bounds)
  have len: "length ss = 40" using gpu_ok_shapes [OF assms(1)] by (simp add: ss)
  then have "gpu_ok ?t" using assms(1) by (simp add: gpu_ok_def iomem_ok_def)
  moreover have "video_byte ?t b = (if a = b then v else video_byte s b)" if "video_address b" for b
    using that
  proof (cases rule: video_regions)
    case tile
    with assms(2) show ?thesis by (auto simp: video_byte_def Let_def)
  next
    case map
    with assms(2) show ?thesis by (auto simp: video_byte_def Let_def)
  next
    case oam
    let ?i = "(unat b - 0xFE00) div 4" and ?f = "(unat b - 0xFE00) mod 4"
    have "i = ?i \<and> f = ?f \<longleftrightarrow> a = b"
      unfolding i f split_offset(3) using assms(2) oam by (rule_tac unat_eq_offset) simp_all
    moreover have "sprite_byte (with_sprite_byte x f v) g = (if f = g then v else sprite_byte x g)"
      if "g < 4" for x g
      using b(2) that by auto
    then have "sprite_byte (ss[i := with_sprite_byte (ss ! i) f v] ! ?i) ?f =
        (if i = ?i \<and> f = ?f then v else sprite_byte (ss ! ?i) ?f)"
      using len b(1) by (cases "i = ?i") (simp_all del: sprite_byte.simps with_sprite_byte.simps)
    ultimately show ?thesis
      using oam by (simp add: video_byte_def Let_def ss del: sprite_byte.simps with_sprite_byte.simps)
  qed
  ultimately show ?thesis by (simp add: video_written_def)
qed

lemma gpu_writeU8_open:
  assumes "gpu_ok s" and "video_open d s a"
  shows "\<exists>t. gpu_writeU8 a v d s = (Inr (), t) \<and> video_written s a v t"
proof -
  note ok = gpu_ok_shapes [OF assms(1)]
  note mode = video_open_mode [OF assms(2)]
  have "video_address a" using assms(2) by (simp add: video_open_def)
  then show ?thesis
  proof (cases rule: video_regions)
    case tile
    with ok show ?thesis
      unfolding gpu_writeU8_def region_nat
      by (simp add: mode Let_def storePatternTable_def offset_nat shape_lengths offset_bounds)
         (rule tile_written [OF assms(1)], simp_all)
  next
    case map
    with ok show ?thesis
      unfolding gpu_writeU8_def region_nat
      by (simp add: mode Let_def storeBackgroundMaps_def offset_nat shape_lengths offset_bounds)
         (rule map_written [OF assms(1)], simp_all)
  next
    case oam
    with ok show ?thesis
      unfolding gpu_writeU8_def region_nat
      using sprite_written [OF assms(1) oam(1,2) refl refl refl, of v]
      by (simp add: mode Let_def storeSpriteAttributes_def offset_nat field_nat offset_bounds)
         (simp split: if_splits)
  qed
qed

lemma video_open_written:
  "video_written s a v t \<Longrightarrow> video_open d t = video_open d s"
  by (simp add: video_written_def video_open_def fun_eq_iff)

interpretation vram: byte_store "\<lambda>a. gpu_readU8 a d" "\<lambda>a v. gpu_writeU8 a v d" video_byte gpu_ok "video_open d" "(=)"
proof (unfold_locales, goal_cases)
  case (1 s a)
  then show ?case by (simp add: gpu_readU8_open)
next
  case (2 s a v)
  from gpu_writeU8_open [OF 2] obtain t where w: "gpu_writeU8 a v d s = (Inr (), t)" "video_written s a v t" by blast
  with video_open_written [OF w(2), of d] show ?case
    by (auto simp: video_written_def video_open_def)
qed simp

text \<open>
  C23. A byte stored in video memory while the PPU leaves it alone is read back from the same address,
  and every other open address reads what it read before: tile patterns, tile maps and sprite
  attributes do not overlap, and no store is lost. The same holds for the stores of the transfer
  unit, which the PPU never blocks.
\<close>

theorem video_write_then_read:
  assumes "gpu_ok s" and "video_open is_dma s a" and "video_open is_dma s b"
  shows "\<exists>t. thenM (gpu_writeU8 a v is_dma) (gpu_readU8 b is_dma) s = (Inr (if a = b then v else video_byte s b), t) \<and>
    gpu_ok t"
  by (rule vram.store_load [OF assms])

lemma video_write_then_read_witness:
  "\<exists>t. thenM (gpu_writeU8 0x8010 0x42 False) (gpu_readU8 0x8010 False) switched_on = (Inr 0x42, t) \<and> gpu_ok t"
proof -
  have "video_open False switched_on 0x8010"
    by (simp add: video_open_def video_address_def blank_io_memory_def)
  with video_write_then_read [OF switched_on_gpu, of False "0x8010" "0x8010" "0x42"] show ?thesis by simp
qed

end
