(* ===== verification/Dma.thy ===== *)
theory Dma
  imports Video
begin

text \<open>
  The transfer unit of \<^verbatim>\<open>memory_map.cpp\<close>: what a write to its register copies.
\<close>

lemma forM_snoc:
  "forM xs f s = (Inr (), t) \<Longrightarrow> f x t = (Inr (), u) \<Longrightarrow> forM (xs @ [x]) f s = (Inr (), u)"
  by (induction xs arbitrary: s) (auto simp: thenM_def bindM_def split: prod.splits sum.splits)

text \<open>A write to the sprite table changes the table only.\<close>

lemma sprite_write_run:
  assumes "gpu_ok s" and "0xFE00 \<le> unat a" "unat a < 0xFEA0"
  obtains ss where "gpu_writeU8 a v True s = (Inr (), s\<lparr>sprites := ss\<rparr>)" and "video_written s a v (s\<lparr>sprites := ss\<rparr>)"
proof -
  have "between 0xFE00 a 0xFE9F" using assms(2,3) by (simp add: word_le_nat_alt)
  then have "video_open True s a" by (simp add: video_open_def video_address_def)
  then obtain t where t: "gpu_writeU8 a v True s = (Inr (), t)" "video_written s a v t"
    using gpu_writeU8_open [OF assms(1)] by blast
  have "\<exists>ss. gpu_writeU8 a v True s = (Inr (), s\<lparr>sprites := ss\<rparr>)"
    using gpu_ok_shapes(3) [OF assms(1)] assms(2,3) unfolding gpu_writeU8_def region_nat
    by (simp add: Let_def storeSpriteAttributes_def offset_nat word_le_nat_alt offset_bounds)
       (intro conjI impI; rule exI, rule refl)
  then show thesis using that t by fastforce
qed

text \<open>The cell of work RAM behind an address of it or of its echo.\<close>

lemma ram_cell:
  assumes "0xC000 \<le> unat a" and "unat a < 0xFE00"
  shows "cell_of a = Some (Ram (unat a mod 0x2000))"
proof (cases "unat a < 0xE000")
  case True
  with assms(1) have "unat (a - 0xC000) = unat a mod 0x2000"
    by (simp add: unat_sub word_le_nat_alt mod_if)
  with True assms(1) show ?thesis by (simp add: cell_of_def word_le_nat_alt)
next
  case False
  then have "unat (a - 0xE000) = unat a mod 0x2000"
    using assms(2) by (simp add: unat_sub word_le_nat_alt mod_if)
  with False assms(2) show ?thesis by (simp add: cell_of_def word_le_nat_alt)
qed

text \<open>The address of byte \<open>i\<close> of a page.\<close>

lemma page_address:
  assumes "i < 0xA0"
  shows "unat (push_bit 8 (ucast (page :: u8)) OR of_nat i :: u16) = 256 * unat page + i"
proof -
  have "unat (of_nat i :: u8) = i" using assms by (simp add: unsigned_of_nat take_bit_eq_mod)
  moreover have "(of_nat i :: u16) = ucast (of_nat i :: u8)" using assms by (intro of_nat_byte) simp
  ultimately show ?thesis by (simp only: unat_join_bytes)
qed

definition transferred :: "nat \<Rightarrow> nat \<Rightarrow> ('f, 'z) mm_scheme \<Rightarrow> ('f, 'z) mm_scheme \<Rightarrow> bool" where
  "transferred page n s t \<longleftrightarrow> (\<exists>ss. t = s\<lparr>sprites := ss\<rparr>) \<and> gpu_ok t \<and>
     (\<forall>a. video_address a \<longrightarrow> video_byte t a =
        (if 0xFE00 \<le> unat a \<and> unat a < 0xFE00 + n
         then data (workingRam s ! ((256 * page + (unat a - 0xFE00)) mod 0x2000)) else video_byte s a))"

lemma transfer_loop:
  fixes page :: u8
  assumes "gpu_ok s" and "memories_ok s" and "0xC0 \<le> unat page" "unat page \<le> 0xF1" and "n \<le> 0xA0"
    and "\<forall>i < 0xA0. \<not> undef (workingRam s ! ((256 * unat page + i) mod 0x2000))"
  shows "\<exists>t. forM [0..<n] (\<lambda>i.
       let offset = of_nat i;
           srcAddr = push_bit 8 (ucast page) OR offset;
           dstAddr = 0xFE00 OR offset in
       bindM (mm_read srcAddr True) (\<lambda>v. write_with no_dma dstAddr v True)) s = (Inr (), t) \<and>
    transferred (unat page) n s t"
  using assms(5)
proof (induction n)
  case 0
  have "\<exists>ss. s = s\<lparr>sprites := ss\<rparr>" by (rule exI [of _ "sprites s"]) simp
  with assms(1) show ?case by (auto simp: transferred_def)
next
  case (Suc n)
  let ?f = "\<lambda>i. let offset = of_nat i; srcAddr = push_bit 8 (ucast page) OR offset; dstAddr = 0xFE00 OR offset in
       bindM (mm_read srcAddr True) (\<lambda>v. write_with no_dma dstAddr v True)"
  from Suc obtain t where t: "forM [0..<n] ?f s = (Inr (), t)" "transferred (unat page) n s t" by auto
  then obtain ss where ss: "t = s\<lparr>sprites := ss\<rparr>" and ok: "gpu_ok t" by (auto simp: transferred_def)
  define src where "src = (push_bit 8 (ucast page) OR of_nat n :: u16)"
  define dst where "dst = (0xFE00 OR of_nat n :: u16)"
  let ?v = "workingRam s ! ((256 * unat page + n) mod 0x2000)"
  have addr: "unat src = 256 * unat page + n" "unat dst = 0xFE00 + n"
    using Suc.prems page_address [of n page] sprite_table_address [of n] by (simp_all add: src_def dst_def)
  have "memories_ok t" using assms(2) ss by (simp add: memories_ok_def)
  then have read: "mm_read src True t = (Inr ?v, t)"
    using mm_read_cell [OF _ ram_cell, of t src True] addr(1) assms(3,4) Suc.prems ss by simp
  obtain ss' where w: "gpu_writeU8 dst (data ?v) True t = (Inr (), t\<lparr>sprites := ss'\<rparr>)"
    "video_written t dst (data ?v) (t\<lparr>sprites := ss'\<rparr>)"
    using sprite_write_run [OF ok, of dst "data ?v"] addr(2) Suc.prems by auto
  have "write_with no_dma dst ?v True t = (Inr (), t\<lparr>sprites := ss'\<rparr>)"
    using w(1) addr(2) Suc.prems assms(6) by (simp add: write_with_def videoWrite_def word_le_nat_alt decay_run)
  with read have "?f n t = (Inr (), t\<lparr>sprites := ss'\<rparr>)" by (simp add: Let_def src_def dst_def)
  with t(1) have "forM ([0..<n] @ [n]) ?f s = (Inr (), t\<lparr>sprites := ss'\<rparr>)" by (rule forM_snoc)
  then have "forM [0..<Suc n] ?f s = (Inr (), t\<lparr>sprites := ss'\<rparr>)" by simp
  moreover have "transferred (unat page) (Suc n) s (t\<lparr>sprites := ss'\<rparr>)"
  proof -
    have "video_byte (t\<lparr>sprites := ss'\<rparr>) a =
        (if 0xFE00 \<le> unat a \<and> unat a < 0xFE00 + Suc n
         then data (workingRam s ! ((256 * unat page + (unat a - 0xFE00)) mod 0x2000)) else video_byte s a)"
      if a: "video_address a" for a
    proof (cases "a = dst")
      case True
      then show ?thesis using w(2) a addr(2) by (simp add: video_written_def)
    next
      case False
      then have "unat a \<noteq> 0xFE00 + n" using addr(2) by (simp add: word_unat_eq_iff)
      moreover have "video_byte (t\<lparr>sprites := ss'\<rparr>) a = video_byte t a"
        using w(2) a False by (auto simp: video_written_def)
      ultimately show ?thesis using t(2) a by (auto simp: transferred_def)
    qed
    moreover have "gpu_ok (t\<lparr>sprites := ss'\<rparr>)" using w(2) by (simp add: video_written_def)
    moreover have "\<exists>xs. t\<lparr>sprites := ss'\<rparr> = s\<lparr>sprites := xs\<rparr>" by (rule exI [of _ ss']) (simp add: ss)
    ultimately show ?thesis by (simp add: transferred_def)
  qed
  ultimately show ?case by blast
qed

text \<open>
  C19. A defined byte written to the transfer register that names a page of work RAM, or of its echo,
  copies the first 160 bytes of the page to the sprite table, in order, in whatever mode the screen
  is; no other byte of video memory and nothing else of the machine changes, but for the clock the
  transfer started at.
\<close>

theorem dma_copies_page:
  fixes page :: u8
  assumes "gpu_ok s" and "memories_ok s" and "0xC0 \<le> unat page" "unat page \<le> 0xF1"
    and "\<forall>i < 0xA0. \<not> undef (workingRam s ! ((256 * unat page + i) mod 0x2000))"
  shows "\<exists>ss. mm_write 0xFF46 (lit page) False s = (Inr (), s\<lparr>dmaStartTime := cycle s, sprites := ss\<rparr>) \<and>
    (\<forall>a. video_address a \<longrightarrow> video_byte (s\<lparr>sprites := ss\<rparr>) a =
       (if 0xFE00 \<le> unat a then data (workingRam s ! ((256 * unat page + (unat a - 0xFE00)) mod 0x2000))
        else video_byte s a))"
proof -
  let ?s = "s\<lparr>dmaStartTime := cycle s\<rparr>"
  have "gpu_ok ?s" "memories_ok ?s" using assms(1,2) by (simp_all add: gpu_ok_def iomem_ok_def memories_ok_def)
  from transfer_loop [OF this assms(3,4) order_refl] assms(5) obtain t where
    run: "forM [0..<0xA0] (\<lambda>i. let offset = of_nat i; srcAddr = push_bit 8 (ucast page) OR offset;
           dstAddr = 0xFE00 OR offset in
         bindM (mm_read srcAddr True) (\<lambda>v. write_with no_dma dstAddr v True)) ?s = (Inr (), t)"
    and t: "transferred (unat page) 0xA0 ?s t"
    by auto
  have "\<not> 0xF1 < page" using assms(4) by (simp add: word_less_nat_alt)
  then have "DMA page s = (Inr (), t)" using run by (simp add: DMA_def startDMA_def)
  then have "mm_write 0xFF46 (lit page) False s = (Inr (), t)"
    by (simp add: mm_write_def write_with_def decay_run)
  moreover obtain ss where ss: "t = s\<lparr>dmaStartTime := cycle s, sprites := ss\<rparr>" using t by (auto simp: transferred_def)
  moreover have "video_byte (s\<lparr>sprites := ss\<rparr>) a =
      (if 0xFE00 \<le> unat a then data (workingRam s ! ((256 * unat page + (unat a - 0xFE00)) mod 0x2000))
       else video_byte s a)" if a: "video_address a" for a
  proof -
    have "unat a < 0xFE00 + 0xA0" using a by (cases rule: video_regions) simp_all
    moreover have "video_byte (s\<lparr>sprites := ss\<rparr>) a = video_byte t a" "video_byte ?s a = video_byte s a"
      by (simp_all add: ss video_byte_def Let_def)
    ultimately show ?thesis using t a by (simp add: transferred_def)
  qed
  ultimately show ?thesis by blast
qed

lemma dma_copies_page_witness:
  "\<exists>s t :: u8 list gb. mm_write 0xFF46 (lit 0xC1) False s = (Inr (), t) \<and> video_byte t 0xFE9F = 0x42"
proof -
  let ?s = "switched_on\<lparr>workingRam := replicate 0x2000 (lit 0x42)\<rparr>"
  have "gpu_ok ?s" using switched_on_gpu by (simp add: gpu_ok_def iomem_ok_def)
  moreover have "memories_ok ?s" by (simp add: memories_ok_def)
  moreover have "\<forall>i < 0xA0. \<not> undef (workingRam ?s ! ((256 * unat (0xC1 :: u8) + i) mod 0x2000))" by simp
  ultimately obtain ss where run: "mm_write 0xFF46 (lit 0xC1) False ?s = (Inr (), ?s\<lparr>dmaStartTime := cycle ?s, sprites := ss\<rparr>)"
    and "video_byte (?s\<lparr>sprites := ss\<rparr>) 0xFE9F = 0x42"
    using dma_copies_page [of ?s "0xC1"] by (auto simp: video_address_def)
  moreover have "video_byte (?s\<lparr>dmaStartTime := cycle ?s, sprites := ss\<rparr>) 0xFE9F = video_byte (?s\<lparr>sprites := ss\<rparr>) 0xFE9F"
    by (simp add: video_byte_def Let_def)
  ultimately show ?thesis by (intro exI conjI) (rule run, simp)
qed

end
