(* ===== verification/Interrupts.thy ===== *)
theory Interrupts
  imports Gb
begin

text \<open>
  The interrupt dispatch of \<^verbatim>\<open>cpu/cpu.cpp\<close>: which interrupt is served, and what serving it
  changes before its handler runs.
\<close>

text \<open>The interrupts that are both enabled and requested.\<close>

definition pending :: "('f, 'z) gb_scheme \<Rightarrow> u8" where
  "pending s = (data (stack s ! 0x7F) AND io_memory s ! INTERRUPTS) AND 0x1F"

lemma triggered_run:
  assumes "gb_ok s" and "\<not> undef (stack s ! 0x7F)"
  shows "triggered_interrupts s = (Inr (pending s), s)"
  using assms
  by (simp add: triggered_interrupts_def mm_read_def ioRead_def pending_def gb_ok_expand)

lemma five_flags: "(0x1F :: u8) = mask 5"
  by (simp add: mask_eq_exp_minus_1)

lemma flag_bit: "(x :: u8) AND push_bit b 1 \<noteq> 0 \<longleftrightarrow> bit x b"
  by (simp add: push_bit_of_1 and_exp_eq_0_iff_not_bit)

lemma first_flag:
  assumes "bit (x :: u8) b" and "\<And>c. c < b \<Longrightarrow> \<not> bit x c" and "b < 5"
  shows "find (\<lambda>b. x AND push_bit b 1 \<noteq> 0) [0..<5] = Some b"
  unfolding flag_bit find_Some_iff using assms by (intro exI [of _ b]) auto

lemma pending_below_5: "bit (pending s) b \<Longrightarrow> b < 5"
  by (simp add: pending_def five_flags bit_simps)

lemma clear_flag:
  fixes d r :: u8
  assumes "bit d b" and "b < 5"
  shows "(d AND (r XOR push_bit b 1)) AND 0x1F = ((d AND r) AND 0x1F) XOR push_bit b 1"
  unfolding five_flags using assms by (intro bit_word_eqI) (auto simp: bit_simps)

text \<open>What the dispatch leaves before it calls the handler of interrupt \<open>b\<close>.\<close>

definition acknowledged :: "nat \<Rightarrow> ('f, 'z) gb_scheme \<Rightarrow> ('f, 'z) gb_scheme" where
  "acknowledged b s =
     s\<lparr>registers := (registers s)\<lparr>reg_halt := False, reg_IME := (False, False, False)\<rparr>,
       io_memory := (io_memory s)[INTERRUPTS := io_memory s ! INTERRUPTS XOR push_bit b 1]\<rparr>"

lemma service_run:
  assumes "gb_ok s"
  shows "service_interrupt b s = CALL_nn (0x40 + 0x08 * of_nat b)
    (s\<lparr>io_memory := (io_memory s)[INTERRUPTS := io_memory s ! INTERRUPTS XOR push_bit b 1]\<rparr>)"
  using assms
  by (simp add: service_interrupt_def mm_read_def ioRead_def mm_write_def write_with_def ioWrite_def gb_ok_expand)

text \<open>
  C5. Before each instruction, nothing happens while no interrupt is both enabled and requested. One
  that is wakes a halted machine; with the master flag on, the one with the lowest number is served:
  its request is cleared, the others stay, the master flag goes off, and the machine does what a CALL of
  its vector does.
\<close>

theorem interrupts_by_priority:
  assumes "gb_ok s" and "\<not> undef (stack s ! 0x7F)"
  shows "(pending s = 0 \<longrightarrow> handleInterrupts s = (Inr (), s)) \<and>
    (pending s \<noteq> 0 \<and> \<not> fst (reg_IME (registers s)) \<longrightarrow>
       handleInterrupts s = (Inr (), s\<lparr>registers := (registers s)\<lparr>reg_halt := False\<rparr>\<rparr>)) \<and>
    (\<forall>b. bit (pending s) b \<and> (\<forall>c < b. \<not> bit (pending s) c) \<and> fst (reg_IME (registers s)) \<longrightarrow>
       handleInterrupts s = CALL_nn (0x40 + 0x08 * of_nat b) (acknowledged b s) \<and>
       pending (acknowledged b s) = pending s XOR push_bit b 1)"
proof (intro conjI allI impI)
  note run = triggered_run [OF assms]
  show "handleInterrupts s = (Inr (), s)" if "pending s = 0"
    using that by (simp add: handleInterrupts_def run)
  show "handleInterrupts s = (Inr (), s\<lparr>registers := (registers s)\<lparr>reg_halt := False\<rparr>\<rparr>)"
    if "pending s \<noteq> 0 \<and> \<not> fst (reg_IME (registers s))"
    using that by (simp add: handleInterrupts_def run)
  fix b
  assume b: "bit (pending s) b \<and> (\<forall>c < b. \<not> bit (pending s) c) \<and> fst (reg_IME (registers s))"
  then have find: "find (\<lambda>b. pending s AND push_bit b 1 \<noteq> 0) [0..<5] = Some b"
    by (intro first_flag pending_below_5 [of s]) auto
  let ?s = "s\<lparr>registers := (registers s)\<lparr>reg_halt := False, reg_IME := (False, False, False)\<rparr>\<rparr>"
  have "gb_ok ?s" using assms(1) by (simp add: gb_ok_expand)
  moreover have "pending s \<noteq> 0" using b by auto
  ultimately show "handleInterrupts s = CALL_nn (0x40 + 0x08 * of_nat b) (acknowledged b s)"
    using b find by (simp add: handleInterrupts_def run service_run acknowledged_def)
  have "length (io_memory s) = 0x80" using assms(1) by (simp add: gb_ok_expand)
  moreover have "bit (data (stack s ! 0x7F)) b" using b by (simp add: pending_def bit_and_iff)
  ultimately show "pending (acknowledged b s) = pending s XOR push_bit b 1"
    using b pending_below_5 [of s b] clear_flag [of "data (stack s ! 0x7F)" b "io_memory s ! INTERRUPTS"]
    by (simp add: pending_def acknowledged_def)
qed

text \<open>The screen and the timer both ask, the screen is served.\<close>

lemma interrupts_by_priority_witness:
  "\<exists>s :: u8 list gb. pending s = 0x06 \<and> handleInterrupts s = CALL_nn 0x48 (acknowledged 1 s)"
proof -
  let ?s = "switched_on\<lparr>stack := (replicate 0x80 ci_default)[0x7F := lit 0x1F],
    io_memory := blank_io_memory[INTERRUPTS := 0x06], registers := initial_registers\<lparr>reg_IME := (True, True, True)\<rparr>\<rparr>"
  have ok: "gb_ok ?s" using switched_on_ok by (simp add: gb_ok_expand initial_registers_def)
  have pending: "pending ?s = 0x06" by (simp add: pending_def)
  have "handleInterrupts ?s = CALL_nn (0x40 + 0x08 * of_nat 1) (acknowledged 1 ?s) \<and>
      pending (acknowledged 1 ?s) = pending ?s XOR push_bit 1 1"
    by (rule interrupts_by_priority [OF ok, THEN conjunct2, THEN conjunct2, THEN spec, THEN mp])
       (simp_all add: pending)
  then show ?thesis using pending by (intro exI [of _ ?s]) simp
qed

end
