(* ===== verification/Decoder.thy ===== *)
theory Decoder
  imports Opcodes
begin

text \<open>
  The decoder of \<^verbatim>\<open>libgb/cpu/opcodes.cpp\<close> against the encoding of the processor: the
  reference reads an opcode as three fields and finds operation and operands by position.
\<close>

section \<open>The encoding\<close>

definition source :: "nat \<Rightarrow> Register" where
  "source z = [R_B, R_C, R_D, R_E, R_H, R_L, R_HL_ptr, R_A] ! z"

definition pair16 :: "nat \<Rightarrow> Register" where
  "pair16 p = [R_BC, R_DE, R_HL, R_SP] ! p"

definition stacked :: "nat \<Rightarrow> Register" where
  "stacked p = [R_BC, R_DE, R_HL, R_AF] ! p"

definition alu :: "nat \<Rightarrow> Byte \<Rightarrow> (('f, 'z) gb_scheme, unit) M" where
  "alu y = [\<lambda>v. ADD_n v False, ADC_n, \<lambda>v. SUB_n v False, SBC_n, AND_n, XOR_n, OR_n, CP_n] ! y"

definition cond_flag :: "nat \<Rightarrow> Flag" where
  "cond_flag y = (if y < 2 then Flag_Z else Flag_C)"

definition row0 :: "nat \<Rightarrow> nat \<Rightarrow> (('f, 'z) gb_scheme, unit) M" where
  "row0 y z =
     (let p = pair16 (y div 2) in
      [ (if y \<ge> 4 then with_byte (JR_cc_n (cond_flag (y - 4)) (odd y))
         else [NOP, with_word LD_nn_SP, STOP, with_byte JR_n] ! y),
        (if even y then with_word (LD16_n_nn p) else ADD16_HL_n p),
        [LD_r_A R_BC_ptr, LD_r1_r2 R_A R_BC_ptr, LD_r_A R_DE_ptr, LD_r1_r2 R_A R_DE_ptr,
         LDI_HL_A, LDI_A_HL, LDD_HL_A, LDD_A_HL] ! y,
        (if even y then INC16_nn p else DEC16_nn p),
        INC_r (source y), DEC_r (source y), with_byte (LD_r_n (source y)),
        [RLCA, RRCA, RLA, RRA, DAA, CPL, SCF, CCF] ! y ] ! z)"

definition row3 :: "nat \<Rightarrow> nat \<Rightarrow> (('f, 'z) gb_scheme, unit) M" where
  "row3 y z =
     (let bad = throw_error bad_opcode; c = cond_flag y; b = odd y in
      [ (if y < 4 then RET_cc c b
         else [with_byte LDH_n_A, with_byte ADD16_SP_n, with_byte LDH_A_n, with_byte LDHL_SP_n] ! (y - 4)),
        (if even y then POP (stacked (y div 2)) else [RET, RETI, JP_HL, LD16_SP_HL] ! (y div 2)),
        (if y < 4 then with_word (JP_cc_nn c b)
         else [LD_C_A, with_word LD_nn_A, LD_A_C, with_word (LD_r_nn R_A)] ! (y - 4)),
        [with_word JP_nn, with_byte execute_CB, throw_error trap, bad, throw_error debug_trap, bad, DI, EI] ! y,
        (if y < 4 then with_word (CALL_cc_nn c b) else bad),
        (if even y then PUSH (stacked (y div 2)) else if y = 1 then with_word CALL_nn else bad),
        with_byte (\<lambda>n. alu y (lit n)),
        RST_n (8 * of_nat y) ] ! z)"

definition decoded :: "u8 \<Rightarrow> (('f, 'z) gb_scheme, unit) M" where
  "decoded opcode =
     (let x = unat opcode div 64; y = unat opcode div 8 mod 8; z = unat opcode mod 8 in
      if x = 0 then row0 y z
      else if x = 1 then if y = 6 \<and> z = 6 then HALT else LD_r1_r2 (source y) (source z)
      else if x = 2 then bindM (getRegU8 (source z)) (alu y)
      else row3 y z)"

definition decoded_CB :: "u8 \<Rightarrow> (('f, 'z) gb_scheme, unit) M" where
  "decoded_CB opcode =
     (let x = unat opcode div 64; y = unat opcode div 8 mod 8; z = unat opcode mod 8 in
      (if x = 0 then [RLC_r, RRC_r, RL_r, RR_r, SLA_n, SRA_n, SWAP_n, SRL_n] ! y
       else [BIT_b_r y, RES_b_r y, SET_b_r y] ! (x - 1)) (source z))"

lemma table_operands [simp]:
  "unat i < 8 \<Longrightarrow> with_operand i f = f (source (unat i))"
  "unat i < 8 \<Longrightarrow> with_value i g = bindM (getRegU8 (source (unat i))) g"
  "unat (drop_bit 4 op) < 4 \<Longrightarrow> with_operand16 op f = f (pair16 (unat (drop_bit 4 op)))"
  by (auto simp: with_operand_def with_value_def with_operand16_def operand_def operand16_def registerOpcodes_def
     register16Opcodes_def source_def pair16_def fun_eq_iff)

lemma LD_r_A_eq: "LD_r_A r = LD_r1_r2 r R_A"
  by (simp add: LD_r_A_def LD_r1_r2_def)

lemmas decoder = execute_def sections_def decode_load8_def decode_load16_def decode_alu8_def decode_alu16_def
      decode_misc_def decode_rotate_def decode_jump_def decode_call_def decode_return_def decode_trap_def
lemmas encoding = decoded_def row0_def row3_def source_def pair16_def stacked_def alu_def cond_flag_def Let_def


lemma byte_le_one [simp]: "(w :: u8) \<le> 1 \<longleftrightarrow> w = 0 \<or> w = 1"
  by (metis linorder_not_less order_le_less word_less_1 zero_neq_one)

definition opcodes :: "nat \<Rightarrow> u8 list" where
  "opcodes q = map of_nat [64 * q..<64 * q + 64]"

lemma quarter0: "list_all (\<lambda>op. (execute op :: ('f, 'z) gb_scheme \<Rightarrow> _) = decoded op \<and>
    (execute_CB op :: ('f, 'z) gb_scheme \<Rightarrow> _) = decoded_CB op) (opcodes 0)"
proof -
  have "opcodes 0 =
    [0x00, 0x01, 0x02, 0x03, 0x04, 0x05, 0x06, 0x07, 0x08, 0x09, 0x0A, 0x0B, 0x0C, 0x0D, 0x0E, 0x0F,
     0x10, 0x11, 0x12, 0x13, 0x14, 0x15, 0x16, 0x17, 0x18, 0x19, 0x1A, 0x1B, 0x1C, 0x1D, 0x1E, 0x1F,
     0x20, 0x21, 0x22, 0x23, 0x24, 0x25, 0x26, 0x27, 0x28, 0x29, 0x2A, 0x2B, 0x2C, 0x2D, 0x2E, 0x2F,
     0x30, 0x31, 0x32, 0x33, 0x34, 0x35, 0x36, 0x37, 0x38, 0x39, 0x3A, 0x3B, 0x3C, 0x3D, 0x3E, 0x3F]"
    by code_simp
  then show ?thesis
    by (simp only: list.pred_inject) (intro conjI TrueI; simp add: decoder encoding LD_r_A_eq execute_CB_def decoded_CB_def)
qed

lemma quarter1: "list_all (\<lambda>op. (execute op :: ('f, 'z) gb_scheme \<Rightarrow> _) = decoded op \<and>
    (execute_CB op :: ('f, 'z) gb_scheme \<Rightarrow> _) = decoded_CB op) (opcodes 1)"
proof -
  have "opcodes 1 =
    [0x40, 0x41, 0x42, 0x43, 0x44, 0x45, 0x46, 0x47, 0x48, 0x49, 0x4A, 0x4B, 0x4C, 0x4D, 0x4E, 0x4F,
     0x50, 0x51, 0x52, 0x53, 0x54, 0x55, 0x56, 0x57, 0x58, 0x59, 0x5A, 0x5B, 0x5C, 0x5D, 0x5E, 0x5F,
     0x60, 0x61, 0x62, 0x63, 0x64, 0x65, 0x66, 0x67, 0x68, 0x69, 0x6A, 0x6B, 0x6C, 0x6D, 0x6E, 0x6F,
     0x70, 0x71, 0x72, 0x73, 0x74, 0x75, 0x76, 0x77, 0x78, 0x79, 0x7A, 0x7B, 0x7C, 0x7D, 0x7E, 0x7F]"
    by code_simp
  then show ?thesis
    by (simp only: list.pred_inject) (intro conjI TrueI; simp add: decoder encoding LD_r_A_eq execute_CB_def decoded_CB_def)
qed

lemma quarter2: "list_all (\<lambda>op. (execute op :: ('f, 'z) gb_scheme \<Rightarrow> _) = decoded op \<and>
    (execute_CB op :: ('f, 'z) gb_scheme \<Rightarrow> _) = decoded_CB op) (opcodes 2)"
proof -
  have "opcodes 2 =
    [0x80, 0x81, 0x82, 0x83, 0x84, 0x85, 0x86, 0x87, 0x88, 0x89, 0x8A, 0x8B, 0x8C, 0x8D, 0x8E, 0x8F,
     0x90, 0x91, 0x92, 0x93, 0x94, 0x95, 0x96, 0x97, 0x98, 0x99, 0x9A, 0x9B, 0x9C, 0x9D, 0x9E, 0x9F,
     0xA0, 0xA1, 0xA2, 0xA3, 0xA4, 0xA5, 0xA6, 0xA7, 0xA8, 0xA9, 0xAA, 0xAB, 0xAC, 0xAD, 0xAE, 0xAF,
     0xB0, 0xB1, 0xB2, 0xB3, 0xB4, 0xB5, 0xB6, 0xB7, 0xB8, 0xB9, 0xBA, 0xBB, 0xBC, 0xBD, 0xBE, 0xBF]"
    by code_simp
  then show ?thesis
    by (simp only: list.pred_inject) (intro conjI TrueI; simp add: decoder encoding LD_r_A_eq execute_CB_def decoded_CB_def)
qed

lemma quarter3: "list_all (\<lambda>op. (execute op :: ('f, 'z) gb_scheme \<Rightarrow> _) = decoded op \<and>
    (execute_CB op :: ('f, 'z) gb_scheme \<Rightarrow> _) = decoded_CB op) (opcodes 3)"
proof -
  have "opcodes 3 =
    [0xC0, 0xC1, 0xC2, 0xC3, 0xC4, 0xC5, 0xC6, 0xC7, 0xC8, 0xC9, 0xCA, 0xCB, 0xCC, 0xCD, 0xCE, 0xCF,
     0xD0, 0xD1, 0xD2, 0xD3, 0xD4, 0xD5, 0xD6, 0xD7, 0xD8, 0xD9, 0xDA, 0xDB, 0xDC, 0xDD, 0xDE, 0xDF,
     0xE0, 0xE1, 0xE2, 0xE3, 0xE4, 0xE5, 0xE6, 0xE7, 0xE8, 0xE9, 0xEA, 0xEB, 0xEC, 0xED, 0xEE, 0xEF,
     0xF0, 0xF1, 0xF2, 0xF3, 0xF4, 0xF5, 0xF6, 0xF7, 0xF8, 0xF9, 0xFA, 0xFB, 0xFC, 0xFD, 0xFE, 0xFF]"
    by code_simp
  then show ?thesis
    by (simp only: list.pred_inject) (intro conjI TrueI; simp add: decoder encoding LD_r_A_eq execute_CB_def decoded_CB_def)
qed

lemma opcode_listed: "\<exists>q < 4. op \<in> set (opcodes q)"
proof -
  have n: "unat op < 256" using unsigned_less [of op, where ?'a = nat] by simp
  let ?q = "unat op div 64"
  have "64 * ?q \<le> unat op" "unat op < 64 * ?q + 64" by arith+
  then have "op \<in> set (opcodes ?q)"
    unfolding opcodes_def by (auto intro!: image_eqI [of _ _ "unat op"])
  moreover have "?q < 4" using n by arith
  ultimately show ?thesis by blast
qed

text \<open>
  C4. The switch over the 256 opcodes is the regular encoding of the processor: two bits select a
  quarter of the table, three an operation or a register and three an operand, for every opcode, the
  invalid ones included. The second table, behind the prefix, is regular in the same way.
\<close>

theorem execute_is_regular:
  "execute opcode = decoded opcode \<and> execute_CB opcode = decoded_CB opcode"
proof -
  obtain q where q: "q < 4" "opcode \<in> set (opcodes q)" using opcode_listed by blast
  from q(1) consider "q = 0" | "q = 1" | "q = 2" | "q = 3" by linarith
  then show ?thesis
    using q(2)
    by cases (simp_all add: quarter0 [unfolded list_all_iff, rule_format] quarter1 [unfolded list_all_iff, rule_format]
        quarter2 [unfolded list_all_iff, rule_format] quarter3 [unfolded list_all_iff, rule_format])
qed

end
