(* ===== verification/Hex.thy ===== *)
theory Hex
  imports ErrorHandling "HOL-Library.Char_ord"
begin

text \<open>
  Text and numbers as the debugger's wire format has them: the coding functions at the top of
  \<^verbatim>\<open>libgb/gdb/remote_server.cpp\<close> and what they use of the standard library
  (\<open>std::from_chars\<close>, \<open>std::stol\<close>, stream output in a base). A C++ string is a list of
  characters, a character a byte.
\<close>

section \<open>Digits\<close>

definition digit_char :: "nat \<Rightarrow> char" where
  "digit_char d = ''0123456789abcdef'' ! d"

definition digit_value :: "nat \<Rightarrow> char \<Rightarrow> nat option" where
  "digit_value b c =
     (let n = of_char c :: nat;
          d = (if 48 \<le> n \<and> n \<le> 57 then n - 48 else if 97 \<le> n \<and> n \<le> 122 then n - 87
               else if 65 \<le> n \<and> n \<le> 90 then n - 55 else b)
      in if d < b then Some d else None)"

text \<open>A number as a stream or \<open>std::format\<close> prints it in a base.\<close>

fun text_of :: "nat \<Rightarrow> nat \<Rightarrow> string" where
  "text_of b n = (if n < b \<or> b < 2 then [digit_char n] else text_of b (n div b) @ [digit_char (n mod b)])"

declare text_of.simps [simp del]

text \<open>The digits a string starts with, and the number they write.\<close>

fun digits :: "nat \<Rightarrow> string \<Rightarrow> nat list" where
  "digits b [] = []"
| "digits b (c # cs) = (case digit_value b c of None \<Rightarrow> [] | Some d \<Rightarrow> d # digits b cs)"

definition number :: "nat \<Rightarrow> nat list \<Rightarrow> nat" where
  "number b ds = foldl (\<lambda>n d. n * b + d) 0 ds"

section \<open>Conversions of the standard library\<close>

text \<open>
  \<open>std::from_chars\<close> on an unsigned 64-bit result: no white space, no sign, no prefix; what
  follows the digits is ignored.
\<close>

definition from_chars :: "nat \<Rightarrow> string \<Rightarrow> u64 option" where
  "from_chars b s =
     (let ds = digits b s in if ds = [] \<or> 2 ^ 64 \<le> number b ds then None else Some (of_nat (number b ds)))"

definition parse_int :: "string \<Rightarrow> nat \<Rightarrow> ('s, u64) M" where
  "parse_int s b =
     (case from_chars b s of
        None \<Rightarrow> raiseM (RuntimeError ''Cannot parse int'')
      | Some n \<Rightarrow> returnM n)"

text \<open>
  \<open>std::stol\<close>: white space, one sign, in base 16 a prefix when a digit follows it, then the
  digits; nothing to convert and a result outside \<open>long\<close> are errors.
\<close>

definition is_space :: "char \<Rightarrow> bool" where
  "is_space c \<longleftrightarrow> c = CHR '' '' \<or> (9 \<le> (of_char c :: nat) \<and> (of_char c :: nat) \<le> 13)"

fun take_sign :: "string \<Rightarrow> bool \<times> string" where
  "take_sign (c # cs) = (if c = CHR ''-'' then (True, cs) else if c = CHR ''+'' then (False, cs) else (False, c # cs))"
| "take_sign [] = (False, [])"

definition skip_prefix :: "nat \<Rightarrow> string \<Rightarrow> string" where
  "skip_prefix b s =
     (if b = 16 \<and> (take 2 s = ''0x'' \<or> take 2 s = ''0X'') \<and> digits b (drop 2 s) \<noteq> [] then drop 2 s else s)"

definition stol :: "string \<Rightarrow> nat \<Rightarrow> ('s, int) M" where
  "stol s b =
     (case take_sign (dropWhile is_space s) of (negative, rest) \<Rightarrow>
      let ds = digits b (skip_prefix b rest);
          v = (if negative then - int (number b ds) else int (number b ds))
      in if ds = [] then raiseM InvalidArgument
         else if v < - (2 ^ 63) \<or> 2 ^ 63 \<le> v then raiseM OutOfRange
         else returnM v)"

section \<open>Hexadecimal text\<close>

definition hex_u8 :: "u8 \<Rightarrow> string" where
  "hex_u8 byte = text_of 16 (unat (drop_bit 4 byte AND 0x0F)) @ text_of 16 (unat (byte AND 0x0F))"

definition hex_u16 :: "u16 \<Rightarrow> string" where
  "hex_u16 w = hex_u8 (ucast (w AND 0xFF)) @ hex_u8 (ucast (drop_bit 8 w))"

definition hex_text :: "string \<Rightarrow> string" where
  "hex_text ascii = foldl (\<lambda>result c. result @ hex_u8 (of_char c)) [] ascii"

definition decode_hex_int :: "string \<Rightarrow> ('s, int) M" where
  "decode_hex_int s = stol s 16"

fun decode_hex_string :: "string \<Rightarrow> ('s, string) M" where
  "decode_hex_string (a # b # rest) =
     bindM (decode_hex_int [a, b]) (\<lambda>n.
     bindM (decode_hex_string rest) (\<lambda>result. returnM (char_of (n mod 256) # result)))"
| "decode_hex_string _ = returnM []"

definition calculate_checksum :: "string \<Rightarrow> string" where
  "calculate_checksum payload = hex_u8 (foldl (\<lambda>checksum c. checksum + of_char c) 0 payload)"

section \<open>Digits are read as they are written\<close>

lemma all_below_16: "(\<forall>d < 16. P d) \<longleftrightarrow> (\<forall>d \<in> set [0..<16 :: nat]. P d)"
  by auto

lemma digit_chars:
  assumes "d < 16"
  shows "digit_value 16 (digit_char d) = Some d" "is_space (digit_char d) = False"
    "digit_char d \<noteq> CHR ''-''" "digit_char d \<noteq> CHR ''+''" "digit_char d \<noteq> CHR ''x''" "digit_char d \<noteq> CHR ''X''"
    "digit_char d \<noteq> CHR '',''"  "digit_char d \<noteq> CHR ''#''"
proof -
  have "\<forall>d < 16. digit_value 16 (digit_char d) = Some d \<and> \<not> is_space (digit_char d) \<and>
      digit_char d \<notin> set ''-+xX,#''"
    unfolding all_below_16 by code_simp
  with assms show "digit_value 16 (digit_char d) = Some d" "is_space (digit_char d) = False"
    "digit_char d \<noteq> CHR ''-''" "digit_char d \<noteq> CHR ''+''" "digit_char d \<noteq> CHR ''x''" "digit_char d \<noteq> CHR ''X''"
    "digit_char d \<noteq> CHR '',''"  "digit_char d \<noteq> CHR ''#''"
    by auto
qed

lemma digit_char_inj: "d < 16 \<Longrightarrow> e < 16 \<Longrightarrow> digit_char d = digit_char e \<longleftrightarrow> d = e"
  by (metis digit_chars(1) option.inject)

lemma number_append [simp]: "number b (ds @ [d]) = number b ds * b + d"
  by (simp add: number_def)

lemma number_Nil [simp]: "number b [] = 0"
  by (simp add: number_def)

lemma digit_char_base:
  assumes "d < b" and "b \<le> 16"
  shows "digit_value b (digit_char d) = Some d"
  using digit_chars(1) [of d] assms by (auto simp: digit_value_def Let_def split: if_splits)

text \<open>What \<open>text_of\<close> writes in a base is read back, whatever follows, unless a digit follows.\<close>

lemma digits_written:
  "\<forall>d \<in> set ds. d < b \<Longrightarrow> b \<le> 16 \<Longrightarrow> rest = [] \<or> digit_value b (hd rest) = None \<Longrightarrow>
   digits b (map digit_char ds @ rest) = ds"
  by (induction ds) (simp_all add: digit_char_base, cases rest, auto)

lemma text_of_digits:
  assumes "2 \<le> b"
  obtains ds where "text_of b n = map digit_char ds" and "ds \<noteq> []" and "\<forall>d \<in> set ds. d < b" and "number b ds = n"
proof -
  have "\<exists>ds. text_of b n = map digit_char ds \<and> ds \<noteq> [] \<and> (\<forall>d \<in> set ds. d < b) \<and> number b ds = n"
    using assms
  proof (induction b n rule: text_of.induct)
    case (1 b n)
    show ?case
    proof (cases "n < b")
      case True
      then show ?thesis by (intro exI [of _ "[n]"]) (simp add: text_of.simps number_def)
    next
      case False
      with 1 obtain ds where "text_of b (n div b) = map digit_char ds" "ds \<noteq> []" "\<forall>d \<in> set ds. d < b"
        "number b ds = n div b" by auto
      with False 1(2) show ?thesis
        by (intro exI [of _ "ds @ [n mod b]"]) (simp add: text_of.simps [of b n])
    qed
  qed
  then show thesis using that by blast
qed

text \<open>A number written in decimal is what \<open>std::stol\<close> reads.\<close>

lemma stol_text_of:
  assumes "n < 2 ^ 63"
  shows "stol (text_of 10 n) 10 = returnM (int n)"
proof -
  obtain ds where ds: "text_of 10 n = map digit_char ds" "ds \<noteq> []" "\<forall>d \<in> set ds. d < 10" "number 10 ds = n"
    using text_of_digits [of 10 n] by simp blast
  obtain d rest where cons: "ds = d # rest" using ds(2) by (cases ds) auto
  then have "d < 16" using ds(3) by simp
  note first = digit_chars [OF this]
  have "digits 10 (text_of 10 n) = ds"
    using digits_written [of ds 10 "[]"] ds by simp
  moreover have "take_sign (dropWhile is_space (text_of 10 n)) = (False, text_of 10 n)"
    using first by (simp add: ds(1) cons)
  moreover have "int n < 2 ^ 63" "\<not> int n < - (2 ^ 63)" using assms by simp_all
  ultimately show ?thesis
    using ds by (simp add: stol_def skip_prefix_def Let_def)
qed

lemma from_chars_text_of:
  assumes "rest = [] \<or> digit_value 16 (hd rest) = None"
  shows "from_chars 16 (text_of 16 (unat (n :: u64)) @ rest) = Some n"
proof -
  obtain ds where "text_of 16 (unat n) = map digit_char ds" "ds \<noteq> []" "\<forall>d \<in> set ds. d < 16" "number 16 ds = unat n"
    using text_of_digits [of 16 "unat n"] by simp blast
  moreover have "unat n < 2 ^ 64" using unsigned_less [of n, where ?'a = nat] by simp
  ultimately show ?thesis using assms by (simp add: from_chars_def digits_written)
qed

lemma parse_int_text_of [simp]:
  "rest = [] \<or> digit_value 16 (hd rest) = None \<Longrightarrow>
   parse_int (text_of 16 (unat (n :: u64)) @ rest) 16 = returnM n"
  "parse_int (text_of 16 (unat n)) 16 = returnM n"
  using from_chars_text_of [of rest n] from_chars_text_of [of "[]" n] by (simp_all add: parse_int_def)

section \<open>Bytes\<close>

lemma nibbles:
  fixes b :: u8
  shows "unat (drop_bit 4 b AND 0x0F) = unat b div 16" "unat (b AND 0x0F) = unat b mod 16"
    "unat b div 16 < 16" "unat b mod 16 < 16"
proof -
  have "unat b < 256" using unsigned_less [of b, where ?'a = nat] by simp
  then show "unat b div 16 < 16" "unat b mod 16 < 16" by auto
  have low: "unat (w AND 0x0F) = unat w mod 16" for w :: u8
    using take_bit_eq_mask [of 4 w] unsigned_take_bit_eq [of 4 w, where ?'a = nat]
    by (simp add: mask_eq_exp_minus_1 take_bit_eq_mod)
  show "unat (b AND 0x0F) = unat b mod 16" by (rule low)
  show "unat (drop_bit 4 b AND 0x0F) = unat b div 16"
    unfolding low unat_drop_bit_eq using \<open>unat b div 16 < 16\<close> by (simp add: drop_bit_eq_div)
qed

lemma hex_u8_eq: "hex_u8 b = [digit_char (unat b div 16), digit_char (unat b mod 16)]"
  using nibbles [of b] by (simp add: hex_u8_def text_of.simps)

lemma length_hex_u8 [simp]: "length (hex_u8 b) = 2"
  by (simp add: hex_u8_eq)

lemma hex_u8_inj [simp]: "hex_u8 a = hex_u8 b \<longleftrightarrow> a = b"
proof
  assume "hex_u8 a = hex_u8 b"
  then have "unat a div 16 = unat b div 16" "unat a mod 16 = unat b mod 16"
    using nibbles(3,4) [of a] nibbles(3,4) [of b] by (simp_all add: hex_u8_eq digit_char_inj)
  then have "unat a = unat b" by (metis div_mult_mod_eq)
  then show "a = b" by (simp add: word_unat_eq_iff)
qed simp

lemma decode_hex_byte [simp]: "decode_hex_int (hex_u8 b) = returnM (uint b)"
proof -
  note nib = nibbles(3,4) [of b]
  note char = digit_chars [OF nib(1)] digit_chars [OF nib(2)]
  have "number 16 [unat b div 16, unat b mod 16] = unat b"
    by (simp add: number_def)
  moreover have "uint b < 2 ^ 63" using unsigned_less [of b, where ?'a = int] by simp
  moreover have "\<not> uint b < - (2 ^ 63)"
    unfolding not_less by (rule order_trans [OF _ uint_ge_0]) simp
  ultimately show ?thesis
    using char by (simp add: decode_hex_int_def stol_def hex_u8_eq skip_prefix_def Let_def fun_eq_iff)
qed

lemma hex_text_append: "foldl (\<lambda>result c. result @ hex_u8 (of_char c)) acc s = acc @ concat (map (\<lambda>c. hex_u8 (of_char c)) s)"
  by (induction s arbitrary: acc) simp_all

lemma hex_text_Cons [simp]: "hex_text (c # s) = hex_u8 (of_char c) @ hex_text s" "hex_text [] = []"
  by (simp_all add: hex_text_def hex_text_append)

lemma char_of_uint [simp]: "char_of (uint (of_char c :: u8)) = c"
proof -
  have "(of_char c :: u8) = of_nat (of_char c)" by (rule of_nat_of_char [symmetric])
  then have "uint (of_char c :: u8) = int (of_char c mod 256)"
    by (simp add: unsigned_of_nat take_bit_eq_mod del: of_nat_of_char)
  then show ?thesis by simp
qed

lemma decode_hex_text [simp]: "decode_hex_string (hex_text s) t = (Inr s, t)"
proof (induction s arbitrary: t)
  case (Cons c s)
  obtain a b where ab: "hex_u8 (of_char c) = [a, b]"
    using length_hex_u8 [of "of_char c"] by (metis length_0_conv length_Suc_conv numeral_2_eq_2)
  then have "decode_hex_int [a, b] = (returnM (uint (of_char c :: u8)) :: ('a, int) M)"
    by (metis decode_hex_byte)
  with Cons ab show ?case by simp
qed simp

text \<open>
  The text a client sends in hexadecimal, a path with any bytes in it, is what the server
  decodes.
\<close>

theorem hex_text_roundtrip: "decode_hex_string (hex_text s) t = (Inr s, t)"
  by (rule decode_hex_text)

end
