(* ===== verification/Remote.thy ===== *)
theory Remote
  imports Hex
begin

text \<open>
  \<^verbatim>\<open>libgb/gdb/remote_server.hpp\<close> and \<^verbatim>\<open>remote_server.cpp\<close>: the
  debugger's side of the remote protocol. The server's members are a record, its callbacks included;
  what the callbacks capture by reference is the field \<open>captured\<close>. The operating system
  answers from two schedules, the results of the calls to \<open>recv\<close> and those of the calls
  that manage sockets, and what the server asks of it is the trace of its actions.
\<close>

section \<open>The server\<close>

text \<open>One call to the operating system, with the descriptor it is made on.\<close>

datatype action =
    Opened int
  | Bound int u16
  | Listened int
  | Accepted int
  | Sent int string
  | Closed int

record 'e remote =
  m_listen_fd :: int
  m_gdb_connection_fd :: int
  m_register_names :: "string list"
  m_is_in_step :: bool
  m_breakpoints :: "u64 set"
  read_register_value :: "u64 \<Rightarrow> ('e, u16 option) M"
  read_memory :: "u64 \<Rightarrow> u64 \<Rightarrow> ('e, u8 list) M"
  run_elf :: "string \<Rightarrow> ('e, unit) M"
  is_attached :: "('e, bool) M"
  do_continue :: "u64 option \<Rightarrow> ('e, unit) M"
  do_kill :: "('e, u16) M"
  captured :: 'e
  received :: "string option list"
  answers :: "int list"
  actions :: "action list"

text \<open>A callback runs on what it captured.\<close>

definition callback :: "('e remote \<Rightarrow> ('e, 'a) M) \<Rightarrow> ('e remote, 'a) M" where
  "callback f = (\<lambda>s. case f s (captured s) of (r, e) \<Rightarrow> (r, s\<lparr>captured := e\<rparr>))"

definition act :: "('e remote \<Rightarrow> action) \<Rightarrow> ('e remote, unit) M" where
  "act a = modM (\<lambda>s. s\<lparr>actions := actions s @ [a s]\<rparr>)"

text \<open>The next answer of a system call; an exhausted schedule answers with an error.\<close>

definition answer :: "('e remote, int) M" where
  "answer =
     bindM (getM answers) (\<lambda>xs. case xs of
       [] \<Rightarrow> returnM (- 1)
     | x # xs' \<Rightarrow> thenM (modM (\<lambda>s. s\<lparr>answers := xs'\<rparr>)) (returnM x))"

definition MaxPacketSize :: nat where
  "MaxPacketSize = 100 * 1024"

definition Unsupported :: string where
  "Unsupported = []"

section \<open>Reading packets\<close>

text \<open>
  One \<open>recv\<close> with a buffer of \<open>MaxPacketSize\<close> bytes: \<open>None\<close> is the answer
  \<open>-1\<close>, \<open>Some []\<close> a closed connection; what does not fit stays in the stream.
\<close>

definition recv :: "('e remote, string option) M" where
  "recv =
     bindM (getM received) (\<lambda>queue. case queue of
       Some bytes # later \<Rightarrow>
         thenM (modM (\<lambda>s. s\<lparr>received :=
            (if length bytes \<le> MaxPacketSize then later else Some (drop MaxPacketSize bytes) # later)\<rparr>))
         (returnM (Some (take MaxPacketSize bytes)))
     | None # later \<Rightarrow> thenM (modM (\<lambda>s. s\<lparr>received := later\<rparr>)) (returnM None)
     | [] \<Rightarrow> returnM None)"

definition wait_next_packet_raw :: "('e remote, string) M" where
  "wait_next_packet_raw =
     bindM recv (\<lambda>bytes. case bytes of
       None \<Rightarrow> raiseM (RuntimeError ''Socket dropped'')
     | Some packet \<Rightarrow> if packet = [] then raiseM (RuntimeError ''Socket dropped'') else returnM packet)"

text \<open>
  The position three before the end of a packet that is shorter wraps around, and \<open>.at\<close> throws.
\<close>

definition parse_packet :: "string \<Rightarrow> ('s, string) M" where
  "parse_packet packet =
     bindM (indexM OutOfRange packet 0) (\<lambda>first.
     if first \<noteq> CHR ''$'' then raiseM (RuntimeError ''Could not parse packet, expected $'')
     else bindM (if length packet < 3 then raiseM OutOfRange
                 else indexM OutOfRange packet (length packet - 3)) (\<lambda>hash.
     if hash \<noteq> CHR ''#'' then raiseM (RuntimeError ''Could not parse packet, expected hash'')
     else let payload = take (length packet - 4) (drop 1 packet);
              checksum = drop (length packet - 2) packet
          in if checksum \<noteq> calculate_checksum payload
             then raiseM (RuntimeError ''Received packet with an invalid checksum'')
             else returnM payload))"

definition wait_next_packet :: "('e remote, string) M" where
  "wait_next_packet =
     bindM wait_next_packet_raw (\<lambda>packet.
     if packet = [] \<or> packet = ''+'' then returnM packet
     else bindM (indexM OutOfRange packet 0) (\<lambda>first.
       parse_packet (if first = CHR ''+'' then drop 1 packet else packet)))"

section \<open>Responses\<close>

definition send_ack_response :: "('e remote, unit) M" where
  "send_ack_response = act (\<lambda>s. Sent (m_gdb_connection_fd s) ''+'')"

definition send_response :: "string \<Rightarrow> ('e remote, unit) M" where
  "send_response payload =
     act (\<lambda>s. Sent (m_gdb_connection_fd s) (''$'' @ payload @ ''#'' @ calculate_checksum payload))"

section \<open>Requests\<close>

text \<open>\<open>find_first_of\<close> from a position; \<open>None\<close> is \<open>npos\<close>.\<close>

function find_from :: "char \<Rightarrow> string \<Rightarrow> nat \<Rightarrow> nat option" where
  "find_from c s i = (if i < length s then if s ! i = c then Some i else find_from c s (i + 1) else None)"
  by pat_completeness auto
termination by (relation "measure (\<lambda>(c, s, i). length s - i)") auto

declare find_from.simps [simp del]

definition starts_with :: "string \<Rightarrow> string \<Rightarrow> bool" where
  "starts_with p s \<longleftrightarrow> take (length p) s = p"

fun text_contains :: "string \<Rightarrow> string \<Rightarrow> bool" where
  "text_contains p [] = (p = [])"
| "text_contains p (c # s) = (starts_with p (c # s) \<or> text_contains p s)"

text \<open>The third argument of the second \<open>substr\<close> is an end in the code and a length in the library.\<close>

definition process_breakpoint_request :: "string \<Rightarrow> bool \<Rightarrow> ('e remote, unit) M" where
  "process_breakpoint_request query is_add =
     (if \<not> starts_with ''1'' query then send_response Unsupported
      else let start = (case find_from CHR '','' query 0 of None \<Rightarrow> 0 | Some i \<Rightarrow> i + 1);
               addr_string = (case find_from CHR '','' query start of
                 None \<Rightarrow> drop start query
               | Some end_ \<Rightarrow> take end_ (drop start query))
           in bindM (parse_int addr_string 16) (\<lambda>address.
              thenM (modM (\<lambda>s. s\<lparr>m_breakpoints :=
                if is_add then insert address (m_breakpoints s) else m_breakpoints s - {address}\<rparr>))
              (send_response ''OK'')))"

definition process_H_request :: "('e remote, unit) M" where
  "process_H_request = send_response ''OK''"

definition process_m_request :: "string \<Rightarrow> ('e remote, unit) M" where
  "process_m_request query =
     (let (addr_str, size_str) = (case find_from CHR '','' query 0 of
            None \<Rightarrow> (query, query)
          | Some delimiter \<Rightarrow> (take delimiter query, drop (delimiter + 1) query))
      in bindM (parse_int addr_str 16) (\<lambda>addr.
         bindM (parse_int size_str 16) (\<lambda>size.
         bindM (callback (\<lambda>s. read_memory s addr size)) (\<lambda>result.
         send_response (foldl (\<lambda>reply byte. reply @ hex_u8 byte) [] result)))))"

definition process_p_request :: "string \<Rightarrow> ('e remote, unit) M" where
  "process_p_request query =
     bindM (decode_hex_int query) (\<lambda>regno.
     bindM (callback (\<lambda>s. read_register_value s (of_int regno))) (\<lambda>value.
     case value of Some v \<Rightarrow> send_response (hex_u16 v) | None \<Rightarrow> send_response ''E44''))"

text \<open>The description of one register.\<close>

definition register_info :: "string list \<Rightarrow> nat \<Rightarrow> string" where
  "register_info names reg_id =
     ''name:'' @ names ! reg_id @ '';bitsize:16;offset:'' @ text_of 10 (16 * reg_id) @
     '';encoding:uint;format:hex;set:General Purpose Registers;gcc:'' @ text_of 10 reg_id @
     '';dwarf:'' @ text_of 10 reg_id @ '';'' @
     (if names ! reg_id = ''pc'' then ''generic:pc;'' else []) @
     (if names ! reg_id = ''sp'' then ''generic:sp'' else [])"

definition when_attached :: "string \<Rightarrow> ('e remote, unit) M" where
  "when_attached response =
     bindM (callback is_attached) (\<lambda>attached.
     if attached then send_response response else send_response ''E44'')"

definition process_q_request :: "string \<Rightarrow> ('e remote, unit) M" where
  "process_q_request query =
     (if query = ''HostInfo'' then
        send_response (''triple:'' @ hex_text ''gb-unknown-unknown'' @ '';ptrsize:2;endian:little;'')
      else if starts_with ''Supported'' query then
        send_response (''PacketSize='' @ text_of 10 (MaxPacketSize - 4) @
          '';qXfer:memory-map:read-;QStartNoAckMode+;hwbreak+;qXfer:features:read+;'')
      else if starts_with ''Symbol'' query then send_response ''OK''
      else if starts_with ''RegisterInfo'' query then
        bindM (parse_int (drop (length ''RegisterInfo'') query) 16) (\<lambda>reg_id.
        bindM (getM m_register_names) (\<lambda>names.
        if unat reg_id < length names then send_response (register_info names (unat reg_id))
        else send_response ''E45''))
      else if query = ''ProcessInfo'' then when_attached ''pid:1;parent-pid:1;endian:little;ptrsize:2;''
      else if query = ''C'' then when_attached ''QC1''
      else if query = ''fThreadInfo'' then
        bindM (callback is_attached) (\<lambda>attached.
        if attached then
          thenM (send_response ''m1'')
          (bindM wait_next_packet (\<lambda>nextPacket.
           if nextPacket \<noteq> ''qsThreadInfo'' then raiseM AssertFailed
           else send_response ''l''))
        else send_response ''OK'')
      else send_response Unsupported)"

definition process_Q_request :: "string \<Rightarrow> ('e remote, unit) M" where
  "process_Q_request query =
     (if query = ''StartNoAckMode'' then thenM send_ack_response (send_response ''OK'')
      else if starts_with ''LaunchArch'' query then
        (if \<not> text_contains '':gb'' query then raiseM (RuntimeError ''Unknown arch request'')
         else send_response ''OK'')
      else send_response Unsupported)"

definition process_qmark_request :: "('e remote, unit) M" where
  "process_qmark_request = send_response ''S02''"

text \<open>\<open>remove_prefix\<close> on an empty view is undefined.\<close>

definition process_vrun_request :: "string \<Rightarrow> ('e remote, unit) M" where
  "process_vrun_request query =
     (if query = [] then raiseM UndefinedBehaviour
      else bindM (decode_hex_string (drop 1 query)) (\<lambda>file_name.
           thenM (callback (\<lambda>s. run_elf s file_name))
           (send_response ''S00'')))"

definition process_c_request :: "string \<Rightarrow> ('e remote, unit) M" where
  "process_c_request query =
     bindM (if query \<noteq> [] then bindM (parse_int query 16) (\<lambda>a. returnM (Some a)) else returnM None)
       (\<lambda>continue_addr. callback (\<lambda>s. do_continue s continue_addr))"

definition process_s_request :: "('e remote, unit) M" where
  "process_s_request =
     thenM (modM (\<lambda>s. s\<lparr>m_is_in_step := True\<rparr>))
     (callback (\<lambda>s. do_continue s None))"

text \<open>The calls that listen on the open socket and take the next connection.\<close>

definition listen_and_accept :: "('e remote, unit) M" where
  "listen_and_accept =
     thenM (act (\<lambda>s. Listened (m_listen_fd s)))
     (bindM answer (\<lambda>result.
      if result \<noteq> 0 then raiseM (RuntimeError ''Could not listen to port'')
      else thenM (act (\<lambda>s. Accepted (m_listen_fd s)))
        (bindM answer (\<lambda>fd.
         thenM (modM (\<lambda>s. s\<lparr>m_gdb_connection_fd := fd\<rparr>))
         (whenM (fd < 0) (raiseM (RuntimeError ''Not connection received on port'')))))))"

definition process_k_request :: "('e remote, unit) M" where
  "process_k_request =
     thenM (modM (\<lambda>s. s\<lparr>m_breakpoints := {}, m_is_in_step := False\<rparr>))
     (bindM (callback do_kill) (\<lambda>port.
      thenM (send_response ''X01'')
      (thenM (act (\<lambda>s. Closed (m_gdb_connection_fd s)))
       listen_and_accept)))"

definition process_request :: "string \<Rightarrow> ('e remote, unit) M" where
  "process_request request =
     (if starts_with ''vRun'' request then process_vrun_request (drop 4 request)
      else bindM (indexM OutOfRange request 0) (\<lambda>c.
        let query = drop 1 request in
        if c = CHR ''Z'' then process_breakpoint_request query True
        else if c = CHR ''z'' then process_breakpoint_request query False
        else if c = CHR ''p'' then process_p_request query
        else if c = CHR ''Q'' then process_Q_request query
        else if c = CHR ''q'' then process_q_request query
        else if c = CHR ''?'' then process_qmark_request
        else if c = CHR ''H'' then process_H_request
        else if c = CHR ''m'' then process_m_request query
        else if c = CHR ''c'' then process_c_request query
        else if c = CHR ''s'' then process_s_request
        else if c = CHR ''k'' then process_k_request
        else send_response Unsupported))"

definition process_next_request :: "('e remote, unit) M" where
  "process_next_request =
     bindM wait_next_packet (\<lambda>request.
     if request = [] \<or> request = ''+'' then returnM () else process_request request)"

section \<open>Connections\<close>

text \<open>
  Opening the server's socket; the assertion on the address family of the peer, which the socket
  fixes, is left out.
\<close>

definition wait_for_connection :: "u16 \<Rightarrow> ('e remote, unit) M" where
  "wait_for_connection port =
     bindM answer (\<lambda>fd.
     thenM (modM (\<lambda>s. s\<lparr>m_listen_fd := fd\<rparr>))
     (thenM (act (\<lambda>s. Opened fd))
     (if fd \<le> 0 then raiseM (RuntimeError ''Could not open socket'')
      else thenM (act (\<lambda>s. Bound fd port))
        (bindM answer (\<lambda>result.
         if result \<noteq> 0 then raiseM (RuntimeError ''Could not bind to port'')
         else listen_and_accept)))))"

definition has_remote_interrupt_request :: "('e remote, bool) M" where
  "has_remote_interrupt_request =
     bindM recv (\<lambda>bytes. returnM (bytes \<noteq> None))"

text \<open>The destructor; the test of the second descriptor compares with \<open>1\<close>.\<close>

definition destroy :: "'e remote \<Rightarrow> 'e remote" where
  "destroy s =
     s\<lparr>actions := actions s @ (if m_listen_fd s \<noteq> - 1 then [Closed (m_listen_fd s)] else []) @
         (if m_gdb_connection_fd s \<noteq> 1 then [Closed (m_gdb_connection_fd s)] else [])\<rparr>"

section \<open>Stops\<close>

datatype BreakReason = SIGINT | SIGTRAP | SIGSEGV

fun reason_code :: "BreakReason \<Rightarrow> u8" where
  "reason_code SIGINT = 2"
| "reason_code SIGTRAP = 5"
| "reason_code SIGSEGV = 11"

definition is_active_breakpoint :: "u64 \<Rightarrow> ('e remote, bool) M" where
  "is_active_breakpoint addr = getM (\<lambda>s. m_is_in_step s \<or> addr \<in> m_breakpoints s)"

text \<open>
  The registers from a number up until the callback has none. The number wraps after 2 to the 64
  calls; the fuel is the calls left until then.
\<close>

function break_registers :: "nat \<Rightarrow> u64 \<Rightarrow> ('e remote, string) M" where
  "break_registers fuel n =
     (if fuel = 0 then raiseM Diverges
      else bindM (callback (\<lambda>s. read_register_value s n)) (\<lambda>value. case value of
        None \<Rightarrow> returnM []
      | Some v \<Rightarrow> bindM (break_registers (fuel - 1) (n + 1)) (\<lambda>more.
          returnM (text_of 16 (unat n) @ '':'' @ hex_u16 v @ '';'' @ more))))"
  by pat_completeness auto
termination by (relation "measure fst") auto

declare break_registers.simps [simp del]

definition notify_break :: "BreakReason \<Rightarrow> bool \<Rightarrow> ('e remote, unit) M" where
  "notify_break reason is_breakpoint =
     bindM (getM m_is_in_step) (\<lambda>did_stop_due_to_step.
     thenM (modM (\<lambda>s. s\<lparr>m_is_in_step := False\<rparr>))
     (bindM (break_registers (2 ^ 64) 0) (\<lambda>regs.
      send_response (''T'' @ hex_u8 (reason_code reason) @ regs @
        (if is_breakpoint then if did_stop_due_to_step then ''reason:trace;'' else ''reason:breakpoint;''
         else ''reason:trap;'')))))"

section \<open>Evaluation\<close>

lemma callback_run [simp]:
  "callback f s = (case f s (captured s) of (r, e) \<Rightarrow> (r, s\<lparr>captured := e\<rparr>))"
  by (simp add: callback_def)

lemma act_run [simp]: "act a s = (Inr (), s\<lparr>actions := actions s @ [a s]\<rparr>)"
  by (simp add: act_def)

lemma answer_run [simp]:
  "answer s = (case answers s of [] \<Rightarrow> (Inr (- 1), s) | x # xs \<Rightarrow> (Inr x, s\<lparr>answers := xs\<rparr>))"
  by (simp add: answer_def split: list.splits)

definition frame :: "string \<Rightarrow> string" where
  "frame payload = ''$'' @ payload @ ''#'' @ calculate_checksum payload"

lemma send_response_run [simp]:
  "send_response p s = (Inr (), s\<lparr>actions := actions s @ [Sent (m_gdb_connection_fd s) (frame p)]\<rparr>)"
  by (simp add: send_response_def frame_def)

lemma is_active_breakpoint_run [simp]:
  "is_active_breakpoint a s = (Inr (m_is_in_step s \<or> a \<in> m_breakpoints s), s)"
  by (simp add: is_active_breakpoint_def)

section \<open>Packets\<close>

lemma length_checksum [simp]: "length (calculate_checksum p) = 2"
  by (simp add: calculate_checksum_def)

lemma length_frame: "length (frame p) = length p + 4"
  by (simp add: frame_def)

lemma parse_packet_run:
  "parse_packet packet s =
    (if packet = [] then Inl OutOfRange
     else if packet ! 0 \<noteq> CHR ''$'' then Inl (RuntimeError ''Could not parse packet, expected $'')
     else if length packet < 3 then Inl OutOfRange
     else if packet ! (length packet - 3) \<noteq> CHR ''#'' then Inl (RuntimeError ''Could not parse packet, expected hash'')
     else if drop (length packet - 2) packet \<noteq> calculate_checksum (take (length packet - 4) (drop 1 packet))
     then Inl (RuntimeError ''Received packet with an invalid checksum'')
     else Inr (take (length packet - 4) (drop 1 packet)), s)"
  by (simp add: parse_packet_def bindM_run Let_def)

lemma parse_framed:
  assumes "length c = 2"
  shows "parse_packet (''$'' @ p @ ''#'' @ c) s =
    (if c = calculate_checksum p then Inr p else Inl (RuntimeError ''Received packet with an invalid checksum''), s)"
  using assms by (simp add: parse_packet_def Let_def nth_append)

lemma parse_packet_iff: "fst (parse_packet packet s) = Inr p \<longleftrightarrow> packet = frame p"
proof
  assume l: "fst (parse_packet packet s) = Inr p"
  from l have first: "packet \<noteq> []" "packet ! 0 = CHR ''$''"
    and hash: "3 \<le> length packet" "packet ! (length packet - 3) = CHR ''#''"
    by (simp_all add: parse_packet_run split: if_splits)
  from first hash have "4 \<le> length packet"
    by (cases "length packet = 3") auto
  let ?n = "length packet"
  have "packet = take 1 packet @ take (?n - 4) (drop 1 packet) @ take 1 (drop (?n - 3) packet) @ drop (?n - 2) packet"
    (is "_ = ?rhs")
  proof -
    have "1 + (?n - 4) = ?n - 3" "1 + (?n - 3) = ?n - 2" using \<open>4 \<le> ?n\<close> by arith+
    then have "take (?n - 3) packet = take 1 packet @ take (?n - 4) (drop 1 packet)"
      "drop (?n - 3) packet = take 1 (drop (?n - 3) packet) @ drop (?n - 2) packet"
      using take_add [of 1 "?n - 4" packet] append_take_drop_id [of 1 "drop (?n - 3) packet"]
      by (simp_all only: drop_drop add.commute [of "?n - 3"])
    then show ?thesis using append_take_drop_id [of "?n - 3" packet] by (metis append.assoc)
  qed
  moreover have "take 1 packet = ''$''" using first by (cases packet) simp_all
  moreover have "take 1 (drop (?n - 3) packet) = ''#''"
    using hash \<open>4 \<le> ?n\<close> by (simp add: take_Suc hd_drop_conv_nth)
  ultimately have shape: "packet = ''$'' @ take (?n - 4) (drop 1 packet) @ ''#'' @ drop (?n - 2) packet"
    by simp
  have "length (drop (?n - 2) packet) = 2" using \<open>4 \<le> ?n\<close> by simp
  from l parse_framed [OF this, of "take (?n - 4) (drop 1 packet)" s] shape
  have "drop (?n - 2) packet = calculate_checksum (take (?n - 4) (drop 1 packet))"
    "p = take (?n - 4) (drop 1 packet)" by (simp_all split: if_splits)
  with shape show "packet = frame p" by (simp add: frame_def)
qed (use parse_framed [OF length_checksum, of p p s] in \<open>simp add: frame_def\<close>)

lemma frame_start: "hd (frame p) = CHR ''$''" "frame p \<noteq> []" "frame p ! 0 = CHR ''$''"
  by (simp_all add: frame_def)

lemma wait_next_packet_run:
  assumes "received s = Some bytes # later" and "bytes \<noteq> []" and "length bytes \<le> MaxPacketSize"
  shows "wait_next_packet s =
    (let s' = s\<lparr>received := later\<rparr> in
     if bytes = ''+'' then (Inr bytes, s')
     else parse_packet (if hd bytes = CHR ''+'' then tl bytes else bytes) s')"
  using assms by (simp add: wait_next_packet_def wait_next_packet_raw_def recv_def Let_def hd_conv_nth drop_Suc)

text \<open>
  C28. A packet is accepted with a payload exactly when it is the dollar sign, the payload, the hash and
  the two digits of the checksum, with at most one acknowledgement before it: nothing that is not
  framed is accepted, nothing framed is refused.
\<close>

theorem packet_accepted_iff:
  assumes "received s = Some bytes # later" and "bytes \<noteq> ''+''" and "bytes \<noteq> []"
    and "length bytes \<le> MaxPacketSize"
  shows "fst (wait_next_packet s) = Inr payload \<longleftrightarrow> bytes = frame payload \<or> bytes = CHR ''+'' # frame payload"
proof (cases bytes)
  case (Cons c cs)
  with assms show ?thesis
    by (auto simp: wait_next_packet_run parse_packet_iff Let_def frame_start dest: arg_cong [where f = hd])
qed (use assms in simp)

lemma checksum_sum: "foldl (\<lambda>n c. n + of_char c) a p = a + sum_list (map of_char p)" for a :: u8
  by (induction p arbitrary: a) (simp_all add: add.assoc)

lemma of_char_u8_inj: "(of_char c :: u8) = of_char d \<longleftrightarrow> c = d"
  by (metis char_of_uint)

lemma checksum_update:
  assumes "i < length p" and "calculate_checksum (p[i := c]) = calculate_checksum p"
  shows "c = p ! i"
proof -
  have "p = take i p @ p ! i # drop (Suc i) p" using assms(1) by (rule id_take_nth_drop)
  then have "sum_list (map of_char p) = sum_list (map of_char (take i p)) + (of_char (p ! i) +
      sum_list (map of_char (drop (Suc i) p)) :: u8)"
    by (metis (no_types, lifting) list.simps(9) map_append sum_list.Cons sum_list.append)
  moreover have "sum_list (map of_char (p[i := c])) = sum_list (map of_char (take i p)) + (of_char c +
      sum_list (map of_char (drop (Suc i) p)) :: u8)"
    using assms(1) by (simp add: upd_conv_take_nth_drop)
  ultimately show ?thesis
    using assms(2) by (simp add: calculate_checksum_def checksum_sum of_char_u8_inj)
qed

text \<open>
  C29. A packet in which one byte of the payload was changed on the way is refused, and the server's
  state is as before, the packet consumed.
\<close>

theorem corrupted_packet_refused:
  assumes "i < length payload" and "c \<noteq> payload ! i" and "length payload + 4 \<le> MaxPacketSize"
    and "received s = Some (''$'' @ payload[i := c] @ ''#'' @ calculate_checksum payload) # later"
  shows "wait_next_packet s =
    (Inl (RuntimeError ''Received packet with an invalid checksum''), s\<lparr>received := later\<rparr>)"
proof -
  have "calculate_checksum payload \<noteq> calculate_checksum (payload[i := c])"
    using checksum_update [OF assms(1)] assms(2) by metis
  then show ?thesis
    using wait_next_packet_run [OF assms(4)] assms(3) parse_framed [of "calculate_checksum payload" "payload[i := c]"]
    by (simp add: Let_def)
qed

section \<open>Breakpoints\<close>

lemma find_from_Some: "find_from c s i = Some j \<Longrightarrow> i \<le> j \<and> j < length s \<and> s ! j = c"
proof (induction c s i rule: find_from.induct)
  case (1 c s i)
  then show ?case using find_from.simps [of c s i] by (auto split: if_splits)
qed

lemma text_of_no_comma: "i < length (text_of 16 n) \<Longrightarrow> text_of 16 n ! i \<noteq> CHR '',''"
  by (rule text_of_digits [of 16 n]) (auto simp: digit_chars)

text \<open>The text of a request that sets or clears the breakpoint at an address.\<close>

definition breakpoint_request :: "bool \<Rightarrow> u64 \<Rightarrow> string \<Rightarrow> string" where
  "breakpoint_request is_add a kind =
     (if is_add then ''Z1,'' else ''z1,'') @ text_of 16 (unat a) @ (if kind = [] then [] else '','' @ kind)"

lemma breakpoint_address:
  assumes "addr_string = (case find_from CHR '','' (''1,'' @ text_of 16 (unat (a :: u64)) @ rest) 2 of
      None \<Rightarrow> drop 2 (''1,'' @ text_of 16 (unat a) @ rest)
    | Some end_ \<Rightarrow> take end_ (drop 2 (''1,'' @ text_of 16 (unat a) @ rest)))"
    and "rest = [] \<or> hd rest = CHR '',''"
  shows "parse_int addr_string 16 = returnM a"
proof -
  let ?t = "text_of 16 (unat a)"
  have comma: "digit_value 16 (CHR '','') = None" by (simp add: digit_value_def)
  show ?thesis
  proof (cases "find_from CHR '','' (''1,'' @ ?t @ rest) 2")
    case None
    with assms comma show ?thesis by auto
  next
    case (Some j)
    from find_from_Some [OF this] have j: "2 \<le> j" "(''1,'' @ ?t @ rest) ! j = CHR '',''" by blast+
    from j(1) obtain k where "j = Suc (Suc k)" by (metis add_2_eq_Suc le_Suc_ex)
    with j have j: "2 \<le> j" "(?t @ rest) ! (j - 2) = CHR '',''" by simp_all
    have "\<not> j - 2 < length ?t" using j(2) text_of_no_comma [of "j - 2" "unat a"] by (auto simp: nth_append)
    with j(1) have "addr_string = ?t @ take (j - length ?t) rest" using assms(1) Some by simp
    moreover have "take (j - length ?t) rest = [] \<or> digit_value 16 (hd (take (j - length ?t) rest)) = None"
      using assms(2) comma by (cases rest; cases "j - length ?t") auto
    ultimately show ?thesis by simp
  qed
qed

lemma breakpoint_request_run:
  fixes s :: "'e remote"
  shows "process_request (breakpoint_request is_add a kind) s =
    (Inr (), s\<lparr>m_breakpoints := (if is_add then insert a (m_breakpoints s) else m_breakpoints s - {a}),
      actions := actions s @ [Sent (m_gdb_connection_fd s) (frame ''OK'')]\<rparr>)"
proof -
  define rest where "rest = (if kind = [] then [] else '','' @ kind)"
  define q where "q = ''1,'' @ text_of 16 (unat a) @ rest"
  have start: "find_from CHR '','' q 0 = Some 1" "starts_with ''1'' q"
    by (simp_all add: q_def starts_with_def find_from.simps [of _ _ 0] find_from.simps [of _ _ "Suc 0"])
  have "parse_int (case find_from CHR '','' q 2 of None \<Rightarrow> drop 2 q | Some end_ \<Rightarrow> take end_ (drop 2 q)) 16 =
      (returnM a :: ('e remote, u64) M)"
    unfolding q_def by (rule breakpoint_address [OF refl]) (simp add: rest_def)
  with start have "process_breakpoint_request q is_add s =
    (Inr (), s\<lparr>m_breakpoints := (if is_add then insert a (m_breakpoints s) else m_breakpoints s - {a}),
      actions := actions s @ [Sent (m_gdb_connection_fd s) (frame ''OK'')]\<rparr>)"
    by (simp add: process_breakpoint_request_def numeral_2_eq_2 Let_def cong: option.case_cong)
  then show ?thesis
    by (cases "kind = []"; cases is_add)
       (simp_all add: process_request_def breakpoint_request_def starts_with_def rest_def q_def Let_def)
qed

text \<open>
  C30. After any sequence of requests that set and clear hardware breakpoints, all answered OK, an
  address is an active breakpoint of a server that is not stepping exactly when the last
  request about it set it, or none was made and it was one before.
\<close>

theorem breakpoints_follow_requests:
  "\<exists>t. forM requests (\<lambda>(is_add, a, kind). process_request (breakpoint_request is_add a kind)) s = (Inr (), t) \<and>
    is_active_breakpoint b t =
      (Inr (m_is_in_step s \<or>
        (case filter (\<lambda>(_, a, _). a = b) requests of
           [] \<Rightarrow> b \<in> m_breakpoints s
         | about \<Rightarrow> fst (last about))), t) \<and>
    actions t = actions s @ replicate (length requests) (Sent (m_gdb_connection_fd s) (frame ''OK''))"
proof (induction requests arbitrary: s)
  case (Cons r rs)
  obtain is_add a kind where r: "r = (is_add, a, kind)" by (cases r)
  show ?case
    using Cons [of "s\<lparr>m_breakpoints := (if is_add then insert a (m_breakpoints s) else m_breakpoints s - {a}),
      actions := actions s @ [Sent (m_gdb_connection_fd s) (frame ''OK'')]\<rparr>"]
    by (auto simp: r breakpoint_request_run split: list.splits)
qed simp

text \<open>
  A client that asks to run a file by its hexadecimal path has exactly that path handed to the
  callback, whatever bytes the path contains, and is told that the target stopped.
\<close>

theorem vrun_runs_path:
  assumes "run_elf s path (captured s) = (Inr (), e)"
  shows "process_request (''vRun;'' @ hex_text path) s =
    (Inr (), s\<lparr>captured := e, actions := actions s @ [Sent (m_gdb_connection_fd s) (frame ''S00'')]\<rparr>)"
  using assms by (simp add: process_request_def process_vrun_request_def starts_with_def decode_hex_text)

text \<open>
  Killing the target clears every breakpoint and a pending step, answers, closes the connection
  and waits for the next one on the socket that is still open.
\<close>

theorem kill_waits_for_next_client:
  assumes "do_kill s (captured s) = (Inr port, e)" and "answers s = 0 # fd # later" and "0 \<le> fd"
  shows "process_request ''k'' s =
    (Inr (), s\<lparr>m_breakpoints := {}, m_is_in_step := False, captured := e, answers := later,
      m_gdb_connection_fd := fd,
      actions := actions s @ [Sent (m_gdb_connection_fd s) (frame ''X01''), Closed (m_gdb_connection_fd s),
        Listened (m_listen_fd s), Accepted (m_listen_fd s)]\<rparr>)"
  using assms by (simp add: process_request_def process_k_request_def listen_and_accept_def starts_with_def Let_def)

section \<open>What the server relies on\<close>

text \<open>
  The contract of the program being debugged with the server: its callbacks keep an invariant of what
  they captured and leave only with exceptions of \<open>E\<close>, and it has finitely many registers.
  Then every request but the one to run a file keeps the invariant. The file may replace the target,
  so its callback has no part in the contract.
\<close>

locale debug_target =
  fixes I :: "'e \<Rightarrow> bool" and E :: "exn set"
    and rr :: "u64 \<Rightarrow> ('e, u16 option) M" and rm :: "u64 \<Rightarrow> u64 \<Rightarrow> ('e, u8 list) M"
    and ia :: "('e, bool) M" and dc :: "u64 option \<Rightarrow> ('e, unit) M" and dk :: "('e, u16) M"
    and count :: u64
  assumes rr_safe: "safe I (\<lambda>_. E) (rr n) (\<lambda>v. n = count \<longrightarrow> v = None)"
    and rm_safe: "safe I (\<lambda>_. E) (rm a n) (\<lambda>_. True)"
    and ia_safe: "safe I (\<lambda>_. E) ia (\<lambda>_. True)" and dc_safe: "safe I (\<lambda>_. E) (dc c) (\<lambda>_. True)"
    and dk_safe: "safe I (\<lambda>_. E) dk (\<lambda>_. True)"
    and own_exns: "OutOfRange \<in> E" "InvalidArgument \<in> E" "RuntimeError m \<in> E" "AssertFailed \<in> E"
begin

definition server_ok :: "'e remote \<Rightarrow> bool" where
  "server_ok s \<longleftrightarrow> read_register_value s = rr \<and> read_memory s = rm \<and> is_attached s = ia \<and>
     do_continue s = dc \<and> do_kill s = dk \<and> I (captured s)"

lemma safe_callback:
  assumes "safe I (\<lambda>_. E) m Q" and "\<And>s. server_ok s \<Longrightarrow> f s = m"
  shows "safe server_ok (\<lambda>_. E) (callback f) Q"
proof (rule safeI)
  fix s r s' assume s: "server_ok s" and run: "callback f s = (r, s')"
  obtain e where m: "m (captured s) = (r, e)" and s': "s' = s\<lparr>captured := e\<rparr>"
    using run assms(2) [OF s] by (auto split: prod.splits)
  have "I (captured s)" using s by (simp add: server_ok_def)
  with assms(1) m have "I e" and "case r of Inl e \<Rightarrow> e \<in> E | Inr v \<Rightarrow> Q v"
    by (force simp: safe_def)+
  with s s' show "server_ok s' \<and> (case r of Inl e \<Rightarrow> e \<in> E | Inr v \<Rightarrow> Q v)"
    by (simp add: server_ok_def)
qed

lemma safe_callbacks [safe_intro]:
  "safe server_ok (\<lambda>_. E) (callback (\<lambda>s. read_memory s a n)) (\<lambda>_. True)"
  "safe server_ok (\<lambda>_. E) (callback is_attached) (\<lambda>_. True)"
  "safe server_ok (\<lambda>_. E) (callback (\<lambda>s. do_continue s c)) (\<lambda>_. True)"
  "safe server_ok (\<lambda>_. E) (callback do_kill) (\<lambda>_. True)"
  "safe server_ok (\<lambda>_. E) (callback (\<lambda>s. read_register_value s r)) (\<lambda>v. r = count \<longrightarrow> v = None)"
  by (rule safe_callback, (rule rm_safe ia_safe dc_safe dk_safe rr_safe), simp add: server_ok_def)+

lemma safe_register [safe_intro]: "safe server_ok (\<lambda>_. E) (callback (\<lambda>s. read_register_value s r)) (\<lambda>_. True)"
  by (rule safe_top [OF safe_callbacks(5)])

lemma safe_own_update:
  "(\<And>s. read_register_value (f s) = read_register_value s \<and> read_memory (f s) = read_memory s \<and>
     is_attached (f s) = is_attached s \<and> do_continue (f s) = do_continue s \<and> do_kill (f s) = do_kill s \<and>
     captured (f s) = captured s) \<Longrightarrow> safe server_ok (\<lambda>_. E) (modM f) (\<lambda>_. True)"
  by (rule safe_modM) (simp add: server_ok_def)

lemma safe_wire [safe_intro]:
  "safe server_ok (\<lambda>_. E) (act a) (\<lambda>_. True)" "safe server_ok (\<lambda>_. E) answer (\<lambda>_. True)"
  "safe server_ok (\<lambda>_. E) recv (\<lambda>_. True)" "safe server_ok (\<lambda>_. E) (send_response p) (\<lambda>_. True)"
  "safe server_ok (\<lambda>_. E) send_ack_response (\<lambda>_. True)"
proof -
  show act: "safe server_ok (\<lambda>_. E) (act a) (\<lambda>_. True)" for a
    unfolding act_def by (rule safe_own_update) simp
  show "safe server_ok (\<lambda>_. E) answer (\<lambda>_. True)"
    by (rule safeI) (auto simp: server_ok_def split: list.splits)
  show "safe server_ok (\<lambda>_. E) recv (\<lambda>_. True)"
    by (rule safeI) (auto simp: recv_def server_ok_def split: list.splits option.splits)
  show "safe server_ok (\<lambda>_. E) (send_response p) (\<lambda>_. True)" "safe server_ok (\<lambda>_. E) send_ack_response (\<lambda>_. True)"
    unfolding send_response_def send_ack_response_def by (rule act)+
qed

lemma safe_conversions [safe_intro]:
  "safe server_ok (\<lambda>_. E) (parse_int t b) (\<lambda>_. True)" "safe server_ok (\<lambda>_. E) (decode_hex_int t) (\<lambda>_. True)"
  "safe server_ok (\<lambda>_. E) (parse_packet t) (\<lambda>_. True)"
  using own_exns
  by (auto simp: safe_def parse_int_def decode_hex_int_def stol_def parse_packet_run Let_def
      split: option.splits prod.splits)

lemma safe_wait_next_packet [safe_intro]: "safe server_ok (\<lambda>_. E) wait_next_packet (\<lambda>_. True)"
  unfolding wait_next_packet_def wait_next_packet_raw_def
  by (intro safe_intro safe_indexM own_exns disjI2 allI impI TrueI)

lemma safe_requests [safe_intro]:
  "safe server_ok (\<lambda>_. E) (process_breakpoint_request q b) (\<lambda>_. True)"
  "safe server_ok (\<lambda>_. E) process_H_request (\<lambda>_. True)" "safe server_ok (\<lambda>_. E) (process_m_request q) (\<lambda>_. True)"
  "safe server_ok (\<lambda>_. E) (process_p_request q) (\<lambda>_. True)" "safe server_ok (\<lambda>_. E) (when_attached q) (\<lambda>_. True)"
  "safe server_ok (\<lambda>_. E) (process_Q_request q) (\<lambda>_. True)" "safe server_ok (\<lambda>_. E) process_qmark_request (\<lambda>_. True)"
  "safe server_ok (\<lambda>_. E) (process_c_request q) (\<lambda>_. True)" "safe server_ok (\<lambda>_. E) process_s_request (\<lambda>_. True)"
  "safe server_ok (\<lambda>_. E) listen_and_accept (\<lambda>_. True)"
  unfolding process_breakpoint_request_def process_H_request_def process_m_request_def process_p_request_def
    when_attached_def process_Q_request_def process_qmark_request_def process_c_request_def process_s_request_def
    listen_and_accept_def Let_def
  by (intro safe_intro safe_own_update own_exns TrueI; simp)+

lemma safe_q_and_k [safe_intro]:
  "safe server_ok (\<lambda>_. E) (process_q_request q) (\<lambda>_. True)" "safe server_ok (\<lambda>_. E) process_k_request (\<lambda>_. True)"
  unfolding process_q_request_def process_k_request_def
  by (intro safe_intro safe_own_update own_exns TrueI; simp)+

lemma safe_process_request:
  "\<not> starts_with ''vRun'' q \<Longrightarrow> safe server_ok (\<lambda>_. E) (process_request q) (\<lambda>_. True)"
  unfolding process_request_def Let_def
  by (simp, intro safe_intro safe_indexM own_exns disjI2 allI impI TrueI)

lemma safe_break_registers:
  "n \<le> count \<Longrightarrow> unat count - unat n < k \<Longrightarrow> safe server_ok (\<lambda>_. E) (break_registers k n) (\<lambda>_. True)"
proof (induction k arbitrary: n)
  case (Suc k)
  show ?case
    unfolding break_registers.simps [of "Suc k"]
  proof (simp, rule safe_bindM_post [OF safe_callbacks(5)], goal_cases)
    case (1 v)
    have "safe server_ok (\<lambda>_. E) (break_registers k (n + 1)) (\<lambda>_. True)" if "n \<noteq> count"
    proof (rule Suc.IH)
      have "n < count" using that Suc.prems(1) by simp
      then show "n + 1 \<le> count" by (rule inc_le)
      have "unat (n + 1) = unat n + 1"
        using \<open>n < count\<close> unsigned_less [of count, where ?'a = nat]
        by (simp add: unat_word_ariths word_less_nat_alt)
      with \<open>n < count\<close> Suc.prems(2) show "unat count - unat (n + 1) < k" by (simp add: word_less_nat_alt)
    qed
    with 1 show ?case by (cases v) (auto intro!: safe_intro)
  qed
qed simp

lemma safe_notify_break: "safe server_ok (\<lambda>_. E) (notify_break reason b) (\<lambda>_. True)"
proof -
  have "unat count - unat (0 :: u64) < 2 ^ 64" using unsigned_less [of count, where ?'a = nat] by simp
  then have "safe server_ok (\<lambda>_. E) (break_registers (2 ^ 64) 0) (\<lambda>_. True)" by (intro safe_break_registers) simp_all
  then show ?thesis
    unfolding notify_break_def by (intro safe_intro safe_own_update TrueI; simp)
qed

end

section \<open>Errors\<close>

text \<open>A request to run without even a separator is undefined behaviour.\<close>

theorem bare_vrun_undefined: "process_request ''vRun'' s = (Inl UndefinedBehaviour, s)"
  by (simp add: process_request_def process_vrun_request_def starts_with_def)

end
