(* ===== verification/Stack.thy ===== *)
theory Stack
  imports Gb
begin

text \<open>
  The memory the CPU uses as a stack: the interface of a byte-addressed store, its interpretations
  on the memory map and on the CPU's checked bus, the round trips of push and pop and of call and
  return, and the one case in which the assertion of \<open>RET\<close> fails.
\<close>

section \<open>The memories of the map as a store\<close>

definition peek_cell :: "('f, 'z) mm_scheme \<Rightarrow> u16 \<Rightarrow> Byte" where
  "peek_cell s a = (case cell_of a of None \<Rightarrow> ci_default | Some c \<Rightarrow> get_cell c s)"

lemma peek_set_cell:
  "memories_ok s \<Longrightarrow> cell_of a = Some c \<Longrightarrow> cell_of b \<noteq> None \<Longrightarrow>
   peek_cell (set_cell c v s) b = (if cell_of a = cell_of b then v else peek_cell s b)"
  by (auto simp: peek_cell_def get_set_cell cell_of_bound)

interpretation map_store: byte_store
  "\<lambda>a. mm_read a False" "\<lambda>a v. mm_write a v False" peek_cell memories_ok "\<lambda>_ a. cell_of a \<noteq> None"
  "\<lambda>a b. cell_of a = cell_of b"
  by unfold_locales
     (auto simp: mm_read_cell mm_write_cell peek_set_cell set_cell_ok, auto simp: peek_cell_def)

section \<open>The checked bus on the map's own memories\<close>

text \<open>No transfer is under way, or the address is one a transfer does not block.\<close>

definition bus_free :: "('f, 'z) gb_scheme \<Rightarrow> u16 \<Rightarrow> bool" where
  "bus_free s a \<longleftrightarrow> dmaStartTime s = 0 \<or> is_high_ram a"

definition ram_address :: "('f, 'z) gb_scheme \<Rightarrow> u16 \<Rightarrow> bool" where
  "ram_address s a \<longleftrightarrow> cell_of a \<noteq> None \<and> a \<notin> set (return_address_pointers s) \<and> bus_free s a"

lemma set_cell_frame [simp]:
  "cycle (set_cell c v s) = cycle s" "registers (set_cell c v s) = registers s"
  "dmaStartTime (set_cell c v s) = dmaStartTime s"
  "return_address_pointers (set_cell c v s') = return_address_pointers s'"
  "expected_return_addresses (set_cell c v s') = expected_return_addresses s'"
  "set_cell c v (s'\<lparr>cycle := n\<rparr>) = (set_cell c v s')\<lparr>cycle := n\<rparr>"
  "set_cell c v (s'\<lparr>registers := r\<rparr>) = (set_cell c v s')\<lparr>registers := r\<rparr>"
  by (cases c; simp)+

lemma memories_ok_frame [simp]:
  "memories_ok (s\<lparr>cycle := n\<rparr>) = memories_ok s" "memories_ok (s\<lparr>registers := r\<rparr>) = memories_ok s"
  "memories_ok (s'\<lparr>return_address_pointers := ps\<rparr>) = memories_ok s'"
  "memories_ok (s'\<lparr>expected_return_addresses := es\<rparr>) = memories_ok s'"
  by (simp_all add: memories_ok_def)

lemma get_cell_frame [simp]:
  "get_cell c (s\<lparr>cycle := n\<rparr>) = get_cell c s" "get_cell c (s\<lparr>registers := r\<rparr>) = get_cell c s"
  "get_cell c (s'\<lparr>return_address_pointers := ps\<rparr>) = get_cell c s'"
  "get_cell c (s'\<lparr>expected_return_addresses := es\<rparr>) = get_cell c s'"
  by (cases c; simp)+

lemma check_bus_free: "bus_free s a \<Longrightarrow> check_bus a (s\<lparr>cycle := n\<rparr>) = (Inr (), s\<lparr>cycle := n\<rparr>)"
  by (auto simp: check_bus_def isInDMA_def bus_free_def)

lemma readU8_ram:
  assumes "memories_ok s" and "ram_address s a" and "cell_of a = Some c" and "u \<or> \<not> undef (get_cell c s)"
  shows "readU8 a u s = (Inr (get_cell c s), s\<lparr>cycle := cycle s + 1\<rparr>)"
proof -
  have a: "a \<notin> set (return_address_pointers s)" "bus_free s a" using assms(2) by (simp_all add: ram_address_def)
  have r: "mm_read a False (s\<lparr>cycle := cycle s + 1\<rparr>) = (Inr (get_cell c s), s\<lparr>cycle := cycle s + 1\<rparr>)"
    using mm_read_cell [of "s\<lparr>cycle := cycle s + 1\<rparr>" a c False] assms(1,3) by simp
  show ?thesis
    using a assms(4) by (intro readU8_run [OF check_bus_free r]) simp_all
qed

lemma writeU8_ram:
  assumes "memories_ok s" and "ram_address s a" and "cell_of a = Some c" and "u \<or> \<not> undef v"
  shows "writeU8 a v u s = (Inr (), (set_cell c v s)\<lparr>cycle := cycle s + 1\<rparr>)"
proof -
  have a: "a \<notin> set (return_address_pointers s)" "bus_free s a" using assms(2) by (simp_all add: ram_address_def)
  have w: "mm_write a v False (s\<lparr>cycle := cycle s + 1\<rparr>) = (Inr (), (set_cell c v s)\<lparr>cycle := cycle s + 1\<rparr>)"
    using mm_write_cell [of "s\<lparr>cycle := cycle s + 1\<rparr>" a c v False] assms(1,3) by simp
  show ?thesis
    using a assms(4) by (intro writeU8_run [OF check_bus_free w])
qed

interpretation cpu_store: byte_store
  "\<lambda>a. readU8 a True" "\<lambda>a v. writeU8 a v True" "\<lambda>s. peek_cell s" "memories_ok" ram_address
  "\<lambda>a b. cell_of a = cell_of b"
proof (unfold_locales, goal_cases)
  case (1 s a)
  then obtain c where "cell_of a = Some c" by (auto simp: ram_address_def)
  with 1 show ?case
    by (auto simp: readU8_ram peek_cell_def ram_address_def bus_free_def fun_eq_iff split: option.splits)
next
  case (2 s a v)
  then obtain c where c: "cell_of a = Some c" by (auto simp: ram_address_def)
  with 2 have "peek_cell ((set_cell c v s)\<lparr>cycle := n\<rparr>) b = (if cell_of a = cell_of b then v else peek_cell s b)"
    if "cell_of b \<noteq> None" for b n
    using peek_set_cell [OF 2(1) c that] by (auto simp: peek_cell_def split: option.splits)
  with 2 c show ?case
    by (auto simp: writeU8_ram set_cell_ok ram_address_def bus_free_def fun_eq_iff)
qed simp

section \<open>Sixteen-bit accesses\<close>

lemma ram_address_frame [simp]:
  "ram_address (s\<lparr>cycle := n\<rparr>) a = ram_address s a" "ram_address (s\<lparr>registers := r\<rparr>) a = ram_address s a"
  "ram_address (set_cell c v s) a = ram_address s a"
  "ram_address (s\<lparr>expected_return_addresses := es\<rparr>) a = ram_address s a"
  by (simp_all add: ram_address_def bus_free_def)

lemma later_address_cell:
  assumes "cell_of a = Some c" and "cell_of b = Some d" and "unat b = unat a + 1"
  shows "c \<noteq> d"
  using assms unfolding cell_of_def
  by (auto simp: word_le_nat_alt unat_sub word_unat_eq_iff split: if_splits)

lemma next_address_cell:
  assumes "cell_of a = Some c" and "cell_of (a + 1) = Some d"
  shows "c \<noteq> d"
proof -
  have "a \<noteq> -1" using assms(2) by (auto simp: cell_of_def)
  then have "unat (a + 1) = unat a + 1"
    by (metis Suc_eq_plus1 add.commute add_eq_0_iff unatSuc)
  then show ?thesis by (rule later_address_cell [OF assms])
qed

lemma whenM_skip: "\<not> b \<Longrightarrow> whenM b m s = (Inr (), s)"
  by simp

lemma writeU16_run:
  assumes "writeU8 a (Word_lower v) True s = (Inr (), t)" and "writeU8 (a + 1) (Word_upper v) True t = r"
    and "\<not> (low_undefined v \<and> high_undefined v)"
  shows "writeU16 a v True s = r"
  by (simp add: writeU16_def assms(1,2) whenM_skip [OF assms(3)] del: whenM_run)

lemma writeU16_ram:
  assumes "memories_ok s" and "ram_address s a" and "ram_address s (a + 1)"
    and "cell_of a = Some c" and "cell_of (a + 1) = Some d" and "\<not> (low_undefined v \<and> high_undefined v)"
  shows "writeU16 a v True s =
    (Inr (), (set_cell d (Word_upper v) (set_cell c (Word_lower v) s))\<lparr>cycle := cycle s + 2\<rparr>)"
proof -
  let ?t = "(set_cell c (Word_lower v) s)\<lparr>cycle := cycle s + 1\<rparr>"
  have "writeU8 a (Word_lower v) True s = (Inr (), ?t)"
    by (rule writeU8_ram [OF assms(1,2,4)]) simp
  moreover have "writeU8 (a + 1) (Word_upper v) True ?t =
      (Inr (), (set_cell d (Word_upper v) ?t)\<lparr>cycle := cycle ?t + 1\<rparr>)"
    by (rule writeU8_ram) (simp_all add: assms set_cell_ok)
  ultimately show ?thesis
    using writeU16_run assms(6) by fastforce
qed

lemma readU16_run:
  assumes "readU8 (a + 1) u s = (Inr h, t)" and "readU8 a u t = (Inr l, t')"
    and "u \<and> \<not> (undef l \<and> undef h) \<or> \<not> undef l \<and> \<not> undef h"
  shows "readU16 a u s = (Inr (Word_bytes h l), t')"
  using assms by (cases u) (auto simp: readU16_def Let_def Word_bytes_def)

lemma readU16_ram:
  assumes "memories_ok s" and "ram_address s a" and "ram_address s (a + 1)"
    and "cell_of a = Some c" and "cell_of (a + 1) = Some d" and "get_cell c s = l" and "get_cell d s = h"
    and "u \<and> \<not> (undef l \<and> undef h) \<or> \<not> undef l \<and> \<not> undef h"
  shows "readU16 a u s = (Inr (Word_bytes h l), s\<lparr>cycle := cycle s + 2\<rparr>)"
proof -
  let ?t = "s\<lparr>cycle := cycle s + 1\<rparr>"
  have "readU8 (a + 1) u s = (Inr h, ?t)"
    using readU8_ram [OF assms(1,3,5), of u] assms(7,8) by auto
  moreover have "readU8 a u ?t = (Inr l, s\<lparr>cycle := cycle s + 2\<rparr>)"
    using readU8_ram [of ?t a c u] assms by (auto simp: add.assoc)
  ultimately show ?thesis using assms(8) by (rule readU16_run)
qed

section \<open>Push and pop\<close>

text \<open>The two bytes above the address lie in the map's own memories and nothing guards them.\<close>

definition stack_slot :: "('f, 'z) gb_scheme \<Rightarrow> u16 \<Rightarrow> bool" where
  "stack_slot s a \<longleftrightarrow> memories_ok s \<and> ram_address s a \<and> ram_address s (a + 1)"

text \<open>The state after a word has been stored in the slot.\<close>

definition stored :: "u16 \<Rightarrow> Byte \<Rightarrow> Byte \<Rightarrow> ('f, 'z) gb_scheme \<Rightarrow> ('f, 'z) gb_scheme" where
  "stored a lo hi s = set_cell (the (cell_of (a + 1))) hi (set_cell (the (cell_of a)) lo s)"

lemma stored_frame [simp]:
  "cycle (stored a lo hi s) = cycle s" "registers (stored a lo hi s) = registers s"
  "dmaStartTime (stored a lo hi s) = dmaStartTime s"
  "return_address_pointers (stored a lo hi s) = return_address_pointers s"
  "expected_return_addresses (stored a lo hi s) = expected_return_addresses s"
  "stored a lo hi (s\<lparr>cycle := n\<rparr>) = (stored a lo hi s)\<lparr>cycle := n\<rparr>"
  "stored a lo hi (s\<lparr>registers := r\<rparr>) = (stored a lo hi s)\<lparr>registers := r\<rparr>"
  "memories_ok (stored a lo hi s) = memories_ok s"
  "ram_address (stored a lo hi s) b = ram_address s b"
  by (simp_all add: stored_def set_cell_ok)

lemma stack_slot_frame [simp]:
  "stack_slot (s\<lparr>cycle := n\<rparr>) a = stack_slot s a" "stack_slot (s\<lparr>registers := r\<rparr>) a = stack_slot s a"
  "stack_slot (s\<lparr>expected_return_addresses := es\<rparr>) a = stack_slot s a"
  "stack_slot (stored b lo hi s) a = stack_slot s a"
  by (simp_all add: stack_slot_def)

lemma stack_slotE:
  assumes "stack_slot s a"
  obtains c d where "memories_ok s" "ram_address s a" "ram_address s (a + 1)"
    "cell_of a = Some c" "cell_of (a + 1) = Some d" "c \<noteq> d" "cell_bound c" "cell_bound d"
proof -
  from assms obtain c d where "cell_of a = Some c" "cell_of (a + 1) = Some d"
    by (auto simp: stack_slot_def ram_address_def)
  with assms show thesis
    using that next_address_cell cell_of_bound unfolding stack_slot_def by blast
qed

lemma writeU16_slot:
  assumes "stack_slot s a" and "\<not> (low_undefined v \<and> high_undefined v)"
  shows "writeU16 a v True s = (Inr (), (stored a (Word_lower v) (Word_upper v) s)\<lparr>cycle := cycle s + 2\<rparr>)"
  using assms(1) by (rule stack_slotE) (simp add: writeU16_ram assms(2) stored_def)

lemma readU16_slot:
  assumes "stack_slot s a" and "u \<and> \<not> (undef lo \<and> undef hi) \<or> \<not> undef lo \<and> \<not> undef hi"
  shows "readU16 a u (stored a lo hi s) = (Inr (Word_bytes hi lo), (stored a lo hi s)\<lparr>cycle := cycle s + 2\<rparr>)"
  using assms(1)
proof (rule stack_slotE)
  fix c d
  assume h: "memories_ok s" "ram_address s a" "ram_address s (a + 1)"
    "cell_of a = Some c" "cell_of (a + 1) = Some d" "c \<noteq> d" "cell_bound c" "cell_bound d"
  then have "get_cell c (stored a lo hi s) = lo" "get_cell d (stored a lo hi s) = hi"
    by (auto simp: stored_def get_set_cell set_cell_ok)
  then show ?thesis
    using readU16_ram [of "stored a lo hi s" a c d lo hi u] h assms(2) by simp
qed

text \<open>The register pair an operand names, when it names one.\<close>

fun pair_of :: "Register \<Rightarrow> Reg16 option" where
  "pair_of R_AF = Some Reg16_AF"
| "pair_of R_HL = Some Reg16_HL"
| "pair_of R_BC = Some Reg16_BC"
| "pair_of R_DE = Some Reg16_DE"
| "pair_of R_SP = Some Reg16_SP"
| "pair_of R_PC = Some Reg16_PC"
| "pair_of _ = None"

lemma getRegU16_run: "pair_of r = Some q \<Longrightarrow> getRegU16 r s = (Inr (regU16 q (registers s)), s)"
  by (cases r) (auto simp: getU16_def)

lemma PUSH_run:
  assumes "pair_of r = Some q" and "q \<noteq> Reg16_SP" and "reg_sp (registers s) = a + 2" and "stack_slot s a"
    and "w = regU16 q (registers s)" and "\<not> (low_undefined w \<and> high_undefined w)"
  shows "PUSH r s = (Inr (), (stored a (Word_lower w) (Word_upper w) s)
    \<lparr>cycle := cycle s + 3, registers := (registers s)\<lparr>reg_sp := a\<rparr>\<rparr>)"
proof -
  let ?t = "s\<lparr>cycle := cycle s + 1, registers := (registers s)\<lparr>reg_sp := a\<rparr>\<rparr>"
  have "regU16 q (registers ?t) = w" using assms(2,5) by (cases q) simp_all
  then have "getRegU16 r ?t = (Inr w, ?t)" using getRegU16_run [OF assms(1), of ?t] by simp
  moreover have "writeU16 a w True ?t = (Inr (), (stored a (Word_lower w) (Word_upper w) ?t)\<lparr>cycle := cycle ?t + 2\<rparr>)"
    by (rule writeU16_slot) (use assms in auto)
  ultimately show ?thesis
    by (simp add: PUSH_def set_sp_def assms(3) add.assoc)
qed

lemma undef_halves: "undef (Word_upper w) = high_undefined w" "undef (Word_lower w) = low_undefined w"
  by (simp_all add: Word_upper_def Word_lower_def)

lemma Word_halves:
  "high_undefined (Word_bytes (Word_upper w) (Word_lower w)) = high_undefined w"
  "low_undefined (Word_bytes (Word_upper w) (Word_lower w)) = low_undefined w"
  "data (base (Word_bytes (Word_upper w) (Word_lower w))) = data (base w)"
  by (simp_all add: Word_bytes_def Word_upper_def Word_lower_def split_bytes_join)

lemma POP_run:
  assumes "stack_slot s a" and "reg_sp (registers s) = a" and "\<not> (undef lo \<and> undef hi)"
    and "setRegU16 r (Word_bytes hi lo) ((stored a lo hi s)\<lparr>cycle := cycle s + 2\<rparr>) =
      (Inr (), (stored a lo hi s)\<lparr>cycle := cycle s + 2, registers := q\<rparr>)"
  shows "POP r (stored a lo hi s) = (Inr (), (stored a lo hi s)\<lparr>cycle := cycle s + 2, registers := q\<lparr>reg_sp := reg_sp q + 2\<rparr>\<rparr>)"
proof -
  have "readU16 a True (stored a lo hi s) = (Inr (Word_bytes hi lo), (stored a lo hi s)\<lparr>cycle := cycle s + 2\<rparr>)"
    using assms(3) by (intro readU16_slot [OF assms(1)]) simp
  then show ?thesis using assms(2,4) by (simp add: POP_def set_sp_def)
qed

text \<open>The register file after a word has been assigned to a pair; the flags have no low nibble.\<close>

fun with_pair :: "Reg16 \<Rightarrow> Word \<Rightarrow> CPURegisters \<Rightarrow> CPURegisters" where
  "with_pair Reg16_AF w r = r\<lparr>reg_a := Word_upper w,
     reg_f := ci_flags (data (Word_lower w) AND 0xF0) (derived_from_sp (Word_lower w)) False\<rparr>"
| "with_pair Reg16_BC w r = r\<lparr>reg_b := Word_upper w, reg_c := Word_lower w\<rparr>"
| "with_pair Reg16_DE w r = r\<lparr>reg_d := Word_upper w, reg_e := Word_lower w\<rparr>"
| "with_pair Reg16_HL w r = r\<lparr>reg_h := Word_upper w, reg_l := Word_lower w\<rparr>"
| "with_pair _ w r = r"

lemma with_pair_simps:
  assumes "q \<in> {Reg16_AF, Reg16_BC, Reg16_DE, Reg16_HL}"
  shows "reg_sp (with_pair q w r) = reg_sp r" "p \<noteq> q \<Longrightarrow> regU16 p (with_pair q w r) = regU16 p r"
    "q \<noteq> Reg16_AF \<Longrightarrow> regU16 q (with_pair q w r) = Word_bytes (Word_upper w) (Word_lower w)"
  using assms by (cases q; cases p; auto)+

lemma mask_low_byte:
  "push_bit 8 (ucast (ucast (drop_bit 8 (w :: u16)) :: u8)) OR ucast (ucast (w AND 0xFF) AND 0xF0 :: u8) = w AND 0xFFF0"
proof -
  have m: "(0xFF :: u16) = mask 8" "(0xF0 :: u8) = push_bit 4 (mask 4)" "(0xFFF0 :: u16) = push_bit 4 (mask 12)"
    by (simp_all add: mask_eq_exp_minus_1)
  show ?thesis
    unfolding m
  proof (rule bit_eqI)
    fix n
    show "bit (push_bit 8 (ucast (ucast (drop_bit 8 w) :: u8)) OR ucast (ucast (w AND mask 8) AND push_bit 4 (mask 4) :: u8) :: u16) n
      \<longleftrightarrow> bit (w AND push_bit 4 (mask 12)) n"
      by (cases "n < 8") (auto simp: bit_simps dest: bit_imp_le_length)
  qed
qed

lemma AF_from_pair:
  assumes "\<not> low_undefined w"
  shows "data (base (regU16 Reg16_AF (with_pair Reg16_AF w r))) = data (base w) AND 0xFFF0"
    "high_undefined (regU16 Reg16_AF (with_pair Reg16_AF w r)) = high_undefined w"
    "\<not> low_undefined (regU16 Reg16_AF (with_pair Reg16_AF w r))"
  using mask_low_byte [of "data (base w)"]
  by (simp_all add: Word_bytes_def Word_upper_def Word_lower_def)

lemma setRegU16_run:
  assumes "pair_of r = Some q" and "r \<in> {R_AF, R_BC, R_DE, R_HL}" and "r = R_AF \<Longrightarrow> \<not> low_undefined w"
  shows "setRegU16 r w s = (Inr (), s\<lparr>registers := with_pair q w (registers s)\<rparr>)"
  using assms by (cases r) (auto simp: undef_halves)

lemma general_pair:
  "pair_of r = Some q \<Longrightarrow> r \<in> {R_AF, R_BC, R_DE, R_HL} \<Longrightarrow> q \<in> {Reg16_AF, Reg16_BC, Reg16_DE, Reg16_HL}"
  "pair_of r = Some q \<Longrightarrow> q = Reg16_AF \<longleftrightarrow> r = R_AF"
  by (cases r; auto)+

lemma POP_AF_throws:
  assumes "stack_slot s a" and "reg_sp (registers s) = a" and "undef lo" and "\<not> undef hi"
    and "\<not> error_kind_permitted s undefined_data"
  shows "fst (POP R_AF (stored a lo hi s)) = Inl (Thrown undefined_data)"
proof -
  have "readU16 a True (stored a lo hi s) = (Inr (Word_bytes hi lo), (stored a lo hi s)\<lparr>cycle := cycle s + 2\<rparr>)"
    using assms(4) by (intro readU16_slot [OF assms(1)]) simp
  moreover have "error_kind_permitted ((stored a lo hi s)\<lparr>cycle := n, registers := r\<rparr>) = error_kind_permitted s" for n r
    by (cases "the (cell_of a)"; cases "the (cell_of (a + 1))") (simp_all add: stored_def)
  then have "\<exists>t. setRegU16 R_AF (Word_bytes hi lo) ((stored a lo hi s)\<lparr>cycle := cycle s + 2\<rparr>) =
      (Inl (Thrown undefined_data), t)"
    using assms(3,5) by (simp add: undef_halves ci_and_def throw_error_run)
  ultimately show ?thesis using assms(2) by (auto simp: POP_def)
qed

text \<open>
  C15. Any pair pushed and popped into any pair arrives there byte by byte, undefined halves included; into AF the
  low nibble is dropped, and a low half that is undefined is an error there, as the flags are masked. The stack pointer
  and the other pairs are as before, after five cycles.
\<close>

theorem PUSH_POP_moves_pair:
  assumes "r \<in> {R_AF, R_BC, R_DE, R_HL}" and "r' \<in> {R_AF, R_BC, R_DE, R_HL}"
    and "pair_of r = Some q" and "pair_of r' = Some q'" and "w = regU16 q (registers s)"
    and "reg_sp (registers s) = a + 2" and "stack_slot s a" and "\<not> (low_undefined w \<and> high_undefined w)"
  shows "(r' = R_AF \<and> low_undefined w \<and> \<not> error_kind_permitted s undefined_data \<longrightarrow>
      fst (thenM (PUSH r) (POP r') s) = Inl (Thrown undefined_data)) \<and>
    (r' \<noteq> R_AF \<or> \<not> low_undefined w \<longrightarrow>
      (\<exists>t. thenM (PUSH r) (POP r') s = (Inr (), t) \<and> cycle t = cycle s + 5 \<and>
        data (base (regU16 q' (registers t))) = (if r' = R_AF then data (base w) AND 0xFFF0 else data (base w)) \<and>
        high_undefined (regU16 q' (registers t)) = high_undefined w \<and>
        low_undefined (regU16 q' (registers t)) = low_undefined w \<and>
        (\<forall>p. p \<noteq> q' \<longrightarrow> regU16 p (registers t) = regU16 p (registers s))))"
proof (intro conjI impI)
  let ?r = "(registers s)\<lparr>reg_sp := a\<rparr>"
  let ?lo = "Word_lower w" and ?hi = "Word_upper w"
  let ?s1 = "s\<lparr>cycle := cycle s + 3, registers := ?r\<rparr>"
  have push: "PUSH r s = (Inr (), stored a ?lo ?hi ?s1)"
    using assms by (subst PUSH_run [where q = q and a = a and w = w]) auto
  { assume "r' = R_AF \<and> low_undefined w \<and> \<not> error_kind_permitted s undefined_data"
    then have "fst (POP r' (stored a ?lo ?hi ?s1)) = Inl (Thrown undefined_data)"
      using POP_AF_throws [of ?s1 a ?lo ?hi] assms(7,8) by (auto simp: undef_halves)
    with push show "fst (thenM (PUSH r) (POP r') s) = Inl (Thrown undefined_data)" by simp }
  assume defined: "r' \<noteq> R_AF \<or> \<not> low_undefined w"
  let ?v = "Word_bytes ?hi ?lo"
  let ?t = "(stored a ?lo ?hi ?s1)\<lparr>cycle := cycle s + 5, registers := (with_pair q' ?v ?r)\<lparr>reg_sp := a + 2\<rparr>\<rparr>"
  note q' = general_pair(1) [OF assms(4,2)]
  have "POP r' (stored a ?lo ?hi ?s1) = (Inr (), ?t)"
    using assms(2,4,7,8) defined with_pair_simps(1) [OF q']
    by (subst POP_run [where q = "with_pair q' ?v ?r"])
       (auto simp: setRegU16_run undef_halves add.assoc)
  moreover have "regU16 p (registers ?t) = regU16 p (registers s)" if "p \<noteq> q'" for p
    using that with_pair_simps(2) [OF q', of p ?v ?r] assms(6) by (cases p) auto
  moreover have "regU16 q' (registers ?t) = regU16 q' (with_pair q' ?v ?r)" using q' by auto
  moreover have "data (base (regU16 q' (with_pair q' ?v ?r))) =
        (if r' = R_AF then data (base w) AND 0xFFF0 else data (base w)) \<and>
      high_undefined (regU16 q' (with_pair q' ?v ?r)) = high_undefined w \<and>
      low_undefined (regU16 q' (with_pair q' ?v ?r)) = low_undefined w"
    using defined AF_from_pair [of ?v ?r] with_pair_simps(3) [OF q', of ?v ?r] general_pair(2) [OF assms(4)]
    by (auto simp: Word_halves undef_halves)
  ultimately show "\<exists>t. thenM (PUSH r) (POP r') s = (Inr (), t) \<and> cycle t = cycle s + 5 \<and>
        data (base (regU16 q' (registers t))) = (if r' = R_AF then data (base w) AND 0xFFF0 else data (base w)) \<and>
        high_undefined (regU16 q' (registers t)) = high_undefined w \<and>
        low_undefined (regU16 q' (registers t)) = low_undefined w \<and>
        (\<forall>p. p \<noteq> q' \<longrightarrow> regU16 p (registers t) = regU16 p (registers s))"
    using push by (intro exI [of _ ?t]) simp
qed

section \<open>Call and return\<close>

lemma CALL_run:
  assumes "reg_sp (registers s) = a + 2" and "stack_slot s a" and "is_valid_pc nn"
    and "w = Word_of (lit (reg_pc (registers s)))"
  shows "CALL_nn nn s = (Inr (), (stored a (Word_lower w) (Word_upper w) s)
    \<lparr>cycle := cycle s + 3, registers := (registers s)\<lparr>reg_sp := a, reg_pc := nn\<rparr>,
     return_address_pointers := return_address_pointers s @ [a + 1, a],
     expected_return_addresses := expected_return_addresses s @ [reg_pc (registers s)]\<rparr>)"
proof -
  have "PUSH R_PC s = (Inr (), (stored a (Word_lower w) (Word_upper w) s)
    \<lparr>cycle := cycle s + 3, registers := (registers s)\<lparr>reg_sp := a\<rparr>\<rparr>)"
    using assms by (intro PUSH_run [where q = Reg16_PC]) (auto simp: Word_of_def)
  then show ?thesis
    using assms(3) by (simp add: CALL_nn_def push_call_frame_def setPC_run)
qed

lemma pop_snoc:
  "return_address_pointers s = ps @ [p] \<Longrightarrow> pop_pointer s = (Inr p, s\<lparr>return_address_pointers := ps\<rparr>)"
  "expected_return_addresses s = es @ [e] \<Longrightarrow> pop_expected s = (Inr e, s\<lparr>expected_return_addresses := es\<rparr>)"
  by (simp_all add: pop_pointer_def pop_expected_def pop_back_def)

lemma RET_from_frame:
  assumes "return_address_pointers s = ps @ [a + 1, a]" and "expected_return_addresses s = es @ [pc]"
    and "uint (a + 1) = uint a + 1" and "reg_sp (registers s) = a"
    and "readU16 a False (s\<lparr>return_address_pointers := ps, expected_return_addresses := es\<rparr>) = (Inr w, t)"
    and "\<not> undef (base w)" and "data (base w) = pc" and "is_valid_pc pc"
  shows "RET s = (Inr (), t\<lparr>cycle := cycle t + 1,
    registers := (registers t)\<lparr>reg_sp := reg_sp (registers t) + 2, reg_pc := pc\<rparr>\<rparr>)"
proof -
  have p1: "pop_pointer s = (Inr a, s\<lparr>return_address_pointers := ps @ [a + 1]\<rparr>)"
    by (rule pop_snoc) (simp add: assms(1))
  have p2: "pop_pointer (s\<lparr>return_address_pointers := ps @ [a + 1]\<rparr>) =
      (Inr (a + 1), s\<lparr>return_address_pointers := ps\<rparr>)"
    by (subst pop_snoc(1)) simp_all
  have e: "pop_expected (s\<lparr>return_address_pointers := ps\<rparr>) =
      (Inr pc, s\<lparr>return_address_pointers := ps, expected_return_addresses := es\<rparr>)"
    by (subst pop_snoc(2)) (simp_all add: assms(2))
  show ?thesis
    by (simp add: RET_def p1 p2 e assms(3-8) JP_nn_def set_sp_def setPC_run)
qed

lemma shadow_stacks_eta:
  "return_address_pointers s = ps \<Longrightarrow> expected_return_addresses s = es \<Longrightarrow>
   s\<lparr>return_address_pointers := ps, expected_return_addresses := es\<rparr> = s"
  by (cases s) simp

lemma registers_eta: "registers s = r \<Longrightarrow> s\<lparr>cycle := n, registers := r\<rparr> = s\<lparr>cycle := n\<rparr>"
  by (cases s) simp

lemma sp_pc_eta: "reg_sp r = x \<Longrightarrow> reg_pc r = y \<Longrightarrow> r\<lparr>reg_sp := x, reg_pc := y\<rparr> = r"
  by (cases r) simp

lemma stack_slot_next: "stack_slot s a \<Longrightarrow> uint (a + 1) = uint a + 1"
proof -
  assume "stack_slot s a"
  then have "cell_of (a + 1) \<noteq> None" by (simp add: stack_slot_def ram_address_def)
  then have "a + 1 \<noteq> 0" by (auto simp: cell_of_def)
  then have "unat (a + 1) = unat a + 1" by (metis Suc_eq_plus1 add.commute unatSuc)
  then show ?thesis unfolding uint_nat by (simp only: of_nat_add of_nat_1)
qed

text \<open>
  C16. A call followed by a return restores every register and both shadow stacks and takes six
  cycles; only the two bytes of the return address stay behind in memory.
\<close>

theorem CALL_RET_restores:
  assumes "reg_sp (registers s) = a + 2" and "stack_slot s a" and "is_valid_pc nn"
    and "is_valid_pc (reg_pc (registers s))"
  shows "\<exists>lo hi. thenM (CALL_nn nn) RET s = (Inr (), (stored a lo hi s)\<lparr>cycle := cycle s + 6\<rparr>) \<and>
    data (base (Word_bytes hi lo)) = reg_pc (registers s)"
proof -
  let ?w = "Word_of (lit (reg_pc (registers s)))" and ?pc = "reg_pc (registers s)"
  let ?lo = "Word_lower ?w" and ?hi = "Word_upper ?w"
  let ?s = "s\<lparr>cycle := cycle s + 3, registers := (registers s)\<lparr>reg_sp := a, reg_pc := nn\<rparr>\<rparr>"
  let ?t = "(stored a ?lo ?hi ?s)\<lparr>return_address_pointers := return_address_pointers s @ [a + 1, a],
     expected_return_addresses := expected_return_addresses s @ [?pc]\<rparr>"
  let ?u = "(stored a ?lo ?hi ?s)\<lparr>cycle := cycle ?s + 2\<rparr>"
  have call: "CALL_nn nn s = (Inr (), ?t)" using CALL_run [OF assms(1-3) refl] by simp
  have same: "?t\<lparr>return_address_pointers := return_address_pointers s,
      expected_return_addresses := expected_return_addresses s\<rparr> = stored a ?lo ?hi ?s"
    using shadow_stacks_eta [of "stored a ?lo ?hi ?s"] by simp
  have read: "readU16 a False (stored a ?lo ?hi ?s) =
      (Inr (Word_bytes ?hi ?lo), (stored a ?lo ?hi ?s)\<lparr>cycle := cycle ?s + 2\<rparr>)"
    by (rule readU16_slot) (use assms(2) in \<open>simp_all add: undef_halves Word_of_def\<close>)
  have "RET ?t = (Inr (), ?u\<lparr>cycle := cycle ?u + 1,
      registers := (registers ?u)\<lparr>reg_sp := reg_sp (registers ?u) + 2, reg_pc := ?pc\<rparr>\<rparr>)"
  proof (rule RET_from_frame)
    show "return_address_pointers ?t = return_address_pointers s @ [a + 1, a]" by simp
    show "expected_return_addresses ?t = expected_return_addresses s @ [?pc]" by simp
    show "uint (a + 1) = uint a + 1" by (rule stack_slot_next [OF assms(2)])
    show "reg_sp (registers ?t) = a" by simp
    show "readU16 a False (?t\<lparr>return_address_pointers := return_address_pointers s,
        expected_return_addresses := expected_return_addresses s\<rparr>) = (Inr (Word_bytes ?hi ?lo), ?u)"
      unfolding same by (rule read)
    show "\<not> undef (base (Word_bytes ?hi ?lo))" by (simp add: Word_bytes_def undef_halves Word_of_def)
    show "data (base (Word_bytes ?hi ?lo)) = ?pc" by (simp add: Word_halves Word_of_def)
  qed (rule assms(4))
  moreover have "(registers ?u)\<lparr>reg_sp := reg_sp (registers ?u) + 2, reg_pc := ?pc\<rparr> = registers s"
    using assms(1) by (simp add: sp_pc_eta)
  ultimately have "RET ?t = (Inr (), (stored a ?lo ?hi s)\<lparr>cycle := cycle s + 6\<rparr>)"
    by (simp add: registers_eta)
  with call show ?thesis
    by (intro exI [of _ ?lo] exI [of _ ?hi]) (simp add: Word_halves Word_of_def)
qed

section \<open>A return address that wraps around the address space\<close>

lemma wrap_address [simp]: "(65536 :: u16) = 0"
  by simp

lemma RET_assert_fails:
  assumes "return_address_pointers s = ps @ [0, 0xFFFF]"
  shows "fst (RET s) = Inl AssertFailed"
proof -
  have p1: "pop_pointer s = (Inr 0xFFFF, s\<lparr>return_address_pointers := ps @ [0]\<rparr>)"
    by (rule pop_snoc) (simp add: assms)
  have p2: "pop_pointer (s\<lparr>return_address_pointers := ps @ [0]\<rparr>) = (Inr 0, s\<lparr>return_address_pointers := ps\<rparr>)"
    by (subst pop_snoc(1)) simp_all
  show ?thesis by (simp add: RET_def p1 p2)
qed

lemma mbc1_mode_write:
  assumes "controller_of s = Mbc1 c" and "\<not> bankedRamMode c"
  shows "mm_write 0 v d s = (Inr (), s)"
proof -
  have "s\<lparr>controller_of := Mbc1 c\<rparr> = s" using assms(1) by (cases s) simp
  then show ?thesis
    using assms by (simp add: mm_write_def write_with_def cartridge_write_def mbc1_write_def)
qed

text \<open>
  C17. On a cartridge with a bank controller, a call made with the stack pointer at one stores its
  return address at the last and the first address of the address space; the assertion in the
  matching return, which compares the stored addresses as unbounded integers, then fails.
\<close>

theorem RET_after_wrapped_CALL_aborts:
  assumes "memories_ok s" and "reg_sp (registers s) = 1" and "controller_of s = Mbc1 c"
    and "\<not> bankedRamMode c" and "dmaStartTime s = 0" and "0 \<notin> set (return_address_pointers s)"
    and "0xFFFF \<notin> set (return_address_pointers s)" and "is_valid_pc nn"
  shows "fst (thenM (CALL_nn nn) RET s) = Inl AssertFailed"
proof -
  let ?w = "Word_of (lit (reg_pc (registers s)))"
  let ?s = "s\<lparr>cycle := cycle s + 1, registers := (registers s)\<lparr>reg_sp := 0xFFFF\<rparr>\<rparr>"
  let ?t = "(set_cell (High 0x7F) (Word_lower ?w) ?s)\<lparr>cycle := cycle ?s + 1\<rparr>"
  have "writeU8 0xFFFF (Word_lower ?w) True ?s = (Inr (), ?t)"
    by (rule writeU8_ram) (simp_all add: assms ram_address_def bus_free_def cell_of_def)
  moreover have "writeU8 (0xFFFF + 1) (Word_upper ?w) True ?t = (Inr (), ?t\<lparr>cycle := cycle ?t + 1\<rparr>)"
  proof (rule writeU8_run)
    show "check_bus (0xFFFF + 1) (?t\<lparr>cycle := cycle ?t + 1\<rparr>) = (Inr (), ?t\<lparr>cycle := cycle ?t + 1\<rparr>)"
      by (rule check_bus_free) (simp add: assms bus_free_def)
    show "mm_write (0xFFFF + 1) (Word_upper ?w) False (?t\<lparr>cycle := cycle ?t + 1\<rparr>) =
        (Inr (), ?t\<lparr>cycle := cycle ?t + 1\<rparr>)"
      using mbc1_mode_write [of "?t\<lparr>cycle := cycle ?t + 1\<rparr>" c] assms(3,4) by simp
  qed (simp_all add: assms)
  ultimately have "writeU16 0xFFFF ?w True ?s = (Inr (), ?t\<lparr>cycle := cycle ?t + 1\<rparr>)"
    by (rule writeU16_run) (simp add: Word_of_def)
  moreover have "reg_sp (registers s) - 2 = 0xFFFF" using assms(2) by simp
  ultimately have "PUSH R_PC s = (Inr (), ?t\<lparr>cycle := cycle ?t + 1\<rparr>)"
    by (simp add: PUSH_def set_sp_def getU16_def)
  then have "CALL_nn nn s = (Inr (), ?t\<lparr>cycle := cycle ?t + 1,
      registers := (registers ?t)\<lparr>reg_pc := nn\<rparr>,
      return_address_pointers := return_address_pointers s @ [0xFFFF + 1, 0xFFFF],
      expected_return_addresses := expected_return_addresses s @ [reg_pc (registers s)]\<rparr>)"
    by (simp add: CALL_nn_def push_call_frame_def setPC_run assms(8))
  then show ?thesis
    by (simp add: RET_assert_fails [where ps = "return_address_pointers s"])
qed

section \<open>The properties at concrete inputs\<close>

lemma switched_on_slot: "stack_slot switched_on 0xFFFC"
  by (simp add: stack_slot_def memories_ok_def ram_address_def cell_of_def bus_free_def)

lemma PUSH_POP_moves_pair_witness:
  "\<exists>t. thenM (PUSH R_BC) (POP R_AF) switched_on = (Inr (), t) \<and>
    data (base (regU16 Reg16_AF (registers t))) = 0x10"
  using PUSH_POP_moves_pair [of R_BC R_AF Reg16_BC Reg16_AF _ switched_on "0xFFFC", OF _ _ _ _ refl] switched_on_slot
  by (auto simp: initial_registers_def Word_bytes_def)

lemma CALL_RET_restores_witness:
  "\<exists>lo hi. thenM (CALL_nn 0x4000) RET switched_on = (Inr (), (stored 0xFFFC lo hi switched_on)\<lparr>cycle := 6\<rparr>)"
  using CALL_RET_restores [where s = switched_on and a = "0xFFFC" and nn = "0x4000"] switched_on_slot
  by (auto simp: initial_registers_def is_valid_pc_def)

lemma RET_after_wrapped_CALL_aborts_witness:
  "fst (thenM (CALL_nn 0x4000) RET (switched_on\<lparr>registers := initial_registers\<lparr>reg_sp := 1\<rparr>,
     controller_of := Mbc1 (make_mbc1 [])\<rparr>)) = Inl AssertFailed"
  by (rule RET_after_wrapped_CALL_aborts [where c = "make_mbc1 []"])
     (simp_all add: memories_ok_def make_mbc1_def is_valid_pc_def)

section \<open>The bus as a store\<close>

lemma cell_of_nat:
  "cell_of a =
     (if 0xC000 \<le> unat a \<and> unat a \<le> 0xDFFF then Some (Ram (unat a - 0xC000))
      else if 0xE000 \<le> unat a \<and> unat a \<le> 0xFDFF then Some (Ram (unat a - 0xE000))
      else if 0xFF80 \<le> unat a then Some (High (unat a - 0xFF80))
      else None)"
proof -
  have "unat a < 0x10000" using unsigned_less [of a] by simp
  then show ?thesis
    unfolding cell_of_def by (auto simp: word_le_nat_alt unat_sub word_unat_eq_iff)
qed

lemma same_cell_iff:
  assumes "cell_of a \<noteq> None" and "cell_of b \<noteq> None"
  shows "cell_of a = cell_of b \<longleftrightarrow> a = b \<or>
    unat b = unat a + 0x2000 \<and> unat a \<le> 0xDDFF \<or> unat a = unat b + 0x2000 \<and> unat b \<le> 0xDDFF"
  using assms unfolding cell_of_nat word_unat_eq_iff [of a b]
  by (auto split: if_splits)

text \<open>
  C18. Work RAM, its echo and high RAM behave as one store behind the checked bus: a read
  returns what was last written to the same address or to the address it echoes, and the old
  contents elsewhere.
\<close>

theorem bus_write_then_read:
  assumes "memories_ok s" and "ram_address s a" and "ram_address s b"
  shows "\<exists>s'. thenM (writeU8 a v True) (readU8 b True) s =
    (Inr (if a = b \<or> unat b = unat a + 0x2000 \<and> unat a \<le> 0xDDFF \<or> unat a = unat b + 0x2000 \<and> unat b \<le> 0xDDFF
          then v else peek_cell s b), s') \<and> memories_ok s'"
proof -
  have "cell_of a \<noteq> None" "cell_of b \<noteq> None" using assms(2,3) by (simp_all add: ram_address_def)
  note same = same_cell_iff [OF this, symmetric]
  show ?thesis unfolding same by (rule cpu_store.store_load [OF assms])
qed

lemma bus_write_then_read_witness:
  "\<exists>s'. thenM (writeU8 0xC123 (lit 7) True) (readU8 0xE123 True) switched_on = (Inr (lit 7), s') \<and> memories_ok s'"
  using bus_write_then_read [of switched_on "0xC123" "0xE123" "lit 7"]
  by (simp add: memories_ok_def ram_address_def cell_of_def bus_free_def)

end
