(* ===== verification/GdbServer.thy ===== *)
theory GdbServer
  imports Remote Stack
begin

text \<open>
  \<^verbatim>\<open>libgb/gdb_server.cpp\<close>: the callbacks that let the remote server inspect and
  control the machine, the loading of a program, and the loop that alternates between the debugger and
  the program. What is not under \<^verbatim>\<open>src/\<close> (the environment variable, the temporary name,
  the command processor, files) is the record \<open>host\<close>.
\<close>

section \<open>The session the callbacks capture\<close>

text \<open>
  The machine is a null pointer until a program is loaded; the frontend is null once it was moved
  into a machine. The error tables are global: while there is no machine they stand apart.
\<close>

record 'f session =
  machine :: "'f gb option"
  spare_frontend :: "'f frontend option"
  is_halted :: bool
  errors :: errs

record host =
  getenv_toolchain :: "string option"
  tmpnam :: string
  system_status :: "string \<Rightarrow> int"
  read_file :: "string \<Rightarrow> u8 list option"
  audio_sample_freq :: u64

text \<open>A member of the machine through the pointer: undefined when it is null.\<close>

definition on_machine :: "('f gb, 'a) M \<Rightarrow> ('f session, 'a) M" where
  "on_machine m = (\<lambda>s. case machine s of
     None \<Rightarrow> (Inl UndefinedBehaviour, s)
   | Some g \<Rightarrow> (case m g of (r, g') \<Rightarrow> (r, s\<lparr>machine := Some g'\<rparr>)))"

definition catchM :: "('s, 'e, 'a) sem \<Rightarrow> ('e \<Rightarrow> ('s, 'e, 'a) sem) \<Rightarrow> ('s, 'e, 'a) sem" where
  "catchM m h = (\<lambda>s. case m s of (Inl e, s') \<Rightarrow> h e s' | (Inr v, s') \<Rightarrow> (Inr v, s'))"

section \<open>Loading a program\<close>

definition current_errors :: "'f session \<Rightarrow> errs" where
  "current_errors s = (case machine s of None \<Rightarrow> errors s | Some g \<Rightarrow> errs.truncate g)"

definition set_errors :: "errs \<Rightarrow> 'f session \<Rightarrow> 'f session" where
  "set_errors e s = (case machine s of
     None \<Rightarrow> s\<lparr>errors := e\<rparr>
   | Some g \<Rightarrow> s\<lparr>machine := Some (g\<lparr>error_count := error_count e, error_kind_permitted := error_kind_permitted e\<rparr>)\<rparr>)"

text \<open>\<open>std::make_unique<GB>\<close>, with the errors counted in the global tables.\<close>

definition make_GB :: "host \<Rightarrow> string \<Rightarrow> 'f frontend option \<Rightarrow> ('f session, 'f gb) M" where
  "make_GB h name fe =
     bindM (getM current_errors) (\<lambda>e.
     case GB (read_file h) (audio_sample_freq h) name fe e of
       (Inl x, e') \<Rightarrow> thenM (modM (set_errors e')) (raiseM x)
     | (Inr g, _) \<Rightarrow> returnM g)"

definition run_command :: "host \<Rightarrow> string \<Rightarrow> ('s, unit) M" where
  "run_command h cmd =
     whenM (system_status h (takeWhile (\<lambda>c. c \<noteq> CHR 0x00) cmd) \<noteq> 0)
       (raiseM (RuntimeError ''Command returned non-zero opcode''))"

definition load_from_elf :: "host \<Rightarrow> 'f frontend option \<Rightarrow> string \<Rightarrow> ('f session, 'f gb) M" where
  "load_from_elf h fe elf_path =
     (let toolchain_prefix = (case getenv_toolchain h of None \<Rightarrow> [] | Some bin \<Rightarrow> bin @ ''/'');
          tmp_name = tmpnam h
      in thenM (run_command h (toolchain_prefix @ ''llvm-objcopy -O binary '' @ elf_path @ '' '' @ tmp_name @
                 '' --gap-fill 0''))
         (make_GB h tmp_name fe))"

text \<open>\<open>std::move\<close> of the frontend, which leaves a null pointer behind.\<close>

definition move_frontend :: "('f session, 'f frontend option) M" where
  "move_frontend =
     bindM (getM spare_frontend) (\<lambda>fe.
     thenM (modM (\<lambda>s. s\<lparr>spare_frontend := None\<rparr>)) (returnM fe))"

definition install :: "'f gb \<Rightarrow> ('f session, unit) M" where
  "install g = modM (\<lambda>s. s\<lparr>machine := Some g\<rparr>)"

section \<open>The callbacks\<close>

definition peek_byte :: "u16 \<Rightarrow> ('f session, u8) M" where
  "peek_byte a =
     catchM (bindM (on_machine (gb_readU8 a)) (\<lambda>v. returnM (decay_or v 0xde)))
       (\<lambda>e. if e = Thrown illegal_memory_address then returnM 0 else raiseM e)"

function memory_callback_from :: "u64 \<Rightarrow> u64 \<Rightarrow> u64 \<Rightarrow> ('f session, u8 list) M" where
  "memory_callback_from addr bytes offset =
     (if \<not> offset < bytes then returnM []
      else if 0xFFFF < addr + offset then returnM []
      else bindM (peek_byte (ucast (addr + offset))) (\<lambda>b.
           bindM (memory_callback_from addr bytes (offset + 1)) (\<lambda>result. returnM (b # result))))"
  by pat_completeness auto
termination
proof (relation "measure (\<lambda>(addr, bytes, offset). 0x10000 - unat (addr + offset))", goal_cases)
  case (2 addr bytes offset)
  then have small: "unat (addr + offset) \<le> 0xFFFF" by (simp add: word_less_nat_alt)
  then have "unat (addr + (offset + 1)) = unat (addr + offset) + 1"
    unfolding add.assoc [symmetric] by (simp add: unat_word_ariths(1) [of "addr + offset" 1])
  with small show ?case by simp
qed simp

declare memory_callback_from.simps [simp del]

definition memory_callback :: "u64 \<Rightarrow> u64 \<Rightarrow> ('f session, u8 list) M" where
  "memory_callback addr bytes = memory_callback_from addr bytes 0"

definition register_callback :: "u64 \<Rightarrow> ('f session, u16 option) M" where
  "register_callback regno =
     (if 5 < regno then returnM None
      else on_machine (getM (\<lambda>g.
        Some (decay_or (base (regU16 ([Reg16_AF, Reg16_BC, Reg16_DE, Reg16_HL, Reg16_SP, Reg16_PC] ! unat regno)
          (comitted_registers g))) 0xde))))"

definition run_elf_callback :: "host \<Rightarrow> string \<Rightarrow> ('f session, unit) M" where
  "run_elf_callback h elf = bindM (bindM move_frontend (\<lambda>fe. load_from_elf h fe elf)) install"

definition is_attached_callback :: "('f session, bool) M" where
  "is_attached_callback = getM (\<lambda>s. \<not> Option.is_none (machine s))"

definition continue_callback :: "u64 option \<Rightarrow> ('f session, unit) M" where
  "continue_callback addr =
     thenM (case addr of
              None \<Rightarrow> returnM ()
            | Some a \<Rightarrow> on_machine (updR (\<lambda>r. r\<lparr>reg_pc := ucast a\<rparr>)))
     (modM (\<lambda>s. s\<lparr>is_halted := False\<rparr>))"

definition kill_callback :: "u16 \<Rightarrow> ('f session, u16) M" where
  "kill_callback port =
     thenM (on_machine gb_reset)
     (thenM (modM (\<lambda>s. s\<lparr>is_halted := True\<rparr>))
     (returnM port))"

definition gdb_server :: "host \<Rightarrow> u16 \<Rightarrow> 'f session \<Rightarrow> string option list \<Rightarrow> int list \<Rightarrow> 'f session remote" where
  "gdb_server h port session packets results =
     \<lparr>m_listen_fd = - 1, m_gdb_connection_fd = - 1,
      m_register_names = [''af'', ''bc'', ''de'', ''hl'', ''sp'', ''pc''],
      m_is_in_step = False, m_breakpoints = {},
      read_register_value = register_callback, read_memory = memory_callback,
      run_elf = run_elf_callback h, is_attached = is_attached_callback,
      do_continue = continue_callback, do_kill = kill_callback port,
      captured = session, received = packets, answers = results, actions = []\<rparr>"

section \<open>The main loop\<close>

text \<open>
  Clocks until the program counter moves; \<open>None\<close> when it never does, as in a halted machine
  without interrupts.
\<close>

partial_function (option) clock_until_moved :: "u16 \<Rightarrow> 'f gb \<Rightarrow> ((exn + unit) \<times> 'f gb) option" where
  "clock_until_moved start_pc g =
     (if reg_pc (registers g) \<noteq> start_pc then Some (Inr (), g)
      else (case gb_clock g of
              (Inl e, g') \<Rightarrow> Some (Inl e, g')
            | (Inr _, g') \<Rightarrow> clock_until_moved start_pc g'))"

definition halt_with :: "BreakReason \<Rightarrow> bool \<Rightarrow> ('f session remote, unit) M" where
  "halt_with reason is_breakpoint =
     thenM (modM (\<lambda>s. s\<lparr>captured := (captured s)\<lparr>is_halted := True\<rparr>\<rparr>))
     (notify_break reason is_breakpoint)"

definition after_instruction :: "('f session remote, unit) M" where
  "after_instruction =
     bindM has_remote_interrupt_request (\<lambda>interrupt.
     if interrupt then halt_with SIGTRAP False
     else bindM (callback (\<lambda>_. on_machine (getR reg_pc))) (\<lambda>pc.
          bindM (is_active_breakpoint (ucast pc)) (\<lambda>active.
          whenM active (halt_with SIGINT True))))"

text \<open>The handlers of the two exception classes the loop catches.\<close>

definition handle_stop :: "exn \<Rightarrow> ('f session remote, unit) M" where
  "handle_stop e =
     (if is_BadOpcode e then halt_with SIGTRAP False
      else if is_CorrectnessError e then halt_with SIGSEGV False
      else raiseM e)"

definition run_instruction :: "'f session remote \<Rightarrow> ((exn + unit) \<times> 'f session remote) option" where
  "run_instruction s =
     (case machine (captured s) of
        None \<Rightarrow> Some (Inl UndefinedBehaviour, s)
      | Some g \<Rightarrow>
          (case clock_until_moved (reg_pc (registers g)) g of
             None \<Rightarrow> None
           | Some (r, g') \<Rightarrow>
               let s' = s\<lparr>captured := (captured s)\<lparr>machine := Some g'\<rparr>\<rparr>
               in Some (case r of Inl e \<Rightarrow> handle_stop e s' | Inr _ \<Rightarrow> after_instruction s')))"

text \<open>One turn of the loop; the result says whether the frontend asked to exit.\<close>

definition turn :: "'f session remote \<Rightarrow> ((exn + bool) \<times> 'f session remote) option" where
  "turn s =
     (case callback (\<lambda>_. on_machine isSimulationFinished) s of
        (Inl e, s1) \<Rightarrow> Some (Inl e, s1)
      | (Inr finished, s1) \<Rightarrow>
          if finished then Some (Inr True, s1)
          else (case (if is_halted (captured s1) then Some (process_next_request s1) else run_instruction s1) of
                  None \<Rightarrow> None
                | Some (Inl e, s2) \<Rightarrow> Some (Inl e, s2)
                | Some (Inr _, s2) \<Rightarrow> Some (Inr False, s2)))"

partial_function (option) main_loop :: "'f session remote \<Rightarrow> ((exn + unit) \<times> 'f session remote) option" where
  "main_loop s =
     (case turn s of
        None \<Rightarrow> None
      | Some (Inl e, s1) \<Rightarrow> Some (Inl e, s1)
      | Some (Inr finished, s1) \<Rightarrow> if finished then Some (Inr (), s1) else main_loop s1)"

partial_function (option) wait_for_rom :: "'f session remote \<Rightarrow> ((exn + unit) \<times> 'f session remote) option" where
  "wait_for_rom s =
     (if \<not> Option.is_none (machine (captured s)) then Some (Inr (), s)
      else (case process_next_request s of
              (Inl e, s1) \<Rightarrow> Some (Inl e, s1)
            | (Inr _, s1) \<Rightarrow> wait_for_rom s1))"

text \<open>
  \<open>run_gdb_server\<close>: the program given on the command line is loaded before the server
  exists; the server is destroyed however its scope is left.
\<close>

definition load_initial :: "host \<Rightarrow> string option \<Rightarrow> ('f session, unit) M" where
  "load_initial h rom_path =
     (case rom_path of
        None \<Rightarrow> returnM ()
      | Some path \<Rightarrow> bindM (bindM move_frontend (make_GB h path)) install)"

definition run_gdb_server ::
  "host \<Rightarrow> u16 \<Rightarrow> 'f frontend \<Rightarrow> string option \<Rightarrow> errs \<Rightarrow> string option list \<Rightarrow> int list \<Rightarrow>
   ((exn + unit) \<times> 'f session remote) option" where
  "run_gdb_server h port fe rom_path e packets results =
     (case load_initial h rom_path \<lparr>machine = None, spare_frontend = Some fe, is_halted = True, errors = e\<rparr> of
        (Inl x, session) \<Rightarrow> Some (Inl x, gdb_server h port session packets results)
      | (Inr _, session) \<Rightarrow>
          map_option (apsnd destroy)
            (case wait_for_connection port (gdb_server h port session packets results) of
               (Inl x, s) \<Rightarrow> Some (Inl x, s)
             | (Inr _, s) \<Rightarrow>
                 (case wait_for_rom s of
                    None \<Rightarrow> None
                  | Some (Inl x, s1) \<Rightarrow> Some (Inl x, s1)
                  | Some (Inr _, s1) \<Rightarrow> main_loop s1)))"

section \<open>Evaluation\<close>

lemma on_machine_run [simp]:
  "machine s = Some g \<Longrightarrow> on_machine m s = (case m g of (r, g') \<Rightarrow> (r, s\<lparr>machine := Some g'\<rparr>))"
  "machine s = None \<Longrightarrow> on_machine m s = (Inl UndefinedBehaviour, s)"
  by (simp_all add: on_machine_def)

lemma machine_eta [simp]: "machine s = Some g \<Longrightarrow> s\<lparr>machine := Some g\<rparr> = s"
  by (cases s) simp

lemma captured_eta [simp]: "captured s = c \<Longrightarrow> s\<lparr>captured := c\<rparr> = s"
  by (cases s) simp

lemma catchM_run [simp]:
  "m s = (Inr v, s') \<Longrightarrow> catchM m h s = (Inr v, s')"
  "m s = (Inl e, s') \<Longrightarrow> catchM m h s = h e s'"
  by (simp_all add: catchM_def)

section \<open>Safety of the session\<close>

text \<open>
  The debugger may set the program counter anywhere, so the machine it controls keeps every shape
  invariant and clean flags but not the invariant of the program counter. Its image has all the banks its
  controller can select.
\<close>

definition debug_ok :: "'f gb \<Rightarrow> bool" where
  "debug_ok g \<longleftrightarrow> mm_ok g \<and> flags_clean (reg_f (registers g)) \<and> has_all_banks (controller_of g)"

definition session_ok :: "'f session \<Rightarrow> bool" where
  "session_ok s \<longleftrightarrow> (case machine s of None \<Rightarrow> False | Some g \<Rightarrow> debug_ok g)"

lemma gb_ok_debug_ok: "gb_ok g \<Longrightarrow> has_all_banks (controller_of g) \<Longrightarrow> debug_ok g"
  by (simp add: gb_ok_def regs_ok_def debug_ok_def)

lemmas debug_ok_expand = debug_ok_def mm_ok_expand

lemma debug_ok_channels:
  "debug_ok s \<Longrightarrow> channel_ok i (get_ch i s)"
  "debug_ok s \<Longrightarrow> channel_ok i c \<Longrightarrow> debug_ok (set_ch i c s)"
  by (cases i; simp add: debug_ok_expand)+

interpretation debugged: gb_inv debug_ok "\<lambda>_. machine_exns"
  by unfold_locales
     (simp_all add: debug_ok_channels, simp_all add: debug_ok_expand count_error_def machine_exns_def
        initial_registers_def flags_clean_def has_all_banks_def all_banks_present)

lemma session_machine: "session_ok s \<Longrightarrow> \<exists>g. machine s = Some g \<and> debug_ok g"
  by (simp add: session_ok_def split: option.splits)

lemma safe_on_machine:
  assumes "safe debug_ok (\<lambda>_. machine_exns) m Q"
  shows "safe session_ok (\<lambda>_. machine_exns) (on_machine m) Q"
proof (rule safeI)
  fix s r s' assume "session_ok s" and run: "on_machine m s = (r, s')"
  then obtain g where g: "machine s = Some g" "debug_ok g" using session_machine by blast
  obtain r' g' where m: "m g = (r', g')" by (cases "m g")
  with assms g(2) have "debug_ok g'" "case r' of Inl e \<Rightarrow> e \<in> machine_exns | Inr v \<Rightarrow> Q v"
    by (force simp: safe_def)+
  with run g m show "session_ok s' \<and> (case r of Inl e \<Rightarrow> e \<in> machine_exns | Inr v \<Rightarrow> Q v)"
    by (auto simp: session_ok_def)
qed

lemma safe_catchM:
  "safe I (\<lambda>_. E) m Q \<Longrightarrow> (\<And>e. e \<in> E \<Longrightarrow> safe I (\<lambda>_. E) (h e) Q) \<Longrightarrow>
   safe I (\<lambda>_. E) (catchM m h) Q"
  by (fastforce simp: safe_def catchM_def split: prod.splits sum.splits)

lemma safe_peek_byte: "safe session_ok (\<lambda>_. machine_exns) (peek_byte a) (\<lambda>_. True)"
  unfolding peek_byte_def
  by (intro safe_catchM safe_intro safe_on_machine debugged.safe_gb_operations TrueI) simp_all

lemma safe_memory_callback_from: "safe session_ok (\<lambda>_. machine_exns) (memory_callback_from addr n offset) (\<lambda>_. True)"
proof (induction addr n offset rule: memory_callback_from.induct)
  case (1 addr n offset)
  show ?case
    by (subst memory_callback_from.simps) (intro safe_intro safe_peek_byte 1 TrueI; simp)
qed

lemma safe_register_callback:
  "safe session_ok (\<lambda>_. machine_exns) (register_callback n) (\<lambda>v. n = 6 \<longrightarrow> v = None)"
  by (auto simp: register_callback_def safe_returnM intro!: safe_on_machine safe_getM)

lemma safe_control:
  "safe session_ok (\<lambda>_. machine_exns) is_attached_callback (\<lambda>_. True)"
  "safe session_ok (\<lambda>_. machine_exns) (continue_callback c) (\<lambda>_. True)"
  "safe session_ok (\<lambda>_. machine_exns) (kill_callback port) (\<lambda>_. True)"
proof -
  have flag: "safe session_ok (\<lambda>_. machine_exns) (modM (\<lambda>s. s\<lparr>is_halted := b\<rparr>)) (\<lambda>_. True)" for b :: bool
    by (rule safe_modM) (simp add: session_ok_def)
  have pc: "safe debug_ok (\<lambda>_. machine_exns) (updR (\<lambda>r. r\<lparr>reg_pc := a\<rparr>)) (\<lambda>_. True)" for a
    unfolding updR_def by (rule safe_modM) (simp add: debug_ok_expand)
  show "safe session_ok (\<lambda>_. machine_exns) is_attached_callback (\<lambda>_. True)"
    unfolding is_attached_callback_def by (rule safe_getM_top)
  show "safe session_ok (\<lambda>_. machine_exns) (continue_callback c) (\<lambda>_. True)"
    unfolding continue_callback_def by (intro safe_intro safe_on_machine flag pc TrueI)
  show "safe session_ok (\<lambda>_. machine_exns) (kill_callback port) (\<lambda>_. True)"
    unfolding kill_callback_def by (intro safe_intro safe_on_machine flag debugged.safe_gb_operations TrueI)
qed

lemma debugger_exns:
  "OutOfRange \<in> machine_exns" "InvalidArgument \<in> machine_exns" "RuntimeError m \<in> machine_exns"
  "AssertFailed \<in> machine_exns"
  by (simp_all add: machine_exns_def)

interpretation target: debug_target session_ok machine_exns register_callback memory_callback
  is_attached_callback continue_callback "kill_callback port" 6
  by unfold_locales
     (simp_all add: memory_callback_def safe_control safe_memory_callback_from safe_register_callback debugger_exns)

section \<open>Turns of the main loop\<close>

text \<open>
  The exceptions of a clock and the states it can be interrupted in: a run of clocks up to a
  move of the program counter.
\<close>

lemma clock_until_moved_safe:
  assumes "clock_until_moved pc g = Some x"
  shows "debug_ok g \<longrightarrow> debug_ok (snd x) \<and> (\<forall>e. fst x = Inl e \<longrightarrow> e \<in> machine_exns) \<and>
    (fst x = Inr () \<longrightarrow> reg_pc (registers (snd x)) \<noteq> pc)"
proof (rule clock_until_moved.raw_induct [OF _ assms, where P = "\<lambda>pc g x. debug_ok g \<longrightarrow>
    debug_ok (snd x) \<and> (\<forall>e. fst x = Inl e \<longrightarrow> e \<in> machine_exns) \<and>
    (fst x = Inr () \<longrightarrow> reg_pc (registers (snd x)) \<noteq> pc)"], rule impI, goal_cases)
  case (1 rec pc g x)
  obtain r g' where c: "gb_clock g = (r, g')" by (cases "gb_clock g")
  have g': "debug_ok g'" "r = Inl e \<Longrightarrow> e \<in> machine_exns" for e
    using debugged.safe_gb_operations(4) 1(3) c by (force simp: safe_def)+
  show ?case
  proof (cases "reg_pc (registers g) \<noteq> pc")
    case True
    with 1(2,3) show ?thesis by auto
  next
    case False
    with 1(1) [of pc g'] 1(2) c g' show ?thesis by (cases r) auto
  qed
qed

lemma safe_halt_with: "safe (target.server_ok port) (\<lambda>_. machine_exns) (halt_with reason b) (\<lambda>_. True)"
  unfolding halt_with_def
  by (intro safe_intro target.safe_notify_break safe_modM) (simp add: target.server_ok_def session_ok_def)

lemma safe_after_instruction: "safe (target.server_ok port) (\<lambda>_. machine_exns) after_instruction (\<lambda>_. True)"
proof -
  have "safe (target.server_ok port) (\<lambda>_. machine_exns) (callback (\<lambda>_. on_machine (getR reg_pc))) (\<lambda>_. True)"
    by (rule target.safe_callback [OF safe_on_machine [where m = "getR reg_pc"] refl]) (simp add: getR_def safe_getM_top)
  then show ?thesis
    unfolding after_instruction_def has_remote_interrupt_request_def is_active_breakpoint_def
    by (intro safe_intro target.safe_wire safe_halt_with TrueI)
qed

lemma safe_handle_stop: "e \<in> machine_exns \<Longrightarrow> safe (target.server_ok port) (\<lambda>_. machine_exns) (handle_stop e) (\<lambda>_. True)"
  unfolding handle_stop_def by (intro safe_intro safe_halt_with)

text \<open>A server whose callbacks are those of this session, with a machine loaded.\<close>

definition debugging :: "'f session remote \<Rightarrow> bool" where
  "debugging s \<longleftrightarrow> read_register_value s = register_callback \<and> read_memory s = memory_callback \<and>
     is_attached s = is_attached_callback \<and> do_continue s = continue_callback \<and>
     (\<exists>port. do_kill s = kill_callback port) \<and> session_ok (captured s)"

lemma debugging_server: "debugging s \<longleftrightarrow> (\<exists>port. target.server_ok port s)"
  by (auto simp: debugging_def target.server_ok_def)

lemma run_instruction_safe:
  assumes "target.server_ok port s" and "run_instruction s = Some (r, t)"
  shows "target.server_ok port t \<and> (\<forall>e. r = Inl e \<longrightarrow> e \<in> machine_exns)"
proof -
  have "session_ok (captured s)" using assms(1) by (simp add: target.server_ok_def)
  then obtain g where g: "machine (captured s) = Some g" "debug_ok g" using session_machine by blast
  with assms(2) obtain x g' where x: "clock_until_moved (reg_pc (registers g)) g = Some (x, g')"
    by (auto simp: run_instruction_def split: option.splits)
  let ?s = "s\<lparr>captured := (captured s)\<lparr>machine := Some g'\<rparr>\<rparr>"
  have g': "debug_ok g'" "\<And>e. x = Inl e \<Longrightarrow> e \<in> machine_exns"
    using clock_until_moved_safe [OF x] g(2) by auto
  then have ok: "target.server_ok port ?s" using assms(1) by (simp add: target.server_ok_def session_ok_def)
  have run: "(case x of Inl e \<Rightarrow> handle_stop e ?s | Inr _ \<Rightarrow> after_instruction ?s) = (r, t)"
    using assms(2) g x by (simp add: run_instruction_def Let_def)
  show ?thesis
  proof (cases x)
    case (Inl e)
    with run g'(2) safe_handle_stop [of e port] ok show ?thesis by (force simp: safe_def)
  next
    case (Inr v)
    with run safe_after_instruction [of port] ok show ?thesis by (force simp: safe_def)
  qed
qed


section \<open>Waiting for the program counter\<close>

fun clocked :: "nat \<Rightarrow> 'f gb \<Rightarrow> (exn + unit) \<times> 'f gb" where
  "clocked 0 g = (Inr (), g)"
| "clocked (Suc n) g = (case gb_clock g of (Inl e, g') \<Rightarrow> (Inl e, g') | (Inr _, g') \<Rightarrow> clocked n g')"


section \<open>Stops\<close>

definition register_names :: "Reg16 list" where
  "register_names = [Reg16_AF, Reg16_BC, Reg16_DE, Reg16_HL, Reg16_SP, Reg16_PC]"

definition register_line :: "'f gb \<Rightarrow> nat \<Rightarrow> string" where
  "register_line g i = text_of 16 i @ '':'' @
     hex_u16 (decay_or (base (regU16 (register_names ! i) (comitted_registers g))) 0xde) @ '';''"

definition register_text :: "'f gb \<Rightarrow> string" where
  "register_text g = concat (map (register_line g) [0..<6])"

lemma register_callback_run:
  "machine s = Some g \<Longrightarrow> register_callback n s =
    (Inr (if 5 < n then None
          else Some (decay_or (base (regU16 (register_names ! unat n) (comitted_registers g))) 0xde)), s)"
  by (simp add: register_callback_def register_names_def)

lemma break_registers_from:
  assumes "read_register_value s = register_callback" and "machine (captured s) = Some g" and "n \<le> 6"
  shows "break_registers (Suc (6 - n) + m) (of_nat n) s = (Inr (concat (map (register_line g) [n..<6])), s)"
  using assms(3)
proof (induction n rule: inc_induct)
  case base
  show ?case by (subst break_registers.simps) (simp add: assms(1) register_callback_run [OF assms(2)])
next
  case (step n)
  then have n: "\<not> 5 < (of_nat n :: u64)" "unat (of_nat n :: u64) = n"
    by (simp_all add: word_less_nat_alt unat_of_nat)
  define f where "f = Suc (6 - Suc n) + m"
  have fuel: "Suc (6 - n) + m = Suc f" using step.hyps by (simp add: f_def)
  have IH: "break_registers f (of_nat n + 1) s = (Inr (concat (map (register_line g) [Suc n..<6])), s)"
    using step.IH by (simp add: f_def add.commute del: upt.simps)
  have "[n..<6] = n # [Suc n..<6]" using step.hyps by (simp add: upt_conv_Cons)
  then show ?case
    unfolding fuel
    by (subst break_registers.simps)
       (simp add: n IH assms(1) register_callback_run [OF assms(2)] register_line_def [of g n] del: upt.simps)
qed

lemma break_registers_run:
  assumes "read_register_value s = register_callback" and "machine (captured s) = Some g" and "6 < k"
  shows "break_registers k 0 s = (Inr (register_text g), s)"
proof -
  have "k = Suc (6 - 0) + (k - 7)" using assms(3) by arith
  with break_registers_from [OF assms(1,2), of 0 "k - 7"] show ?thesis by (simp add: register_text_def)
qed

lemma halt_with_run:
  assumes "read_register_value s = register_callback" and "machine (captured s) = Some g"
  shows "halt_with reason b s =
    (Inr (), s\<lparr>captured := (captured s)\<lparr>is_halted := True\<rparr>, m_is_in_step := False,
       actions := actions s @ [Sent (m_gdb_connection_fd s) (frame (''T'' @ hex_u8 (reason_code reason) @
         register_text g @ (if b then if m_is_in_step s then ''reason:trace;'' else ''reason:breakpoint;''
           else ''reason:trap;'')))]\<rparr>)"
  using assms by (simp add: halt_with_def notify_break_def break_registers_run [where g = g])

lemma reason_bytes: "hex_u8 2 = ''02''" "hex_u8 5 = ''05''" "hex_u8 11 = ''0b''"
  by code_simp+

text \<open>
  C31. When an instruction ends without an exception and the client sent nothing, the machine stops
  exactly if the client is stepping or the new program counter is a breakpoint; it then reports
  signal 2 with all six registers and the reason, and a step is used up. Otherwise it runs on.
\<close>

theorem stops_at_breakpoint:
  assumes "debugging s" and "machine (captured s) = Some g"
    and "clock_until_moved (reg_pc (registers g)) g = Some (Inr (), g')" and "received s = None # later"
    and "s' = s\<lparr>captured := (captured s)\<lparr>machine := Some g'\<rparr>, received := later\<rparr>"
  shows "run_instruction s = Some (Inr (),
    if m_is_in_step s \<or> ucast (reg_pc (registers g')) \<in> m_breakpoints s
    then s'\<lparr>captured := (captured s')\<lparr>is_halted := True\<rparr>, m_is_in_step := False,
       actions := actions s @ [Sent (m_gdb_connection_fd s) (frame (''T02'' @ register_text g' @
         (if m_is_in_step s then ''reason:trace;'' else ''reason:breakpoint;'')))]\<rparr>
    else s')"
proof -
  have "read_register_value s' = register_callback" "machine (captured s') = Some g'"
    using assms(1,5) by (simp_all add: debugging_def)
  note stop = halt_with_run [OF this, of SIGINT True]
  define s0 where "s0 = s\<lparr>captured := (captured s)\<lparr>machine := Some g'\<rparr>\<rparr>"
  have same: "m_is_in_step s' = m_is_in_step s" "m_breakpoints s' = m_breakpoints s" "actions s' = actions s"
    "m_gdb_connection_fd s' = m_gdb_connection_fd s" by (simp_all add: assms(5))
  have poll: "has_remote_interrupt_request s0 = (Inr False, s')"
    by (simp add: has_remote_interrupt_request_def recv_def assms(4,5) s0_def)
  have pc: "callback (\<lambda>_. on_machine (getR reg_pc)) s' = (Inr (reg_pc (registers g')), s')"
    by (simp add: assms(5) getR_def)
  have "run_instruction s = Some (after_instruction s0)"
    by (simp add: run_instruction_def assms(2,3) s0_def Let_def)
  also have "after_instruction s0 =
      (if m_is_in_step s' \<or> ucast (reg_pc (registers g')) \<in> m_breakpoints s' then halt_with SIGINT True s' else (Inr (), s'))"
    by (simp add: after_instruction_def poll pc del: callback_run)
  finally show ?thesis
    using same by (simp add: stop reason_bytes)
qed

text \<open>
  C32. An exception stops the machine where the error handling's classes say so: a bad opcode or trap
  reports signal 5 and a correctness error signal 11 to the client, who keeps control; any other
  exception is not caught and ends the server.
\<close>

theorem exceptions_stop_or_end:
  assumes "debugging s" and "machine (captured s) = Some g"
    and "clock_until_moved (reg_pc (registers g)) g = Some (Inl e, g')"
    and "s' = s\<lparr>captured := (captured s)\<lparr>machine := Some g'\<rparr>\<rparr>"
  shows "run_instruction s = Some
    (if is_BadOpcode e \<or> is_CorrectnessError e
     then (Inr (), s'\<lparr>captured := (captured s')\<lparr>is_halted := True\<rparr>, m_is_in_step := False,
       actions := actions s @ [Sent (m_gdb_connection_fd s) (frame
         ((if is_BadOpcode e then ''T05'' else ''T0b'') @ register_text g' @ ''reason:trap;''))]\<rparr>)
     else (Inl e, s'))"
proof -
  have "read_register_value s' = register_callback" "machine (captured s') = Some g'"
    using assms(1,4) by (simp_all add: debugging_def)
  note stop = halt_with_run [OF this, of _ False]
  have same: "actions s' = actions s" "m_gdb_connection_fd s' = m_gdb_connection_fd s" by (simp_all add: assms(4))
  have "run_instruction s = Some (handle_stop e s')"
    by (simp add: run_instruction_def assms(2-4) Let_def)
  with same show ?thesis by (simp add: handle_stop_def stop reason_bytes)
qed

section \<open>Reading memory\<close>

text \<open>What the debugger shows of a cell of RAM: its byte, or a marker if it was never written.\<close>

definition shown :: "'f gb \<Rightarrow> u16 \<Rightarrow> u8" where
  "shown g a = decay_or (peek_cell g a) 0xde"

lemma peek_byte_ram:
  assumes "machine s = Some g" and "memories_ok g" and "cell_of a \<noteq> None"
  shows "peek_byte a s = (Inr (shown g a), s)"
proof -
  obtain c where "cell_of a = Some c" using assms(3) by blast
  then have "gb_readU8 a g = (Inr (peek_cell g a), g)"
    using mm_read_cell [OF assms(2)] by (simp add: gb_readU8_def peek_cell_def)
  with assms(1) show ?thesis by (simp add: peek_byte_def shown_def)
qed

lemma find_from_append:
  assumes "i \<le> length p" and "\<forall>j < length p. p ! j \<noteq> c"
  shows "find_from c (p @ c # s) i = Some (length p)"
  using assms(1)
proof (induction i rule: inc_induct)
  case base
  show ?case by (subst find_from.simps) simp
next
  case (step i)
  then show ?case using assms(2) by (subst find_from.simps) (simp add: nth_append)
qed

lemma unat_offset:
  fixes a :: u64
  assumes "unat a + j < 2 ^ 64"
  shows "unat (a + of_nat j) = unat a + j"
  using assms by (simp add: unat_word_ariths(1) unat_of_nat mod_add_right_eq)

lemma memory_callback_ram:
  assumes "machine s = Some g" and "memories_ok g"
    and m: "m = min (unat n) (0x10000 - unat a)" and "\<forall>i < m. cell_of (of_nat (unat a + i)) \<noteq> None"
  shows "memory_callback a n s = (Inr (map (\<lambda>i. shown g (of_nat (unat a + i))) [0..<m]), s)"
proof -
  have "memory_callback_from a n (of_nat j) s = (Inr (map (\<lambda>i. shown g (of_nat (unat a + i))) [j..<m]), s)"
    if "j \<le> m" for j
    using that
  proof (induction j rule: inc_induct)
    case base
    have "\<not> (of_nat m :: u64) < n \<or> 0xFFFF < a + of_nat m"
    proof (cases "m = unat n")
      case False
      have "unat (a + of_nat m) = unat a + m"
      proof (rule unat_offset)
        have "m \<le> 0x10000 - unat a" "unat a < 2 ^ 64"
          using m unsigned_less [of a, where ?'a = nat] by simp_all
        then show "unat a + m < 2 ^ 64" by simp
      qed
      with False m show ?thesis by (auto simp: word_less_nat_alt)
    qed simp
    then show ?case by (subst memory_callback_from.simps) auto
  next
    case (step j)
    from step.hyps m have "j < 0x10000 - unat a" by simp
    then have j: "j < unat n" "unat a + j < 0x10000" using step.hyps m by simp_all
    have off: "unat (a + of_nat j) = unat a + j" using j(2) by (intro unat_offset) simp
    have "(of_nat j :: u64) < n"
      using j(1) unsigned_less [of n, where ?'a = nat] by (simp add: word_less_nat_alt unat_of_nat)
    moreover have "\<not> 0xFFFF < a + of_nat j" using j(2) off by (simp add: word_less_nat_alt)
    moreover have "(ucast (a + of_nat j) :: u16) = of_nat (unat a + j)"
      unfolding off [symmetric] by (rule of_nat_unat [symmetric])
    moreover have "[j..<m] = j # [Suc j..<m]" using step.hyps by (simp add: upt_conv_Cons)
    ultimately show ?case
      using step.IH peek_byte_ram [OF assms(1,2) assms(4) [rule_format, OF step.hyps(2)]]
      by (subst memory_callback_from.simps) (simp add: add.commute del: upt.simps)
  qed
  from this [of 0] show ?thesis by (simp add: memory_callback_def)
qed

lemma memory_request_run:
  fixes a n :: u64
  shows "process_request (''m'' @ text_of 16 (unat a) @ '','' @ text_of 16 (unat n)) s =
    bindM (callback (\<lambda>s. read_memory s a n)) (\<lambda>result. send_response (concat (map hex_u8 result))) s"
proof -
  let ?q = "text_of 16 (unat a) @ '','' @ text_of 16 (unat n)"
  have "foldl (\<lambda>reply byte. reply @ hex_u8 byte) acc bs = acc @ concat (map hex_u8 bs)" for acc bs
    by (induction bs arbitrary: acc) simp_all
  moreover have "find_from CHR '','' ?q 0 = Some (length (text_of 16 (unat a)))"
    using find_from_append [of 0 "text_of 16 (unat a)" "CHR '',''" "text_of 16 (unat n)"] text_of_no_comma
    by simp
  ultimately have "process_m_request ?q s =
      bindM (callback (\<lambda>s. read_memory s a n)) (\<lambda>result. send_response (concat (map hex_u8 result))) s"
    by (simp add: process_m_request_def del: callback_run)
  then show ?thesis by (simp add: process_request_def starts_with_def Let_def)
qed

text \<open>
  C34. A client that asks for memory in RAM is sent exactly the bytes of that stretch up to the end of
  the address space, two digits each, with a marker for bytes that were never written; reading
  leaves the machine untouched.
\<close>

theorem memory_request_shows_ram:
  fixes a n :: u64
  assumes "debugging s" and "machine (captured s) = Some g" and "memories_ok g"
    and "m = min (unat n) (0x10000 - unat a)" and "\<forall>i < m. cell_of (of_nat (unat a + i)) \<noteq> None"
  shows "process_request (''m'' @ text_of 16 (unat a) @ '','' @ text_of 16 (unat n)) s =
    (Inr (), s\<lparr>actions := actions s @ [Sent (m_gdb_connection_fd s)
       (frame (concat (map (\<lambda>i. hex_u8 (shown g (of_nat (unat a + i)))) [0..<m])))]\<rparr>)"
  unfolding memory_request_run
  using memory_callback_ram [OF assms(2-5)] assms(1) by (simp add: debugging_def o_def)

section \<open>Requests the server does not survive\<close>

lemma memory_callback_one:
  assumes "machine s = Some g" and "gb_readU8 a g = (Inl e, g')" and "e \<noteq> Thrown illegal_memory_address"
    and "a = ucast addr" and "addr \<le> 0xFFFF"
  shows "memory_callback addr 1 s = (Inl e, s\<lparr>machine := Some g'\<rparr>)"
proof -
  have "peek_byte a s = (Inl e, s\<lparr>machine := Some g'\<rparr>)"
    using assms(1-3) by (simp add: peek_byte_def)
  then show ?thesis
    using assms(4,5) by (simp add: memory_callback_def memory_callback_from.simps [of _ _ 0] not_less)
qed

lemma video_read_in_transfer:
  assumes "io_memory g ! LCD_STAT AND 3 = 3" and "\<not> error_kind_permitted g ppu_access_violation"
  shows "gb_readU8 0x8000 g = (Inl (Thrown ppu_access_violation), count_error ppu_access_violation g)"
  using assms
  by (simp add: gb_readU8_def mm_read_def videoRead_def gpu_readU8_def io_get_def throw_error_run Let_def)

lemma wait_for_frame:
  assumes "received s = Some (frame p) # later" and "length p + 4 \<le> MaxPacketSize"
  shows "wait_next_packet s = (Inr p, s\<lparr>received := later\<rparr>)"
proof -
  have "parse_packet (frame p) t = (Inr p, t)" for t :: "'a remote"
    using parse_framed [OF length_checksum, of p p t] by (simp add: frame_def)
  moreover have "frame p \<noteq> ''+''" using frame_start(3) [of p] by auto
  ultimately show ?thesis
    using wait_next_packet_run [OF assms(1) frame_start(2)] assms(2) frame_start(1) [of p]
    by (simp add: Let_def length_frame)
qed


text \<open>
  Before a program is loaded, a client that asks for a register or memory, continues at an address
  or kills the target makes the server follow a null pointer.
\<close>

theorem request_before_load_undefined:
  assumes "machine session = None" and "request \<in> {''p0'', ''m0,1'', ''c0'', ''k''}"
  shows "fst (process_request request (gdb_server h port session packets results)) = Inl UndefinedBehaviour"
proof -
  let ?s = "gdb_server h port session packets results"
  have zero: "parse_int ''0'' 16 = returnM 0" "decode_hex_int ''0'' = returnM 0"
    by (simp_all add: fun_eq_iff parse_int_def from_chars_def decode_hex_int_def stol_def is_space_def skip_prefix_def
        digit_value_def number_def)
  have query: "''m0,1'' = ''m'' @ text_of 16 (unat (0 :: u64)) @ '','' @ text_of 16 (unat (1 :: u64))"
    by (simp add: text_of.simps digit_char_def)
  have "peek_byte 0 session = (Inl UndefinedBehaviour, session)" using assms(1) by (simp add: peek_byte_def)
  then have "memory_callback 0 1 session = (Inl UndefinedBehaviour, session)"
    by (simp add: memory_callback_def memory_callback_from.simps [of _ _ 0])
  then have "fst (process_request ''m0,1'' ?s) = Inl UndefinedBehaviour"
    unfolding query memory_request_run by (simp add: gdb_server_def)
  moreover have "fst (process_request ''p0'' ?s) = Inl UndefinedBehaviour"
    "fst (process_request ''c0'' ?s) = Inl UndefinedBehaviour" "fst (process_request ''k'' ?s) = Inl UndefinedBehaviour"
    using assms(1)
    by (simp_all add: process_request_def process_p_request_def process_c_request_def process_k_request_def
        starts_with_def zero gdb_server_def register_callback_def continue_callback_def kill_callback_def)
  ultimately show ?thesis using assms(2) by auto
qed

text \<open>
  The frontend can be moved into a machine once. A client that runs a file on a server that was
  started with a program, or runs a second file, has the new machine built on a null frontend as
  soon as the file is a loadable cartridge.
\<close>

theorem second_load_undefined:
  assumes "spare_frontend s = None" and "\<And>cmd. system_status h cmd = 0"
    and "read_file h (tmpnam h) = Some bytes" and "0x149 < length bytes" and "bytes ! 0x147 \<in> {0, 1, 2, 3}"
  shows "fst (run_elf_callback h elf s) = Inl UndefinedBehaviour"
proof -
  obtain metadata ctl where "make_cartridge bytes t = (Inr (metadata, ctl), t)" for t :: errs
    using assms(4,5) by (force simp: make_cartridge_def populateMetadata_def)
  then have "fst (make_GB h (tmpnam h) None t) = Inl UndefinedBehaviour" for t :: "'a session"
    using assms(3) by (simp add: make_GB_def GB_def)
  then show ?thesis
    using assms(1,2)
    by (simp add: run_elf_callback_def move_frontend_def load_from_elf_def run_command_def bindM_run thenM_def
        split: prod.splits sum.splits) (metis fst_conv sum.distinct(1) sum.inject(1))
qed

text \<open>
  Continuing at an address sets the program counter to its low sixteen bits, with no check, and lets the
  machine run; there is no response until it stops.
\<close>

lemma continue_at_address:
  assumes "debugging s" and "machine (captured s) = Some g"
  shows "process_request (''c'' @ text_of 16 (unat (a :: u64))) s =
    (Inr (), s\<lparr>captured := (captured s)
       \<lparr>machine := Some (g\<lparr>registers := (registers g)\<lparr>reg_pc := ucast a\<rparr>\<rparr>), is_halted := False\<rparr>\<rparr>)"
proof -
  have "text_of 16 (unat a) \<noteq> []" by (rule text_of_digits [of 16 "unat a"]) simp_all
  with assms show ?thesis
    by (simp add: process_request_def process_c_request_def starts_with_def debugging_def continue_callback_def
        updR_def Let_def)
qed

section \<open>The properties at concrete inputs\<close>

text \<open>A server attached to the machine that was just switched on, halted.\<close>

definition local_host :: host where
  "local_host = \<lparr>getenv_toolchain = None, tmpnam = ''rom'', system_status = (\<lambda>_. 0),
     read_file = (\<lambda>_. Some (replicate 0x8000 0)), audio_sample_freq = 1028\<rparr>"

definition attached :: "u8 list gb \<Rightarrow> string option list \<Rightarrow> int list \<Rightarrow> u8 list session remote" where
  "attached g packets results = gdb_server local_host 1234
     \<lparr>machine = Some g, spare_frontend = None, is_halted = True, errors = errs.truncate g\<rparr> packets results"

lemma attached_fields [simp]:
  "machine (captured (attached g ps rs)) = Some g" "is_halted (captured (attached g ps rs)) = True"
  "received (attached g ps rs) = ps" "answers (attached g ps rs) = rs" "actions (attached g ps rs) = []"
  "m_gdb_connection_fd (attached g ps rs) = - 1" "m_listen_fd (attached g ps rs) = - 1"
  "m_is_in_step (attached g ps rs) = False" "m_breakpoints (attached g ps rs) = {}"
  "run_elf (attached g ps rs) = run_elf_callback local_host" "do_kill (attached g ps rs) = kill_callback 1234"
  by (simp_all add: attached_def gdb_server_def)

lemma debugging_attached: "debug_ok g \<Longrightarrow> debugging (attached g ps rs)"
  by (auto simp: debugging_def session_ok_def attached_def gdb_server_def)

lemma debugging_switched_on: "debugging (attached switched_on ps rs)"
  by (rule debugging_attached [OF gb_ok_debug_ok [OF switched_on_ok]]) (simp add: has_all_banks_def)

lemma packet_accepted_iff_witness:
  "fst (wait_next_packet (attached switched_on [Some (frame ''g'')] [])) = Inr ''g''"
proof -
  have "frame ''g'' \<noteq> ''+''" using frame_start(3) [of "''g''"] by auto
  with packet_accepted_iff [of "attached switched_on [Some (frame ''g'')] []" "frame ''g''" "[]" "''g''"]
  show ?thesis by (simp add: length_frame MaxPacketSize_def frame_start)
qed

lemma corrupted_packet_refused_witness:
  "fst (wait_next_packet (attached switched_on [Some (''$'' @ ''h'' @ ''#'' @ calculate_checksum ''g'')] [])) =
    Inl (RuntimeError ''Received packet with an invalid checksum'')"
  using corrupted_packet_refused [of 0 "''g''" "CHR ''h''"
      "attached switched_on [Some (''$'' @ ''h'' @ ''#'' @ calculate_checksum ''g'')] []" "[]"]
  by (simp add: MaxPacketSize_def)

lemma kill_waits_for_next_client_witness:
  "\<exists>t. process_request ''k'' ((attached switched_on [] [0, 5])\<lparr>do_kill := returnM 1234\<rparr>) = (Inr (), t) \<and>
    m_gdb_connection_fd t = 5 \<and> last (actions t) = Accepted (- 1)"
  using kill_waits_for_next_client [of "(attached switched_on [] [0, 5])\<lparr>do_kill := returnM 1234\<rparr>"] by simp

lemma vrun_runs_path_witness:
  "\<exists>t. process_request (''vRun;'' @ hex_text ''a.elf'') ((attached switched_on [] [])\<lparr>run_elf := (\<lambda>_. returnM ())\<rparr>) =
    (Inr (), t) \<and> actions t = [Sent (- 1) (frame ''S00'')]"
  using vrun_runs_path [of "(attached switched_on [] [])\<lparr>run_elf := (\<lambda>_. returnM ())\<rparr>" "''a.elf''"] by simp


lemma moved: "\<exists>g'. clock_until_moved 0x100 switched_on = Some (Inr (), g') \<and> reg_pc (registers g') = 0x101"
proof -
  obtain g' where "gb_clock switched_on = (Inr (), g')" "reg_pc (registers g') = 0x101" using first_clock by blast
  then show ?thesis
    by (intro exI [of _ g']) (simp add: clock_until_moved.simps [of _ switched_on] clock_until_moved.simps [of _ g']
        initial_registers_def)
qed


lemma stops_at_breakpoint_witness:
  "\<exists>t. run_instruction ((attached switched_on [None] [])\<lparr>m_breakpoints := {0x101}\<rparr>) = Some (Inr (), t) \<and>
    is_halted (captured t) \<and> length (actions t) = 1"
proof -
  obtain g' where g': "clock_until_moved 0x100 switched_on = Some (Inr (), g')" "reg_pc (registers g') = 0x101"
    using moved by blast
  let ?s = "(attached switched_on [None] [])\<lparr>m_breakpoints := {0x101}\<rparr>"
  have "debugging ?s" using debugging_switched_on [of "[None]" "[]"] by (simp add: debugging_def)
  from stops_at_breakpoint [OF this _ _ _ refl, of switched_on g' "[]"] g' show ?thesis
    by (simp add: initial_registers_def)
qed

lemma exceptions_stop_or_end_witness:
  "\<exists>t. run_instruction (attached (switched_on\<lparr>registers := initial_registers\<lparr>reg_pc := 0xC000\<rparr>\<rparr>) [] []) = Some (Inr (), t) \<and>
    is_halted (captured t)"
proof -
  let ?g = "switched_on\<lparr>registers := initial_registers\<lparr>reg_pc := 0xC000\<rparr>\<rparr>"
  obtain g' where "gb_clock ?g = (Inl (Thrown pc_outside_of_program_memory), g')" using first_clock_lost by blast
  then have c: "clock_until_moved 0xC000 ?g = Some (Inl (Thrown pc_outside_of_program_memory), g')"
    by (simp add: clock_until_moved.simps [of _ ?g])
  have "debug_ok ?g" using switched_on_ok by (simp add: gb_ok_def debug_ok_expand mm_ok_expand initial_registers_def flags_clean_def
      has_all_banks_def)
  from exceptions_stop_or_end [OF debugging_attached [OF this] _ _ refl, of "[]" "[]" ?g "Thrown pc_outside_of_program_memory" g'] c
  show ?thesis by simp
qed

lemma memory_request_shows_ram_witness:
  "\<exists>t. process_request (''m'' @ text_of 16 0xFFFE @ '','' @ text_of 16 0x10) (attached switched_on [] []) = (Inr (), t) \<and>
    actions t = [Sent (- 1) (frame (hex_u8 0xde @ hex_u8 0xde))]"
proof -
  have "memories_ok switched_on" by (simp add: memories_ok_def)
  moreover have "\<forall>i < 2. cell_of (of_nat (0xFFFE + i)) \<noteq> None"
    by (auto simp: cell_of_def less_2_cases_iff)
  moreover have "[0..<2] = [0, 1 :: nat]" by (simp add: upt_conv_Cons)
  moreover have "shown switched_on 0xFFFE = 0xde" "shown switched_on 0xFFFF = 0xde"
    by (simp_all add: shown_def peek_cell_def cell_of_def decay_or_def ci_default_def)
  ultimately show ?thesis
    using memory_request_shows_ram [OF debugging_switched_on, of "[]" "[]" switched_on 2 "0x10" "0xFFFE"]
    by (simp del: upt.simps)
qed


lemma request_before_load_undefined_witness:
  "fst (process_request ''k'' (gdb_server local_host 1234
     \<lparr>machine = None, spare_frontend = Some headless, is_halted = True, errors = errs.truncate switched_on\<rparr> [] [])) =
   Inl UndefinedBehaviour"
  by (rule request_before_load_undefined) simp_all

lemma second_load_undefined_witness:
  "fst (run_elf_callback local_host ''a.elf'' (captured (attached switched_on [] []))) = Inl UndefinedBehaviour"
  by (rule second_load_undefined [of _ _ "replicate 0x8000 0"]) (simp_all add: attached_def gdb_server_def local_host_def)

lemma continue_at_address_witness:
  "\<exists>t. process_request (''c'' @ text_of 16 0x150) (attached switched_on [] []) = (Inr (), t) \<and>
    \<not> is_halted (captured t)"
  using continue_at_address [OF debugging_switched_on, of "[]" "[]" switched_on "0x150"] by simp

end
