(* ===== verification/Timers.thy ===== *)
theory Timers
  imports Gb
begin

text \<open>
  What the two clock loops of the I/O unit compute: the timer of \<^verbatim>\<open>io/io.cpp\<close> in closed form,
  and that the audio unit of \<^verbatim>\<open>io/apu.cpp\<close> reaches the clock it is sent to.
\<close>

section \<open>What the timer counts\<close>

text \<open>
  The counter after a number of ticks, and whether it ran over: it counts up from its value, and from
  the modulo register each time it passes 255.
\<close>

definition tima_after :: "nat \<Rightarrow> nat \<Rightarrow> nat \<Rightarrow> nat" where
  "tima_after counter reload n =
     (if counter + n < 256 then counter + n else reload + (counter + n - 256) mod (256 - reload))"

lemma tima_after_Suc:
  assumes "c < 256" and "m < 256"
  shows "tima_after c m (Suc n) = (if tima_after c m n = 255 then m else tima_after c m n + 1)"
    "256 \<le> c + Suc n \<longleftrightarrow> 256 \<le> c + n \<or> tima_after c m n = 255"
proof -
  have wrap: "m + k mod (256 - m) = 255 \<longleftrightarrow> Suc (k mod (256 - m)) = 256 - m" for k
    using assms(2) by arith
  show "tima_after c m (Suc n) = (if tima_after c m n = 255 then m else tima_after c m n + 1)"
  proof (cases "c + n < 256")
    case True
    then show ?thesis by (auto simp: tima_after_def)
  next
    case False
    then have "c + Suc n - 256 = Suc (c + n - 256)" by arith
    then have "tima_after c m (Suc n) = m + Suc (c + n - 256) mod (256 - m)"
      using False by (simp add: tima_after_def)
    also have "\<dots> = (if tima_after c m n = 255 then m else tima_after c m n + 1)"
      using False wrap [of "c + n - 256"] by (simp add: tima_after_def mod_Suc)
    finally show ?thesis .
  qed
  show "256 \<le> c + Suc n \<longleftrightarrow> 256 \<le> c + n \<or> tima_after c m n = 255"
    by (auto simp: tima_after_def)
qed

lemma tima_after_bound:
  assumes "m < 256"
  shows "tima_after c m n < 256"
proof -
  have "(c + n - 256) mod (256 - m) < 256 - m" using assms by (intro mod_less_divisor) simp
  then show ?thesis by (auto simp: tima_after_def)
qed

definition timer_state :: "nat \<Rightarrow> ('f, 'z) io_scheme \<Rightarrow> ('f, 'z) io_scheme" where
  "timer_state n s = (let m = io_memory s; c = unat (m ! T_COUNTER) in
     s\<lparr>io_memory := m[T_COUNTER := of_nat (tima_after c (unat (m ! T_MODULO)) n),
       INTERRUPTS := (if 256 \<le> c + n then m ! INTERRUPTS OR TIMER_INTERRUPT else m ! INTERRUPTS)]\<rparr>)"

lemma timer_tick_eval:
  assumes "length m = 0x80"
  shows "timer_tick (s\<lparr>io_memory := m[T_COUNTER := v, INTERRUPTS := i]\<rparr>) =
    s\<lparr>io_memory := m[T_COUNTER := (if v = 0xFF then m ! T_MODULO else v + 1),
      INTERRUPTS := (if v = 0xFF then i OR TIMER_INTERRUPT else i)]\<rparr>"
proof -
  have "v + 1 AND 0xFF = 0 \<longleftrightarrow> v = 0xFF"
  proof -
    have "(0xFF :: u8) = - 1" by simp
    show ?thesis unfolding \<open>0xFF = - 1\<close> bit.conj_one_right by (rule eq_neg_iff_add_eq_0 [symmetric])
  qed
  with assms show ?thesis
    by (simp add: timer_tick_def Let_def list_update_swap [of 5 15])
qed

lemma timer_ticks_state:
  assumes "length (io_memory s) = 0x80"
  shows "(timer_tick ^^ n) s = timer_state n s"
proof (induction n)
  case 0
  show ?case
    using unsigned_less [of "io_memory s ! T_COUNTER", where ?'a = nat]
    by (cases s) (simp add: timer_state_def tima_after_def Let_def)
next
  case (Suc n)
  let ?m = "io_memory s" and ?c = "unat (io_memory s ! T_COUNTER)" and ?o = "unat (io_memory s ! T_MODULO)"
  let ?t = "tima_after ?c ?o n"
  have byte: "?c < 256" "?o < 256"
    using unsigned_less [of "?m ! T_COUNTER", where ?'a = nat] unsigned_less [of "?m ! T_MODULO", where ?'a = nat]
    by simp_all
  have full: "(of_nat ?t :: u8) = 0xFF \<longleftrightarrow> ?t = 255"
    using tima_after_bound [OF byte(2), of ?c n] by (simp add: word_unat_eq_iff unat_of_nat)
  have "(if (of_nat ?t :: u8) = 0xFF then ?m ! T_MODULO else of_nat ?t + 1) = of_nat (tima_after ?c ?o (Suc n))"
    unfolding full tima_after_Suc(1) [OF byte] by simp
  moreover have "(if (of_nat ?t :: u8) = 0xFF then (if 256 \<le> ?c + n then ?m ! INTERRUPTS OR TIMER_INTERRUPT else ?m ! INTERRUPTS) OR TIMER_INTERRUPT
      else if 256 \<le> ?c + n then ?m ! INTERRUPTS OR TIMER_INTERRUPT else ?m ! INTERRUPTS) =
      (if 256 \<le> ?c + Suc n then ?m ! INTERRUPTS OR TIMER_INTERRUPT else ?m ! INTERRUPTS)"
    unfolding full tima_after_Suc(2) [OF byte] by (simp add: or.assoc)
  ultimately have "timer_tick (timer_state n s) = timer_state (Suc n) s"
    unfolding timer_state_def Let_def timer_tick_eval [OF assms] by (simp only:)
  with Suc show ?case by simp
qed

text \<open>
  C24. Once a timer frequency is selected, bringing the timer up to date ends, and adds one tick for each
  whole period in the cycles it owes, keeping the rest: TIMA counts up, reloads from TMA each
  time it passes 255, and the timer interrupt is requested exactly if it passed at least once;
  nothing else changes.
\<close>

theorem reduceTimer_counts_periods:
  assumes "0 < threshold" and "length (io_memory s) = 0x80"
    and "n = unat (tCycleCount s) div unat threshold" and "c = unat (io_memory s ! T_COUNTER)"
  shows "reduceTimer threshold s = (Inr (), s\<lparr>tCycleCount := tCycleCount s mod ucast threshold,
    io_memory := (io_memory s)[T_COUNTER := of_nat (tima_after c (unat (io_memory s ! T_MODULO)) n),
      INTERRUPTS := io_memory s ! INTERRUPTS OR (if 256 \<le> c + n then TIMER_INTERRUPT else 0)]\<rparr>)"
  using timer_ticks_state [of s n] assms
  by (simp add: reduceTimer_run timer_state_def Let_def)

lemma reduceTimer_counts_periods_witness:
  "\<exists>t. reduceTimer 4 (switched_on\<lparr>tCycleCount := 1030\<rparr>) = (Inr (), t) \<and> tCycleCount t = 2 \<and>
    io_memory t ! T_COUNTER = 1 \<and> io_memory t ! INTERRUPTS = TIMER_INTERRUPT"
  using reduceTimer_counts_periods [of 4 "switched_on\<lparr>tCycleCount := 1030\<rparr>" 257 0]
  by (simp add: tima_after_def)

section \<open>The audio unit catches up\<close>

text \<open>
  C25. The loop that clocks the audio unit ends for every target, also one behind the current clock,
  and leaves the unit well formed and exactly at the target: neither the shape of the channels nor the
  samples handed to the frontend on the way can stop it.
\<close>

theorem audio_clock_reaches:
  assumes "apu_ok s"
  shows "\<exists>t. clock_to goal s = (Inr (), t) \<and> apu_ok t \<and> m_last_clock t = goal"
proof -
  obtain r t where run: "clock_to goal s = (r, t)" by (cases "clock_to goal s")
  show ?thesis
    using apu_total.clock_to_reaches [OF assms run] run by (cases r) auto
qed

lemma audio_clock_reaches_witness:
  "\<exists>t. clock_to 3 (switched_on\<lparr>m_last_clock := 5\<rparr>) = (Inr (), t) \<and> m_last_clock t = 3"
  using audio_clock_reaches [of "switched_on\<lparr>m_last_clock := 5\<rparr>" 3] switched_on_ok
  by (auto simp: gb_ok_expand)

end
