(* ===== verification/PowerUp.thy ===== *)
theory PowerUp
  imports Timers
begin

text \<open>
  The machine as it is constructed and reset (\<^verbatim>\<open>gb.cpp\<close>, \<^verbatim>\<open>memory_map.cpp\<close>): the registers the
  memory map writes at power-up never raise an error.
\<close>

section \<open>Writes that return\<close>

lemma clock_to_returns: "apu_ok s \<Longrightarrow> \<exists>t. clock_to goal s = (Inr (), t)"
  using apu_total.clock_to_reaches [of s goal] by (cases "clock_to goal s"; cases "fst (clock_to goal s)") force+

lemma reduceTimer_returns: "0 < threshold \<Longrightarrow> \<exists>t. reduceTimer threshold s = (Inr (), t)"
  by (simp add: reduceTimer_run)

lemma updateTimers_returns:
  assumes "apu_ok s"
  shows "\<exists>t. updateTimers s = (Inr (), t)"
proof -
  let ?dt = "cycle s - lastCycle s"
  let ?s = "s\<lparr>lastCycle := cycle s, vCycleCount := vCycleCount s + 4 * ?dt, tCycleCount := tCycleCount s + ?dt,
    io_memory := (io_memory s)[DIV_TIMER := ucast (cycle s div 64 mod 0x100)]\<rparr>"
  have "apu_ok ?s" using assms by (simp add: apu_ok_def iomem_ok_def all_channels)
  then obtain t where "clock_to (4 * cycle s) ?s = (Inr (), t)" using clock_to_returns by blast
  then show ?thesis
    using reduceTimer_returns [of 256 t] reduceTimer_returns [of 4 t] reduceTimer_returns [of 16 t]
      reduceTimer_returns [of 64 t]
    by (auto simp: updateTimers_def gpu_updateTimers_def Let_def)
qed

lemma apu_write_returns:
  assumes "apu_ok s" and "unat (addr - 0xFF00) < 0x80"
  shows "\<exists>t. apu_write addr v s = (Inr (), t)"
  using safe_Inl [OF apu_total.safe_apu_write [OF assms(2)] assms(1), of v]
  by (cases "apu_write addr v s"; cases "fst (apu_write addr v s)") auto

lemma ioWrite_returns:
  assumes "io_ok s" and "0xFF00 \<le> addr" "addr \<le> 0xFF7F" and "addr \<notin> {0xFF04, 0xFF44}"
    and "addr = 0xFF40 \<longrightarrow> v AND 0x80 \<noteq> 0"
  shows "\<exists>t. ioWrite addr v s = (Inr (), t)"
proof -
  have ok: "apu_ok s" "length (io_memory s) = 0x80" using assms(1) by (simp_all add: io_ok_def apu_ok_def iomem_ok_def)
  obtain s1 where timers: "updateTimers s = (Inr (), s1)" using updateTimers_returns [OF ok(1)] by blast
  have "apu_ok s1"
    using safe_Inr [OF io_unit.safe_updateTimers assms(1) timers] by (simp add: io_ok_def)
  then have audio: "between 0xFF10 addr 0xFF26 \<Longrightarrow> \<exists>t. apu_write addr v s1 = (Inr (), t)"
    using apu_write_returns io_unit.io_offset(1) by blast
  have reg: "addr \<noteq> 0xFF00 \<Longrightarrow> unat (addr - 0xFF00) < 0x80" using io_unit.io_offset(2) assms(2,3) by simp
  show ?thesis
    using timers audio reg assms(4,5) ok(2)
    by (auto simp: ioWrite_def Let_def write_serial_control_def write_lcd_control_def)
qed

lemma power_up_addresses:
  "\<forall>(addr, v) \<in> set power_up_writes. addr = 0xFFFF \<or>
     0xFF00 \<le> addr \<and> addr \<le> 0xFF7F \<and> addr \<notin> {0xFF04, 0xFF44, 0xFF46} \<and> (addr = 0xFF40 \<longrightarrow> v AND 0x80 \<noteq> 0)"
  by (simp add: power_up_writes_def)

lemma power_up_write_returns:
  assumes "(addr, v) \<in> set power_up_writes" and "mm_ok s"
  shows "\<exists>t. mm_write addr (lit v) False s = (Inr (), t) \<and> mm_ok t"
proof -
  have ok: "io_ok s" "length (stack s) = 0x80" using assms(2) by (simp_all add: mm_ok_def)
  consider "addr = 0xFFFF" | "0xFF00 \<le> addr" "addr \<le> 0xFF7F" "addr \<notin> {0xFF04, 0xFF44, 0xFF46}"
      "addr = 0xFF40 \<longrightarrow> v AND 0x80 \<noteq> 0"
    using power_up_addresses assms(1) by blast
  then have "\<exists>t. mm_write addr (lit v) False s = (Inr (), t)"
  proof cases
    case 1
    then show ?thesis by (simp add: mm_write_def write_with_def stack_write_def ok)
  next
    case 2
    then obtain t where "ioWrite addr v s = (Inr (), t)" using ioWrite_returns [OF ok(1)] by blast
    moreover have "mm_write addr (lit v) False s = ioWrite addr v s"
    proof -
      have "\<not> addr \<le> 0x7FFF" "\<not> addr \<le> 0x9FFF" "\<not> addr \<le> 0xBFFF" "\<not> addr \<le> 0xDFFF" "\<not> addr \<le> 0xFDFF"
        "\<not> addr \<le> 0xFE9F" "\<not> addr \<le> 0xFEFF"
        using 2(1) by unat_arith+
      moreover have "addr \<le> 0xFF45 \<or> 0xFF47 \<le> addr" using 2(3) by unat_arith
      ultimately show ?thesis using 2 by (auto simp: mm_write_def write_with_def)
    qed
    ultimately show ?thesis by simp
  qed
  then show ?thesis
    using safe_Inr [OF memory_map.safe_mm_write assms(2)] by blast
qed

lemma forM_returns:
  assumes "\<And>x s. x \<in> set xs \<Longrightarrow> P s \<Longrightarrow> \<exists>t. f x s = (Inr (), t) \<and> P t" and "P s"
  shows "\<exists>t. forM xs f s = (Inr (), t) \<and> P t"
  using assms
proof (induction xs arbitrary: s)
  case (Cons x xs)
  then obtain t where "f x s = (Inr (), t)" "P t" by (metis list.set_intros(1))
  with Cons show ?case by simp
qed simp

lemma mm_reset_returns:
  assumes "mm_ok s"
  shows "\<exists>t. mm_reset s = (Inr (), t) \<and> mm_ok t"
proof -
  let ?s = "s\<lparr>stack := replicate 0x80 ci_default, workingRam := replicate 0x2000 ci_default\<rparr>"
  have "mm_ok ?s" using assms by (simp add: mm_ok_expand)
  then have "\<exists>t. forM power_up_writes (\<lambda>(addr, v). mm_write addr (lit v) False) ?s = (Inr (), t) \<and> mm_ok t"
    by (intro forM_returns) (auto intro: power_up_write_returns)
  then show ?thesis by (simp add: mm_reset_def)
qed

lemma set_ch_others [simp]: "registers (set_ch i c s) = registers s" "frontend (set_ch i c s) = frontend s"
  "controller_of (set_ch i c s) = controller_of s"
  by (cases i; simp)+

interpretation registers_stand: mm_inv
  "\<lambda>s. mm_ok s \<and> registers s = r \<and> fe_isExitRequested (frontend s) = f \<and> rom_image (controller_of s) = i"
  "faults no_ub"
  by unfold_locales
     (simp_all add: mm_ok_channels, auto simp: mm_ok_expand count_error_def)

lemma reset_returns:
  assumes "mm_ok s"
  obtains t where "mm_reset s = (Inr (), t)" and "mm_ok t" and "registers t = registers s"
    and "fe_isExitRequested (frontend t) = fe_isExitRequested (frontend s)"
    and "rom_image (controller_of t) = rom_image (controller_of s)" and "gb_ok s \<Longrightarrow> gb_ok t"
proof -
  obtain t where t: "mm_reset s = (Inr (), t)" "mm_ok t" using mm_reset_returns [OF assms] by blast
  moreover have "registers t = registers s" "fe_isExitRequested (frontend t) = fe_isExitRequested (frontend s)"
    "rom_image (controller_of t) = rom_image (controller_of s)"
    using safe_Inr [OF registers_stand.safe_mm_reset _ t(1), of "registers s"] assms by simp_all
  moreover have "gb_ok s \<Longrightarrow> gb_ok t"
    using safe_Inr [OF machine.safe_mm_reset _ t(1)] by simp
  ultimately show thesis using that by blast
qed

lemma GB_members_returns:
  assumes "ctl_ok ctl" and "flush_ok fe" and "freq \<noteq> 0"
  obtains g where "GB_members e ctl fe freq = (Inr (), g)" and "gb_ok g" and "registers g = initial_registers"
    and "fe_isExitRequested (frontend g) = fe_isExitRequested fe" and "rom_image (controller_of g) = rom_image ctl"
proof -
  let ?off = "(power_off (error_kind_permitted e) ctl fe freq)\<lparr>error_count := error_count e\<rparr>"
  have off: "gb_ok ?off" using power_off_ok [OF assms(1,2)] by (simp add: gb_ok_expand)
  then have "mm_ok ?off" by (simp add: gb_ok_def)
  then obtain g where "mm_reset ?off = (Inr (), g)" "registers g = registers ?off" "gb_ok g"
    "fe_isExitRequested (frontend g) = fe_isExitRequested (frontend ?off)"
    "rom_image (controller_of g) = rom_image (controller_of ?off)"
    using off by (metis reset_returns)
  then show thesis using that assms(3) by (simp add: GB_members_def power_off_def)
qed

text \<open>The images a machine is built from: readable, with a complete header of a kind that is implemented.\<close>

definition loadable :: "(string \<Rightarrow> u8 list option) \<Rightarrow> string \<Rightarrow> bool" where
  "loadable files name \<longleftrightarrow>
     (case files name of None \<Rightarrow> False
      | Some bytes \<Rightarrow> 0x149 < length bytes \<and> bytes ! 0x147 \<in> {0, 1, 2, 3})"

lemma GB_built:
  assumes "GB files freq name (Some fe) e = (Inr g, e')" and "flush_ok fe"
  shows "loadable files name \<and> freq \<noteq> 0" "gb_ok g" "registers g = initial_registers"
    "fe_isExitRequested (frontend g) = fe_isExitRequested fe"
    "rom_image (controller_of g) = (the (files name) ! 0x147 \<noteq> 0, the (files name))"
proof -
  from assms(1) obtain bytes metadata ctl e1 where bytes: "files name = Some bytes"
    and cart: "make_cartridge bytes e = (Inr (metadata, ctl), e1)"
    and built: "GB_members e1 ctl fe freq = (Inr (), g)"
    by (auto simp: GB_def bindM_def split: option.splits prod.splits sum.splits)
  note ctl = make_cartridge_ok [OF cart]
  have freq: "freq \<noteq> 0" using built by (auto simp: GB_members_def)
  show "loadable files name \<and> freq \<noteq> 0"
    using make_cartridge_returns [of bytes e] cart bytes freq by (auto simp: loadable_def)
  obtain g' where "GB_members e1 ctl fe freq = (Inr (), g')" "gb_ok g'" "registers g' = initial_registers"
    "fe_isExitRequested (frontend g') = fe_isExitRequested fe" "rom_image (controller_of g') = rom_image ctl"
    by (rule GB_members_returns [OF ctl(2) assms(2) freq, of e1])
  with built bytes ctl(3) show "gb_ok g" "registers g = initial_registers"
    "fe_isExitRequested (frontend g) = fe_isExitRequested fe"
    "rom_image (controller_of g) = (the (files name) ! 0x147 \<noteq> 0, the (files name))"
    by simp_all
qed

lemma GB_returns:
  assumes "loadable files name" and "freq \<noteq> 0" and "flush_ok fe"
  obtains g e' where "GB files freq name (Some fe) e = (Inr g, e')"
proof -
  obtain bytes where bytes: "files name = Some bytes" "0x149 < length bytes" "bytes ! 0x147 \<in> {0, 1, 2, 3}"
    using assms(1) by (auto simp: loadable_def split: option.splits)
  obtain metadata ctl e1 where cart: "make_cartridge bytes e = (Inr (metadata, ctl), e1)"
    using make_cartridge_returns [of bytes e] bytes(2,3) by blast
  obtain g where "GB_members e1 ctl fe freq = (Inr (), g)"
    by (rule GB_members_returns [OF make_cartridge_ok(2) [OF cart] assms(3,2), of e1])
  with bytes(1) cart show thesis using that by (simp add: GB_def)
qed

lemma GB_fails:
  assumes "GB files freq name (Some fe) e = (Inl x, e')" and "flush_ok fe"
  shows "x = UndefinedBehaviour \<or> (\<exists>m. x = RuntimeError m)" "\<not> loadable files name \<or> freq = 0"
proof -
  show failed: "\<not> loadable files name \<or> freq = 0"
    using GB_returns [of files name freq fe e] assms by auto
  show "x = UndefinedBehaviour \<or> (\<exists>m. x = RuntimeError m)"
  proof (cases "files name")
    case None
    with assms(1) show ?thesis by (auto simp: GB_def)
  next
    case (Some bytes)
    show ?thesis
    proof (cases "make_cartridge bytes e")
      case (Pair r e1)
      show ?thesis
      proof (cases r)
        case (Inl y)
        with Pair Some assms(1) have "x = y" by (simp add: GB_def)
        with make_cartridge_throws [of bytes e y e1] Pair Inl show ?thesis by simp
      next
        case (Inr p)
        obtain metadata ctl where p: "p = (metadata, ctl)" by (cases p)
        with Pair Inr have "\<exists>metadata ctl t. make_cartridge bytes e = (Inr (metadata, ctl), t)" by simp
        then have "loadable files name" using make_cartridge_returns [of bytes e] Some by (simp add: loadable_def)
        with failed have "freq = 0" by simp
        with Pair Inr p Some assms(1) show ?thesis by (simp add: GB_def GB_members_def)
      qed
    qed
  qed
qed


text \<open>A machine built from an MBC1 image of two banks, of the kind the tests run.\<close>

definition two_banks :: "u8 list" where
  "two_banks = (replicate 0x8000 0)[0x147 := 1]"

lemma two_banks_loadable: "loadable (\<lambda>_. Some two_banks) name"
  by (simp add: loadable_def two_banks_def)


end
