(* ===== verification/CommandLine.thy ===== *)
theory CommandLine
  imports GdbServer PowerUp
begin

text \<open>
  \<^verbatim>\<open>sdl-frontend/main.cpp\<close>: the arguments of the program and what it runs. The arguments
  still to be read are the state; the frontends it can construct are a parameter, as are the files and
  the network (\<open>GdbServer\<close>).
\<close>

section \<open>Reading the arguments\<close>

record options =
  is_gui :: bool
  permissive :: bool
  port :: "u16 option"
  rom :: "string option"

definition take_flag :: "string \<Rightarrow> (string list, bool) M" where
  "take_flag flag =
     bindM (getM (\<lambda>args. flag \<in> set args)) (\<lambda>found.
     thenM (modM (remove1 flag))
     (returnM found))"

text \<open>\<open>std::stoi\<close>: as \<open>std::stol\<close>, for a result that fits an \<open>int\<close>.\<close>

definition stoi :: "string \<Rightarrow> ('s, int) M" where
  "stoi s = bindM (stol s 10) (\<lambda>v. if v < - (2 ^ 31) \<or> 2 ^ 31 \<le> v then raiseM OutOfRange else returnM v)"

text \<open>The iterator after the flag is dereferenced without a test; the port keeps sixteen bits.\<close>

definition take_port :: "(string list, u16 option) M" where
  "take_port =
     bindM (getM (dropWhile (\<lambda>a. a \<noteq> ''--listen''))) (\<lambda>listen.
     case listen of
       [] \<Rightarrow> returnM None
     | [_] \<Rightarrow> raiseM UndefinedBehaviour
     | _ # text # after \<Rightarrow>
         bindM (stoi text) (\<lambda>n.
         thenM (modM (\<lambda>args. takeWhile (\<lambda>a. a \<noteq> ''--listen'') args @ after))
         (returnM (Some (word_of_int n)))))"

definition take_rom :: "(string list, string option) M" where
  "take_rom =
     bindM (getM id) (\<lambda>args.
     case args of
       [name] \<Rightarrow> thenM (modM (\<lambda>_. [])) (returnM (Some name))
     | _ \<Rightarrow> returnM None)"

definition parse_arguments :: "(string list, options) M" where
  "parse_arguments =
     bindM (take_flag ''--gui'') (\<lambda>gui.
     bindM (take_flag ''--permissive'') (\<lambda>all.
     bindM take_port (\<lambda>p.
     bindM take_rom (\<lambda>r.
     bindM (getM id) (\<lambda>args.
     thenM (whenM (args \<noteq> [])
       (raiseM (RuntimeError (''Argument error: unrecognized argument '' @ [CHR 0x27] @ hd args @ [CHR 0x27]))))
     (returnM \<lparr>is_gui = gui, permissive = all, port = p, rom = r\<rparr>))))))"

section \<open>The program\<close>

definition permitted_by_flag :: "ErrorKind list" where
  "permitted_by_flag =
     [illegal_memory_address, illegal_memory_write, undefined_data, call_frame_violation,
      clobbered_return_address, reading_return_address, ppu_access_violation, pc_outside_of_program_memory]"

definition permit_all :: "options \<Rightarrow> errs \<Rightarrow> (exn + unit) \<times> errs" where
  "permit_all opts = whenM (permissive opts) (forM permitted_by_flag permit_error_kind)"

text \<open>How the program ends: an exception before it runs, the debugger's session, or the machine.\<close>

datatype 'f outcome =
    Failed exn
  | Debugged "(exn + unit) \<times> 'f session remote"
  | Ran "(exn + u64) \<times> 'f gb"

definition main :: "host \<Rightarrow> (bool \<Rightarrow> 'f frontend) \<Rightarrow> string option list \<Rightarrow> int list \<Rightarrow> string list \<Rightarrow>
    'f outcome option" where
  "main h frontends packets results argv =
     (case parse_arguments (drop 1 argv) of
        (Inl x, _) \<Rightarrow> Some (Failed x)
      | (Inr opts, _) \<Rightarrow>
          let e = snd (permit_all opts no_errors);
              fe = frontends (is_gui opts)
          in (case port opts of
                Some p \<Rightarrow> map_option Debugged (run_gdb_server h p fe (rom opts) e packets results)
              | None \<Rightarrow>
                  (case rom opts of
                     None \<Rightarrow> Some (Failed (RuntimeError ''Argument error: missing position argument ROM''))
                   | Some name \<Rightarrow>
                       (case make_GB h name (Some fe)
                           \<lparr>machine = None, spare_frontend = None, is_halted = False, errors = e\<rparr> of
                          (Inl x, _) \<Rightarrow> Some (Failed x)
                        | (Inr g, _) \<Rightarrow> map_option Ran (run_standalone 0 g)))))"

section \<open>A well-formed machine\<close>

lemma make_GB_runs:
  assumes "make_GB h name (Some fe) s = (Inr g, s')" and "flush_ok fe"
  shows "gb_ok g" "fe_isExitRequested (frontend g) = fe_isExitRequested fe"
    "rom_image (controller_of g) = (the (read_file h name) ! 0x147 \<noteq> 0, the (read_file h name))"
proof -
  from assms(1) obtain e e' where built: "GB (read_file h) (audio_sample_freq h) name (Some fe) e = (Inr g, e')"
    by (auto simp: make_GB_def bindM_def thenM_def returnM_def split: prod.splits sum.splits)
  show "gb_ok g" "fe_isExitRequested (frontend g) = fe_isExitRequested fe"
    "rom_image (controller_of g) = (the (read_file h name) ! 0x147 \<noteq> 0, the (read_file h name))"
    using GB_built [OF built assms(2)] by simp_all
qed

section \<open>Arguments in any order\<close>

text \<open>The groups of words a choice of options is written with.\<close>

definition words :: "bool \<Rightarrow> bool \<Rightarrow> string option \<Rightarrow> string option \<Rightarrow> string list list" where
  "words gui all listen name =
     (if gui then [[''--gui'']] else []) @ (if all then [[''--permissive'']] else []) @
     (case listen of None \<Rightarrow> [] | Some p \<Rightarrow> [[''--listen'', p]]) @
     (case name of None \<Rightarrow> [] | Some r \<Rightarrow> [[r]])"

definition plain :: "string option \<Rightarrow> bool" where
  "plain a \<longleftrightarrow> (\<forall>w \<in> set_option a. w \<notin> {''--gui'', ''--permissive'', ''--listen''})"

definition port_text :: "u16 \<Rightarrow> string" where
  "port_text p = text_of 10 (unat p)"

lemma stoi_port_text [simp]: "stoi (port_text p) = returnM (uint p)"
proof -
  have "unat p < 65536" "uint p < 65536"
    using unsigned_less [of p, where ?'a = nat] unsigned_less [of p, where ?'a = int] by simp_all
  moreover have "\<not> uint p < - 2147483648"
    unfolding not_less by (rule order_trans [OF _ uint_ge_0]) simp
  ultimately show ?thesis by (simp add: stoi_def port_text_def stol_text_of fun_eq_iff)
qed

lemma port_text_plain: "port_text p \<notin> {''--gui'', ''--permissive'', ''--listen''}"
proof -
  obtain ds where ds: "port_text p = map digit_char ds" "ds \<noteq> []" "\<forall>d \<in> set ds. d < 10"
    unfolding port_text_def using text_of_digits [of 10 "unat p"] by simp blast
  then show ?thesis
    using digit_chars(3) by (cases ds) force+
qed

lemma take_flag_groups:
  assumes "\<forall>g \<in> set gs. f \<in> set g \<longrightarrow> g = [f]"
  shows "take_flag f (concat gs) = (Inr ([f] \<in> set gs), concat (remove1 [f] gs))"
proof -
  have "f \<in> set (concat gs) \<longleftrightarrow> [f] \<in> set gs" "remove1 f (concat gs) = concat (remove1 [f] gs)"
    using assms by (induction gs) (auto simp: remove1_append remove1_idem)
  then show ?thesis by (simp add: take_flag_def)
qed

lemma both_orders:
  assumes "distinct xs" and "set xs = {a, b}" and "a \<noteq> b"
  shows "xs = [a, b] \<or> xs = [b, a]"
proof -
  have "length xs = 2" using distinct_card [OF assms(1)] assms(2,3) by simp
  then obtain x y where "xs = [x, y]" by (auto simp: length_Suc_conv numeral_2_eq_2)
  with assms show ?thesis by (auto simp: doubleton_eq_iff)
qed

lemma only_element: "distinct xs \<Longrightarrow> set xs = {a} \<Longrightarrow> xs = [a]"
  by (cases xs) (auto simp: subset_singleton_iff)

lemma take_port_and_rom:
  assumes "distinct gs" and "set gs = set (words False False (map_option port_text listen) name)" and "plain name"
  shows "bindM take_port (\<lambda>p. bindM take_rom (k p)) (concat gs) = k listen name []"
proof (cases listen)
  case None
  with assms show ?thesis
    by (cases name) (auto simp: words_def plain_def take_port_def take_rom_def dest: only_element)
next
  case listen: (Some p)
  show ?thesis
  proof (cases name)
    case None
    with assms listen have "gs = [[''--listen'', port_text p]]" by (simp add: words_def only_element)
    with None listen show ?thesis by (simp add: take_port_def take_rom_def)
  next
    case (Some r)
    then have "set gs = {[''--listen'', port_text p], [r]}" using assms(2) listen by (simp add: words_def)
    then have "gs = [[''--listen'', port_text p], [r]] \<or> gs = [[r], [''--listen'', port_text p]]"
      by (rule both_orders [OF assms(1)]) simp
    with assms(3) Some listen show ?thesis
      by (auto simp: plain_def take_port_def take_rom_def)
  qed
qed

lemma set_words:
  "set (words gui all listen name) =
     (if gui then {[''--gui'']} else {}) \<union> (if all then {[''--permissive'']} else {}) \<union>
     (case listen of None \<Rightarrow> {} | Some p \<Rightarrow> {[''--listen'', p]}) \<union> (case name of None \<Rightarrow> {} | Some r \<Rightarrow> {[r]})"
  by (auto simp: words_def split: option.splits)

lemma flag_groups:
  assumes "plain name" and "f \<in> {''--gui'', ''--permissive''}"
    and "g \<in> set (words gui all (map_option port_text listen) name)" and "f \<in> set g"
  shows "g = [f]"
proof -
  from assms(3) consider "g = [''--gui'']" | "g = [''--permissive'']"
    | p where "g = [''--listen'', port_text p]" | r where "name = Some r" "g = [r]"
    unfolding set_words by (auto split: if_splits option.splits)
  then show ?thesis
  proof cases
    case (3 p)
    with assms(2,4) show ?thesis using port_text_plain [of p] by auto
  next
    case (4 r)
    with assms(4) show ?thesis by simp
  qed (use assms(4) in simp_all)
qed

lemma flag_given:
  assumes "plain name"
  shows "[''--gui''] \<in> set (words gui all listen name) \<longleftrightarrow> gui"
    "[''--permissive''] \<in> set (words gui all listen name) \<longleftrightarrow> all"
    "set (words gui all listen name) - {[''--gui'']} = set (words False all listen name)"
    "set (words False all listen name) - {[''--permissive'']} = set (words False False listen name)"
proof -
  have r: "[f] \<in> (case name of None \<Rightarrow> {} | Some r \<Rightarrow> {[r]}) \<longleftrightarrow> False" if "f \<in> {''--gui'', ''--permissive''}" for f
    using assms that by (cases name) (auto simp: plain_def)
  have l: "[f] \<in> (case listen of None \<Rightarrow> {} | Some p \<Rightarrow> {[''--listen'', p]}) \<longleftrightarrow> False" for f
    by (cases listen) simp_all
  show "[''--gui''] \<in> set (words gui all listen name) \<longleftrightarrow> gui"
    "[''--permissive''] \<in> set (words gui all listen name) \<longleftrightarrow> all"
    by (simp_all add: set_words r l)
  show "set (words gui all listen name) - {[''--gui'']} = set (words False all listen name)"
    "set (words False all listen name) - {[''--permissive'']} = set (words False False listen name)"
    by (simp_all add: set_words r l Un_Diff)
qed

lemma parse_words:
  assumes "distinct gs" and "set gs = set (words gui all (map_option port_text listen) name)" and "plain name"
  shows "parse_arguments (concat gs) =
    (Inr \<lparr>is_gui = gui, permissive = all, port = listen, rom = name\<rparr>, [])"
proof -
  let ?words = "\<lambda>gui all. words gui all (map_option port_text listen) name"
  let ?gs = "remove1 [''--gui''] gs"
  have one: "set ?gs = set (?words False all)" "distinct ?gs"
    using assms flag_given(3) by simp_all
  have two: "set (remove1 [''--permissive''] ?gs) = set (?words False False)" "distinct (remove1 [''--permissive''] ?gs)"
    using one assms(3) flag_given(4) by simp_all
  have "take_flag ''--gui'' (concat gs) = (Inr gui, concat ?gs)"
    using take_flag_groups [of gs "''--gui''"] flag_groups [OF assms(3)] flag_given(1) [OF assms(3)] assms(2) by auto
  moreover have "take_flag ''--permissive'' (concat ?gs) = (Inr all, concat (remove1 [''--permissive''] ?gs))"
    using take_flag_groups [of ?gs "''--permissive''"] flag_groups [OF assms(3)] flag_given(2) [OF assms(3)] one by auto
  ultimately show ?thesis
    by (simp add: parse_arguments_def take_port_and_rom [OF two(2,1) assms(3)])
qed

text \<open>The flag that announces a port may be the last word: what follows it is read all the same.\<close>

lemma trailing_listen_undefined:
  assumes "\<forall>w \<in> set ws. w \<notin> {''--gui'', ''--permissive'', ''--listen''}"
  shows "main h frontends packets results (program # ws @ [''--listen'']) = Some (Failed UndefinedBehaviour)"
proof -
  have "''--gui'' \<notin> set ws" "''--permissive'' \<notin> set ws" "\<forall>w \<in> set ws. w \<noteq> ''--listen''" using assms by auto
  then show ?thesis
    by (simp add: main_def parse_arguments_def take_flag_def take_port_def remove1_append remove1_idem
        dropWhile_append2)
qed

lemma permit_list:
  "forM ks permit_error_kind s = (Inr (), s\<lparr>error_kind_permitted := (\<lambda>k. k \<in> set ks \<or> error_kind_permitted s k)\<rparr>)"
  by (induction ks arbitrary: s) (auto simp: permit_error_kind_def fun_eq_iff)



end
