(* ===== verification/Harness.thy ===== *)
theory Harness
  imports CommandLine "HOL-Library.Sublist"
begin

text \<open>
  The programs that run test ROMs without a window: \<^verbatim>\<open>tests/main.cpp\<close> watches the serial port
  for a verdict or counts clocks, and \<^verbatim>\<open>toolchain-test/main.cpp\<close> runs an executable until it
  traps. Printing and the wall clock are not modelled.
\<close>

section \<open>Watching a test ROM\<close>

text \<open>The characters the headless frontend wrote to its stream.\<close>

definition serial_output :: "(u8 list, 'z) gb_scheme \<Rightarrow> string" where
  "serial_output s = map (\<lambda>b. char_of (uint b)) (fe_state (frontend s))"

text \<open>
  The characters the last unformatted input took from the stream. The harness reads the stream with
  \<open>str\<close> only, which takes none.
\<close>

definition output_gcount :: "(u8 list, 'z) gb_scheme \<Rightarrow> int" where
  "output_gcount s = 0"

definition verdict :: "string \<Rightarrow> bool option" where
  "verdict output =
     (if sublist ''Passed'' output then Some True
      else if sublist ''Failed'' output then Some False
      else None)"

partial_function (option) test_loop ::
  "u32 \<Rightarrow> int \<Rightarrow> (u8 list, 'z) gb_scheme \<Rightarrow> ((exn + bool) \<times> (u8 list, 'z) gb_scheme) option" where
  "test_loop i previousSize s =
     (if i < push_bit 25 1 then
        (case gb_clock s of
           (Inl e, t) \<Rightarrow> Some (Inl e, t)
         | (Inr _, t) \<Rightarrow>
             if i mod 0x1000 = 0 then
               (case verdict (serial_output t) of
                  Some b \<Rightarrow> Some (Inr b, t)
                | None \<Rightarrow>
                    (let currentSize = output_gcount t
                     in if currentSize \<noteq> previousSize then test_loop (0 + 1) currentSize t
                        else test_loop (i + 1) previousSize t))
             else test_loop (i + 1) previousSize t)
      else Some (Inl (RuntimeError ''ROM timeout''), s))"

text \<open>A failed assertion ends the process; every other throw of the model is a \<open>std::exception\<close>.\<close>

fun is_std_exception :: "exn \<Rightarrow> bool" where
  "is_std_exception (Thrown _) = True"
| "is_std_exception (RuntimeError _) = True"
| "is_std_exception OutOfRange = True"
| "is_std_exception InvalidArgument = True"
| "is_std_exception _ = False"

definition unloaded :: "errs \<Rightarrow> 'f session" where
  "unloaded e = \<lparr>machine = None, spare_frontend = None, is_halted = False, errors = e\<rparr>"

definition report :: "(exn + bool) \<Rightarrow> exn + bool" where
  "report r = (case r of Inl x \<Rightarrow> if is_std_exception x then Inr False else Inl x | Inr b \<Rightarrow> Inr b)"

definition passesTest :: "host \<Rightarrow> string \<Rightarrow> errs \<Rightarrow> ((exn + bool) \<times> errs) option" where
  "passesTest h testROM e =
     (case make_GB h testROM (Some headless) (unloaded e) of
        (Inl x, s) \<Rightarrow> Some (report (Inl x), errors s)
      | (Inr g, _) \<Rightarrow> map_option (\<lambda>(r, t). (report r, errs.truncate t)) (test_loop 0 0 g))"

section \<open>The test programs\<close>

definition testROMs :: "(string \<times> string) list" where
  "testROMs =
     [(''Blargg's CPU Tests'', ''tests/cpu_instrs/cpu_instrs.gb''),
      (''   01-Special'', ''tests/cpu_instrs/individual/01-special.gb''),
      (''   02-Interrupts'', ''tests/cpu_instrs/individual/02-interrupts.gb''),
      (''   03-OP SP HL'', ''tests/cpu_instrs/individual/03-op sp,hl.gb''),
      (''   04-OP i imm'', ''tests/cpu_instrs/individual/04-op r,imm.gb''),
      (''   05-OP rp'', ''tests/cpu_instrs/individual/05-op rp.gb''),
      (''   06-LD r r'', ''tests/cpu_instrs/individual/06-ld r,r.gb''),
      (''   07-JP, CALL'', ''tests/cpu_instrs/individual/07-jr,jp,call,ret,rst.gb''),
      (''   08-Misc'', ''tests/cpu_instrs/individual/08-misc instrs.gb''),
      (''   09-OP r r'', ''tests/cpu_instrs/individual/09-op r,r.gb''),
      (''   10-BIT OPs'', ''tests/cpu_instrs/individual/10-bit ops.gb''),
      (''   11-OP a,(HL)'', ''tests/cpu_instrs/individual/11-op a,(hl).gb''),
      (''Blargg's Instructions Timing'', ''tests/instr_timing/instr_timing.gb''),
      (''Blargg's Memory Timing 1'', ''tests/mem_timing/mem_timing.gb'')]"

fun run_tests :: "host \<Rightarrow> (string \<times> string) list \<Rightarrow> int \<Rightarrow> int \<Rightarrow> errs \<Rightarrow> ((exn + bool) \<times> errs) option" where
  "run_tests h [] testsRan testsPassed e = Some (Inr (testsPassed = testsRan), e)"
| "run_tests h (testROM # later) testsRan testsPassed e =
     (case passesTest h (snd testROM) e of
        None \<Rightarrow> None
      | Some (Inl x, e') \<Rightarrow> Some (Inl x, e')
      | Some (Inr passed, e') \<Rightarrow> run_tests h later (testsRan + 1) (if passed then testsPassed + 1 else testsPassed) e')"

definition passesAllTests :: "host \<Rightarrow> errs \<Rightarrow> ((exn + bool) \<times> errs) option" where
  "passesAllTests h = run_tests h testROMs 0 0"

fun run_updates :: "nat \<Rightarrow> (('f, 'z) gb_scheme, unit) M" where
  "run_updates 0 = returnM ()"
| "run_updates (Suc updates) = thenM gb_clock (run_updates updates)"

text \<open>What the benchmark reports of the machine: the cycles completed.\<close>

definition runBenchmarkHeadless :: "host \<Rightarrow> string \<Rightarrow> u64 \<Rightarrow> errs \<Rightarrow> exn + u64" where
  "runBenchmarkHeadless h name updates e =
     (case make_GB h name (Some headless) (unloaded e) of
        (Inl x, _) \<Rightarrow> Inl x
      | (Inr g, _) \<Rightarrow>
          (case run_updates (unat updates) g of
             (Inl x, _) \<Rightarrow> Inl x
           | (Inr _, t) \<Rightarrow> Inr (cycle t)))"

text \<open>\<open>atoll\<close>: zero without digits, undefined when the value does not fit.\<close>

definition atoll :: "string \<Rightarrow> exn + int" where
  "atoll s =
     (case take_sign (dropWhile is_space s) of (negative, rest) \<Rightarrow>
      let v = (if negative then - int (number 10 (digits 10 rest)) else int (number 10 (digits 10 rest)))
      in if v < - (2 ^ 63) \<or> 2 ^ 63 \<le> v then Inl UndefinedBehaviour else Inr v)"

definition permitted_in_tests :: "ErrorKind list" where
  "permitted_in_tests = [call_frame_violation, clobbered_return_address, reading_return_address]"

definition test_main :: "host \<Rightarrow> string list \<Rightarrow> (exn + int) option" where
  "test_main h argv =
     (let e = snd (forM permitted_in_tests permit_error_kind no_errors)
      in case argv of
           [_] \<Rightarrow> map_option (\<lambda>(r, _). map_sum id (\<lambda>passed. if \<not> passed then 1 else 0) r) (passesAllTests h e)
         | [_, name, updates] \<Rightarrow>
             Some (case atoll updates of
                     Inl x \<Rightarrow> Inl x
                   | Inr n \<Rightarrow> map_sum id (\<lambda>_. 0) (runBenchmarkHeadless h name (word_of_int n) e))
         | _ \<Rightarrow> Some (Inr 0))"

text \<open>The first argument is taken without a test; the loading is outside the \<open>try\<close> block.\<close>

definition toolchain_main :: "host \<Rightarrow> string list \<Rightarrow> (exn + unit) option" where
  "toolchain_main h argv =
     (case drop 1 argv of
        [] \<Rightarrow> Some (Inl UndefinedBehaviour)
      | elf_path # _ \<Rightarrow>
          (case load_from_elf h (Some headless) elf_path (unloaded no_errors) of
             (Inl x, _) \<Rightarrow> Some (Inl x)
           | (Inr g, _) \<Rightarrow>
               map_option (\<lambda>(r, _). case r of Inl x \<Rightarrow> if is_Trap x then Inr () else Inl x | Inr _ \<Rightarrow> Inr ())
                 (run_standalone 0 g)))"

section \<open>The verdict of a test\<close>

text \<open>What the poll after the clock with index \<open>i\<close> finds, when there is one.\<close>

definition polled :: "nat \<Rightarrow> (u8 list, 'z) gb_scheme \<Rightarrow> bool option" where
  "polled i t = (if i mod 0x1000 = 0 then verdict (serial_output t) else None)"

lemma loop_index:
  fixes i :: u32
  shows "i < push_bit 25 1 \<longleftrightarrow> unat i < 2 ^ 25" "i mod 0x1000 = 0 \<longleftrightarrow> unat i mod 0x1000 = 0"
    "unat i < 2 ^ 25 \<Longrightarrow> unat (i + 1) = Suc (unat i)"
proof -
  show "i < push_bit 25 1 \<longleftrightarrow> unat i < 2 ^ 25"
    by (simp add: push_bit_eq_mult word_less_nat_alt)
  show "i mod 0x1000 = 0 \<longleftrightarrow> unat i mod 0x1000 = 0"
    by (simp add: word_unat_eq_iff unat_mod_distrib)
  show "unat (i + 1) = Suc (unat i)" if "unat i < 2 ^ 25"
    using that by (simp add: unat_word_ariths)
qed

text \<open>The count of the stream never moves, so the index never starts again.\<close>

lemma test_loop_steps:
  "\<not> unat i < 2 ^ 25 \<Longrightarrow> test_loop i 0 s = Some (Inl (RuntimeError ''ROM timeout''), s)"
  "unat i < 2 ^ 25 \<Longrightarrow> gb_clock s = (Inl e, t) \<Longrightarrow> test_loop i 0 s = Some (Inl e, t)"
  "unat i < 2 ^ 25 \<Longrightarrow> gb_clock s = (Inr u, t) \<Longrightarrow>
     test_loop i 0 s = (case polled (unat i) t of Some b \<Rightarrow> Some (Inr b, t) | None \<Rightarrow> test_loop (i + 1) 0 t)"
  unfolding test_loop.simps [of i] loop_index(1,2)
  by (simp_all add: polled_def output_gcount_def Let_def split: option.split)

text \<open>
  From index \<open>i\<close>, the poll after \<open>n + 1\<close> clocks, none of which throws, is the first to find a verdict,
  and it finds \<open>b\<close>.
\<close>

definition first_verdict :: "nat \<Rightarrow> bool \<Rightarrow> nat \<Rightarrow> (u8 list, 'z) gb_scheme \<Rightarrow> bool" where
  "first_verdict i b n s \<longleftrightarrow> i + n < 2 ^ 25 \<and> fst (run_updates (Suc n) s) = Inr () \<and>
     polled (i + n) (snd (run_updates (Suc n) s)) = Some b \<and>
     (\<forall>k < n. polled (i + k) (snd (run_updates (Suc k) s)) = None)"

lemma first_verdict_Suc:
  assumes "gb_clock s = (Inr (), t)"
  shows "first_verdict i b 0 s \<longleftrightarrow> i < 2 ^ 25 \<and> polled i t = Some b"
    "first_verdict i b (Suc n) s \<longleftrightarrow> polled i t = None \<and> first_verdict (Suc i) b n t"
  using assms by (auto simp: first_verdict_def All_less_Suc2)

lemma ex_first_verdict:
  assumes "gb_clock s = (Inr (), t)"
  shows "(\<exists>n. first_verdict i b n s) \<longleftrightarrow>
    i < 2 ^ 25 \<and> polled i t = Some b \<or> polled i t = None \<and> (\<exists>n. first_verdict (Suc i) b n t)"
  using first_verdict_Suc [OF assms] by (metis not0_implies_Suc)

lemma test_loop_ends:
  assumes "2 ^ 25 - unat i = d"
  shows "\<exists>r t. test_loop i 0 s = Some (r, t) \<and> (\<forall>b. r = Inr b \<longleftrightarrow> (\<exists>n. first_verdict (unat i) b n s)) \<and>
    (\<forall>e. r = Inl e \<longrightarrow> e = RuntimeError ''ROM timeout'' \<or> (\<exists>n. fst (run_updates n s) = Inl e))"
  using assms
proof (induction d arbitrary: i s)
  case 0
  then show ?case by (simp add: test_loop_steps(1) first_verdict_def)
next
  case (Suc d)
  then have i: "unat i < 2 ^ 25" by linarith
  obtain c t where clk: "gb_clock s = (c, t)" by (cases "gb_clock s")
  show ?case
  proof (cases c)
    case (Inl e)
    with clk have "run_updates (Suc n) s = (Inl e, t)" for n by simp
    then have "\<not> first_verdict (unat i) b n s" "\<exists>n. fst (run_updates n s) = Inl e" for b n
      by (metis first_verdict_def fst_conv sum.distinct(1), metis fst_conv)
    with Inl clk i show ?thesis by (auto simp: test_loop_steps(2))
  next
    case [simp]: (Inr u)
    show ?thesis
    proof (cases "polled (unat i) t")
      case (Some b)
      with ex_first_verdict [of s t "unat i"] clk i show ?thesis by (auto simp: test_loop_steps(3))
    next
      case None
      have "2 ^ 25 - unat (i + 1) = d" using Suc.prems loop_index(3) [OF i] by simp
      from Suc.IH [OF this, of t] obtain r t' where IH: "test_loop (i + 1) 0 t = Some (r, t')"
        "\<And>b. r = Inr b \<longleftrightarrow> (\<exists>n. first_verdict (Suc (unat i)) b n t)"
        "\<And>e. r = Inl e \<Longrightarrow> e = RuntimeError ''ROM timeout'' \<or> (\<exists>n. fst (run_updates n t) = Inl e)"
        unfolding loop_index(3) [OF i] by blast
      have "(\<exists>n. first_verdict (unat i) b n s) \<longleftrightarrow> (\<exists>n. first_verdict (Suc (unat i)) b n t)" for b
        using ex_first_verdict [of s t "unat i"] clk None by simp
      moreover have "e = RuntimeError ''ROM timeout'' \<or> (\<exists>n. fst (run_updates n s) = Inl e)" if "r = Inl e" for e
      proof -
        have "fst (run_updates n t) = fst (run_updates (Suc n) s)" for n using clk by simp
        then show ?thesis using IH(3) [OF that] by metis
      qed
      moreover have "test_loop i 0 s = Some (r, t')" using IH(1) clk i None by (simp add: test_loop_steps(3))
      ultimately show ?thesis using IH(2) by blast
    qed
  qed
qed

lemma safe_run_updates: "safe gb_ok (faults machine_exns) (run_updates n) (\<lambda>_. True)"
  by (induction n) (auto intro: safe_intro machine.safe_gb_operations)

lemma headless_flushes: "flush_ok headless"
  by (rule headless.flush_ok)

lemma loaded:
  assumes "make_GB h name (Some headless) (unloaded e) = (x, s)"
  shows "GB (read_file h) (audio_sample_freq h) name (Some headless) e = (x, errors s) \<or>
    (\<exists>g e'. x = Inr g \<and> GB (read_file h) (audio_sample_freq h) name (Some headless) e = (x, e'))"
  using assms
  by (auto simp: make_GB_def current_errors_def set_errors_def unloaded_def thenM_def split: prod.splits sum.splits)

text \<open>
  C35. A test always ends. It passes exactly when the ROM loads and some poll, one clock and every 4096 after it
  below \<open>2 ^ 25\<close>, is the first to find a verdict on the serial port, which is that the ROM passed, with
  no throw before it; otherwise it fails, or the process ends by a failed assertion or by undefined behaviour. The
  latter takes a ROM that cannot be loaded, no frequency, or an image that lacks the bank it selected.
\<close>

theorem test_passes_on_verdict:
  "\<exists>r e'. passesTest h name e = Some (r, e') \<and>
    r \<in> {Inr True, Inr False, Inl AssertFailed, Inl UndefinedBehaviour} \<and>
    (r = Inr True \<longleftrightarrow>
       (\<exists>g s n. make_GB h name (Some headless) (unloaded e) = (Inr g, s) \<and> first_verdict 0 True n g)) \<and>
    (r = Inl UndefinedBehaviour \<longrightarrow> \<not> loadable (read_file h) name \<or> audio_sample_freq h = 0 \<or>
       (\<exists>g s n. make_GB h name (Some headless) (unloaded e) = (Inr g, s) \<and>
          bank_missing (controller_of (snd (run_updates n g)))))"
proof -
  obtain x s where made: "make_GB h name (Some headless) (unloaded e) = (x, s)"
    by (cases "make_GB h name (Some headless) (unloaded e)")
  show ?thesis
  proof (cases x)
    case (Inl y)
    have built: "GB (read_file h) (audio_sample_freq h) name (Some headless) e = (Inl y, errors s)"
      using loaded [OF made] Inl by simp
    have "y = UndefinedBehaviour \<or> (\<exists>m. y = RuntimeError m)" "\<not> loadable (read_file h) name \<or> audio_sample_freq h = 0"
      using GB_fails [OF built headless_flushes] by simp_all
    with made Inl show ?thesis by (auto simp: passesTest_def report_def)
  next
    case (Inr g)
    have g: "gb_ok g" using make_GB_runs(1) [OF _ headless_flushes] made Inr by blast
    obtain r t where loop: "test_loop 0 0 g = Some (r, t)" "\<And>b. r = Inr b \<longleftrightarrow> (\<exists>n. first_verdict 0 b n g)"
      "\<And>x. r = Inl x \<Longrightarrow> x = RuntimeError ''ROM timeout'' \<or> (\<exists>n. fst (run_updates n g) = Inl x)"
      using test_loop_ends [of 0 "2 ^ 25" g] by auto
    have thrown: "y \<in> machine_exns \<or> y = UndefinedBehaviour \<and> (\<exists>n. bank_missing (controller_of (snd (run_updates n g))))"
      if "r = Inl y" for y
    proof -
      have "y \<in> machine_exns \<or> y = UndefinedBehaviour \<and> bank_missing (controller_of (snd (run_updates n g)))"
        if "fst (run_updates n g) = Inl y" for n
        using safe_run(2) [OF safe_run_updates _ g, of n "Inl y"] that by (cases "run_updates n g") auto
      then show ?thesis using loop(3) [OF that] by (auto simp: machine_exns_def)
    qed
    have "report r \<in> {Inr True, Inr False, Inl AssertFailed, Inl UndefinedBehaviour}"
      using thrown by (cases r; cases "projl r") (auto simp: report_def machine_exns_def)
    moreover have "report r = Inr True \<longleftrightarrow> r = Inr True" "report r = Inl UndefinedBehaviour \<longleftrightarrow> r = Inl UndefinedBehaviour"
      by (auto simp: report_def split: sum.splits)
    ultimately show ?thesis
      using made Inr loop thrown by (auto simp: passesTest_def machine_exns_def)
  qed
qed

section \<open>The toolchain's test\<close>

interpretation unattended: gb_inv "\<lambda>s. gb_ok s \<and> fe_isExitRequested (frontend s) = f" "faults machine_exns"
  by unfold_locales
     (simp_all add: gb_ok_channels, auto simp: gb_ok_expand count_error_def machine_exns_def
        initial_registers_def flags_clean_def is_valid_pc_def)

text \<open>The machine after some clocks, whatever they throw.\<close>

fun clocked_on :: "nat \<Rightarrow> ('f, 'z) gb_scheme \<Rightarrow> ('f, 'z) gb_scheme" where
  "clocked_on 0 s = s"
| "clocked_on (Suc n) s = clocked_on n (snd (gb_clock s))"

text \<open>The first throw that is not a debug trap comes at the clock after \<open>n\<close> others.\<close>

definition runs_until :: "exn \<Rightarrow> nat \<Rightarrow> ('f, 'z) gb_scheme \<Rightarrow> bool" where
  "runs_until e n s \<longleftrightarrow> fst (gb_clock (clocked_on n s)) = Inl e \<and> e \<noteq> Thrown debug_trap \<and>
     (\<forall>k < n. fst (gb_clock (clocked_on k s)) \<in> {Inr (), Inl (Thrown debug_trap)})"

lemma debug_trap_iff: "is_DebugTrap e \<longleftrightarrow> e = Thrown debug_trap"
  by (cases e) auto

lemma runs_until_simps:
  "runs_until e 0 s \<longleftrightarrow> fst (gb_clock s) = Inl e \<and> e \<noteq> Thrown debug_trap"
  "runs_until e (Suc n) s \<longleftrightarrow>
     fst (gb_clock s) \<in> {Inr (), Inl (Thrown debug_trap)} \<and> runs_until e n (snd (gb_clock s))"
  by (auto simp: runs_until_def All_less_Suc2)

lemma never_asked: "fe_isExitRequested (frontend s) = (\<lambda>os. (False, os)) \<Longrightarrow> isSimulationFinished s = (Inr False, s)"
  by (simp add: isSimulationFinished_def fe_call_def)

lemma run_until_stops:
  assumes "runs_until e n s" and "gb_ok s" and "fe_isExitRequested (frontend s) = (\<lambda>os. (False, os))"
  shows "\<exists>t. run_standalone k s = Some (Inl e, t)"
  using assms
proof (induction n arbitrary: s k)
  case 0
  then show ?case by (cases "gb_clock s") (auto simp: run_standalone.simps [of k s] never_asked runs_until_simps debug_trap_iff)
next
  case (Suc n)
  obtain c t where clk: "gb_clock s = (c, t)" by (cases "gb_clock s")
  have "gb_ok t" "fe_isExitRequested (frontend t) = (\<lambda>os. (False, os))"
    using safe_run(1) [OF unattended.safe_gb_operations(4) clk] Suc.prems(2,3) by auto
  with Suc clk show ?case
    by (auto simp: run_standalone.simps [of k s] never_asked runs_until_simps debug_trap_iff)
qed

lemma stopped_ran_until:
  assumes "run_standalone k s = Some x" and "gb_ok s" and "fe_isExitRequested (frontend s) = (\<lambda>os. (False, os))"
  shows "\<exists>e n. fst x = Inl e \<and> runs_until e n s"
proof -
  have "gb_ok s \<and> fe_isExitRequested (frontend s) = (\<lambda>os. (False, os)) \<longrightarrow> (\<exists>e n. fst x = Inl e \<and> runs_until e n s)"
  proof (rule run_standalone.raw_induct [OF _ assms(1), where P = "\<lambda>_ s x. gb_ok s \<and> fe_isExitRequested (frontend s) =
      (\<lambda>os. (False, os)) \<longrightarrow> (\<exists>e n. fst x = Inl e \<and> runs_until e n s)"], rule impI, goal_cases)
    case (1 rs k s x)
    obtain c t where clk: "gb_clock s = (c, t)" by (cases "gb_clock s")
    have "gb_ok t" "fe_isExitRequested (frontend t) = (\<lambda>os. (False, os))"
      using safe_run(1) [OF unattended.safe_gb_operations(4) clk] 1(3) by auto
    then have "\<exists>e n. fst x = Inl e \<and> runs_until e n t" if "rs m t = Some x" for m
      using 1(1) [OF that] by blast
    moreover have "\<exists>e n. fst x = Inl e \<and> runs_until e n s"
      if "\<exists>e n. fst x = Inl e \<and> runs_until e n t" "c \<in> {Inr (), Inl (Thrown debug_trap)}"
      using that clk runs_until_simps(2) [of _ _ s] by (metis fst_conv snd_conv)
    moreover have "\<exists>n. runs_until e n s" if "c = Inl e" "\<not> is_DebugTrap e" for e
      using that clk runs_until_simps(1) [of e s] by (auto simp: debug_trap_iff)
    ultimately show ?case
      using 1(2,3) clk by (cases c) (auto simp: never_asked debug_trap_iff split: if_splits)
  qed
  then show ?thesis using assms(2,3) by blast
qed

text \<open>
  C7. The toolchain's test succeeds exactly when the program it loads reaches a trap, with nothing but
  debug traps thrown on the way; it never ends by itself.
\<close>

theorem toolchain_passes_at_trap:
  assumes "load_from_elf h (Some headless) path (unloaded no_errors) = (Inr g, s)"
  shows "toolchain_main h (program # path # rest) = Some (Inr ()) \<longleftrightarrow> (\<exists>n. runs_until (Thrown trap) n g)"
proof -
  from assms(1) obtain s1 s2 where built: "make_GB h (tmpnam h) (Some headless) s1 = (Inr g, s2)"
    by (auto simp: load_from_elf_def Let_def thenM_def bindM_def split: prod.splits sum.splits)
  have g: "gb_ok g" "fe_isExitRequested (frontend g) = (\<lambda>os. (False, os))"
    using make_GB_runs [OF built headless_flushes] by (auto simp: headless_def)
  have run: "toolchain_main h (program # path # rest) = map_option (\<lambda>(r, _). case r of
      Inl x \<Rightarrow> if is_Trap x then Inr () else Inl x | Inr _ \<Rightarrow> Inr ()) (run_standalone 0 g)"
    using assms(1) by (simp add: toolchain_main_def)
  show ?thesis
  proof
    assume "toolchain_main h (program # path # rest) = Some (Inr ())"
    with run obtain r t where rt: "run_standalone 0 g = Some (r, t)" "\<And>x. r = Inl x \<Longrightarrow> is_Trap x"
      by (cases "run_standalone 0 g") (auto split: sum.splits if_splits)
    with stopped_ran_until [OF rt(1) g] obtain e n where "runs_until e n g" "is_Trap e" by auto
    moreover from this have "e = Thrown trap" by (cases e) (auto simp: runs_until_def)
    ultimately show "\<exists>n. runs_until (Thrown trap) n g" by blast
  next
    assume "\<exists>n. runs_until (Thrown trap) n g"
    then obtain t where "run_standalone 0 g = Some (Inl (Thrown trap), t)"
      using run_until_stops [OF _ g] by blast
    with run show "toolchain_main h (program # path # rest) = Some (Inr ())" by simp
  qed
qed

text \<open>Without an argument the first one is read all the same.\<close>

lemma toolchain_without_argument: "toolchain_main h [program] = Some (Inl UndefinedBehaviour)"
  by (simp add: toolchain_main_def)

section \<open>All tests\<close>

lemma run_tests_true:
  assumes "run_tests h ts run passed e = Some (Inr True, e')" and "passed \<le> run"
  shows "passed = run \<and> (\<forall>test \<in> set ts. \<exists>e1 e2. passesTest h (snd test) e1 = Some (Inr True, e2))"
  using assms
proof (induction ts arbitrary: run passed e)
  case (Cons test ts)
  then obtain b e1 where test: "passesTest h (snd test) e = Some (Inr b, e1)"
    and later: "run_tests h ts (run + 1) (if b then passed + 1 else passed) e1 = Some (Inr True, e')"
    by (auto split: option.splits sum.splits prod.splits)
  have "(if b then passed + 1 else passed) = run + 1"
    "\<forall>test \<in> set ts. \<exists>e1 e2. passesTest h (snd test) e1 = Some (Inr True, e2)"
    using Cons.IH [OF later] Cons.prems(2) by auto
  with Cons.prems(2) test show ?case by (auto split: if_splits)
qed simp

lemma all_tests_pass:
  "passesAllTests h e = Some (Inr True, e') \<Longrightarrow> test \<in> set testROMs \<Longrightarrow>
    \<exists>e1 e2. passesTest h (snd test) e1 = Some (Inr True, e2)"
  unfolding passesAllTests_def using run_tests_true [of h testROMs 0 0 e e'] by simp

section \<open>The properties at concrete inputs\<close>

definition test_host :: host where
  "test_host = local_host\<lparr>read_file := (\<lambda>_. Some two_banks)\<rparr>"

lemma make_test_GB:
  obtains g where "make_GB test_host name (Some headless) (unloaded e) = (Inr g, unloaded e)"
proof -
  obtain g e' where "GB (\<lambda>_. Some two_banks) 1028 name (Some headless) e = (Inr g, e')"
    by (rule GB_returns [OF two_banks_loadable _ headless_flushes, of 1028]) simp
  then show thesis
    using that by (simp add: make_GB_def test_host_def local_host_def current_errors_def unloaded_def)
qed

lemma test_passes_on_verdict_witness:
  "\<exists>r e'. passesTest test_host ''rom'' no_errors = Some (r, e') \<and>
    (r = Inl UndefinedBehaviour \<longrightarrow> (\<exists>g s n. make_GB test_host ''rom'' (Some headless) (unloaded no_errors) = (Inr g, s) \<and>
       bank_missing (controller_of (snd (run_updates n g)))))"
proof -
  have "loadable (read_file test_host) ''rom''" "audio_sample_freq test_host \<noteq> 0"
    by (simp_all add: test_host_def two_banks_loadable, simp add: local_host_def)
  then show ?thesis using test_passes_on_verdict [of test_host "''rom''" no_errors] by blast
qed

lemma toolchain_passes_at_trap_witness:
  "\<exists>g s. load_from_elf test_host (Some headless) ''a.elf'' (unloaded no_errors) = (Inr g, s) \<and>
    (toolchain_main test_host [''test'', ''a.elf''] = Some (Inr ()) \<longleftrightarrow> (\<exists>n. runs_until (Thrown trap) n g))"
proof -
  obtain g where "load_from_elf test_host (Some headless) ''a.elf'' (unloaded no_errors) = (Inr g, unloaded no_errors)"
    by (rule make_test_GB [of "tmpnam test_host" no_errors])
       (simp add: load_from_elf_def run_command_def test_host_def local_host_def)
  then show ?thesis using toolchain_passes_at_trap [of test_host "''a.elf''" g _ "''test''" "[]"] by blast
qed

end
