(* ===== verification/Mixer.thy ===== *)
theory Mixer
  imports Gb Complex_Main
begin

text \<open>
  The mixer of \<^verbatim>\<open>io/apu.cpp\<close>, the floating-point part of \<open>sample_audio\<close>. A float is
  the real number it stands for, and each operation rounds its exact result: \<open>rnd\<close> is the
  rounding of the hardware, a parameter of the model.
\<close>

section \<open>The mixer\<close>

definition DAC_out :: "(real \<Rightarrow> real) \<Rightarrow> u8 option \<Rightarrow> real" where
  "DAC_out rnd channel =
     (case channel of
        None \<Rightarrow> 0
      | Some level \<Rightarrow> rnd (rnd (7.5 - real (unat level)) / 7.5))"

text \<open>The sum of the channels a nibble of the panning register selects, from its bit \<open>n\<close>.\<close>

definition panned :: "(real \<Rightarrow> real) \<Rightarrow> nat \<Rightarrow> AudioSample \<Rightarrow> real" where
  "panned rnd n x =
     (let on = (\<lambda>k c. if sample_panning x AND push_bit (n + k) 1 \<noteq> 0 then DAC_out rnd (c x) else 0) in
      rnd (rnd (rnd (on 0 dac1 + on 1 dac2) + on 2 dac3) + on 3 dac4))"

definition volume_scale :: "(real \<Rightarrow> real) \<Rightarrow> u8 \<Rightarrow> real" where
  "volume_scale rnd volume = rnd (real (unat volume + 1) / 8)"

definition mix :: "(real \<Rightarrow> real) \<Rightarrow> AudioSample \<Rightarrow> real \<times> real" where
  "mix rnd x =
     (let left_volume = drop_bit 4 (sample_volume x) AND 0b111;
          right_volume = sample_volume x AND 0b111
      in (rnd (rnd (0.25 * panned rnd 4 x) * volume_scale rnd left_volume),
          rnd (rnd (0.25 * panned rnd 0 x) * volume_scale rnd right_volume)))"

section \<open>Samples are normalized\<close>

text \<open>
  What is used of the hardware: rounding is monotone and exact on the halves up to eight, which a
  float represents.
\<close>

definition rounding :: "(real \<Rightarrow> real) \<Rightarrow> bool" where
  "rounding rnd \<longleftrightarrow> mono rnd \<and> (\<forall>k. \<bar>k\<bar> \<le> 16 \<longrightarrow> rnd (of_int k / 2) = of_int k / 2)"

lemma rounding_bound:
  assumes "rounding rnd" and "\<bar>x\<bar> \<le> of_int k / 2" and "k \<le> 16"
  shows "\<bar>rnd x\<bar> \<le> of_int k / 2"
proof -
  have "0 \<le> k" using assms(2) abs_ge_zero [of x] by linarith
  then have "\<bar>k\<bar> \<le> 16" "\<bar>- k\<bar> \<le> 16" using assms(3) by simp_all
  then have "rnd (of_int k / 2) = of_int k / 2" "rnd (of_int (- k) / 2) = of_int (- k) / 2"
    using assms(1) unfolding rounding_def by blast+
  moreover have "mono rnd" using assms(1) by (simp add: rounding_def)
  moreover have "x \<le> of_int k / 2" "of_int (- k) / 2 \<le> x" using assms(2) by (simp_all add: abs_le_iff)
  ultimately have "rnd x \<le> of_int k / 2" "of_int (- k) / 2 \<le> rnd x" by (metis monoD)+
  then show ?thesis by (simp add: abs_le_iff)
qed

lemma rounding_sum:
  assumes "rounding rnd" and "\<bar>x\<bar> \<le> real n" and "\<bar>y\<bar> \<le> 1" and "n < 8"
  shows "\<bar>rnd (x + y)\<bar> \<le> real (Suc n)"
proof -
  have "\<bar>x + y\<bar> \<le> real n + 1" using assms(2,3) by linarith
  then have "\<bar>x + y\<bar> \<le> of_int (2 * int (Suc n)) / 2" by simp
  then have "\<bar>rnd (x + y)\<bar> \<le> of_int (2 * int (Suc n)) / 2"
    by (rule rounding_bound [OF assms(1)]) (use assms(4) in simp)
  then show ?thesis by simp
qed

lemma DAC_out_bound:
  assumes "rounding rnd" and "\<forall>level \<in> set_option c. level \<le> 0x0F"
  shows "\<bar>DAC_out rnd c\<bar> \<le> 1"
proof (cases c)
  case None
  then show ?thesis by (simp add: DAC_out_def)
next
  case (Some level)
  define n where "n = unat level"
  have "n \<le> 15" using Some assms(2) by (simp add: word_le_nat_alt n_def)
  then have "real n \<le> 15" by simp
  then have "\<bar>7.5 - real n\<bar> \<le> of_int 15 / 2" by (simp add: abs_if)
  then have "\<bar>rnd (7.5 - real n)\<bar> \<le> of_int 15 / 2" by (rule rounding_bound [OF assms(1)]) simp
  then have "\<bar>rnd (7.5 - real n) / 7.5\<bar> \<le> of_int 2 / 2" by simp
  then have "\<bar>rnd (rnd (7.5 - real n) / 7.5)\<bar> \<le> of_int 2 / 2"
    by (rule rounding_bound [OF assms(1)]) simp
  then show ?thesis using Some by (simp add: DAC_out_def n_def)
qed

definition levels_ok :: "AudioSample \<Rightarrow> bool" where
  "levels_ok x \<longleftrightarrow> (\<forall>c \<in> {dac1 x, dac2 x, dac3 x, dac4 x}. \<forall>level \<in> set_option c. level \<le> 0x0F)"

lemma panned_bound:
  assumes "rounding rnd" and "levels_ok x"
  shows "\<bar>panned rnd n x\<bar> \<le> 4"
proof -
  define on where "on k c = (if sample_panning x AND push_bit (n + k) 1 \<noteq> 0 then DAC_out rnd (c x) else 0)" for k c
  have unit: "\<bar>on k c\<bar> \<le> 1" if "c x \<in> {dac1 x, dac2 x, dac3 x, dac4 x}" for k c
    using DAC_out_bound [OF assms(1), of "c x"] assms(2) that by (auto simp: on_def levels_ok_def)
  have "\<bar>rnd (on 0 dac1 + on 1 dac2)\<bar> \<le> real (Suc 1)"
    by (rule rounding_sum [OF assms(1)]) (simp_all add: unit)
  then have "\<bar>rnd (rnd (on 0 dac1 + on 1 dac2) + on 2 dac3)\<bar> \<le> real (Suc (Suc 1))"
    by (rule rounding_sum [OF assms(1)]) (simp_all add: unit)
  then have "\<bar>rnd (rnd (rnd (on 0 dac1 + on 1 dac2) + on 2 dac3) + on 3 dac4)\<bar> \<le> real (Suc (Suc (Suc 1)))"
    by (rule rounding_sum [OF assms(1)]) (simp_all add: unit)
  then show ?thesis by (simp add: panned_def Let_def on_def)
qed

lemma volume_scale_bound:
  assumes "rounding rnd"
  shows "\<bar>volume_scale rnd (v AND 0b111)\<bar> \<le> 1"
proof -
  define n where "n = unat (v AND 0b111)"
  have "n \<le> 7" using and_mask_unat [of v 3] by (simp add: mask_eq_exp_minus_1 n_def)
  then have "\<bar>real (n + 1) / 8\<bar> \<le> of_int 2 / 2" by simp
  then have "\<bar>rnd (real (n + 1) / 8)\<bar> \<le> of_int 2 / 2"
    by (rule rounding_bound [OF assms]) simp
  then show ?thesis by (simp add: volume_scale_def n_def)
qed

lemma mix_bound:
  assumes "rounding rnd" and "levels_ok x"
  shows "\<bar>fst (mix rnd x)\<bar> \<le> 1" "\<bar>snd (mix rnd x)\<bar> \<le> 1"
proof -
  have out: "\<bar>rnd (rnd (0.25 * panned rnd n x) * volume_scale rnd (v AND 0b111))\<bar> \<le> of_int 2 / 2" for n v
  proof (rule rounding_bound [OF assms(1)])
    have "\<bar>0.25 * panned rnd n x\<bar> \<le> of_int 2 / 2" using panned_bound [OF assms, of n] by simp
    then have "\<bar>rnd (0.25 * panned rnd n x)\<bar> \<le> of_int 2 / 2" by (rule rounding_bound [OF assms(1)]) simp
    then show "\<bar>rnd (0.25 * panned rnd n x) * volume_scale rnd (v AND 0b111)\<bar> \<le> of_int 2 / 2"
      using volume_scale_bound [OF assms(1), of v] by (simp add: abs_mult mult_le_one)
  qed simp
  show "\<bar>fst (mix rnd x)\<bar> \<le> 1" "\<bar>snd (mix rnd x)\<bar> \<le> 1"
    using out [of 4 "drop_bit 4 (sample_volume x)"] out [of 0 "sample_volume x"] by (simp_all add: mix_def Let_def)
qed

text \<open>
  C26. Whatever the sound registers hold, the two floats a sample is mixed to lie between -1 and 1, with
  any rounding of the hardware that is monotone and exact on small halves: the level of every channel
  stays within its four bits while the audio unit runs.
\<close>

theorem samples_are_normalized:
  assumes "apu_ok s" and "rounding rnd"
  shows "\<bar>fst (mix rnd (mixer_input s))\<bar> \<le> 1 \<and> \<bar>snd (mix rnd (mixer_input s))\<bar> \<le> 1"
proof -
  have "levels_ok (mixer_input s)"
    using assms(1) by (auto simp: levels_ok_def mixer_input_def dac_level_def apu_ok_def all_channels channel_ok_def
        split: if_splits)
  then show ?thesis using mix_bound [OF assms(2)] by blast
qed

lemma samples_are_normalized_witness:
  "\<bar>fst (mix (\<lambda>x. \<lfloor>4 * x\<rfloor> / 4) (mixer_input switched_on))\<bar> \<le> 1"
proof -
  have "rounding (\<lambda>x. \<lfloor>4 * x\<rfloor> / 4)"
    by (auto simp: rounding_def mono_def intro!: floor_mono)
  then show ?thesis
    using samples_are_normalized [of switched_on "\<lambda>x. \<lfloor>4 * x\<rfloor> / 4"] switched_on_ok by (simp add: gb_ok_def mm_ok_def io_ok_def)
qed

end
