(* ===== verification/Sdl.thy ===== *)
theory Sdl
  imports Mixer "HOL-Library.Signed_Division"
begin

text \<open>
  \<^verbatim>\<open>sdl-frontend/sdl_io.cpp\<close> and \<^verbatim>\<open>sdl_io.hpp\<close>: window, keyboard and loudspeaker of
  the emulator. SDL is not under \<^verbatim>\<open>src/\<close>: its answers come from schedules in the state
  (\<open>polled\<close>, \<open>locks\<close>, \<open>queued\<close>), and what it is told is recorded in
  \<open>sdl_calls\<close>. Floating-point operations round with a parameter, as in \<open>Mixer\<close>.
\<close>

section \<open>Colours and keys\<close>

definition colorsRGB :: "u8 list list" where
  "colorsRGB = [[236, 247, 207], [145, 204, 120], [47, 116, 86], [8, 24, 28], [255, 0, 0]]"

definition rgb_to_uint32_t :: "u8 list \<Rightarrow> u32" where
  "rgb_to_uint32_t rgb =
     ucast (rgb ! 0) OR push_bit 8 (ucast (rgb ! 1)) OR push_bit 16 (ucast (rgb ! 2)) OR push_bit 24 255"

text \<open>The key codes the code names, and all others; the events it tells apart, and all others.\<close>

datatype Keycode =
    SDLK_LEFT | SDLK_RIGHT | SDLK_UP | SDLK_DOWN | SDLK_w | SDLK_q | SDLK_RETURN | SDLK_SPACE | SDLK_s
  | SDLK_other u32

datatype SDL_Event = SDL_KEYDOWN Keycode | SDL_KEYUP Keycode | SDL_QUIT | SDL_other

fun map_to_GB_key :: "Keycode \<Rightarrow> u8" where
  "map_to_GB_key SDLK_LEFT = 0x02"
| "map_to_GB_key SDLK_RIGHT = 0x01"
| "map_to_GB_key SDLK_UP = 0x04"
| "map_to_GB_key SDLK_DOWN = 0x08"
| "map_to_GB_key SDLK_w = 0x10"
| "map_to_GB_key SDLK_q = 0x20"
| "map_to_GB_key SDLK_RETURN = 0x40"
| "map_to_GB_key SDLK_SPACE = 0x80"
| "map_to_GB_key SDLK_s = 0x00"
| "map_to_GB_key (SDLK_other _) = 0x00"

section \<open>The state\<close>

text \<open>
  While a texture is locked, \<open>m_data_to_render\<close> points to its pixels: it is the number of the
  texture, and \<open>None\<close> is the null pointer.
\<close>

record IIRFilter =
  last_output :: real
  last_input :: real

datatype sdl_message =
    UnlockTexture nat
  | RenderCopy nat
  | SetWindowTitle string
  | QueueAudio "real list" nat
  | PrintSerial u8

record sdl =
  m_live_texture :: nat
  m_textures :: "u32 list list"
  m_data_to_render :: "nat option"
  m_render_stride :: int
  m_current_frame_is_visible :: bool
  m_audio_sample_frequency :: nat
  m_highpass_r :: IIRFilter
  m_highpass_l :: IIRFilter
  m_lowpass_r :: IIRFilter
  m_lowpass_l :: IIRFilter
  m_lowpass_alpha :: real
  m_highpass_alpha :: real
  m_sample_buffer :: "real list"
  m_key_events :: "u8 list"
  m_last_keypress_was_down :: bool
  m_speed_up_mode :: bool
  m_exit_requested :: bool
  m_gb_frame_count :: u64
  m_real_frame_count :: u64
  m_last_lag_frame :: u64
  polled :: "SDL_Event list list"
  locks :: "(u32 list \<times> int) option list"
  queued :: "u32 list"
  sdl_calls :: "sdl_message list"

definition sdl_call :: "sdl_message \<Rightarrow> (sdl, unit) M" where
  "sdl_call c = modM (\<lambda>s. s\<lparr>sdl_calls := sdl_calls s @ [c]\<rparr>)"

text \<open>The events \<open>SDL_PollEvent\<close> returns before it returns 0.\<close>

definition SDL_PollEvents :: "(sdl, SDL_Event list) M" where
  "SDL_PollEvents =
     bindM (getM polled) (\<lambda>es. case es of
       [] \<Rightarrow> returnM []
     | batch # later \<Rightarrow> thenM (modM (\<lambda>s. s\<lparr>polled := later\<rparr>)) (returnM batch))"

text \<open>Locking a texture hands out its pixels and the bytes of a row, or fails and hands out nothing.\<close>

definition SDL_LockTexture :: "nat \<Rightarrow> (sdl, unit) M" where
  "SDL_LockTexture i =
     bindM (getM locks) (\<lambda>ls. case ls of
       [] \<Rightarrow> returnM ()
     | None # later \<Rightarrow> modM (\<lambda>s. s\<lparr>locks := later\<rparr>)
     | Some (pixels, pitch) # later \<Rightarrow>
         modM (\<lambda>s. s\<lparr>locks := later, m_textures := (m_textures s)[i := pixels],
                     m_data_to_render := Some i, m_render_stride := pitch\<rparr>))"

definition SDL_GetQueuedAudioSize :: "(sdl, u32) M" where
  "SDL_GetQueuedAudioSize =
     bindM (getM queued) (\<lambda>qs. case qs of
       [] \<Rightarrow> returnM 0
     | q # later \<Rightarrow> thenM (modM (\<lambda>s. s\<lparr>queued := later\<rparr>)) (returnM q))"

section \<open>Construction\<close>

text \<open>
  The members once the audio device is open; \<open>d\<close> rounds to a double. The render thread has
  created the textures and locked the inactive one.
\<close>

definition sampling_period :: "(real \<Rightarrow> real) \<Rightarrow> int \<Rightarrow> real" where
  "sampling_period d freq = d (1 / real_of_int freq)"

definition lowpass_alpha :: "(real \<Rightarrow> real) \<Rightarrow> int \<Rightarrow> real" where
  "lowpass_alpha d freq =
     (let x = d (d (d (2 * d pi) * sampling_period d freq) * 12000) in d (x / d (x + 1)))"

definition highpass_alpha :: "(real \<Rightarrow> real) \<Rightarrow> int \<Rightarrow> real" where
  "highpass_alpha d freq = d (1 / d (1 + d (d (d (2 * d pi) * 20) * sampling_period d freq)))"

definition no_filter :: IIRFilter where
  "no_filter = \<lparr>last_output = 0, last_input = 0\<rparr>"

definition SDLFrontend :: "(real \<Rightarrow> real) \<Rightarrow> int \<Rightarrow> u16 \<Rightarrow> SDL_Event list list \<Rightarrow>
    (u32 list \<times> int) option list \<Rightarrow> u32 list \<Rightarrow> (exn + unit) \<times> sdl" where
  "SDLFrontend d freq samples events textures sizes =
     SDL_LockTexture 1
       \<lparr>m_live_texture = 0, m_textures = [[], []], m_data_to_render = None, m_render_stride = 0,
        m_current_frame_is_visible = True, m_audio_sample_frequency = nat (freq mod 2 ^ 64),
        m_highpass_r = no_filter, m_highpass_l = no_filter, m_lowpass_r = no_filter, m_lowpass_l = no_filter,
        m_lowpass_alpha = lowpass_alpha d freq, m_highpass_alpha = highpass_alpha d freq,
        m_sample_buffer = replicate (8 * unat samples) 0, m_key_events = [0x00],
        m_last_keypress_was_down = False, m_speed_up_mode = False, m_exit_requested = False,
        m_gb_frame_count = 0, m_real_frame_count = 0, m_last_lag_frame = 0,
        polled = events, locks = textures, queued = sizes, sdl_calls = []\<rparr>"

section \<open>Events\<close>

text \<open>The reference to the back of the queue is undefined when the queue is empty.\<close>

definition top_key :: "(sdl, u8) M" where
  "top_key = bindM (getM m_key_events) (\<lambda>q. if q = [] then raiseM UndefinedBehaviour else returnM (last q))"

definition set_top_key :: "u8 \<Rightarrow> (sdl, unit) M" where
  "set_top_key k = modM (\<lambda>s. s\<lparr>m_key_events := butlast (m_key_events s) @ [k]\<rparr>)"

definition push_key :: "u8 \<Rightarrow> (sdl, unit) M" where
  "push_key k = modM (\<lambda>s. s\<lparr>m_key_events := m_key_events s @ [k]\<rparr>)"

fun process_event :: "SDL_Event \<Rightarrow> (sdl, unit) M" where
  "process_event (SDL_KEYDOWN key) =
     bindM top_key (\<lambda>top.
     thenM (whenM (key = SDLK_s) (modM (\<lambda>s. s\<lparr>m_speed_up_mode := True\<rparr>)))
     (bindM (getM m_last_keypress_was_down) (\<lambda>down.
      if down then set_top_key (top OR map_to_GB_key key)
      else push_key (top OR map_to_GB_key key))))"
| "process_event (SDL_KEYUP key) =
     bindM top_key (\<lambda>top.
     thenM (whenM (key = SDLK_s) (modM (\<lambda>s. s\<lparr>m_speed_up_mode := False\<rparr>)))
     (bindM (getM m_last_keypress_was_down) (\<lambda>down.
      if \<not> down then set_top_key (top AND NOT (map_to_GB_key key))
      else push_key (top AND NOT (map_to_GB_key key)))))"
| "process_event SDL_QUIT = bindM top_key (\<lambda>_. modM (\<lambda>s. s\<lparr>m_exit_requested := True\<rparr>))"
| "process_event SDL_other = bindM top_key (\<lambda>_. returnM ())"

definition process_events :: "(sdl, unit) M" where
  "process_events = bindM SDL_PollEvents (\<lambda>events. forM events process_event)"

definition sdl_getKeyPressState :: "(sdl, u8) M" where
  "sdl_getKeyPressState =
     bindM (getM m_key_events) (\<lambda>q.
     if 1 < length q then thenM (modM (\<lambda>s. s\<lparr>m_key_events := tl q\<rparr>)) (returnM (hd q))
     else if q = [] then raiseM UndefinedBehaviour
     else returnM (hd q))"

definition sdl_sendSerial :: "u8 \<Rightarrow> (sdl, unit) M" where
  "sdl_sendSerial value = sdl_call (PrintSerial value)"

definition sdl_isExitRequested :: "(sdl, bool) M" where
  "sdl_isExitRequested = getM m_exit_requested"

section \<open>Frames\<close>

text \<open>
  \<open>draw_frame\<close> in the three parts other threads can come between. It unlocks a mutex it declared
  and never locked, which the standard leaves undefined: what that does is a parameter,
  \<open>unlock\<close>.
\<close>

definition lock_frame :: "(sdl, unit) M \<Rightarrow> (sdl, bool) M" where
  "lock_frame unlock =
     bindM (getM m_data_to_render) (\<lambda>data.
     if data = None then
       bindM (getM m_live_texture) (\<lambda>live.
       thenM (SDL_LockTexture live)
       (thenM unlock (returnM True)))
     else
       thenM unlock
       (thenM (sdl_call (SetWindowTitle ''Emulator lagging render''))
       (thenM (modM (\<lambda>s. s\<lparr>m_last_lag_frame := m_real_frame_count s\<rparr>)) (returnM False))))"

definition swap_textures :: "(sdl, unit) M" where
  "swap_textures =
     thenM (modM (\<lambda>s. s\<lparr>m_live_texture := (m_live_texture s + 1) mod 2\<rparr>))
     (bindM (getM m_live_texture) (\<lambda>live. sdl_call (UnlockTexture live)))"

definition present_frame :: "(sdl, unit) M" where
  "present_frame =
     bindM (getM (\<lambda>s. m_real_frame_count s - m_last_lag_frame s)) (\<lambda>frames.
     thenM (whenM (frames = 60) (sdl_call (SetWindowTitle ''Running'')))
     (thenM (modM (\<lambda>s. s\<lparr>m_real_frame_count := m_real_frame_count s + 1\<rparr>))
     (bindM (getM m_live_texture) (\<lambda>live. sdl_call (RenderCopy live)))))"

definition draw_frame :: "(sdl, unit) M \<Rightarrow> (sdl, unit) M" where
  "draw_frame unlock =
     bindM (lock_frame unlock) (\<lambda>locked.
     thenM (whenM locked swap_textures) present_frame)"

text \<open>The render thread on its own: \<open>None\<close> when nobody ever asks to exit.\<close>

partial_function (option) async_render_loop ::
  "(sdl, unit) M \<Rightarrow> sdl \<Rightarrow> ((exn + unit) \<times> sdl) option" where
  "async_render_loop unlock s =
     (if m_exit_requested s then Some (Inr (), s)
      else (case thenM process_events (draw_frame unlock) s of
          (Inl e, s1) \<Rightarrow> Some (Inl e, s1)
        | (Inr _, s1) \<Rightarrow> async_render_loop unlock s1))"

definition sdl_addPixel :: "int \<Rightarrow> int \<Rightarrow> int \<Rightarrow> (sdl, unit) M" where
  "sdl_addPixel color screenX screenY =
     bindM (getM m_data_to_render) (\<lambda>data.
     case data of
       None \<Rightarrow> raiseM UndefinedBehaviour
     | Some i \<Rightarrow>
         bindM (getM (\<lambda>s. m_textures s ! i)) (\<lambda>pixels.
         bindM (getM (\<lambda>s. screenY * (m_render_stride s sdiv 4) + screenX)) (\<lambda>offset.
         if offset < 0 \<or> length pixels \<le> nat offset \<or> color < 0 \<or> length colorsRGB \<le> nat color
         then raiseM UndefinedBehaviour
         else modM (\<lambda>s. s\<lparr>m_textures := (m_textures s)[i :=
                pixels[nat offset := rgb_to_uint32_t (colorsRGB ! nat color)]]\<rparr>))))"

text \<open>
  \<open>commitRender\<close> up to its wait: the result tells whether the thread now waits until there is a
  buffer.
\<close>

definition sdl_commitRender :: "(sdl, bool) M" where
  "sdl_commitRender =
     thenM (modM (\<lambda>s. s\<lparr>m_gb_frame_count := m_gb_frame_count s + 1\<rparr>))
     (bindM (getM m_speed_up_mode) (\<lambda>speed_up.
      if \<not> speed_up then
        thenM (modM (\<lambda>s. s\<lparr>m_current_frame_is_visible := True, m_data_to_render := None\<rparr>)) (returnM True)
      else
        bindM (getM m_current_frame_is_visible) (\<lambda>visible.
        thenM (modM (\<lambda>s. if visible
             then s\<lparr>m_data_to_render := None, m_current_frame_is_visible := False\<rparr>
             else s\<lparr>m_current_frame_is_visible := m_data_to_render s \<noteq> None\<rparr>))
        (returnM False))))"

definition sdl_isFrameScheduled :: "(sdl, bool) M" where
  "sdl_isFrameScheduled = getM m_current_frame_is_visible"

section \<open>Sound\<close>

definition get_approx_audio_sample_freq :: "(sdl, nat) M" where
  "get_approx_audio_sample_freq = getM m_audio_sample_frequency"

text \<open>One step of a high-pass filter, and what the code takes for a low-pass filter after it.\<close>

definition highpass :: "(real \<Rightarrow> real) \<Rightarrow> real \<Rightarrow> IIRFilter \<Rightarrow> real \<Rightarrow> real" where
  "highpass d alpha hp raw = d (alpha * d (d (last_output hp + raw) - last_input hp))"

definition lowpass :: "(real \<Rightarrow> real) \<Rightarrow> real \<Rightarrow> real \<Rightarrow> real \<Rightarrow> real" where
  "lowpass d alpha out high = d (out + d (alpha * d (high - out)))"

text \<open>
  The loop over one batch. The counter that skips samples is computed in \<open>skipping\<close>, but the
  body declares another of the same name, the index itself.
\<close>

definition filter_sample :: "(real \<Rightarrow> real) \<Rightarrow> (real \<Rightarrow> real) \<Rightarrow> (real \<times> real) list \<Rightarrow> nat \<Rightarrow> (sdl, unit) M" where
  "filter_sample d f samples host_index =
     bindM (indexM UndefinedBehaviour samples host_index) (\<lambda>sample.
     let raw_l = fst sample; raw_r = fst sample in
     bindM (getM (\<lambda>s. highpass d (m_highpass_alpha s) (m_highpass_l s) raw_l)) (\<lambda>high_l.
     bindM (getM (\<lambda>s. highpass d (m_highpass_alpha s) (m_highpass_r s) raw_r)) (\<lambda>high_r.
     thenM (modM (\<lambda>s. s\<lparr>m_highpass_l := \<lparr>last_output = high_l, last_input = raw_l\<rparr>,
                        m_highpass_r := \<lparr>last_output = high_r, last_input = raw_r\<rparr>\<rparr>))
     (bindM (getM (\<lambda>s. lowpass d (m_lowpass_alpha s) (last_output (m_highpass_l s)) high_l)) (\<lambda>sample_l.
      bindM (getM (\<lambda>s. lowpass d (m_lowpass_alpha s) (last_output (m_highpass_r s)) high_r)) (\<lambda>sample_r.
      thenM (modM (\<lambda>s. s\<lparr>m_lowpass_l := \<lparr>last_output = sample_l, last_input = high_l\<rparr>,
                         m_lowpass_r := \<lparr>last_output = sample_r, last_input = high_r\<rparr>\<rparr>))
      (bindM (getM (\<lambda>s. length (m_sample_buffer s))) (\<lambda>size.
       if size \<le> 2 * host_index + 1 then raiseM UndefinedBehaviour
       else modM (\<lambda>s. s\<lparr>m_sample_buffer :=
              (m_sample_buffer s)[2 * host_index := f sample_l, 2 * host_index + 1 := f sample_r]\<rparr>)))))))))"

fun filter_batch :: "(real \<Rightarrow> real) \<Rightarrow> (real \<Rightarrow> real) \<Rightarrow> (real \<times> real) list \<Rightarrow> nat \<Rightarrow> nat \<Rightarrow> nat list \<Rightarrow> (sdl, unit) M" where
  "filter_batch d f samples discard_every skipping [] = returnM ()"
| "filter_batch d f samples discard_every skipping (host_index # rest) =
     (if discard_every = 0 then raiseM UndefinedBehaviour
      else let next_sample = (if (skipping + 1) mod discard_every = 0 then skipping + 2 else skipping + 1) in
        thenM (filter_sample d f samples host_index)
          (filter_batch d f samples discard_every next_sample rest))"

definition sdl_try_flush_audio :: "(real \<Rightarrow> real) \<Rightarrow> (real \<Rightarrow> real) \<Rightarrow> (real \<times> real) list \<Rightarrow> (sdl, nat option) M" where
  "sdl_try_flush_audio d f samples =
     bindM (getM (\<lambda>s. length (m_sample_buffer s) div 8)) (\<lambda>sample_batch.
     if length samples < 2 * sample_batch then returnM None
     else
       bindM (getM (\<lambda>s. m_audio_sample_frequency s div 60)) (\<lambda>samples_per_frame.
       bindM SDL_GetQueuedAudioSize (\<lambda>size.
       let queued_samples = unat size div 8;
           extra_discard = (if 2 * samples_per_frame < queued_samples then 5 else 0);
           discard_every = (if 2 * samples_per_frame < queued_samples then sample_batch div extra_discard
                            else sample_batch)
       in if 2 * samples_per_frame < queued_samples \<and> 5 * samples_per_frame < queued_samples
          then returnM (Some (length samples))
          else
            thenM (filter_batch d f samples discard_every 0 [0..<sample_batch])
            (bindM (getM m_sample_buffer) (\<lambda>buffer.
             thenM (sdl_call (QueueAudio buffer (length buffer)))
             (returnM (Some (sample_batch + extra_discard))))))))"

end
