(* ===== verification/SdlThreads.thy ===== *)
theory SdlThreads
  imports Sdl
begin

text \<open>
  What the SDL frontend does for the emulator: the keys it reports, the frames it takes while its two
  threads interleave, and the sound it plays.
\<close>

section \<open>Keys\<close>

text \<open>The keys that are down, after an event.\<close>

fun held_after :: "u8 \<Rightarrow> SDL_Event \<Rightarrow> u8" where
  "held_after held (SDL_KEYDOWN key) = held OR map_to_GB_key key"
| "held_after held (SDL_KEYUP key) = held AND NOT (map_to_GB_key key)"
| "held_after held _ = held"

definition keys_ok :: "sdl \<Rightarrow> bool" where
  "keys_ok s \<longleftrightarrow> m_key_events s \<noteq> [] \<and> \<not> m_last_keypress_was_down s"

lemma key_runs [simp]:
  "m_key_events s \<noteq> [] \<Longrightarrow> top_key s = (Inr (last (m_key_events s)), s)"
  "push_key k s = (Inr (), s\<lparr>m_key_events := m_key_events s @ [k]\<rparr>)"
  "set_top_key k s = (Inr (), s\<lparr>m_key_events := butlast (m_key_events s) @ [k]\<rparr>)"
  by (simp_all add: top_key_def push_key_def set_top_key_def)

text \<open>A press is queued, a release changes the newest entry.\<close>

lemma process_event_run:
  assumes "keys_ok s"
  shows "process_event (SDL_KEYDOWN key) s = (Inr (), s\<lparr>m_speed_up_mode := (key = SDLK_s \<or> m_speed_up_mode s),
      m_key_events := m_key_events s @ [last (m_key_events s) OR map_to_GB_key key]\<rparr>)"
    "process_event (SDL_KEYUP key) s = (Inr (), s\<lparr>m_speed_up_mode := (key \<noteq> SDLK_s \<and> m_speed_up_mode s),
      m_key_events := butlast (m_key_events s) @ [last (m_key_events s) AND NOT (map_to_GB_key key)]\<rparr>)"
    "process_event SDL_QUIT s = (Inr (), s\<lparr>m_exit_requested := True\<rparr>)"
    "process_event SDL_other s = (Inr (), s)"
  using assms by (cases s; cases "key = SDLK_s"; simp add: keys_ok_def)+

declare process_event.simps [simp del]

lemma process_event_keys:
  assumes "keys_ok s"
  obtains t where "process_event e s = (Inr (), t)" and "keys_ok t"
    and "last (m_key_events t) = held_after (last (m_key_events s)) e"
    and "length (m_key_events t) \<le> Suc (length (m_key_events s))"
  using assms
  by (cases e) (auto simp: process_event_run keys_ok_def)

lemma process_keys:
  assumes "keys_ok s"
  obtains t where "forM es process_event s = (Inr (), t)" and "keys_ok t"
    and "last (m_key_events t) = foldl held_after (last (m_key_events s)) es"
    and "length (m_key_events t) \<le> length (m_key_events s) + length es"
  using assms
proof (induction es arbitrary: s thesis)
  case Nil
  then show ?case by simp
next
  case (Cons e es)
  obtain t where t: "process_event e s = (Inr (), t)" "keys_ok t"
    "last (m_key_events t) = held_after (last (m_key_events s)) e"
    "length (m_key_events t) \<le> Suc (length (m_key_events s))"
    by (rule process_event_keys [OF Cons.prems(2)])
  obtain u where "forM es process_event t = (Inr (), u)" "keys_ok u"
    "last (m_key_events u) = foldl held_after (last (m_key_events t)) es"
    "length (m_key_events u) \<le> length (m_key_events t) + length es"
    by (rule Cons.IH [OF _ t(2)])
  with t show ?case by (intro Cons.prems(1) [of u]) simp_all
qed

text \<open>Asking for the keys several times: the last answer.\<close>

primrec ask_keys :: "nat \<Rightarrow> (sdl, u8) M" where
  "ask_keys 0 = sdl_getKeyPressState"
| "ask_keys (Suc n) = bindM sdl_getKeyPressState (\<lambda>_. ask_keys n)"

lemma ask_keys_last:
  assumes "m_key_events s \<noteq> []" and "length (m_key_events s) \<le> Suc n"
  shows "ask_keys n s = (Inr (last (m_key_events s)), s\<lparr>m_key_events := [last (m_key_events s)]\<rparr>)"
  using assms
proof (induction n arbitrary: s)
  case 0
  then obtain k where "m_key_events s = [k]" by (cases "m_key_events s") auto
  then show ?case by (cases s) (simp add: sdl_getKeyPressState_def)
next
  case (Suc n)
  show ?case
  proof (cases "m_key_events s")
    case (Cons k q)
    show ?thesis
    proof (cases q)
      case Nil
      with Cons Suc.IH [of s] show ?thesis by (simp add: sdl_getKeyPressState_def)
    next
      case (Cons k' q')
      with \<open>m_key_events s = k # q\<close> Suc.IH [of "s\<lparr>m_key_events := q\<rparr>"] Suc.prems show ?thesis
        by (simp add: sdl_getKeyPressState_def)
    qed
  qed (use Suc.prems in simp)
qed

text \<open>
  C38. The machine learns which keys are down: after the window's events, whatever they are, the answer
  to repeated questions settles, at the latest when the queue has been read, on the keys pressed
  and not released.
\<close>

theorem keys_settle_on_held:
  assumes "keys_ok s" and "polled s = es # later" and "length (m_key_events s) + length es \<le> Suc n"
  shows "fst (thenM process_events (ask_keys n) s) = Inr (foldl held_after (last (m_key_events s)) es)"
proof -
  obtain t where t: "forM es process_event (s\<lparr>polled := later\<rparr>) = (Inr (), t)" "keys_ok t"
    "last (m_key_events t) = foldl held_after (last (m_key_events s)) es"
    "length (m_key_events t) \<le> length (m_key_events s) + length es"
    by (rule process_keys [of "s\<lparr>polled := later\<rparr>" es]) (use assms(1) in \<open>simp_all add: keys_ok_def\<close>)
  then have "process_events s = (Inr (), t)"
    using assms(2) by (simp add: process_events_def SDL_PollEvents_def)
  moreover have "ask_keys n t = (Inr (last (m_key_events t)), t\<lparr>m_key_events := [last (m_key_events t)]\<rparr>)"
    by (rule ask_keys_last) (use t(2,4) assms(3) in \<open>auto simp: keys_ok_def\<close>)
  ultimately show ?thesis using t(3) by simp
qed

text \<open>A key pressed and released between two looks at the events is never reported.\<close>

lemma tap_is_lost:
  assumes "m_key_events s = [held]" and "\<not> m_last_keypress_was_down s" and "held AND map_to_GB_key key = 0"
  shows "\<exists>t. forM [SDL_KEYDOWN key, SDL_KEYUP key] process_event s = (Inr (), t) \<and> m_key_events t = [held, held]"
proof -
  have "(held OR map_to_GB_key key) AND NOT (map_to_GB_key key) = held"
    using assms(3) by (simp add: bit_eq_iff bit_simps) blast
  with assms show ?thesis by (simp add: process_event_run keys_ok_def)
qed

section \<open>Two threads\<close>

text \<open>
  Where the emulator's thread stands (in its own code or in the wait of \<open>commitRender\<close>, as it is
  at first in that of the constructor), and where the render thread stands in its loop.
\<close>

datatype emulator = Emulating | Awaiting_buffer

datatype renderer = Polling | Locking | Swapping | Presenting | Finished

text \<open>
  The steps the threads interleave. The machine draws only into frames that are scheduled. The mutex
  is taken to let itself be unlocked: \<open>unlock\<close> is given by the parameter.
\<close>

inductive sdl_step :: "(sdl, unit) M \<Rightarrow> emulator \<times> renderer \<times> sdl \<Rightarrow> emulator \<times> renderer \<times> sdl \<Rightarrow> bool"
  for unlock where
  poll: "\<not> m_exit_requested s \<Longrightarrow> process_events s = (Inr (), t) \<Longrightarrow> sdl_step unlock (e, Polling, s) (e, Locking, t)"
| finish: "m_exit_requested s \<Longrightarrow> sdl_step unlock (e, Polling, s) (e, Finished, s)"
| lock: "lock_frame unlock s = (Inr locked, t) \<Longrightarrow>
    sdl_step unlock (e, Locking, s) (e, if locked then Swapping else Presenting, t)"
| swap: "swap_textures s = (Inr (), t) \<Longrightarrow> sdl_step unlock (e, Swapping, s) (e, Presenting, t)"
| present: "present_frame s = (Inr (), t) \<Longrightarrow> sdl_step unlock (e, Presenting, s) (e, Polling, t)"
| commit: "sdl_commitRender s = (Inr waits, t) \<Longrightarrow>
    sdl_step unlock (Emulating, r, s) (if waits then Awaiting_buffer else Emulating, r, t)"
| wake: "m_data_to_render s \<noteq> None \<Longrightarrow> sdl_step unlock (Awaiting_buffer, r, s) (Emulating, r, s)"
| pixel: "m_current_frame_is_visible s \<Longrightarrow> sdl_addPixel color x y s = (Inr (), t) \<Longrightarrow>
    sdl_step unlock (Emulating, r, s) (Emulating, r, t)"
| keys: "sdl_getKeyPressState s = (Inr k, t) \<Longrightarrow> sdl_step unlock (Emulating, r, s) (Emulating, r, t)"
| sound: "sdl_try_flush_audio d f samples s = (Inr n, t) \<Longrightarrow> sdl_step unlock (Emulating, r, s) (Emulating, r, t)"
| serial: "sdl_sendSerial v s = (Inr (), t) \<Longrightarrow> sdl_step unlock (Emulating, r, s) (Emulating, r, t)"

inductive_simps step_waiting: "sdl_step unlock (Awaiting_buffer, Finished, s) c"

section \<open>The frame buffer\<close>

text \<open>What SDL documents of a locked texture: whole rows of pixels, as many as the screen has.\<close>

definition lock_ok :: "(u32 list \<times> int) option \<Rightarrow> bool" where
  "lock_ok answer \<longleftrightarrow> (\<forall>(pixels, pitch) \<in> set_option answer.
     640 \<le> pitch \<and> 144 * (pitch div 4) \<le> int (length pixels))"

text \<open>
  The buffer the emulator draws into is a texture with room for the screen, and it is not the one
  on the screen, except between locking and swapping; there is one whenever a frame is scheduled.
\<close>

definition frames_ok :: "emulator \<times> renderer \<times> sdl \<Rightarrow> bool" where
  "frames_ok = (\<lambda>(e, r, s).
     m_live_texture s < 2 \<and> length (m_textures s) = 2 \<and> list_all lock_ok (locks s) \<and>
     (\<forall>i. m_data_to_render s = Some i \<longrightarrow>
        (i < 2 \<and> (i = m_live_texture s \<longleftrightarrow> r = Swapping) \<and> lock_ok (Some (m_textures s ! i, m_render_stride s)))) \<and>
     (e = Emulating \<and> m_current_frame_is_visible s \<longrightarrow> m_data_to_render s \<noteq> None))"

text \<open>Everything but drawing, locking, swapping and committing leaves what the invariant reads.\<close>

definition frame_state :: "sdl \<Rightarrow> _" where
  "frame_state s = (m_live_texture s, m_textures s, locks s, m_data_to_render s, m_render_stride s,
     m_current_frame_is_visible s)"

lemma frames_ok_cong:
  "frame_state s = frame_state t \<Longrightarrow> frames_ok (e, r, s) = frames_ok (e, r, t)"
  by (simp add: frame_state_def frames_ok_def)

lemma frames_ok_elsewhere:
  assumes "frames_ok (e, r, s)" and "(r = Swapping) = (r' = Swapping)"
  shows "frames_ok (e, r', s)"
  using assms by (simp add: frames_ok_def)

definition elsewhere :: "(sdl, 'a) M \<Rightarrow> bool" where
  "elsewhere m \<longleftrightarrow> (\<forall>x. safe (\<lambda>s. frame_state s = x) (\<lambda>_. UNIV) m (\<lambda>_. True))"

lemma elsewhere_run: "elsewhere m \<Longrightarrow> m s = (r, t) \<Longrightarrow> frame_state t = frame_state s"
proof -
  assume "elsewhere m" and run: "m s = (r, t)"
  then have "safe (\<lambda>u. frame_state u = frame_state s) (\<lambda>_. UNIV) m (\<lambda>_. True)"
    unfolding elsewhere_def by blast
  then have "frame_state (snd (m s)) = frame_state s" unfolding safe_def by blast
  then show ?thesis using run by simp
qed

lemma elsewhere_modM: "(\<And>s. frame_state (f s) = frame_state s) \<Longrightarrow> elsewhere (modM f)"
  by (simp add: elsewhere_def safe_def)

lemma safe_calls [safe_intro]:
  "safe (\<lambda>s. frame_state s = x) (\<lambda>_. UNIV) (sdl_call c) (\<lambda>_. True)"
  "safe (\<lambda>s. frame_state s = x) (\<lambda>_. UNIV) SDL_GetQueuedAudioSize (\<lambda>_. True)"
  "safe (\<lambda>s. frame_state s = x) (\<lambda>_. UNIV) SDL_PollEvents (\<lambda>_. True)"
  unfolding sdl_call_def
  by (auto simp: safe_def SDL_GetQueuedAudioSize_def SDL_PollEvents_def frame_state_def split: list.splits)

lemma safe_keys [safe_intro]:
  "safe (\<lambda>s. frame_state s = x) (\<lambda>_. UNIV) (push_key k) (\<lambda>_. True)"
  "safe (\<lambda>s. frame_state s = x) (\<lambda>_. UNIV) (set_top_key k) (\<lambda>_. True)"
  "safe (\<lambda>s. frame_state s = x) (\<lambda>_. UNIV) top_key (\<lambda>_. True)"
  by (auto simp: safe_def push_key_def set_top_key_def top_key_def frame_state_def)

lemma elsewhere_operations:
  "elsewhere process_events" "elsewhere present_frame" "elsewhere sdl_getKeyPressState" "elsewhere (sdl_sendSerial v)"
proof -
  show "elsewhere process_events"
    unfolding elsewhere_def process_events_def
  proof (intro allI safe_intro)
    fix x e
    show "safe (\<lambda>s. frame_state s = x) (\<lambda>_. UNIV) (process_event e) (\<lambda>_. True)"
      by (cases e; simp only: process_event.simps; intro safe_intro safe_modM TrueI; simp add: frame_state_def)
  qed
  show "elsewhere present_frame" "elsewhere sdl_getKeyPressState" "elsewhere (sdl_sendSerial v)"
    unfolding elsewhere_def present_frame_def sdl_getKeyPressState_def sdl_sendSerial_def
    by (intro allI safe_intro safe_modM TrueI UNIV_I; simp add: frame_state_def)+
qed

lemma elsewhere_sound: "elsewhere (sdl_try_flush_audio d f samples)"
proof -
  have one: "safe (\<lambda>s. frame_state s = x) (\<lambda>_. UNIV) (filter_sample d f samples i) (\<lambda>_. True)" for x i
    unfolding filter_sample_def Let_def
    by (intro safe_intro safe_modM safe_indexM disjI2 TrueI UNIV_I; simp add: frame_state_def)
  have "safe (\<lambda>s. frame_state s = x) (\<lambda>_. UNIV) (filter_batch d f samples every skipping is) (\<lambda>_. True)" for x every skipping "is"
    by (induction "is" arbitrary: skipping) (auto simp: Let_def intro!: safe_intro one)
  then show ?thesis
    unfolding elsewhere_def sdl_try_flush_audio_def Let_def by (intro allI safe_intro safe_modM TrueI UNIV_I)
qed

lemma frames_ok_after:
  "elsewhere m \<Longrightarrow> m s = (v, t) \<Longrightarrow> frames_ok (e, r, s) \<Longrightarrow> frames_ok (e, r, t)"
  using elsewhere_run [of m s v t] frames_ok_cong [of t s e r] by simp

lemma SDL_LockTexture_run:
  "locks s = [] \<Longrightarrow> SDL_LockTexture i s = (Inr (), s)"
  "locks s = None # later \<Longrightarrow> SDL_LockTexture i s = (Inr (), s\<lparr>locks := later\<rparr>)"
  "locks s = Some (pixels, pitch) # later \<Longrightarrow> SDL_LockTexture i s = (Inr (), s\<lparr>locks := later,
     m_textures := (m_textures s)[i := pixels], m_data_to_render := Some i, m_render_stride := pitch\<rparr>)"
  by (simp_all add: SDL_LockTexture_def)

lemma SDL_LockTexture_returns: "\<exists>t. SDL_LockTexture i s = (Inr (), t)"
  using SDL_LockTexture_run [where s = s and i = i] by (metis list.exhaust option.exhaust surj_pair)

lemma lock_frame_ok:
  assumes "frames_ok (e, Locking, s)" and "\<And>s. unlock s = (Inr (), s)" and "lock_frame unlock s = (Inr locked, t)"
  shows "frames_ok (e, if locked then Swapping else Presenting, t)"
proof (cases "m_data_to_render s")
  case None
  consider "locks s = []" | later where "locks s = None # later"
    | pixels pitch later where "locks s = Some (pixels, pitch) # later"
    by (metis list.exhaust option.exhaust surj_pair)
  then show ?thesis
    using None assms by cases (auto simp: lock_frame_def SDL_LockTexture_run frames_ok_def)
next
  case (Some i)
  then show ?thesis
    using assms by (auto simp: lock_frame_def sdl_call_def frames_ok_def)
qed

lemma swap_textures_ok:
  "frames_ok (e, Swapping, s) \<Longrightarrow> swap_textures s = (Inr (), t) \<Longrightarrow> frames_ok (e, Presenting, t)"
  by (auto simp: swap_textures_def sdl_call_def frames_ok_def mod_Suc less_2_cases_iff)

lemma commit_ok:
  "frames_ok (Emulating, r, s) \<Longrightarrow> sdl_commitRender s = (Inr waits, t) \<Longrightarrow>
   frames_ok (if waits then Awaiting_buffer else Emulating, r, t)"
  by (cases "m_speed_up_mode s"; cases "m_current_frame_is_visible s") (auto simp: sdl_commitRender_def frames_ok_def)

text \<open>A pixel of the screen has its place in the buffer.\<close>

lemma addPixel_in_buffer:
  assumes "frames_ok (Emulating, r, s)" and "m_current_frame_is_visible s"
    and "0 \<le> color" "color < 5" and "0 \<le> x" "x < 160" and "0 \<le> y" "y < 144"
  obtains i where "m_data_to_render s = Some i" and "i < 2" and "i = m_live_texture s \<longleftrightarrow> r = Swapping"
    and "nat (y * (m_render_stride s div 4) + x) < length (m_textures s ! i)"
    and "sdl_addPixel color x y s = (Inr (), s\<lparr>m_textures := (m_textures s)[i := (m_textures s ! i)
      [nat (y * (m_render_stride s div 4) + x) := rgb_to_uint32_t (colorsRGB ! nat color)]]\<rparr>)"
proof -
  from assms(1,2) obtain i where i: "m_data_to_render s = Some i" "i < 2" "i = m_live_texture s \<longleftrightarrow> r = Swapping"
    and room: "640 \<le> m_render_stride s" "144 * (m_render_stride s div 4) \<le> int (length (m_textures s ! i))"
    by (auto simp: frames_ok_def lock_ok_def)
  let ?w = "m_render_stride s div 4"
  have w: "160 \<le> ?w" using room(1) by (simp add: less_eq_div_iff_mult_less_eq)
  have "m_render_stride s sdiv 4 = ?w" using room(1) by (simp add: signed_divide_int_def)
  moreover have "y * ?w + x < 144 * ?w"
  proof -
    have "(y + 1) * ?w \<le> 144 * ?w" using assms(8) w by (intro mult_right_mono) simp_all
    then have "y * ?w + ?w \<le> 144 * ?w" by (simp only: distrib_right mult_1)
    then show ?thesis using assms(6) w by linarith
  qed
  moreover have "0 \<le> y * ?w + x" using assms(5,7) w by simp
  ultimately have at: "nat (y * ?w + x) < length (m_textures s ! i)" using room(2) by linarith
  have "sdl_addPixel color x y s = (Inr (), s\<lparr>m_textures := (m_textures s)[i := (m_textures s ! i)
      [nat (y * ?w + x) := rgb_to_uint32_t (colorsRGB ! nat color)]]\<rparr>)"
    using i(1) at \<open>_ sdiv 4 = ?w\<close> \<open>0 \<le> y * ?w + x\<close> assms(3,4) by (simp add: sdl_addPixel_def colorsRGB_def)
  with i at show thesis using that by blast
qed

lemma addPixel_ok:
  assumes "frames_ok (Emulating, r, s)" and "sdl_addPixel color x y s = (Inr (), t)"
  shows "frames_ok (Emulating, r, t)"
  using assms
  by (auto simp: sdl_addPixel_def frames_ok_def lock_ok_def nth_list_update split: option.splits if_splits)

lemma step_ok:
  assumes "sdl_step unlock c c'" and "frames_ok c" and "\<And>s. unlock s = (Inr (), s)"
  shows "frames_ok c'"
  using assms(1,2)
proof cases
  case (poll s t e)
  then show ?thesis
    using assms(2) frames_ok_after [OF elsewhere_operations(1)] frames_ok_elsewhere [of e Polling _ Locking] by simp
next
  case (finish s e)
  then show ?thesis using assms(2) frames_ok_elsewhere [of e Polling s Finished] by simp
next
  case (lock s locked t e)
  then show ?thesis using lock_frame_ok [OF _ assms(3)] assms(2) by simp
next
  case (swap s t e)
  then show ?thesis using swap_textures_ok assms(2) by simp
next
  case (present s t e)
  then show ?thesis
    using assms(2) frames_ok_after [OF elsewhere_operations(2)] frames_ok_elsewhere [of e Presenting _ Polling] by simp
next
  case (commit s waits t r)
  then show ?thesis using commit_ok assms(2) by simp
next
  case (wake s r)
  then show ?thesis using assms(2) by (simp add: frames_ok_def)
next
  case (pixel s color x y t r)
  then show ?thesis using addPixel_ok assms(2) by simp
next
  case (keys s k t r)
  then show ?thesis using assms(2) frames_ok_after [OF elsewhere_operations(3)] by simp
next
  case (sound d f samples s n t r)
  then show ?thesis using assms(2) frames_ok_after [OF elsewhere_sound] by simp
next
  case (serial v s t r)
  then show ?thesis using assms(2) frames_ok_after [OF elsewhere_operations(4)] by simp
qed

lemma steps_ok:
  assumes "(sdl_step unlock)\<^sup>*\<^sup>* c c'" and "frames_ok c" and "\<And>s. unlock s = (Inr (), s)"
  shows "frames_ok c'"
  using assms(1,2) by (induction rule: rtranclp_induct) (auto intro: step_ok [OF _ _ assms(3)])

lemma constructed_frames_ok:
  "list_all lock_ok textures \<Longrightarrow>
   frames_ok (Awaiting_buffer, Polling, snd (SDLFrontend d freq samples events textures sizes))"
  by (cases textures rule: list.exhaust [case_names Nil Cons])
     (auto simp: SDLFrontend_def SDL_LockTexture_def frames_ok_def split: option.splits)


text \<open>
  Once the window was closed the render thread is gone. A frame committed then is waited for
  without end.
\<close>

lemma commit_after_quit_hangs:
  assumes "\<not> m_speed_up_mode s"
  shows "\<exists>t. sdl_step unlock (Emulating, Finished, s) (Awaiting_buffer, Finished, t) \<and>
    (\<forall>c. \<not> sdl_step unlock (Awaiting_buffer, Finished, t) c)"
proof -
  have "\<exists>t. sdl_commitRender s = (Inr True, t) \<and> m_data_to_render t = None"
    using assms by (simp add: sdl_commitRender_def)
  then show ?thesis using sdl_step.commit [of s True _ unlock Finished] by (auto simp: step_waiting)
qed

text \<open>To the letter of the standard no frame is ever drawn: the mutex is unlocked and was not locked.\<close>

lemma draw_frame_undefined:
  "fst (draw_frame (raiseM UndefinedBehaviour) s) = Inl UndefinedBehaviour"
proof (cases "m_data_to_render s")
  case None
  obtain t where "SDL_LockTexture (m_live_texture s) s = (Inr (), t)"
    using SDL_LockTexture_returns by blast
  with None show ?thesis by (simp add: draw_frame_def lock_frame_def)
qed (simp add: draw_frame_def lock_frame_def)

section \<open>Sound\<close>

text \<open>The output of the high-pass filter on one channel.\<close>

fun highpassed :: "(real \<Rightarrow> real) \<Rightarrow> real \<Rightarrow> IIRFilter \<Rightarrow> real list \<Rightarrow> real list" where
  "highpassed d alpha hp [] = []"
| "highpassed d alpha hp (raw # raws) =
     (let high = highpass d alpha hp raw in high # highpassed d alpha \<lparr>last_output = high, last_input = raw\<rparr> raws)"

lemma lowpass_bypassed:
  assumes "\<And>x. d (d x) = d x" and "d 0 = 0" and "high = highpass d alpha hp raw"
  shows "lowpass d beta high high = high"
  using assms by (simp add: lowpass_def highpass_def)

lemma filter_sample_run:
  assumes "\<And>x. d (d x) = d x" and "d 0 = 0" and "m_highpass_r s = m_highpass_l s"
    and "k < length samples" and "2 * k + 1 < length (m_sample_buffer s)"
    and "high = highpass d (m_highpass_alpha s) (m_highpass_l s) (fst (samples ! k))"
  obtains t where "filter_sample d f samples k s = (Inr (), t)"
    and "m_highpass_l t = \<lparr>last_output = high, last_input = fst (samples ! k)\<rparr>" "m_highpass_r t = m_highpass_l t"
    and "m_sample_buffer t = (m_sample_buffer s)[2 * k := f high, 2 * k + 1 := f high]"
    and "m_highpass_alpha t = m_highpass_alpha s" and "sdl_calls t = sdl_calls s"
proof -
  have low: "lowpass d beta high high = high" for beta
    by (rule lowpass_bypassed [OF assms(1,2,6)])
  have "\<exists>t. filter_sample d f samples k s = (Inr (), t) \<and>
      m_highpass_l t = \<lparr>last_output = high, last_input = fst (samples ! k)\<rparr> \<and> m_highpass_r t = m_highpass_l t \<and>
      m_sample_buffer t = (m_sample_buffer s)[2 * k := f high, 2 * k + 1 := f high] \<and>
      m_highpass_alpha t = m_highpass_alpha s \<and> sdl_calls t = sdl_calls s"
    using assms(4,5) by (simp add: filter_sample_def Let_def assms(3) assms(6) [symmetric] low)
  then show thesis using that by blast
qed

lemma filter_batch_run:
  assumes "\<And>x. d (d x) = d x" and "d 0 = 0" and "m_highpass_r s = m_highpass_l s" and "0 < every"
    and "k \<le> n" and "n \<le> length samples" and "2 * n \<le> length (m_sample_buffer s)"
    and "hs = highpassed d (m_highpass_alpha s) (m_highpass_l s) (map fst (take (n - k) (drop k samples)))"
  shows "\<exists>t. filter_batch d f samples every skipping [k..<n] s = (Inr (), t) \<and> sdl_calls t = sdl_calls s \<and>
    length (m_sample_buffer t) = length (m_sample_buffer s) \<and>
    (\<forall>j < 2 * k. m_sample_buffer t ! j = m_sample_buffer s ! j) \<and>
    (\<forall>i < n - k. m_sample_buffer t ! (2 * (k + i)) = f (hs ! i) \<and> m_sample_buffer t ! (2 * (k + i) + 1) = f (hs ! i))"
  using assms(3,5,7,8)
proof (induction "n - k" arbitrary: k s hs skipping)
  case 0
  then show ?case by simp
next
  case (Suc m)
  then have k: "k < n" by simp
  let ?raw = "fst (samples ! k)"
  define high where "high = highpass d (m_highpass_alpha s) (m_highpass_l s) ?raw"
  obtain t where t: "filter_sample d f samples k s = (Inr (), t)"
    "m_highpass_l t = \<lparr>last_output = high, last_input = ?raw\<rparr>" "m_highpass_r t = m_highpass_l t"
    "m_sample_buffer t = (m_sample_buffer s)[2 * k := f high, 2 * k + 1 := f high]"
    "m_highpass_alpha t = m_highpass_alpha s" "sdl_calls t = sdl_calls s"
    by (rule filter_sample_run [of d s k samples high f]) (use assms(1,2,6) Suc.prems k high_def in auto)
  have "take (n - k) (drop k samples) = samples ! k # take (n - Suc k) (drop (Suc k) samples)"
  proof -
    have "n - k = Suc (n - Suc k)" using k by simp
    moreover have "drop k samples = samples ! k # drop (Suc k) samples"
      using k assms(6) by (simp add: Cons_nth_drop_Suc)
    ultimately show ?thesis by simp
  qed
  then have hs: "hs = high # highpassed d (m_highpass_alpha t) (m_highpass_l t)
      (map fst (take (n - Suc k) (drop (Suc k) samples)))"
    using Suc.prems(4) by (simp add: t Let_def high_def)
  define next_sample where "next_sample = (if (skipping + 1) mod every = 0 then skipping + 2 else skipping + 1)"
  obtain u where u: "filter_batch d f samples every next_sample [Suc k..<n] t = (Inr (), u)" "sdl_calls u = sdl_calls t"
    "length (m_sample_buffer u) = length (m_sample_buffer t)"
    "\<forall>j < 2 * Suc k. m_sample_buffer u ! j = m_sample_buffer t ! j"
    "\<forall>i < n - Suc k. m_sample_buffer u ! (2 * (Suc k + i)) = f (tl hs ! i) \<and>
       m_sample_buffer u ! (2 * (Suc k + i) + 1) = f (tl hs ! i)"
  proof -
    have "m = n - Suc k" "Suc k \<le> n" "2 * n \<le> length (m_sample_buffer t)"
      and "tl hs = highpassed d (m_highpass_alpha t) (m_highpass_l t)
        (map fst (take (n - Suc k) (drop (Suc k) samples)))"
      using Suc.hyps(2) Suc.prems(3) k by (simp_all add: hs) (simp add: t)
    from Suc.hyps(1) [OF this(1) t(3) this(2,3,4), of next_sample] show thesis using that by blast
  qed
  have "filter_batch d f samples every skipping [k..<n] s = (Inr (), u)"
    using k assms(4) t(1) u(1) by (simp add: upt_conv_Cons next_sample_def Let_def)
  moreover have "m_sample_buffer u ! (2 * (k + i)) = f (hs ! i) \<and> m_sample_buffer u ! (2 * (k + i) + 1) = f (hs ! i)"
    if i: "i < n - k" for i
  proof (cases i)
    case 0
    then show ?thesis using u(4) t(4) hs k Suc.prems(3) by simp
  next
    case (Suc i')
    then show ?thesis using u(5) [rule_format, of i'] i hs by simp
  qed
  ultimately show ?case using t u by auto
qed

lemma queue_size:
  obtains t where "SDL_GetQueuedAudioSize s = (Inr (case queued s of [] \<Rightarrow> 0 | q # _ \<Rightarrow> q), t)"
    and "m_sample_buffer t = m_sample_buffer s" "m_highpass_l t = m_highpass_l s" "m_highpass_r t = m_highpass_r s"
    "m_highpass_alpha t = m_highpass_alpha s" "m_audio_sample_frequency t = m_audio_sample_frequency s"
  by (cases "queued s") (simp_all add: SDL_GetQueuedAudioSize_def)

text \<open>
  C40. A batch of samples that is not too far ahead is played as one channel: both floats of every pair
  are the left sample after the high-pass filter alone, whatever the right one was. The low-pass
  filter is fed back the value it is to smooth, and returns it.
\<close>

theorem sound_is_left_highpassed:
  assumes "\<forall>x. d (d x) = d x" and "d 0 = 0" and "m_highpass_r s = m_highpass_l s"
    and "length (m_sample_buffer s) = 8 * n" and "0 < n" and "2 * n \<le> length samples"
    and "queued s = q # later" and "unat q div 8 \<le> 2 * (m_audio_sample_frequency s div 60)"
    and "hs = highpassed d (m_highpass_alpha s) (m_highpass_l s) (map fst (take n samples))"
  shows "\<exists>t buffer. sdl_try_flush_audio d f samples s = (Inr (Some n), t) \<and>
    last (sdl_calls t) = QueueAudio buffer (8 * n) \<and>
    (\<forall>i < n. buffer ! (2 * i) = f (hs ! i) \<and> buffer ! (2 * i + 1) = f (hs ! i))"
proof -
  obtain s1 where s1: "SDL_GetQueuedAudioSize s = (Inr q, s1)"
    and same: "m_sample_buffer s1 = m_sample_buffer s" "m_highpass_l s1 = m_highpass_l s" "m_highpass_r s1 = m_highpass_r s"
    "m_highpass_alpha s1 = m_highpass_alpha s"
    using queue_size [of s] assms(7) by (metis list.case(2))
  obtain t where t: "filter_batch d f samples n 0 [0..<n] s1 = (Inr (), t)"
    "length (m_sample_buffer t) = 8 * n"
    "\<forall>i < n. m_sample_buffer t ! (2 * i) = f (hs ! i) \<and> m_sample_buffer t ! (2 * i + 1) = f (hs ! i)"
    using filter_batch_run [of d s1 n 0 n samples hs f 0] assms same by auto
  have "sdl_try_flush_audio d f samples s = (Inr (Some n), t\<lparr>sdl_calls := sdl_calls t @
      [QueueAudio (m_sample_buffer t) (8 * n)]\<rparr>)"
    using assms(4,6,8) s1 t(1,2) by (simp add: sdl_try_flush_audio_def sdl_call_def Let_def)
  with t(3) show ?thesis by auto
qed

text \<open>
  What the audio unit relies on holds for a device whose buffer is not empty: no more samples are
  claimed than were offered.
\<close>

lemma sdl_flush_bound:
  assumes "sdl_try_flush_audio d f samples s = (Inr (Some n), t)" and "40 \<le> length (m_sample_buffer s)"
  shows "n \<le> length samples"
proof -
  obtain q s1 where "SDL_GetQueuedAudioSize s = (Inr q, s1)" by (rule queue_size)
  with assms show ?thesis
    by (auto simp: sdl_try_flush_audio_def Let_def bindM_def thenM_def split: if_splits sum.splits prod.splits)
qed

section \<open>The properties at concrete inputs\<close>

definition rows :: "u32 list" where
  "rows = replicate (160 * 144) 0"

text \<open>The window just opened on a device of ten samples, with the letter W pressed and released.\<close>

definition opened :: sdl where
  "opened = snd (SDLFrontend id 48000 10 [[SDL_KEYDOWN SDLK_w, SDL_KEYDOWN SDLK_UP, SDL_KEYUP SDLK_w]]
     [Some (rows, 640)] [0])"

lemma opened_fields [simp]:
  "m_key_events opened = [0]" "m_last_keypress_was_down opened = False" "m_data_to_render opened = Some 1"
  "polled opened = [[SDL_KEYDOWN SDLK_w, SDL_KEYDOWN SDLK_UP, SDL_KEYUP SDLK_w]]" "m_textures opened = [[], rows]"
  "m_render_stride opened = 640" "m_current_frame_is_visible opened = True" "m_live_texture opened = 0"
  "queued opened = [0]" "m_sample_buffer opened = replicate 80 0" "m_highpass_r opened = m_highpass_l opened"
  "m_speed_up_mode opened = False"
  by (simp_all add: opened_def SDLFrontend_def SDL_LockTexture_def)

lemma keys_settle_on_held_witness:
  "fst (thenM process_events (ask_keys 3) opened) = Inr 0x04"
  using keys_settle_on_held [of opened "[SDL_KEYDOWN SDLK_w, SDL_KEYDOWN SDLK_UP, SDL_KEYUP SDLK_w]" "[]" 3]
  by (simp add: keys_ok_def)


lemma sound_is_left_highpassed_witness:
  "\<exists>t buffer. sdl_try_flush_audio id id (replicate 20 (1, 0)) opened = (Inr (Some 10), t) \<and>
    last (sdl_calls t) = QueueAudio buffer 80 \<and> buffer ! 0 = buffer ! 1"
  using sound_is_left_highpassed [of id opened 10 "replicate 20 (1, 0)" 0 "[]"
      "highpassed id (m_highpass_alpha opened) (m_highpass_l opened) (map fst (take 10 (replicate 20 (1, 0))))" id]
  by force

end
