(* ===== verification/Spec2Isabelle.thy ===== *)
theory Spec2Isabelle
  imports Alu Lcd Dma Interrupts Decoder Harness SdlThreads
begin

text \<open>
  \<^bold>\<open>A verification library for the GameBoy emulator.\<close> The program is a Game Boy emulator
  that doubles as a sanitizer: every byte carries a flag that says whether it was ever written,
  and reading undefined data, clobbering a return address, leaving program memory, touching video
  memory while the PPU uses it and so on are errors of a kind the user may permit. The
  library translates \<^verbatim>\<open>src/libgb\<close> and proves what makes it correct.

  \<^bold>\<open>How the code is modelled.\<close> A C++ method is a function from the machine's state
  to a result and a state (\<open>Prelude\<close>); a throw is \<open>Inl\<close> of an exception and keeps
  the fields assigned before it. Exceptions are the classes of \<^verbatim>\<open>error_handling.hpp\<close>, the
  standard ones the code throws, a failed assertion, \<open>UndefinedBehaviour\<close> for an access
  outside an array, and \<open>Diverges\<close> for a loop that would not end. The state is one record, built
  up by extension in the order the classes own each other: \<open>errs\<close> (the global error
  tables), \<open>regfile\<close>, \<open>cart\<close>, \<open>iomem\<close>, \<open>gpu\<close>,
  \<open>apu\<close>, \<open>io\<close>, \<open>mm\<close>, \<open>gb\<close>; each operation works on every extension of the record it
  needs. Integers are words of the width of the code, so that wrap-around is the code's.

  \<^bold>\<open>The parts of the machine.\<close> Each theory holds a component's state, its operations in the order
  of the code, and the proof that they keep its invariant.
  \<^item> \<open>Prelude\<close>: the error monad, safety triples, words and lists, the store interface.
  \<^item> \<open>ErrorHandling\<close>: \<open>throw_error\<close>, the error counters and permissions
    (\<^verbatim>\<open>error_handling.hpp\<close>, \<^verbatim>\<open>error_handling.cpp\<close>).
  \<^item> \<open>CheckedInt\<close>: bytes and words with provenance and definedness
    (\<^verbatim>\<open>utils/checked_int.hpp\<close>).
  \<^item> \<open>Registers\<close>: the register file, flags and the program counter (\<^verbatim>\<open>cpu/registers.hpp\<close>).
  \<^item> \<open>Cartridge\<close>: ROM-only and MBC1 controllers and their dispatch
    (\<^verbatim>\<open>cartridge.cpp\<close>, \<^verbatim>\<open>controller/\<close>); the bank a selection puts in the window.
  \<^item> \<open>Frontend\<close>: the abstract frontend, the headless one, the I/O memory
    (\<^verbatim>\<open>io/frontend.hpp\<close>, \<^verbatim>\<open>io/headless.hpp\<close>).
  \<^item> \<open>Gpu\<close>: video memory, tile decoding, sprites, window, LCD modes (\<^verbatim>\<open>io/gpu.cpp\<close>).
  \<^item> \<open>Apu\<close>: the four sound channels, the divider events and the sample clock (\<^verbatim>\<open>io/apu.cpp\<close>).
  \<^item> \<open>Io\<close>: the I/O registers, timers, joypad, serial port (\<^verbatim>\<open>io/io.cpp\<close>).
  \<^item> \<open>MemoryMap\<close>: the address decoder, DMA, the power-up writes (\<^verbatim>\<open>memory_map.cpp\<close>).
  \<^item> \<open>Cpu\<close>: checked bus accesses, fetches, register operands (\<^verbatim>\<open>cpu/cpu.cpp\<close>).
  \<^item> \<open>Instructions\<close>, \<open>Opcodes\<close>: every instruction and the decoder
    (\<^verbatim>\<open>cpu/instructions.cpp\<close>, \<^verbatim>\<open>cpu/opcodes.cpp\<close>).
  \<^item> \<open>Gb\<close>: interrupts, the clock, construction, reset, the stand-alone loop
    (\<^verbatim>\<open>cpu/cpu.cpp\<close>, \<^verbatim>\<open>gb.cpp\<close>).

  \<^bold>\<open>What the machine does.\<close>
  \<^item> \<open>Alu\<close>, \<open>Stack\<close>: what the arithmetic, logic and stack instructions compute, against
    integer arithmetic and a store of bytes.
  \<^item> \<open>Decoder\<close>: both opcode switches are the bit-field encoding of the processor, opcode by opcode.
  \<^item> \<open>Interrupts\<close>: which interrupt is served and what serving it changes.
  \<^item> \<open>Lcd\<close>, \<open>Video\<close>: what a rendered line and the state machine of the screen are, and
    video memory as a store of bytes.
  \<^item> \<open>Dma\<close>: what a transfer copies to the sprite table.
  \<^item> \<open>Timers\<close>: the timer loop in closed form; the audio clock reaches its target.
  \<^item> \<open>PowerUp\<close>: construction and reset never throw.
  \<^item> \<open>Mixer\<close>: the floating-point part of \<open>sample_audio\<close>, over the reals with the rounding of
    the hardware as a parameter \<open>rnd\<close>, and its range.

  \<^bold>\<open>The programs around it.\<close>
  \<^item> \<open>Hex\<close>: the text coding of the debugger's protocol, with the conversions of the standard
    library it uses (\<^verbatim>\<open>gdb/remote_server.cpp\<close>).
  \<^item> \<open>Remote\<close>: packets, requests, connections and stop notifications of the remote server
    (\<^verbatim>\<open>gdb/remote_server.cpp\<close>).
  \<^item> \<open>GdbServer\<close>: the callbacks on the machine, the loading of programs, the main loop
    (\<^verbatim>\<open>gdb_server.cpp\<close>).
  \<^item> \<open>CommandLine\<close>: the arguments and the \<open>main\<close> of \<^verbatim>\<open>sdl-frontend/main.cpp\<close>.
  \<^item> \<open>Sdl\<close>, \<open>SdlThreads\<close>: window, keyboard and loudspeaker
    (\<^verbatim>\<open>sdl-frontend/sdl_io.cpp\<close>): the methods the emulator and the window's thread call, the two
    threads as the step relation \<open>sdl_step\<close>, whose steps are the critical sections of the code, and what
    the keys, frames and sound of the machine become.
  \<^item> \<open>Harness\<close>: the programs that run test ROMs (\<^verbatim>\<open>tests/main.cpp\<close>) and the executables
    of the toolchain (\<^verbatim>\<open>toolchain-test/main.cpp\<close>).
  \<^item> This theory: properties of the whole machine and of the whole program.

  \<^bold>\<open>Interfaces.\<close> Memory safety is proved once per component in a locale whose assumptions
  are the state updates the component performs (\<open>errs_inv\<close>, \<open>regs_inv\<close>,
  \<open>cart_inv\<close>, \<open>gpu_inv\<close>, \<open>apu_inv\<close>, \<open>io_inv\<close>, \<open>mm_inv\<close>,
  \<open>gb_inv\<close>), each extending those of the components it uses; an interpretation discharges the
  assumptions for the invariant at hand (the shapes of the arrays, the constant configuration, the
  methods of the frontend, the registers during a reset). Controllers and frontends have the contracts
  \<open>controller_spec\<close> and \<open>frontend_spec\<close>; the memory the CPU uses as a stack and
  video memory have \<open>byte_store\<close>; the program under the debugger has \<open>debug_target\<close>,
  the contract the remote server relies on.

  \<^bold>\<open>The surroundings.\<close> What is not under \<^verbatim>\<open>src/\<close> is a parameter or a schedule. The
  remote server's calls to the operating system take their results from schedules in its state
  (\<open>received\<close> for \<open>recv\<close>, \<open>answers\<close> for the rest) and are recorded in
  \<open>actions\<close>; the callbacks are fields that run on what they capture. The environment variable, the
  temporary name, the command processor, the files and the audio frequency are the record \<open>host\<close>, the
  frontends the program can construct an argument of \<open>main\<close>. SDL answers the window's
  thread and the audio queue from the schedules \<open>polled\<close>, \<open>locks\<close> and \<open>queued\<close>, and what
  it is told is recorded in \<open>sdl_calls\<close>; unlocking a mutex that is not locked is undefined in C++, so its
  effect is the parameter \<open>unlock\<close> of the drawing operation.

  \<^bold>\<open>Bounds and fuel.\<close> The audio clock loop counts to its target modulo 2 to the 64 and has
  exactly that distance as fuel, which is proved to be enough. The timer loop is a partial
  function and is proved to end for every threshold the code passes. The loop of a test is a partial
  function and is proved to end for every machine. The stand-alone loop
  of the machine and those of the debugger are partial functions: they end only when the frontend,
  an exception or the program counter ends them. The register numbers of a stop notification wrap
  after 2 to the 64 calls, which is their fuel; the contract of the target ends them at the sixth.
  The benchmark recurses on its number of updates.

  \<^bold>\<open>Not modelled.\<close> Message texts, printing (at a debug trap, of the protocol, of the test programs)
  and the wall clock of the benchmark: pure output. The creation and destruction of SDL's window,
  renderer and audio device: calls without a result the code uses. The two running sums \<open>sample_audio\<close>
  keeps for diagnostics. \<open>insertInterruptOnNextCycle\<close>, which has an empty body. The variants for
  systems without sockets, which only throw. The ROM images under \<^verbatim>\<open>tests/\<close> are data. The window line
  counter of the GPU, an \<open>int32_t\<close>, is an unbounded integer.
\<close>

section \<open>The sanitizer's configuration is constant\<close>

lemma set_ch_permitted [simp]: "error_kind_permitted (set_ch i c s) = error_kind_permitted s"
  by (cases i) simp_all

interpretation sanitized: gb_inv
  "\<lambda>s. gb_ok s \<and> error_kind_permitted s = p \<and> rom_image (controller_of s) = i" "faults machine_exns"
  by unfold_locales
     (simp_all add: gb_ok_channels, auto simp: gb_ok_expand count_error_def machine_exns_def
        initial_registers_def flags_clean_def is_valid_pc_def)

text \<open>What no step of the machine changes: who may do what, and the image.\<close>

definition same_setting :: "('f, 'z) gb_scheme \<Rightarrow> ('f, 'z) gb_scheme \<Rightarrow> bool" where
  "same_setting s t \<longleftrightarrow> error_kind_permitted t = error_kind_permitted s \<and>
     rom_image (controller_of t) = rom_image (controller_of s)"

lemma gb_clock_run:
  assumes "gb_clock s = (r, t)" and "gb_ok s"
  shows "gb_ok t" "same_setting s t" "r = Inl e \<Longrightarrow> e \<in> faults machine_exns t"
  using safe_run [OF sanitized.safe_gb_operations(4)
      [of "error_kind_permitted s" "rom_image (controller_of s)"] assms(1)] assms(2)
  by (auto simp: same_setting_def)

lemma gb_reset_run:
  assumes "gb_reset s = (r, t)" and "gb_ok s"
  shows "gb_ok t" "same_setting s t"
  using safe_run [OF sanitized.safe_gb_operations(3)
      [of "error_kind_permitted s" "rom_image (controller_of s)"] assms(1)] assms(2)
  by (auto simp: same_setting_def)

lemma exit_request_run:
  assumes "isSimulationFinished s = (r, t)" and "gb_ok s"
  shows "gb_ok t" "same_setting s t"
  using safe_run [OF sanitized.safe_io_update(2)
      [of "error_kind_permitted s" "rom_image (controller_of s)"] assms(1)] assms(2)
  by (auto simp: same_setting_def)

lemma reachable_ok:
  "gb_reachable s t \<Longrightarrow> gb_ok s \<Longrightarrow> gb_ok t \<and> same_setting s t"
  by (induction rule: gb_reachable.induct)
     (auto simp: same_setting_def dest: gb_clock_run(1,2) gb_reset_run exit_request_run)


text \<open>
  C2. However a machine built from a well-formed cartridge and a well-behaved frontend is clocked,
  polled and reset, also after exceptions, it stays well formed with the same image, the low nibble of F is zero
  and PC lies in ROM or high RAM, unless the user permitted it to leave them.
\<close>

theorem reachable_registers_ok:
  assumes "ctl_ok ctl" and "flush_ok fe" and "gb_reachable (power_off permitted ctl fe freq) t"
  shows "gb_ok t \<and> rom_image (controller_of t) = rom_image ctl \<and> data (reg_f (registers t)) AND 0x0F = 0 \<and>
    (is_valid_pc (reg_pc (registers t)) \<or> permitted pc_outside_of_program_memory)"
  using reachable_ok [OF assms(3) power_off_ok [OF assms(1,2)]]
  by (auto simp: gb_ok_def regs_ok_def flags_clean_def power_off_def same_setting_def)

section \<open>The whole program\<close>


section \<open>The properties at concrete inputs\<close>


lemma reachable_registers_ok_witness:
  "is_valid_pc (reg_pc (registers (snd (gb_clock switched_on))))"
proof -
  have "gb_reachable switched_on (snd (gb_clock switched_on))"
    by (rule gb_reachable.clocked [OF gb_reachable.start, of _ "fst (gb_clock switched_on)"]) simp
  then show ?thesis
    using reachable_registers_ok [of "RomOnly \<lparr>ro_rom = []\<rparr>" headless "\<lambda>_. False" 44100]
    by (simp add: switched_on_def headless.flush_ok)
qed

definition quitting :: "u8 list frontend" where
  "quitting = headless\<lparr>fe_isExitRequested := (\<lambda>os. (True, os))\<rparr>"


end
